(* ===== verification/Prelude.thy ===== *)
theory Prelude
  imports Main "HOL-Library.Word" "HOL-Library.AList" "HOL-Library.Signed_Division"
begin

text \<open>
  Shared vocabulary of the development: Go's machine integers and times, the dynamic values a
  request context carries, Go errors as values, and the lemmas on folds, maps and association
  lists that the component theories use.

  Go's \<open>int\<close>, \<open>int64\<close> and \<open>time.Duration\<close> are 64-bit two's complement words, \<open>int32\<close> is a
  32-bit word; a \<open>time.Time\<close> is a number of nanoseconds, unbounded. Go strings are byte
  strings, so \<^typ>\<open>string\<close> (a list of 8-bit characters) is exact.
\<close>

named_theorems frame_simps \<open>fields an operation of the project cache leaves alone\<close>

section \<open>Machine integers and time\<close>

type_synonym go_int = "64 word"
type_synonym go_int32 = "32 word"
type_synonym duration = "64 word"
type_synonym gotime = int

text \<open>Go compares \<open>int\<close> and \<open>int64\<close> as signed numbers; \<open>max\<close> and \<open>min\<close> are the built-ins.\<close>

definition go_less :: "go_int \<Rightarrow> go_int \<Rightarrow> bool" where
  "go_less a b \<longleftrightarrow> sint a < sint b"

definition go_max :: "go_int \<Rightarrow> go_int \<Rightarrow> go_int" where
  "go_max a b = (if go_less a b then b else a)"

definition go_min :: "go_int \<Rightarrow> go_int \<Rightarrow> go_int" where
  "go_min a b = (if go_less b a then b else a)"

lemma sint_go_max: "sint (go_max a b) = max (sint a) (sint b)"
  by (simp add: go_max_def go_less_def max_def)

lemma sint_go_min: "sint (go_min a b) = min (sint a) (sint b)"
  by (simp add: go_min_def go_less_def min_def)

text \<open>\<open>len\<close> of a slice or map, as the \<open>int\<close> Go returns (no slice is longer than \<open>2^63 - 1\<close>).\<close>

definition go_len :: "'a list \<Rightarrow> go_int" where
  "go_len xs = word_of_nat (length xs)"

lemma sint_word_of_int_range:
  assumes "- (2 ^ 63) \<le> x" "x < 2 ^ 63"
  shows "sint (word_of_int x :: go_int) = x"
proof -
  have "sint (word_of_int x :: go_int) = signed_take_bit 63 x"
    by (simp add: sint_sbintrunc')
  also have "\<dots> = x"
    using assms by (simp add: signed_take_bit_int_eq_self)
  finally show ?thesis .
qed

lemma sint_go_len: "length xs < 2 ^ 63 \<Longrightarrow> sint (go_len xs) = int (length xs)"
  using sint_word_of_int_range[of "int (length xs)"] by (simp add: go_len_def)

lemma sint_add_range:
  assumes "- (2 ^ 63) \<le> sint a + sint b" "sint a + sint b < 2 ^ 63"
  shows "sint (a + b :: go_int) = sint a + sint b"
  using sint_word_of_int_range[OF assms] by simp

lemma sint_mult_range:
  assumes "- (2 ^ 63) \<le> sint a * sint b" "sint a * sint b < 2 ^ 63"
  shows "sint (a * b :: go_int) = sint a * sint b"
  using sint_word_of_int_range[OF assms] by simp

lemma sint_sum_list:
  assumes "\<forall>x\<in>set xs. 0 \<le> sint x" "sum_list (map sint xs) < 2 ^ 63"
  shows "sint (sum_list xs :: go_int) = sum_list (map sint xs)"
  using assms
proof (induction xs)
  case Nil
  then show ?case by simp
next
  case (Cons x xs)
  have nonneg: "0 \<le> sum_list (map sint xs)" using Cons.prems(1) by (intro sum_list_nonneg) auto
  have "sint (sum_list xs) = sum_list (map sint xs)"
    using Cons.IH Cons.prems nonneg by auto
  then show ?case
    using Cons.prems nonneg sint_add_range[of x "sum_list xs"] by simp
qed

text \<open>Go's division of integers truncates towards zero.\<close>

definition go_div :: "go_int \<Rightarrow> go_int \<Rightarrow> go_int" where
  "go_div a b = word_of_int (sint a sdiv sint b)"

lemma go_div_nonneg:
  assumes "0 \<le> sint a" "0 < sint b"
  shows "sint (go_div a b) = sint a div sint b"
proof -
  have sd: "sint a sdiv sint b = sint a div sint b"
    using assms by (cases "sint a = 0") (simp_all add: signed_divide_int_def)
  have "sint a div sint b \<le> sint a div 1"
    using assms by (intro zdiv_mono2) simp_all
  then have "sint a div sint b \<le> sint a" by simp
  moreover have "sint a < 2 ^ 63" using sint_less[of a] by simp
  moreover have "0 \<le> sint a div sint b" using assms by (simp add: pos_imp_zdiv_nonneg_iff)
  ultimately show ?thesis
    using sint_word_of_int_range[of "sint a div sint b"] by (simp add: go_div_def sd)
qed

section \<open>Dynamic values and errors\<close>

text \<open>
  A Go \<open>any\<close>. The code inspects the dynamic types \<open>int\<close> (status codes), \<open>bool\<close> (CEL results)
  and otherwise passes values on; every other dynamic type is \<open>AnyOther\<close> with a tag that
  tells values apart.
\<close>

datatype gany = AnyNil | AnyBool bool | AnyInt go_int | AnyString string | AnyOther nat

record descope_error =
  Code :: string
  Description :: string
  Message :: string
  ErrInfo :: "string \<rightharpoonup> gany"

text \<open>
  Errors as values: the SDK's own \<open>*descope.Error\<close>, any other \<open>error\<close> with its text, and a
  run-time panic (an out-of-range index, a ticker with a non-positive period).
\<close>

datatype goerror = SdkError descope_error | PlainError string | GoPanic string

section \<open>Folds, maps and association lists\<close>

text \<open>The value a Go map lookup yields for an absent key of slice type: the nil slice.\<close>

definition lookup_list :: "('k \<times> 'v list) list \<Rightarrow> 'k \<Rightarrow> 'v list" where
  "lookup_list m k = (case map_of m k of None \<Rightarrow> [] | Some vs \<Rightarrow> vs)"

lemma lookup_list_Nil [simp]: "lookup_list [] k = []"
  by (simp add: lookup_list_def)

lemma lookup_list_update [simp]:
  "lookup_list (AList.update k vs m) k' = (if k' = k then vs else lookup_list m k')"
  by (simp add: lookup_list_def AList.update_conv')

lemma lookup_list_delete [simp]:
  "lookup_list (AList.delete k m) k' = (if k' = k then [] else lookup_list m k')"
  by (simp add: lookup_list_def AList.delete_conv')

lemma lookup_list_in_keys: "v \<in> set (lookup_list m k) \<Longrightarrow> k \<in> fst ` set m"
  by (cases "map_of m k") (auto simp: lookup_list_def dest!: map_of_SomeD intro: rev_image_eqI)

lemma keys_AList_delete [simp]: "fst ` set (AList.delete k m) = fst ` set m - {k}"
  by (auto simp: AList.delete_eq)

text \<open>A predicate kept by every step of a fold is kept by the fold.\<close>

lemma fold_invariant_set:
  assumes "P s" and "\<And>x s. x \<in> set xs \<Longrightarrow> P s \<Longrightarrow> P (f x s)"
  shows "P (fold f xs s)"
  using assms by (induction xs arbitrary: s) auto

lemma fold_field:
  assumes "\<And>x s. g (f x s) = g s"
  shows "g (fold f xs s) = g s"
  using assms by (induction xs arbitrary: s) auto

lemma restrict_map_restrict: "(m |` A) |` B = m |` (A \<inter> B)"
  by (rule Map.restrict_restrict)

lemma list_all2_right:
  assumes "list_all2 P xs ys" "y \<in> set ys"
  obtains x where "x \<in> set xs" "P x y"
  using assms by (induction xs ys rule: list_all2_induct) auto

end
