(* ===== verification/Config.thy ===== *)
theory Config
  imports Prelude
begin

text \<open>
  \<open>src/internal/config/config.go\<close>: the settings of the program. The configuration source is the
  common package outside the repository; \<open>config_source\<close> holds the two readers the program
  calls (the value of a key, or the default it provides) and the shared key it names.
\<close>

record config_source =
  GetIntOrProvidedLocal :: "string \<Rightarrow> go_int \<Rightarrow> go_int"
  GetBoolOrProvidedLocal :: "string \<Rightarrow> bool \<Rightarrow> bool"
  ConfigKeyHTTPWriteTimeout :: string

section \<open>Keys\<close>

definition ConfigKeyDirectRelationCacheSizePerProject :: string where
  [simp]: "ConfigKeyDirectRelationCacheSizePerProject = ''AUTHZCACHE_DIRECT_RELATION_CACHE_SIZE_PER_PROJECT''"

definition ConfigKeyIndirectRelationCacheSizePerProject :: string where
  [simp]: "ConfigKeyIndirectRelationCacheSizePerProject = ''AUTHZCACHE_INDIRECT_RELATION_CACHE_SIZE_PER_PROJECT''"

definition ConfigKeyRemotePollingIntervalInMillis :: string where
  [simp]: "ConfigKeyRemotePollingIntervalInMillis = ''AUTHZCACHE_REMOTE_POLLING_INTERVAL_IN_MILLIS''"

definition ConfigKeyPurgeCooldownWindowInMinutes :: string where
  [simp]: "ConfigKeyPurgeCooldownWindowInMinutes = ''AUTHZCACHE_PURGE_COOLDOWN_WINDOW_IN_MINUTES''"

definition ConfigKeyCELEvalTimeoutInMillis :: string where
  [simp]: "ConfigKeyCELEvalTimeoutInMillis = ''AUTHZCACHE_CEL_EVAL_TIMEOUT_IN_MILLIS''"

definition ConfigKeySDKDebugLog :: string where
  [simp]: "ConfigKeySDKDebugLog = ''AUTHZCACHE_SDK_DEBUG_LOG''"

definition ConfigKeyLookupCacheEnabled :: string where
  [simp]: "ConfigKeyLookupCacheEnabled = ''AUTHZCACHE_LOOKUP_CACHE_ENABLED''"

definition ConfigKeyLookupCacheSizePerProject :: string where
  [simp]: "ConfigKeyLookupCacheSizePerProject = ''AUTHZCACHE_LOOKUP_CACHE_SIZE_PER_PROJECT''"

definition ConfigKeyLookupCacheTTLInSeconds :: string where
  [simp]: "ConfigKeyLookupCacheTTLInSeconds = ''AUTHZCACHE_LOOKUP_CACHE_TTL_IN_SECONDS''"

definition ConfigKeyLookupCacheMaxResultSize :: string where
  [simp]: "ConfigKeyLookupCacheMaxResultSize = ''AUTHZCACHE_LOOKUP_CACHE_MAX_RESULT_SIZE''"

definition ConfigKeyMetricsReportEnabled :: string where
  [simp]: "ConfigKeyMetricsReportEnabled = ''AUTHZCACHE_METRICS_REPORT_ENABLED''"

definition ConfigKeyMetricsReportIntervalInSeconds :: string where
  [simp]: "ConfigKeyMetricsReportIntervalInSeconds = ''AUTHZCACHE_METRICS_REPORT_INTERVAL_IN_SECONDS''"

definition ConfigKeyGatewayWriteTimeoutInSeconds :: string where
  [simp]: "ConfigKeyGatewayWriteTimeoutInSeconds = ''AUTHZCACHE_HTTP_WRITE_TIMEOUT_IN_SECONDS''"

section \<open>Settings\<close>

definition GetDirectRelationCacheSizePerProject :: "config_source \<Rightarrow> go_int" where
  "GetDirectRelationCacheSizePerProject src =
     GetIntOrProvidedLocal src ConfigKeyDirectRelationCacheSizePerProject 1000000"

definition GetIndirectRelationCacheSizePerProject :: "config_source \<Rightarrow> go_int" where
  "GetIndirectRelationCacheSizePerProject src =
     GetIntOrProvidedLocal src ConfigKeyIndirectRelationCacheSizePerProject 1000000"

definition GetRemotePollingIntervalInMillis :: "config_source \<Rightarrow> go_int" where
  "GetRemotePollingIntervalInMillis src =
     go_max 15000 (GetIntOrProvidedLocal src ConfigKeyRemotePollingIntervalInMillis 15000)"

definition GetCELEvalTimeoutInMillis :: "config_source \<Rightarrow> go_int" where
  "GetCELEvalTimeoutInMillis src =
     go_max 1 (GetIntOrProvidedLocal src ConfigKeyCELEvalTimeoutInMillis 1000)"

definition GetSDKDebugLog :: "config_source \<Rightarrow> bool" where
  "GetSDKDebugLog src = GetBoolOrProvidedLocal src ConfigKeySDKDebugLog False"

definition GetPurgeCooldownWindowInMinutes :: "config_source \<Rightarrow> go_int" where
  "GetPurgeCooldownWindowInMinutes src =
     go_max 0 (GetIntOrProvidedLocal src ConfigKeyPurgeCooldownWindowInMinutes 0)"

definition GetLookupCacheEnabled :: "config_source \<Rightarrow> bool" where
  "GetLookupCacheEnabled src = GetBoolOrProvidedLocal src ConfigKeyLookupCacheEnabled True"

definition GetLookupCacheSizePerProject :: "config_source \<Rightarrow> go_int" where
  "GetLookupCacheSizePerProject src =
     GetIntOrProvidedLocal src ConfigKeyLookupCacheSizePerProject 10000"

definition GetLookupCacheTTLInSeconds :: "config_source \<Rightarrow> go_int" where
  "GetLookupCacheTTLInSeconds src =
     go_max 1 (GetIntOrProvidedLocal src ConfigKeyLookupCacheTTLInSeconds 60)"

definition GetLookupCacheMaxResultSize :: "config_source \<Rightarrow> go_int" where
  "GetLookupCacheMaxResultSize src =
     GetIntOrProvidedLocal src ConfigKeyLookupCacheMaxResultSize 1000"

definition GetMetricsReportEnabled :: "config_source \<Rightarrow> bool" where
  "GetMetricsReportEnabled src = GetBoolOrProvidedLocal src ConfigKeyMetricsReportEnabled True"

definition GetMetricsReportIntervalInSeconds :: "config_source \<Rightarrow> go_int" where
  "GetMetricsReportIntervalInSeconds src =
     go_max 10 (GetIntOrProvidedLocal src ConfigKeyMetricsReportIntervalInSeconds 60)"

definition GetGatewayWriteTimeoutInSeconds :: "config_source \<Rightarrow> go_int" where
  "GetGatewayWriteTimeoutInSeconds src =
    (let v = GetIntOrProvidedLocal src ConfigKeyGatewayWriteTimeoutInSeconds 0
     in if go_less 0 v then v
        else let v = GetIntOrProvidedLocal src (ConfigKeyHTTPWriteTimeout src) 0
             in if go_less 0 v then v else 30)"

text \<open>The source of a deployment that sets nothing.\<close>

definition default_config :: config_source where
  "default_config = \<lparr>GetIntOrProvidedLocal = (\<lambda>k d. d), GetBoolOrProvidedLocal = (\<lambda>k d. d),
     ConfigKeyHTTPWriteTimeout = ''HTTP_GATEWAY_WRITE_TIMEOUT''\<rparr>"

section \<open>Durations\<close>

text \<open>\<open>time.Millisecond * time.Duration(n)\<close> and its like: 64-bit products of nanoseconds.\<close>

definition in_millis :: "go_int \<Rightarrow> duration" where "in_millis n = 1000000 * n"
definition in_seconds :: "go_int \<Rightarrow> duration" where "in_seconds n = 1000000000 * n"
definition in_minutes :: "go_int \<Rightarrow> duration" where "in_minutes n = 60000000000 * n"

lemma sint_millis_unit [simp]: "sint (1000000 :: go_int) = 1000000"
  using sint_word_of_int_range[of 1000000] by simp

lemma sint_seconds_unit [simp]: "sint (1000000000 :: go_int) = 1000000000"
  using sint_word_of_int_range[of 1000000000] by simp

lemma sint_minutes_unit [simp]: "sint (60000000000 :: go_int) = 60000000000"
  using sint_word_of_int_range[of 60000000000] by simp

lemma sint_in_millis: "0 \<le> sint n \<Longrightarrow> sint n \<le> 9223372036854 \<Longrightarrow> sint (in_millis n) = 1000000 * sint n"
  using sint_mult_range[of 1000000 n] by (simp add: in_millis_def)

lemma sint_in_seconds: "0 \<le> sint n \<Longrightarrow> sint n \<le> 9223372036 \<Longrightarrow> sint (in_seconds n) = 1000000000 * sint n"
  using sint_mult_range[of 1000000000 n] by (simp add: in_seconds_def)

lemma sint_in_minutes: "0 \<le> sint n \<Longrightarrow> sint n \<le> 153722867 \<Longrightarrow> sint (in_minutes n) = 60000000000 * sint n"
  using sint_mult_range[of 60000000000 n] by (simp add: in_minutes_def)

section \<open>Bounds of the settings\<close>

lemma config_lower_bounds:
  "15000 \<le> sint (GetRemotePollingIntervalInMillis src)"
  "1 \<le> sint (GetCELEvalTimeoutInMillis src)"
  "0 \<le> sint (GetPurgeCooldownWindowInMinutes src)"
  "1 \<le> sint (GetLookupCacheTTLInSeconds src)"
  "10 \<le> sint (GetMetricsReportIntervalInSeconds src)"
  "1 \<le> sint (GetGatewayWriteTimeoutInSeconds src)"
proof -
  have lits: "sint (15000 :: go_int) = 15000" "sint (10 :: go_int) = 10" "sint (30 :: go_int) = 30"
    using sint_word_of_int_range[of 15000] sint_word_of_int_range[of 10] sint_word_of_int_range[of 30]
    by simp_all
  show "15000 \<le> sint (GetRemotePollingIntervalInMillis src)"
    by (simp add: GetRemotePollingIntervalInMillis_def sint_go_max lits)
  show "1 \<le> sint (GetCELEvalTimeoutInMillis src)"
    by (simp add: GetCELEvalTimeoutInMillis_def sint_go_max)
  show "0 \<le> sint (GetPurgeCooldownWindowInMinutes src)"
    by (simp add: GetPurgeCooldownWindowInMinutes_def sint_go_max)
  show "1 \<le> sint (GetLookupCacheTTLInSeconds src)"
    by (simp add: GetLookupCacheTTLInSeconds_def sint_go_max)
  show "10 \<le> sint (GetMetricsReportIntervalInSeconds src)"
    by (simp add: GetMetricsReportIntervalInSeconds_def sint_go_max lits)
  show "1 \<le> sint (GetGatewayWriteTimeoutInSeconds src)"
    by (simp add: GetGatewayWriteTimeoutInSeconds_def go_less_def Let_def lits)
qed

end
