(* ===== verification/LruCache.thy ===== *)
theory LruCache
  imports Prelude
begin

text \<open>
  The interface of the bounded caches. The program keeps its entries in
  \<open>lru.MonitoredLRUCache\<close>, a package outside the repository
  (\<open>github.com/descope/backend/common/pkg/common/utils/monitoredlru\<close>), so the cache is a
  parameter of the model: a record of the operations the program calls, and a locale with the
  laws the program relies on.

  Two of the laws are about the eviction callback. The repository's own test
  \<open>TestUnderstandEvictionCallback\<close> (\<open>src/internal/services/caches/projectauthzcache_test.go\<close>)
  fixes them: \<open>Remove\<close> does not run the callback, while an \<open>Add\<close> that evicts and \<open>Purge\<close> do.
  So \<open>lru_add\<close> and \<open>lru_purge\<close> return the entries handed to the callback, and \<open>lru_remove\<close>
  returns none.
\<close>

section \<open>Operations and contract\<close>

record ('c, 'k, 'v) lru_ops =
  lru_get :: "'c \<Rightarrow> 'k \<Rightarrow> 'v option \<times> 'c"
  lru_add :: "'c \<Rightarrow> 'k \<Rightarrow> 'v \<Rightarrow> 'c \<times> ('k \<times> 'v) list"
  lru_remove :: "'c \<Rightarrow> 'k \<Rightarrow> 'c"
  lru_purge :: "'c \<Rightarrow> 'c \<times> ('k \<times> 'v) list"
  lru_len :: "'c \<Rightarrow> nat"

text \<open>What the cache holds: the answers its \<open>Get\<close> would give.\<close>

definition lru_content :: "('c, 'k, 'v) lru_ops \<Rightarrow> 'c \<Rightarrow> 'k \<rightharpoonup> 'v" where
  "lru_content ops c = (\<lambda>k. fst (lru_get ops c k))"

text \<open>The keys an \<open>Add\<close> hands to the eviction callback.\<close>

definition lru_evicted :: "('c, 'k, 'v) lru_ops \<Rightarrow> 'c \<Rightarrow> 'k \<Rightarrow> 'v \<Rightarrow> 'k set" where
  "lru_evicted ops c k v = fst ` set (snd (lru_add ops c k v))"

locale lru_contract =
  fixes ops :: "('c, 'k, 'v) lru_ops" and wf :: "'c \<Rightarrow> bool"
  assumes wf_get: "wf c \<Longrightarrow> wf (snd (lru_get ops c k))"
    and get_content: "wf c \<Longrightarrow> lru_content ops (snd (lru_get ops c k)) = lru_content ops c"
    and wf_add: "wf c \<Longrightarrow> wf (fst (lru_add ops c k v))"
    and add_content: "wf c \<Longrightarrow> lru_content ops (fst (lru_add ops c k v)) =
          ((lru_content ops c)(k \<mapsto> v)) |` (- lru_evicted ops c k v)"
    and add_not_evicted: "wf c \<Longrightarrow> k \<notin> lru_evicted ops c k v"
    and wf_remove: "wf c \<Longrightarrow> wf (lru_remove ops c k)"
    and remove_content: "wf c \<Longrightarrow> lru_content ops (lru_remove ops c k) = (lru_content ops c)(k := None)"
    and wf_purge: "wf c \<Longrightarrow> wf (fst (lru_purge ops c))"
    and purge_content: "wf c \<Longrightarrow> lru_content ops (fst (lru_purge ops c)) = Map.empty"
    and len_zero: "wf c \<Longrightarrow> lru_len ops c = 0 \<longleftrightarrow> lru_content ops c = Map.empty"
begin

lemma add_content_key: "wf c \<Longrightarrow> lru_content ops (fst (lru_add ops c k v)) k = Some v"
  by (simp add: add_content add_not_evicted restrict_map_def)

lemma add_content_other:
  assumes "wf c" "k' \<noteq> k" "lru_content ops (fst (lru_add ops c k v)) k' = Some g"
  shows "lru_content ops c k' = Some g" "k' \<notin> lru_evicted ops c k v"
  using assms by (auto simp: add_content restrict_map_def split: if_splits)

text \<open>Removing a list of keys one by one, as the invalidation loops do.\<close>

lemma wf_remove_all: "wf c \<Longrightarrow> wf (fold (\<lambda>k c. lru_remove ops c k) ks c)"
  by (rule fold_invariant_set) (auto intro: wf_remove)

lemma remove_all_content:
  "wf c \<Longrightarrow> lru_content ops (fold (\<lambda>k c. lru_remove ops c k) ks c) =
     lru_content ops c |` (- set ks)"
proof (induction ks arbitrary: c)
  case Nil
  then show ?case by simp
next
  case (Cons k ks)
  then show ?case
    by (auto simp: wf_remove remove_content fun_eq_iff restrict_map_def)
qed

text \<open>The same over several lists, one list per map entry visited.\<close>

lemma wf_remove_lists:
  "wf c \<Longrightarrow> wf (fold (\<lambda>t c. fold (\<lambda>k c. lru_remove ops c k) (f t) c) ts c)"
  by (rule fold_invariant_set) (auto intro: wf_remove_all)

lemma remove_lists_content:
  "wf c \<Longrightarrow> lru_content ops (fold (\<lambda>t c. fold (\<lambda>k c. lru_remove ops c k) (f t) c) ts c) =
     lru_content ops c |` (- (\<Union>t\<in>set ts. set (f t)))"
proof (induction ts arbitrary: c)
  case Nil
  then show ?case by simp
next
  case (Cons t ts)
  then show ?case
    by (simp add: wf_remove_all remove_all_content restrict_map_restrict Compl_Un)
qed

end

section \<open>The reference implementation\<close>

text \<open>
  A bounded list of entries, the most recently used first: the policy of the
  \<open>golang-lru\<close> family the program's package belongs to. It shows that the contract is
  consistent, and the examples evaluate the program on it.
\<close>

type_synonym ('k, 'v) lru_list = "nat \<times> ('k \<times> 'v) list"

definition lru_list_get :: "('k, 'v) lru_list \<Rightarrow> 'k \<Rightarrow> 'v option \<times> ('k, 'v) lru_list" where
  "lru_list_get c k = (case map_of (snd c) k of
     None \<Rightarrow> (None, c)
   | Some v \<Rightarrow> (Some v, (fst c, (k, v) # AList.delete k (snd c))))"

definition lru_list_add ::
    "('k, 'v) lru_list \<Rightarrow> 'k \<Rightarrow> 'v \<Rightarrow> ('k, 'v) lru_list \<times> ('k \<times> 'v) list" where
  "lru_list_add c k v =
    (let xs = (k, v) # AList.delete k (snd c)
     in if length xs \<le> fst c then ((fst c, xs), [])
        else ((fst c, butlast xs), [last xs]))"

definition lru_list_ops :: "(('k, 'v) lru_list, 'k, 'v) lru_ops" where
  "lru_list_ops = \<lparr>lru_get = lru_list_get, lru_add = lru_list_add,
     lru_remove = (\<lambda>c k. (fst c, AList.delete k (snd c))),
     lru_purge = (\<lambda>c. ((fst c, []), rev (snd c))),
     lru_len = (\<lambda>c. length (snd c))\<rparr>"

definition lru_list_wf :: "('k, 'v) lru_list \<Rightarrow> bool" where
  "lru_list_wf c \<longleftrightarrow> 1 \<le> fst c \<and> length (snd c) \<le> fst c \<and> distinct (map fst (snd c))"

lemma lru_list_content: "lru_content lru_list_ops c = map_of (snd c)"
  by (rule ext) (simp add: lru_content_def lru_list_ops_def lru_list_get_def split: option.splits)

lemma length_delete_less: "map_of xs k \<noteq> None \<Longrightarrow> length (AList.delete k xs) < length xs"
proof (induction xs)
  case Nil
  then show ?case by simp
next
  case (Cons p xs)
  have "length (AList.delete k xs) \<le> length xs" by (rule length_delete_le)
  with Cons show ?case by (cases p) (auto split: if_splits)
qed

lemma lru_list_wf_get: "lru_list_wf c \<Longrightarrow> lru_list_wf (snd (lru_list_get c k))"
proof (cases "map_of (snd c) k")
  case None
  then show "lru_list_wf c \<Longrightarrow> ?thesis" by (simp add: lru_list_get_def)
next
  case (Some v)
  assume "lru_list_wf c"
  with Some length_delete_less[of "snd c" k] show ?thesis
    by (simp add: lru_list_wf_def lru_list_get_def distinct_delete)
qed

lemma map_of_butlast:
  assumes "distinct (map fst xs)" "xs \<noteq> []"
  shows "map_of (butlast xs) = (map_of xs)(fst (last xs) := None)"
proof -
  have xs: "xs = butlast xs @ [last xs]" using assms(2) by simp
  then have "fst (last xs) \<notin> fst ` set (butlast xs)"
    using assms(1) by (metis disjoint_insert(1) distinct_append list.set(2) list.simps(9)
        list.set_map map_append)
  then have "map_of (butlast xs) (fst (last xs)) = None"
    by (simp add: map_of_eq_None_iff)
  moreover have "map_of xs = map_of [last xs] ++ map_of (butlast xs)"
    by (metis map_of_append xs)
  ultimately show ?thesis
    by (cases "last xs") (auto simp: fun_eq_iff map_add_def split: option.splits)
qed

interpretation lru_list: lru_contract lru_list_ops lru_list_wf
proof unfold_locales
  fix c :: "('a, 'b) lru_list" and k v
  assume wf: "lru_list_wf c"
  define xs where "xs = (k, v) # AList.delete k (snd c)"
  have d: "distinct (map fst xs)"
    using wf by (simp add: xs_def lru_list_wf_def distinct_delete)
  have len: "length xs \<le> Suc (fst c)"
    using wf length_delete_le[of k "snd c"] by (simp add: xs_def lru_list_wf_def)
  have nex: "xs \<noteq> []" by (simp add: xs_def)
  have cap: "1 \<le> fst c" using wf by (simp add: lru_list_wf_def)
  show "lru_list_wf (snd (lru_get lru_list_ops c k))"
    using lru_list_wf_get[OF wf] by (simp add: lru_list_ops_def)
  show "lru_content lru_list_ops (snd (lru_get lru_list_ops c k)) = lru_content lru_list_ops c"
    by (auto simp: lru_list_content fun_eq_iff, auto simp: lru_list_ops_def lru_list_get_def
        AList.delete_conv' split: option.splits)
  show "lru_list_wf (fst (lru_add lru_list_ops c k v))"
    using d len cap by (auto simp: lru_list_ops_def lru_list_add_def lru_list_wf_def
        xs_def[symmetric] map_butlast distinct_butlast)
  have ne: "fst (last xs) \<noteq> k" if "\<not> length xs \<le> fst c"
  proof -
    have "AList.delete k (snd c) \<noteq> []" using that cap by (auto simp: xs_def)
    then have "fst (last xs) \<in> fst ` set (AList.delete k (snd c))"
      by (auto simp: xs_def simp del: keys_AList_delete)
    then show ?thesis by auto
  qed
  show "k \<notin> lru_evicted lru_list_ops c k v"
    using ne by (auto simp: lru_evicted_def lru_list_ops_def lru_list_add_def xs_def[symmetric])
  have m: "map_of xs = (map_of (snd c))(k \<mapsto> v)"
    by (auto simp: xs_def fun_eq_iff AList.delete_conv')
  show "lru_content lru_list_ops (fst (lru_add lru_list_ops c k v)) =
      ((lru_content lru_list_ops c)(k \<mapsto> v)) |` (- lru_evicted lru_list_ops c k v)"
    using m map_of_butlast[OF d nex] unfolding lru_list_content
    by (auto simp: lru_evicted_def lru_list_ops_def lru_list_add_def xs_def[symmetric]
        fun_eq_iff restrict_map_def)
  show "lru_list_wf (lru_remove lru_list_ops c k)"
    using wf length_delete_le[of k "snd c"]
    by (simp add: lru_list_ops_def lru_list_wf_def distinct_delete)
  show "lru_content lru_list_ops (lru_remove lru_list_ops c k) = (lru_content lru_list_ops c)(k := None)"
    unfolding lru_list_content by (simp add: lru_list_ops_def AList.delete_conv')
  show "lru_list_wf (fst (lru_purge lru_list_ops c))"
    using wf by (simp add: lru_list_ops_def lru_list_wf_def)
  show "lru_content lru_list_ops (fst (lru_purge lru_list_ops c)) = Map.empty"
    unfolding lru_list_content by (simp add: lru_list_ops_def)
  show "(lru_len lru_list_ops c = 0) = (lru_content lru_list_ops c = Map.empty)"
    unfolding lru_list_content by (cases "snd c") (auto simp: lru_list_ops_def)
qed

end
