(* ===== verification/FgaTypes.thy ===== *)
theory FgaTypes
  imports Prelude
begin

text \<open>
  The data the program exchanges with the Descope SDK (package \<open>descope\<close> of
  \<open>github.com/descope/go-sdk\<close>): the records below list the fields the program reads or writes.
  Fields that several structs share carry a prefix. The SDK hands out pointers to these structs;
  the program never mutates one it received, so values model them, and the SDK never returns a
  nil element or a check without \<open>Info\<close>.
\<close>

record FGARelation =
  Resource :: string
  ResourceType :: string
  Relation :: string
  Target :: string
  TargetType :: string

record FGACheckInfo =
  Direct :: bool
  Conditional :: bool
  FactUsed :: bool
  SchemaVersion :: string
  TrueConditions :: "go_int32 list"
  FalseConditions :: "go_int32 list"
  MissingContext :: "string list"
  ConditionalErr :: string

text \<open>The zero value, which a composite literal naming a few fields starts from.\<close>

definition zero_FGACheckInfo :: FGACheckInfo where
  "zero_FGACheckInfo = \<lparr>Direct = False, Conditional = False, FactUsed = False,
     SchemaVersion = '''', TrueConditions = [], FalseConditions = [], MissingContext = [],
     ConditionalErr = ''''\<rparr>"

record FGACheck =
  Allowed :: bool
  CheckRelation :: FGARelation
  Info :: FGACheckInfo

record FGAConditionParam =
  ParamName :: string
  ParamType :: string

record FGACondition =
  CondName :: string
  CondID :: go_int32
  CondParams :: "FGAConditionParam list"
  CheckedExpr :: "8 word list"

record FGASchema =
  Schema :: string
  Version :: string
  Conditions :: "FGACondition list"

record AuthzRelation =
  AR_Resource :: string
  AR_RelationDefinition :: string
  AR_Namespace :: string
  AR_Target :: string
  AR_TargetSetResource :: string
  AR_TargetSetRelationDefinition :: string
  AR_TargetSetRelationDefinitionNamespace :: string

record AuthzModified =
  ModResources :: "string list"
  ModTargets :: "string list"
  SchemaChanged :: bool

text \<open>A request's context, Go's \<open>map[string]any\<close> (a nil map reads as an empty one).\<close>

type_synonym reqcontext = "string \<rightharpoonup> gany"

end
