(* ===== verification/CelEval.thy ===== *)
theory CelEval
  imports FgaTypes
begin

text \<open>
  \<open>src/internal/services/cel/cel.go\<close>: compiling a schema condition from the backend's
  type-checked program, and evaluating it on a request context. The CEL library, protobuf and
  the backend's coercion function are outside the repository: \<open>cel_ops\<close> holds them as
  parameters. The environment the program builds is constant, so \<open>cel_NewEnv\<close> only says
  whether it can be built; \<open>cel_Program\<close> is the program of the unmarshalled expression;
  \<open>cel_ContextEval\<close> is one evaluation of a program under a deadline, an error when it fails
  or times out and otherwise the Go value of the result.
\<close>

record 'p cel_ops =
  cel_NewEnv :: "goerror option"
  proto_Unmarshal :: "8 word list \<Rightarrow> goerror option"
  cel_Program :: "8 word list \<Rightarrow> goerror + 'p"
  CoerceContextValue :: "string \<Rightarrow> gany \<Rightarrow> gany option"
  cel_ContextEval :: "'p \<Rightarrow> duration \<Rightarrow> reqcontext \<Rightarrow> goerror + gany"

record 'p CompiledCondition =
  cc_name :: string
  cc_program :: 'p
  cc_params :: "FGAConditionParam list"

section \<open>Compile\<close>

definition Compile :: "'p cel_ops \<Rightarrow> FGACondition \<Rightarrow> goerror + 'p CompiledCondition" where
  "Compile ops c =
    (if CheckedExpr c = [] then Inl (PlainError ''Condition has no checked expression'')
     else case cel_NewEnv ops of
       Some err \<Rightarrow> Inl err
     | None \<Rightarrow>
        (case proto_Unmarshal ops (CheckedExpr c) of
           Some err \<Rightarrow> Inl err
         | None \<Rightarrow>
            (case cel_Program ops (CheckedExpr c) of
               Inl err \<Rightarrow> Inl err
             | Inr program \<Rightarrow> Inr \<lparr>cc_name = CondName c, cc_program = program,
                                  cc_params = CondParams c\<rparr>)))"

section \<open>Eval\<close>

text \<open>The loop over the parameters: the variables, or nothing when a parameter is missing or
  cannot be coerced.\<close>

fun Eval_vars :: "'p cel_ops \<Rightarrow> reqcontext \<Rightarrow> FGAConditionParam list \<Rightarrow> reqcontext \<Rightarrow>
    reqcontext option" where
  "Eval_vars ops requestContext [] vars = Some vars"
| "Eval_vars ops requestContext (p # ps) vars =
    (case requestContext (ParamName p) of
       None \<Rightarrow> None
     | Some raw \<Rightarrow>
        (case CoerceContextValue ops (ParamType p) raw of
           None \<Rightarrow> None
         | Some v \<Rightarrow> Eval_vars ops requestContext ps (vars(ParamName p \<mapsto> v))))"

definition Eval :: "'p cel_ops \<Rightarrow> 'p CompiledCondition \<Rightarrow> reqcontext \<Rightarrow> duration \<Rightarrow> bool \<times> bool" where
  "Eval ops cc requestContext timeout =
    (case Eval_vars ops requestContext (cc_params cc) Map.empty of
       None \<Rightarrow> (False, False)
     | Some vars \<Rightarrow>
        (case cel_ContextEval ops (cc_program cc) timeout vars of
           Inl err \<Rightarrow> (False, False)
         | Inr out \<Rightarrow> (case out of AnyBool b \<Rightarrow> (b, True) | _ \<Rightarrow> (False, False))))"

section \<open>Properties\<close>

lemma Eval_vars_Some_iff:
  "(\<exists>vars. Eval_vars ops ctx ps vs = Some vars) \<longleftrightarrow>
    (\<forall>p\<in>set ps. \<exists>raw v. ctx (ParamName p) = Some raw \<and>
        CoerceContextValue ops (ParamType p) raw = Some v)"
  by (induction ps arbitrary: vs) (auto split: option.splits)

lemma Eval_vars_cong:
  "(\<And>p. p \<in> set ps \<Longrightarrow> ctx (ParamName p) = ctx' (ParamName p)) \<Longrightarrow>
    Eval_vars ops ctx ps vs = Eval_vars ops ctx' ps vs"
  by (induction ps arbitrary: vs) (auto split: option.splits)

lemma Eval_vars_dom:
  "Eval_vars ops ctx ps vs = Some vars \<Longrightarrow> dom vars = dom vs \<union> ParamName ` set ps"
  by (induction ps arbitrary: vs) (auto split: option.splits)

lemma Eval_vars_last:
  "Eval_vars ops ctx ps vs = Some vars \<Longrightarrow> n \<notin> ParamName ` set ps \<Longrightarrow> vars n = vs n"
  by (induction ps arbitrary: vs) (auto split: option.splits)

lemma Eval_vars_value:
  assumes "Eval_vars ops ctx ps vs = Some vars" "p \<in> set ps" "distinct (map ParamName ps)"
    "ctx (ParamName p) = Some raw"
  shows "vars (ParamName p) = CoerceContextValue ops (ParamType p) raw"
  using assms
proof (induction ps arbitrary: vs)
  case Nil
  then show ?case by simp
next
  case (Cons q ps)
  then show ?case
    by (auto split: option.splits dest: Eval_vars_last)
qed

lemma Eval_cong:
  assumes "\<And>p. p \<in> set (cc_params cc) \<Longrightarrow> ctx (ParamName p) = ctx' (ParamName p)"
  shows "Eval ops cc ctx timeout = Eval ops cc ctx' timeout"
  using Eval_vars_cong[of "cc_params cc" ctx ctx' ops Map.empty] assms by (simp add: Eval_def)

lemma Eval_not_ok: "snd (Eval ops cc ctx timeout) = False \<Longrightarrow> fst (Eval ops cc ctx timeout) = False"
  by (auto simp: Eval_def split: option.splits sum.splits gany.splits)

lemma Eval_ok_iff:
  "snd (Eval ops cc ctx timeout) \<longleftrightarrow>
    (\<exists>vars b. Eval_vars ops ctx (cc_params cc) Map.empty = Some vars \<and>
       cel_ContextEval ops (cc_program cc) timeout vars = Inr (AnyBool b))"
  by (auto simp: Eval_def split: option.splits sum.splits gany.splits)

lemma Eval_value_iff:
  assumes "distinct (map ParamName (cc_params cc))"
  shows "Eval ops cc ctx timeout = (b, True) \<longleftrightarrow>
    (\<exists>vars. dom vars = ParamName ` set (cc_params cc) \<and>
      (\<forall>p\<in>set (cc_params cc). \<exists>raw v. ctx (ParamName p) = Some raw \<and>
         CoerceContextValue ops (ParamType p) raw = Some v \<and> vars (ParamName p) = Some v) \<and>
      cel_ContextEval ops (cc_program cc) timeout vars = Inr (AnyBool b))" (is "_ \<longleftrightarrow> (\<exists>vars. ?P vars)")
proof
  assume "Eval ops cc ctx timeout = (b, True)"
  then obtain vars where v: "Eval_vars ops ctx (cc_params cc) Map.empty = Some vars"
    "cel_ContextEval ops (cc_program cc) timeout vars = Inr (AnyBool b)"
    by (auto simp: Eval_def split: option.splits sum.splits gany.splits)
  have "\<exists>raw v. ctx (ParamName p) = Some raw \<and> CoerceContextValue ops (ParamType p) raw = Some v \<and>
      vars (ParamName p) = Some v" if p: "p \<in> set (cc_params cc)" for p
  proof -
    have "\<exists>vars. Eval_vars ops ctx (cc_params cc) Map.empty = Some vars" using v(1) by simp
    then obtain raw v' where "ctx (ParamName p) = Some raw" "CoerceContextValue ops (ParamType p) raw = Some v'"
      unfolding Eval_vars_Some_iff using p by fast
    then show ?thesis using Eval_vars_value[OF v(1) p assms] by simp
  qed
  then show "\<exists>vars. ?P vars" using v Eval_vars_dom[OF v(1)] by (intro exI[of _ vars]) simp
next
  assume "\<exists>vars. ?P vars"
  then obtain vars where P: "?P vars" by blast
  then have "\<forall>p\<in>set (cc_params cc). \<exists>raw v. ctx (ParamName p) = Some raw \<and>
      CoerceContextValue ops (ParamType p) raw = Some v" by fast
  then obtain vars' where v: "Eval_vars ops ctx (cc_params cc) Map.empty = Some vars'"
    unfolding Eval_vars_Some_iff[symmetric, of _ _ _ Map.empty] by (elim exE)
  have "vars' n = vars n" for n
  proof (cases "n \<in> ParamName ` set (cc_params cc)")
    case True
    then obtain p where p: "p \<in> set (cc_params cc)" "n = ParamName p" by blast
    from P p(1) obtain raw v where c: "ctx (ParamName p) = Some raw"
      "CoerceContextValue ops (ParamType p) raw = Some v" "vars (ParamName p) = Some v" by blast
    then show ?thesis using Eval_vars_value[OF v p(1) assms c(1)] p(2) by simp
  next
    case False
    then have "n \<notin> dom vars" "n \<notin> dom vars'" using P Eval_vars_dom[OF v] by simp_all
    then show ?thesis by (simp add: domIff)
  qed
  then have "vars' = vars" by (rule ext)
  then show "Eval ops cc ctx timeout = (b, True)" using P v by (simp add: Eval_def)
qed

lemma Compile_ok_iff:
  "(\<exists>cc. Compile ops c = Inr cc) \<longleftrightarrow>
    CheckedExpr c \<noteq> [] \<and> cel_NewEnv ops = None \<and> proto_Unmarshal ops (CheckedExpr c) = None \<and>
    (\<exists>p. cel_Program ops (CheckedExpr c) = Inr p)"
  by (auto simp: Compile_def split: option.splits sum.splits)

lemma Compile_Inr:
  "Compile ops c = Inr cc \<Longrightarrow> cc_name cc = CondName c \<and> cc_params cc = CondParams c \<and>
     cel_Program ops (CheckedExpr c) = Inr (cc_program cc)"
  by (auto simp: Compile_def split: option.splits sum.splits if_splits)

end
