(* ===== verification/CacheState.thy ===== *)
theory CacheState
  imports LruCache CelEval
begin

text \<open>
  The state of one project's cache: the struct \<open>projectAuthzCache\<close> of
  \<open>src/internal/services/caches/projectauthzcache.go\<close> and the structs it holds.

  \<^item> The three LRU caches have the opaque types \<open>'rc\<close> (the direct and the indirect relation
    cache) and \<open>'lc\<close> (the lookup cache), operated through the \<open>lru_ops\<close> of the environment.
  \<^item> \<open>cachedGrant\<close> pointers are never written after they are stored, so grants are values.
    Lookup entries are mutated in place through their pointer (\<open>addToLookupCache\<close>), so the
    lookup cache stores addresses and \<open>entryHeap\<close> maps an address to its entry.
  \<^item> The two-level maps \<open>directResourcesIndex\<close> and \<open>directTargetsIndex\<close> are maps into
    association lists, because the code ranges over the inner map; the order in which Go visits
    its keys is the parameter \<open>range_order\<close>.
  \<^item> \<open>purgeCooldownTimer\<close> is a timer's identity; \<open>timers\<close> is the part of Go's runtime that
    holds the timers armed by \<open>time.AfterFunc\<close> and the callbacks that have started and wait for
    the mutex.
  \<^item> The mutex is not a field: every operation of the model is one critical section.
\<close>

type_synonym cache_key = string
type_synonym addr = nat

record conditionalCert =
  trueConds :: "go_int32 list"
  falseConds :: "go_int32 list"

record cachedGrant =
  allowed :: bool
  cond :: "conditionalCert option"

record keyComponents =
  kc_r :: string
  kc_t :: string

record LookupCacheEntry =
  Results :: "string list"
  CachedAt :: gotime
  ExpiresAt :: gotime

record remoteChangesTracking =
  lastPollTime :: gotime
  remotePollingInterval :: duration
  purgeCooldownWindow :: duration
  purgeCooldownTimer :: "nat option"

record timer_runtime =
  armedTimers :: "nat \<rightharpoonup> gotime"
  startedCallbacks :: "nat list"
  nextTimer :: nat

type_synonym direct_index = "string \<rightharpoonup> (string \<times> cache_key list) list"

record ('rc, 'lc, 'p) projectAuthzCache =
  schemaCache :: "FGASchema option"
  directRelationCache :: 'rc
  directResourcesIndex :: direct_index
  directTargetsIndex :: direct_index
  directKeyComponents :: "cache_key \<rightharpoonup> keyComponents"
  indirectRelationCache :: 'rc
  compiledConditions :: "go_int32 \<rightharpoonup> 'p CompiledCondition"
  loadedSchemaVersion :: string
  celEvalTimeout :: duration
  lookupCache :: "'lc option"
  lookupCacheEnabled :: bool
  lookupCacheTTL :: duration
  lookupCacheMaxResult :: go_int
  remoteChanges :: remoteChangesTracking
  entryHeap :: "addr \<rightharpoonup> LookupCacheEntry"
  nextEntry :: addr
  timers :: timer_runtime

text \<open>The code outside the repository that a project cache runs on.\<close>

record ('rc, 'lc, 'p) cache_env =
  rel_lru :: "('rc, cache_key, cachedGrant) lru_ops"
  look_lru :: "('lc, cache_key, addr) lru_ops"
  cel :: "'p cel_ops"
  range_order :: "string list \<Rightarrow> string list"

text \<open>
  The contract of the environment: both kinds of LRU cache meet \<open>lru_contract\<close>, and ranging
  over a map visits each of its keys (in whatever order).
\<close>

locale cache_contract =
  rel: lru_contract "rel_lru env" wfr + look: lru_contract "look_lru env" wfl
  for env :: "('rc, 'lc, 'p) cache_env" and wfr :: "'rc \<Rightarrow> bool" and wfl :: "'lc \<Rightarrow> bool" +
  assumes range_order_set: "set (range_order env ks) = set ks"

text \<open>The environment of the examples: reference LRU caches, keys visited in insertion order.\<close>

definition reference_env ::
    "'p cel_ops \<Rightarrow> ((cache_key, cachedGrant) lru_list, (cache_key, addr) lru_list, 'p) cache_env" where
  "reference_env c = \<lparr>rel_lru = lru_list_ops, look_lru = lru_list_ops, cel = c,
     range_order = (\<lambda>ks. ks)\<rparr>"

interpretation reference_env: cache_contract "reference_env c" lru_list_wf lru_list_wf
  by (intro cache_contract.intro cache_contract_axioms.intro)
     (simp_all add: reference_env_def lru_list.lru_contract_axioms)

section \<open>Keys and cached grants\<close>

definition key :: "FGARelation \<Rightarrow> cache_key" where
  "key r = Resource r @ '':'' @ Target r @ '':'' @ Relation r"

text \<open>The direct and the indirect grants a cache holds, as maps.\<close>

definition direct_grants :: "('rc, 'lc, 'p) cache_env \<Rightarrow> ('rc, 'lc, 'p) projectAuthzCache \<Rightarrow>
    cache_key \<rightharpoonup> cachedGrant" where
  "direct_grants env pc = lru_content (rel_lru env) (directRelationCache pc)"

definition indirect_grants :: "('rc, 'lc, 'p) cache_env \<Rightarrow> ('rc, 'lc, 'p) projectAuthzCache \<Rightarrow>
    cache_key \<rightharpoonup> cachedGrant" where
  "indirect_grants env pc = lru_content (rel_lru env) (indirectRelationCache pc)"

text \<open>The keys that an index lists for a resource and a target.\<close>

definition resource_keys :: "('rc, 'lc, 'p) projectAuthzCache \<Rightarrow> string \<Rightarrow> string \<Rightarrow> cache_key list" where
  "resource_keys pc r t =
    (case directResourcesIndex pc r of None \<Rightarrow> [] | Some m \<Rightarrow> lookup_list m t)"

definition target_keys :: "('rc, 'lc, 'p) projectAuthzCache \<Rightarrow> string \<Rightarrow> string \<Rightarrow> cache_key list" where
  "target_keys pc r t =
    (case directTargetsIndex pc t of None \<Rightarrow> [] | Some m \<Rightarrow> lookup_list m r)"

end
