(* ===== verification/DirectIndex.thy ===== *)
theory DirectIndex
  imports CacheState
begin

text \<open>
  The two indexes over the direct relation cache, and the eviction callback that keeps them in
  step with it (\<open>addKeyToDirectResourceIndex\<close> to \<open>removeIndexOnCacheEviction\<close> of
  \<open>projectauthzcache.go\<close>). Both indexes meet the locale \<open>key_index\<close>: adding a key lists it,
  removing a key drops one occurrence of it at one place and nothing else.
\<close>

section \<open>Adding a key\<close>

definition addKeyToDirectResourceIndex :: "('rc, 'lc, 'p) projectAuthzCache \<Rightarrow> cache_key \<Rightarrow>
    string \<Rightarrow> string \<Rightarrow> ('rc, 'lc, 'p) projectAuthzCache" where
  "addKeyToDirectResourceIndex pc k r t =
    (case directResourcesIndex pc r of
       Some targetsToKeys \<Rightarrow> pc\<lparr>directResourcesIndex := (directResourcesIndex pc)
         (r \<mapsto> AList.update t (lookup_list targetsToKeys t @ [k]) targetsToKeys)\<rparr>
     | None \<Rightarrow> pc\<lparr>directResourcesIndex := (directResourcesIndex pc)(r \<mapsto> [(t, [] @ [k])])\<rparr>)"

definition addKeyToDirectTargetIndex :: "('rc, 'lc, 'p) projectAuthzCache \<Rightarrow> cache_key \<Rightarrow>
    string \<Rightarrow> string \<Rightarrow> ('rc, 'lc, 'p) projectAuthzCache" where
  "addKeyToDirectTargetIndex pc k r t =
    (case directTargetsIndex pc t of
       Some resourcesToKeys \<Rightarrow> pc\<lparr>directTargetsIndex := (directTargetsIndex pc)
         (t \<mapsto> AList.update r (lookup_list resourcesToKeys r @ [k]) resourcesToKeys)\<rparr>
     | None \<Rightarrow> pc\<lparr>directTargetsIndex := (directTargetsIndex pc)(t \<mapsto> [(r, [] @ [k])])\<rparr>)"

section \<open>Removing a key\<close>

text \<open>The loop that finds the key and cuts it out of the slice, then the two emptiness tests.
  The slice is written back only when the key was found.\<close>

definition removeKeyFromResourceIndex :: "('rc, 'lc, 'p) projectAuthzCache \<Rightarrow> string \<Rightarrow> string \<Rightarrow>
    cache_key \<Rightarrow> ('rc, 'lc, 'p) projectAuthzCache" where
  "removeKeyFromResourceIndex pc r t keyToRemove =
    (case directResourcesIndex pc r of
       None \<Rightarrow> pc
     | Some targetsToKeys \<Rightarrow>
        (let keys = lookup_list targetsToKeys t;
             keys' = remove1 keyToRemove keys;
             m = (if keyToRemove \<in> set keys then AList.update t keys' targetsToKeys
                  else targetsToKeys);
             m' = (if keys' = [] then AList.delete t m else m)
         in pc\<lparr>directResourcesIndex := (if m' = [] then (directResourcesIndex pc)(r := None)
                                        else (directResourcesIndex pc)(r \<mapsto> m'))\<rparr>))"

definition removeKeyFromTargetIndex :: "('rc, 'lc, 'p) projectAuthzCache \<Rightarrow> string \<Rightarrow> string \<Rightarrow>
    cache_key \<Rightarrow> ('rc, 'lc, 'p) projectAuthzCache" where
  "removeKeyFromTargetIndex pc r t keyToRemove =
    (case directTargetsIndex pc t of
       None \<Rightarrow> pc
     | Some resourcesToKeys \<Rightarrow>
        (let keys = lookup_list resourcesToKeys r;
             keys' = remove1 keyToRemove keys;
             m = (if keyToRemove \<in> set keys then AList.update r keys' resourcesToKeys
                  else resourcesToKeys);
             m' = (if keys' = [] then AList.delete r m else m)
         in pc\<lparr>directTargetsIndex := (if m' = [] then (directTargetsIndex pc)(t := None)
                                      else (directTargetsIndex pc)(t \<mapsto> m'))\<rparr>))"

section \<open>The eviction callback\<close>

definition removeIndexOnCacheEviction :: "('rc, 'lc, 'p) projectAuthzCache \<Rightarrow> cache_key \<Rightarrow>
    ('rc, 'lc, 'p) projectAuthzCache" where
  "removeIndexOnCacheEviction pc k =
    (case directKeyComponents pc k of
       None \<Rightarrow> pc
     | Some components \<Rightarrow>
        (let pc1 = removeKeyFromResourceIndex pc (kc_r components) (kc_t components) k;
             pc2 = removeKeyFromTargetIndex pc1 (kc_r components) (kc_t components) k
         in pc2\<lparr>directKeyComponents := (directKeyComponents pc2)(k := None)\<rparr>))"

text \<open>The callback runs once per evicted entry, in the order the cache reports them.\<close>

definition runEvictions :: "(cache_key \<times> cachedGrant) list \<Rightarrow> ('rc, 'lc, 'p) projectAuthzCache \<Rightarrow>
    ('rc, 'lc, 'p) projectAuthzCache" where
  "runEvictions evicted pc = fold (\<lambda>e pc. removeIndexOnCacheEviction pc (fst e)) evicted pc"

section \<open>The index contract\<close>

locale key_index =
  fixes add :: "'s \<Rightarrow> 'k \<Rightarrow> 'a \<Rightarrow> 'a \<Rightarrow> 's"
    and remove :: "'s \<Rightarrow> 'a \<Rightarrow> 'a \<Rightarrow> 'k \<Rightarrow> 's"
    and keys :: "'s \<Rightarrow> 'a \<Rightarrow> 'a \<Rightarrow> 'k list"
  assumes keys_add: "keys (add s k r t) r' t' =
      (if r' = r \<and> t' = t then keys s r t @ [k] else keys s r' t')"
    and keys_remove: "keys (remove s r t k) r' t' =
      (if r' = r \<and> t' = t then remove1 k (keys s r t) else keys s r' t')"
begin

lemma in_keys_add: "k' \<in> set (keys (add s k r t) r' t') \<longleftrightarrow>
    (k' = k \<and> r' = r \<and> t' = t) \<or> k' \<in> set (keys s r' t')"
  by (auto simp: keys_add)

text \<open>Removing a key leaves every other key where it was.\<close>

lemma in_keys_remove_other: "k' \<noteq> k \<Longrightarrow>
    k' \<in> set (keys (remove s r t k) r' t') \<longleftrightarrow> k' \<in> set (keys s r' t')"
  by (simp add: keys_remove)

lemma in_keys_removeD: "k' \<in> set (keys (remove s r t k) r' t') \<Longrightarrow> k' \<in> set (keys s r' t')"
  using set_remove1_subset[of k "keys s r t"] by (auto simp: keys_remove split: if_splits)

lemma count_keys_add: "count_list (keys (add s k r t) r t) k = Suc (count_list (keys s r t) k)"
  by (simp add: keys_add)

text \<open>Adding a key and removing it again at the same place restores the listing when the key was
  not listed there.\<close>

lemma keys_remove_add: "k \<notin> set (keys s r t) \<Longrightarrow>
    keys (remove (add s k r t) r t k) r' t' = keys s r' t'"
  by (simp add: keys_remove keys_add remove1_append)

end

lemma resource_keys_add:
  "resource_keys (addKeyToDirectResourceIndex pc k r t) r' t' =
     (if r' = r \<and> t' = t then resource_keys pc r t @ [k] else resource_keys pc r' t')"
  by (auto simp: addKeyToDirectResourceIndex_def resource_keys_def lookup_list_def
      AList.update_conv' split: option.splits)

lemma target_keys_add:
  "target_keys (addKeyToDirectTargetIndex pc k r t) r' t' =
     (if r' = r \<and> t' = t then target_keys pc r t @ [k] else target_keys pc r' t')"
  by (auto simp: addKeyToDirectTargetIndex_def target_keys_def lookup_list_def
      AList.update_conv' split: option.splits)

lemma resource_keys_remove:
  "resource_keys (removeKeyFromResourceIndex pc r t k) r' t' =
     (if r' = r \<and> t' = t then remove1 k (resource_keys pc r t) else resource_keys pc r' t')"
proof (cases "directResourcesIndex pc r")
  case None
  then show ?thesis by (auto simp: removeKeyFromResourceIndex_def resource_keys_def)
next
  case (Some m)
  define m1 where "m1 = (if k \<in> set (lookup_list m t)
      then AList.update t (remove1 k (lookup_list m t)) m else m)"
  define m2 where "m2 = (if remove1 k (lookup_list m t) = [] then AList.delete t m1 else m1)"
  have look: "lookup_list m2 x = (if x = t then remove1 k (lookup_list m t) else lookup_list m x)" for x
    by (auto simp: m2_def m1_def remove1_idem)
  have "removeKeyFromResourceIndex pc r t k = pc\<lparr>directResourcesIndex :=
      (if m2 = [] then (directResourcesIndex pc)(r := None) else (directResourcesIndex pc)(r \<mapsto> m2))\<rparr>"
    by (simp add: removeKeyFromResourceIndex_def Some Let_def m1_def m2_def)
  then show ?thesis
    using look[of t'] by (cases "m2 = []") (auto simp: resource_keys_def Some)
qed

lemma target_keys_remove:
  "target_keys (removeKeyFromTargetIndex pc r t k) r' t' =
     (if r' = r \<and> t' = t then remove1 k (target_keys pc r t) else target_keys pc r' t')"
proof (cases "directTargetsIndex pc t")
  case None
  then show ?thesis by (auto simp: removeKeyFromTargetIndex_def target_keys_def)
next
  case (Some m)
  define m1 where "m1 = (if k \<in> set (lookup_list m r)
      then AList.update r (remove1 k (lookup_list m r)) m else m)"
  define m2 where "m2 = (if remove1 k (lookup_list m r) = [] then AList.delete r m1 else m1)"
  have look: "lookup_list m2 x = (if x = r then remove1 k (lookup_list m r) else lookup_list m x)" for x
    by (auto simp: m2_def m1_def remove1_idem)
  have "removeKeyFromTargetIndex pc r t k = pc\<lparr>directTargetsIndex :=
      (if m2 = [] then (directTargetsIndex pc)(t := None) else (directTargetsIndex pc)(t \<mapsto> m2))\<rparr>"
    by (simp add: removeKeyFromTargetIndex_def Some Let_def m1_def m2_def)
  then show ?thesis
    using look[of r'] by (cases "m2 = []") (auto simp: target_keys_def Some)
qed

interpretation resource_index: key_index addKeyToDirectResourceIndex removeKeyFromResourceIndex resource_keys
  by unfold_locales (simp_all add: resource_keys_add resource_keys_remove)

interpretation target_index: key_index addKeyToDirectTargetIndex removeKeyFromTargetIndex target_keys
  by unfold_locales (simp_all add: target_keys_add target_keys_remove)

section \<open>Frame lemmas\<close>

text \<open>Which parts of the state an index operation can change: everything outside the indexes
  and the key components is the state itself with those three fields replaced.\<close>

lemma addKeyToDirectResourceIndex_frame [frame_simps]:
  "target_keys (addKeyToDirectResourceIndex pc k r t) = target_keys pc"
  "directKeyComponents (addKeyToDirectResourceIndex pc k r t) = directKeyComponents pc"
  "directRelationCache (addKeyToDirectResourceIndex pc k r t) = directRelationCache pc"
  by (auto simp: addKeyToDirectResourceIndex_def target_keys_def fun_eq_iff split: option.splits)

lemma addKeyToDirectTargetIndex_frame [frame_simps]:
  "resource_keys (addKeyToDirectTargetIndex pc k r t) = resource_keys pc"
  "directKeyComponents (addKeyToDirectTargetIndex pc k r t) = directKeyComponents pc"
  "directRelationCache (addKeyToDirectTargetIndex pc k r t) = directRelationCache pc"
  by (auto simp: addKeyToDirectTargetIndex_def resource_keys_def fun_eq_iff split: option.splits)

lemma removeKeyFromResourceIndex_frame [frame_simps]:
  "target_keys (removeKeyFromResourceIndex pc r t k) = target_keys pc"
  "directKeyComponents (removeKeyFromResourceIndex pc r t k) = directKeyComponents pc"
  by (auto simp: removeKeyFromResourceIndex_def target_keys_def fun_eq_iff Let_def split: option.splits)

lemma removeKeyFromTargetIndex_frame [frame_simps]:
  "resource_keys (removeKeyFromTargetIndex pc r t k) = resource_keys pc"
  "directKeyComponents (removeKeyFromTargetIndex pc r t k) = directKeyComponents pc"
  by (auto simp: removeKeyFromTargetIndex_def resource_keys_def fun_eq_iff Let_def split: option.splits)

text \<open>
  The fields outside the index triple. An operation that only touches the triple is described by
  \<open>same_but_indexes\<close>, which is transitive and gives every frame fact at once.
\<close>

definition same_but_indexes :: "('rc, 'lc, 'p) projectAuthzCache \<Rightarrow> ('rc, 'lc, 'p) projectAuthzCache \<Rightarrow> bool" where
  "same_but_indexes pc pc' \<longleftrightarrow> (\<exists>ri ti kc. pc' = pc\<lparr>directResourcesIndex := ri,
     directTargetsIndex := ti, directKeyComponents := kc\<rparr>)"

lemma same_but_indexes_refl [simp]: "same_but_indexes pc pc"
  unfolding same_but_indexes_def
  by (rule exI[of _ "directResourcesIndex pc"], rule exI[of _ "directTargetsIndex pc"],
      rule exI[of _ "directKeyComponents pc"]) simp

lemma same_but_indexes_trans:
  "same_but_indexes a b \<Longrightarrow> same_but_indexes b c \<Longrightarrow> same_but_indexes a c"
  unfolding same_but_indexes_def by (elim exE) (auto)

lemma same_add_resource [simp]: "same_but_indexes pc (addKeyToDirectResourceIndex pc k r t)"
  by (cases pc) (auto simp: addKeyToDirectResourceIndex_def same_but_indexes_def split: option.splits)

lemma same_add_target [simp]: "same_but_indexes pc (addKeyToDirectTargetIndex pc k r t)"
  by (cases pc) (auto simp: addKeyToDirectTargetIndex_def same_but_indexes_def split: option.splits)

lemma same_remove_resource [simp]: "same_but_indexes pc (removeKeyFromResourceIndex pc r t k)"
  by (cases pc) (auto simp: removeKeyFromResourceIndex_def same_but_indexes_def Let_def split: option.splits)

lemma same_remove_target [simp]: "same_but_indexes pc (removeKeyFromTargetIndex pc r t k)"
  by (cases pc) (auto simp: removeKeyFromTargetIndex_def same_but_indexes_def Let_def split: option.splits)

lemma same_eviction [simp]: "same_but_indexes pc (removeIndexOnCacheEviction pc k)"
proof (cases "directKeyComponents pc k")
  case None
  then show ?thesis by (simp add: removeIndexOnCacheEviction_def)
next
  case (Some c)
  let ?pc1 = "removeKeyFromResourceIndex pc (kc_r c) (kc_t c) k"
  let ?pc2 = "removeKeyFromTargetIndex ?pc1 (kc_r c) (kc_t c) k"
  have "same_but_indexes pc ?pc2"
    by (rule same_but_indexes_trans[OF same_remove_resource same_remove_target])
  then obtain ri ti kc where "?pc2 = pc\<lparr>directResourcesIndex := ri,
     directTargetsIndex := ti, directKeyComponents := kc\<rparr>"
    unfolding same_but_indexes_def by blast
  then have "removeIndexOnCacheEviction pc k = pc\<lparr>directResourcesIndex := ri,
     directTargetsIndex := ti, directKeyComponents := kc(k := None)\<rparr>"
    by (simp add: removeIndexOnCacheEviction_def Some Let_def)
  then show ?thesis
    unfolding same_but_indexes_def by blast
qed

lemma same_runEvictions [simp]: "same_but_indexes pc (runEvictions ev pc)"
  unfolding runEvictions_def
  by (rule fold_invariant_set) (auto intro: same_but_indexes_trans)

lemma same_but_indexesD:
  assumes "same_but_indexes pc pc'"
  shows "directRelationCache pc' = directRelationCache pc"
    "indirectRelationCache pc' = indirectRelationCache pc"
    "schemaCache pc' = schemaCache pc" "compiledConditions pc' = compiledConditions pc"
    "loadedSchemaVersion pc' = loadedSchemaVersion pc" "celEvalTimeout pc' = celEvalTimeout pc"
    "lookupCache pc' = lookupCache pc" "lookupCacheEnabled pc' = lookupCacheEnabled pc"
    "lookupCacheTTL pc' = lookupCacheTTL pc" "lookupCacheMaxResult pc' = lookupCacheMaxResult pc"
    "remoteChanges pc' = remoteChanges pc" "entryHeap pc' = entryHeap pc"
    "nextEntry pc' = nextEntry pc" "timers pc' = timers pc"
  using assms by (auto simp: same_but_indexes_def)

lemmas runEvictions_frame [simp] = same_but_indexesD[OF same_runEvictions]

section \<open>What the callback does\<close>

lemma eviction_components:
  "directKeyComponents (removeIndexOnCacheEviction pc k) = (directKeyComponents pc)(k := None)"
  by (auto simp: removeIndexOnCacheEviction_def frame_simps Let_def fun_eq_iff split: option.splits)

lemma eviction_keys_other:
  assumes "k' \<noteq> k"
  shows "k' \<in> set (resource_keys (removeIndexOnCacheEviction pc k) r t) \<longleftrightarrow> k' \<in> set (resource_keys pc r t)"
    "k' \<in> set (target_keys (removeIndexOnCacheEviction pc k) r t) \<longleftrightarrow> k' \<in> set (target_keys pc r t)"
proof -
  have kc [simp]: "resource_keys (pc'\<lparr>directKeyComponents := x\<rparr>) = resource_keys pc'"
    "target_keys (pc'\<lparr>directKeyComponents := x\<rparr>) = target_keys pc'"
    for pc' :: "('a, 'b, 'c) projectAuthzCache" and x
    by (simp_all add: resource_keys_def target_keys_def fun_eq_iff)
  show "k' \<in> set (resource_keys (removeIndexOnCacheEviction pc k) r t) \<longleftrightarrow> k' \<in> set (resource_keys pc r t)"
    using assms by (auto simp: removeIndexOnCacheEviction_def frame_simps Let_def
        resource_index.in_keys_remove_other split: option.splits)
  show "k' \<in> set (target_keys (removeIndexOnCacheEviction pc k) r t) \<longleftrightarrow> k' \<in> set (target_keys pc r t)"
    using assms by (auto simp: removeIndexOnCacheEviction_def frame_simps Let_def
        target_index.in_keys_remove_other split: option.splits)
qed

lemma runEvictions_components:
  "directKeyComponents (runEvictions ev pc) = directKeyComponents pc |` (- fst ` set ev)"
  unfolding runEvictions_def
  by (induction ev arbitrary: pc)
     (auto simp: eviction_components fun_eq_iff restrict_map_def)

lemma runEvictions_keys_other:
  assumes "k \<notin> fst ` set ev"
  shows "k \<in> set (resource_keys (runEvictions ev pc) r t) \<longleftrightarrow> k \<in> set (resource_keys pc r t)"
    "k \<in> set (target_keys (runEvictions ev pc) r t) \<longleftrightarrow> k \<in> set (target_keys pc r t)"
  using assms unfolding runEvictions_def
  by (induction ev arbitrary: pc) (auto simp: eviction_keys_other)

text \<open>With no key components left, as inside \<open>purgeRelationCaches\<close>, the callback does nothing.\<close>

lemma runEvictions_no_components:
  "directKeyComponents pc = Map.empty \<Longrightarrow> runEvictions ev pc = pc"
  unfolding runEvictions_def
  by (induction ev) (auto simp: removeIndexOnCacheEviction_def)

end
