(* ===== verification/RelationCache.thy ===== *)
theory RelationCache
  imports DirectIndex
begin

text \<open>
  Reading the relation caches: \<open>CheckRelations\<close> of \<open>projectauthzcache.go\<close> with its helpers. The
  specification of a read is \<open>served\<close>, the answer the cached grants determine for one relation.
\<close>

section \<open>Reading grants\<close>

definition getCachedGrant :: "('rc, 'lc, 'p) cache_env \<Rightarrow> ('rc, 'lc, 'p) projectAuthzCache \<Rightarrow> FGARelation \<Rightarrow>
    (cachedGrant \<times> bool) option \<times> ('rc, 'lc, 'p) projectAuthzCache" where
  "getCachedGrant env pc r =
    (let k = key r
     in case lru_get (rel_lru env) (directRelationCache pc) k of
       (Some grant, c) \<Rightarrow> (Some (grant, True), pc\<lparr>directRelationCache := c\<rparr>)
     | (None, c) \<Rightarrow>
        (let pc1 = pc\<lparr>directRelationCache := c\<rparr>
         in case lru_get (rel_lru env) (indirectRelationCache pc1) k of
           (Some grant, c') \<Rightarrow> (Some (grant, False), pc1\<lparr>indirectRelationCache := c'\<rparr>)
         | (None, c') \<Rightarrow> (None, pc1\<lparr>indirectRelationCache := c'\<rparr>)))"

fun conditionsEvalTo :: "('rc, 'lc, 'p) cache_env \<Rightarrow> ('rc, 'lc, 'p) projectAuthzCache \<Rightarrow>
    go_int32 list \<Rightarrow> bool \<Rightarrow> reqcontext \<Rightarrow> bool" where
  "conditionsEvalTo env pc [] want extraContext = True"
| "conditionsEvalTo env pc (cid # ids) want extraContext =
    (case compiledConditions pc cid of
       None \<Rightarrow> False
     | Some compiled \<Rightarrow>
        (case Eval (cel env) compiled extraContext (celEvalTimeout pc) of
           (got, evaluated) \<Rightarrow>
             if \<not> evaluated \<or> got \<noteq> want then False
             else conditionsEvalTo env pc ids want extraContext))"

definition certMatches :: "('rc, 'lc, 'p) cache_env \<Rightarrow> ('rc, 'lc, 'p) projectAuthzCache \<Rightarrow>
    conditionalCert \<Rightarrow> reqcontext \<Rightarrow> bool" where
  "certMatches env pc cert extraContext =
    (if trueConds cert = [] \<and> falseConds cert = [] then False
     else conditionsEvalTo env pc (trueConds cert) True extraContext \<and>
          conditionsEvalTo env pc (falseConds cert) False extraContext)"

text \<open>The checks a hit produces, from the composite literals of \<open>CheckRelations\<close>.\<close>

definition unconditional_check :: "cachedGrant \<Rightarrow> bool \<Rightarrow> FGARelation \<Rightarrow> FGACheck" where
  "unconditional_check grant direct r = \<lparr>Allowed = allowed grant, CheckRelation = r,
     Info = zero_FGACheckInfo\<lparr>Direct := direct\<rparr>\<rparr>"

definition conditional_check :: "cachedGrant \<Rightarrow> FGARelation \<Rightarrow> FGACheck" where
  "conditional_check grant r = \<lparr>Allowed = allowed grant, CheckRelation = r,
     Info = zero_FGACheckInfo\<lparr>Conditional := True\<rparr>\<rparr>"

text \<open>The loop of \<open>CheckRelations\<close> from index \<open>i\<close> on, with its three results as accumulators.\<close>

fun CheckRelations_from :: "('rc, 'lc, 'p) cache_env \<Rightarrow> ('rc, 'lc, 'p) projectAuthzCache \<Rightarrow> reqcontext \<Rightarrow>
    nat \<Rightarrow> FGARelation list \<Rightarrow> FGACheck list \<Rightarrow> FGARelation list \<Rightarrow> (nat \<rightharpoonup> FGACheck) \<Rightarrow>
    (FGACheck list \<times> FGARelation list \<times> (nat \<rightharpoonup> FGACheck)) \<times> ('rc, 'lc, 'p) projectAuthzCache" where
  "CheckRelations_from env pc extraContext i [] checks unchecked indexToCheck =
     ((checks, unchecked, indexToCheck), pc)"
| "CheckRelations_from env pc extraContext i (r # rs) checks unchecked indexToCheck =
    (case getCachedGrant env pc r of
       (None, pc') \<Rightarrow>
         CheckRelations_from env pc' extraContext (Suc i) rs checks (unchecked @ [r]) indexToCheck
     | (Some (grant, direct), pc') \<Rightarrow>
        (case cond grant of
           None \<Rightarrow>
             (let check = unconditional_check grant direct r
              in CheckRelations_from env pc' extraContext (Suc i) rs (checks @ [check]) unchecked
                   (indexToCheck(i \<mapsto> check)))
         | Some cert \<Rightarrow>
             if certMatches env pc' cert extraContext then
               (let check = conditional_check grant r
                in CheckRelations_from env pc' extraContext (Suc i) rs (checks @ [check]) unchecked
                     (indexToCheck(i \<mapsto> check)))
             else CheckRelations_from env pc' extraContext (Suc i) rs checks (unchecked @ [r]) indexToCheck))"

definition CheckRelations :: "('rc, 'lc, 'p) cache_env \<Rightarrow> ('rc, 'lc, 'p) projectAuthzCache \<Rightarrow>
    FGARelation list \<Rightarrow> reqcontext \<Rightarrow>
    (FGACheck list \<times> FGARelation list \<times> (nat \<rightharpoonup> FGACheck)) \<times> ('rc, 'lc, 'p) projectAuthzCache" where
  "CheckRelations env pc relations extraContext =
     CheckRelations_from env pc extraContext 0 relations [] [] Map.empty"

section \<open>Specification of a read\<close>

text \<open>The grant a key resolves to: the direct one if there is one, else the indirect one.\<close>

definition cached_grant :: "('rc, 'lc, 'p) cache_env \<Rightarrow> ('rc, 'lc, 'p) projectAuthzCache \<Rightarrow>
    cache_key \<rightharpoonup> cachedGrant \<times> bool" where
  "cached_grant env pc k = (case direct_grants env pc k of
     Some g \<Rightarrow> Some (g, True)
   | None \<Rightarrow> map_option (\<lambda>g. (g, False)) (indirect_grants env pc k))"

definition served :: "('rc, 'lc, 'p) cache_env \<Rightarrow> ('rc, 'lc, 'p) projectAuthzCache \<Rightarrow> reqcontext \<Rightarrow>
    FGARelation \<Rightarrow> FGACheck option" where
  "served env pc extraContext r = (case cached_grant env pc (key r) of
     None \<Rightarrow> None
   | Some (grant, direct) \<Rightarrow>
      (case cond grant of
         None \<Rightarrow> Some (unconditional_check grant direct r)
       | Some cert \<Rightarrow> if certMatches env pc cert extraContext then Some (conditional_check grant r)
                      else None))"

lemma served_relation: "served env pc ctx r = Some c \<Longrightarrow> CheckRelation c = r"
  by (auto simp: served_def unconditional_check_def conditional_check_def
      split: option.splits if_splits)

lemma conditionsEvalTo_iff:
  "conditionsEvalTo env pc ids want ctx \<longleftrightarrow>
    (\<forall>cid\<in>set ids. \<exists>cc. compiledConditions pc cid = Some cc \<and>
        Eval (cel env) cc ctx (celEvalTimeout pc) = (want, True))"
  by (induction ids) (auto split: option.splits prod.splits)

lemma certMatches_iff:
  "certMatches env pc cert ctx \<longleftrightarrow>
    (trueConds cert \<noteq> [] \<or> falseConds cert \<noteq> []) \<and>
    conditionsEvalTo env pc (trueConds cert) True ctx \<and>
    conditionsEvalTo env pc (falseConds cert) False ctx"
  by (simp add: certMatches_def)

lemma conditionsEvalTo_cong:
  assumes "compiledConditions pc' = compiledConditions pc" "celEvalTimeout pc' = celEvalTimeout pc"
  shows "conditionsEvalTo env pc' ids want ctx = conditionsEvalTo env pc ids want ctx"
  using assms by (simp add: conditionsEvalTo_iff)

lemma certMatches_cong:
  assumes "compiledConditions pc' = compiledConditions pc" "celEvalTimeout pc' = celEvalTimeout pc"
  shows "certMatches env pc' cert ctx = certMatches env pc cert ctx"
  by (simp only: certMatches_def conditionsEvalTo_cong[OF assms])

text \<open>Two states that answer alike: the same grants, the same conditions.\<close>

definition reads_alike :: "('rc, 'lc, 'p) cache_env \<Rightarrow> ('rc, 'lc, 'p) projectAuthzCache \<Rightarrow>
    ('rc, 'lc, 'p) projectAuthzCache \<Rightarrow> bool" where
  "reads_alike env pc pc' \<longleftrightarrow> direct_grants env pc' = direct_grants env pc \<and>
     indirect_grants env pc' = indirect_grants env pc \<and>
     (\<exists>c c'. pc' = pc\<lparr>directRelationCache := c, indirectRelationCache := c'\<rparr>)"

lemma reads_alikeI:
  assumes "direct_grants env (pc\<lparr>directRelationCache := c, indirectRelationCache := c'\<rparr>) = direct_grants env pc"
    "indirect_grants env (pc\<lparr>directRelationCache := c, indirectRelationCache := c'\<rparr>) = indirect_grants env pc"
  shows "reads_alike env pc (pc\<lparr>directRelationCache := c, indirectRelationCache := c'\<rparr>)"
  using assms by (auto simp: reads_alike_def)

lemma reads_alike_refl [simp]: "reads_alike env pc pc"
  using reads_alikeI[where pc = pc and c = "directRelationCache pc" and c' = "indirectRelationCache pc"] by simp

lemma reads_alike_trans:
  "reads_alike env a b \<Longrightarrow> reads_alike env b c \<Longrightarrow> reads_alike env a c"
  unfolding reads_alike_def by (elim conjE exE) (simp, blast)

lemma reads_alikeD:
  assumes "reads_alike env pc pc'"
  shows "direct_grants env pc' = direct_grants env pc" "indirect_grants env pc' = indirect_grants env pc"
    "compiledConditions pc' = compiledConditions pc" "celEvalTimeout pc' = celEvalTimeout pc"
    "directResourcesIndex pc' = directResourcesIndex pc" "directTargetsIndex pc' = directTargetsIndex pc"
    "directKeyComponents pc' = directKeyComponents pc" "lookupCache pc' = lookupCache pc"
    "entryHeap pc' = entryHeap pc" "schemaCache pc' = schemaCache pc"
    "loadedSchemaVersion pc' = loadedSchemaVersion pc" "remoteChanges pc' = remoteChanges pc"
    "timers pc' = timers pc"
  using assms by (auto simp: reads_alike_def)

lemma reads_alike_served: "reads_alike env pc pc' \<Longrightarrow> served env pc' ctx r = served env pc ctx r"
  by (simp add: served_def cached_grant_def reads_alikeD(1,2) certMatches_cong[OF reads_alikeD(3,4)]
      split: option.splits)

section \<open>Well-formed caches\<close>

definition caches_wf :: "('rc \<Rightarrow> bool) \<Rightarrow> ('lc \<Rightarrow> bool) \<Rightarrow> ('rc, 'lc, 'p) projectAuthzCache \<Rightarrow> bool" where
  "caches_wf wfr wfl pc \<longleftrightarrow> wfr (directRelationCache pc) \<and> wfr (indirectRelationCache pc) \<and>
     (case lookupCache pc of None \<Rightarrow> True | Some l \<Rightarrow> wfl l)"

context cache_contract
begin

lemma getCachedGrant_spec:
  assumes "caches_wf wfr wfl pc"
  shows "fst (getCachedGrant env pc r) = cached_grant env pc (key r)"
    and "caches_wf wfr wfl (snd (getCachedGrant env pc r))"
    and "reads_alike env pc (snd (getCachedGrant env pc r))"
proof -
  have wf: "wfr (directRelationCache pc)" "wfr (indirectRelationCache pc)"
    using assms by (simp_all add: caches_wf_def)
  obtain o1 c1 where g1: "lru_get (rel_lru env) (directRelationCache pc) (key r) = (o1, c1)"
    by fastforce
  obtain o2 c2 where g2: "lru_get (rel_lru env) (indirectRelationCache pc) (key r) = (o2, c2)"
    by fastforce
  have o: "direct_grants env pc (key r) = o1" "indirect_grants env pc (key r) = o2"
    by (simp_all add: direct_grants_def indirect_grants_def lru_content_def g1 g2)
  have c1: "wfr c1" "lru_content (rel_lru env) c1 = lru_content (rel_lru env) (directRelationCache pc)"
    using rel.wf_get[OF wf(1), of "key r"] rel.get_content[OF wf(1), of "key r"] g1 by simp_all
  have c2: "wfr c2" "lru_content (rel_lru env) c2 = lru_content (rel_lru env) (indirectRelationCache pc)"
    using rel.wf_get[OF wf(2), of "key r"] rel.get_content[OF wf(2), of "key r"] g2 by simp_all
  show "fst (getCachedGrant env pc r) = cached_grant env pc (key r)"
    by (cases o1; cases o2) (simp_all add: getCachedGrant_def cached_grant_def o g1 g2 Let_def)
  show "caches_wf wfr wfl (snd (getCachedGrant env pc r))"
    using assms c1 c2
    by (cases o1; cases o2) (simp_all add: getCachedGrant_def g1 g2 Let_def caches_wf_def)
  show "reads_alike env pc (snd (getCachedGrant env pc r))"
  proof -
    have "reads_alike env pc (pc\<lparr>directRelationCache := c1, indirectRelationCache := c\<rparr>)"
      if "lru_content (rel_lru env) c = lru_content (rel_lru env) (indirectRelationCache pc)" for c
      using c1 that by (intro reads_alikeI) (simp_all add: direct_grants_def indirect_grants_def)
    from this[of "indirectRelationCache pc"] this[of c2] c2 show ?thesis
      by (cases o1; cases o2) (simp_all add: getCachedGrant_def g1 g2 Let_def)
  qed
qed

text \<open>
  The loop computes, for each relation in turn, the answer \<open>served\<close> gives in the state the call
  started in: reading the caches changes recency only.
\<close>

lemma CheckRelations_from_spec:
  assumes "caches_wf wfr wfl pc" "CheckRelations_from env pc ctx i rs cs us m = ((cs', us', m'), pc')"
  shows "cs' = cs @ List.map_filter (served env pc ctx) rs"
    and "us' = us @ filter (\<lambda>r. served env pc ctx r = None) rs"
    and "m' = (\<lambda>j. if i \<le> j \<and> j < i + length rs then
                 (case served env pc ctx (rs ! (j - i)) of None \<Rightarrow> m j | Some c \<Rightarrow> Some c) else m j)"
    and "caches_wf wfr wfl pc'" and "reads_alike env pc pc'"
proof -
  have "cs' = cs @ List.map_filter (served env pc ctx) rs \<and>
    us' = us @ filter (\<lambda>r. served env pc ctx r = None) rs \<and>
    m' = (\<lambda>j. if i \<le> j \<and> j < i + length rs then
                 (case served env pc ctx (rs ! (j - i)) of None \<Rightarrow> m j | Some c \<Rightarrow> Some c) else m j) \<and>
    caches_wf wfr wfl pc' \<and> reads_alike env pc pc'"
    using assms
  proof (induction rs arbitrary: pc i cs us m)
    case Nil
    then show ?case by (auto simp: fun_eq_iff)
  next
    case (Cons r rs)
    obtain g pc1 where g: "getCachedGrant env pc r = (g, pc1)" by fastforce
    have s1: "g = cached_grant env pc (key r)" "caches_wf wfr wfl pc1" "reads_alike env pc pc1"
      using getCachedGrant_spec[OF Cons.prems(1), of r] g by simp_all
    have srv: "served env pc1 ctx = served env pc ctx"
      by (rule ext) (rule reads_alike_served[OF s1(3)])
    have cert: "certMatches env pc1 = certMatches env pc"
      by (intro ext) (rule certMatches_cong[OF reads_alikeD(3,4)[OF s1(3)]])
    show ?case
    proof (cases "served env pc ctx r")
      case None
      then have "CheckRelations_from env pc1 ctx (Suc i) rs cs (us @ [r]) m = ((cs', us', m'), pc')"
        using Cons.prems(2) s1(1)
        by (auto simp: g served_def cert split: option.splits if_splits)
      from Cons.IH[OF s1(2) this] show ?thesis
        using None reads_alike_trans[OF s1(3)]
        by (auto simp: srv map_filter_simps fun_eq_iff nth_Cons' Suc_le_eq split: option.splits)
    next
      case (Some c)
      then have "CheckRelations_from env pc1 ctx (Suc i) rs (cs @ [c]) us (m(i \<mapsto> c)) = ((cs', us', m'), pc')"
        using Cons.prems(2) s1(1)
        by (auto simp: g served_def cert Let_def split: option.splits if_splits)
      from Cons.IH[OF s1(2) this] show ?thesis
        using Some reads_alike_trans[OF s1(3)]
        by (auto simp: srv map_filter_simps fun_eq_iff nth_Cons' Suc_le_eq split: option.splits)
    qed
  qed
  then show "cs' = cs @ List.map_filter (served env pc ctx) rs"
    and "us' = us @ filter (\<lambda>r. served env pc ctx r = None) rs"
    and "m' = (\<lambda>j. if i \<le> j \<and> j < i + length rs then
                 (case served env pc ctx (rs ! (j - i)) of None \<Rightarrow> m j | Some c \<Rightarrow> Some c) else m j)"
    and "caches_wf wfr wfl pc'" and "reads_alike env pc pc'"
    by blast+
qed

lemma CheckRelations_spec:
  assumes "caches_wf wfr wfl pc" "CheckRelations env pc rs ctx = ((checks, unchecked, idx), pc')"
  shows "checks = List.map_filter (served env pc ctx) rs"
    and "unchecked = filter (\<lambda>r. served env pc ctx r = None) rs"
    and "idx = (\<lambda>i. if i < length rs then served env pc ctx (rs ! i) else None)"
    and "caches_wf wfr wfl pc'" and "reads_alike env pc pc'"
  using CheckRelations_from_spec[OF assms(1) assms(2)[unfolded CheckRelations_def]]
  by (auto simp: fun_eq_iff split: option.splits)

end

end
