(* ===== verification/DirectCache.thy ===== *)
theory DirectCache
  imports RelationCache
begin

text \<open>
  Writing the relation caches (\<open>addDirectRelation\<close> to \<open>removeDirectRelationsByTarget\<close> of
  \<open>projectauthzcache.go\<close>) and the invariant the invalidations rest on: each key of the direct
  cache has its components recorded and is listed under them in both indexes, and the
  components are those of a relation with that key. The indexes may list more than the cache
  holds (\<open>Remove\<close> does not run the eviction callback); they never list less.
\<close>

section \<open>Operations\<close>

definition addDirectRelation :: "('rc, 'lc, 'p) cache_env \<Rightarrow> FGARelation \<Rightarrow> cachedGrant \<Rightarrow>
    ('rc, 'lc, 'p) projectAuthzCache \<Rightarrow> ('rc, 'lc, 'p) projectAuthzCache" where
  "addDirectRelation env r grant pc =
    (let k = key r;
         (c, evicted) = lru_add (rel_lru env) (directRelationCache pc) k grant;
         pc1 = runEvictions evicted (pc\<lparr>directRelationCache := c\<rparr>);
         pc2 = pc1\<lparr>directKeyComponents :=
                 (directKeyComponents pc1)(k \<mapsto> \<lparr>kc_r = Resource r, kc_t = Target r\<rparr>)\<rparr>;
         pc3 = addKeyToDirectResourceIndex pc2 k (Resource r) (Target r)
     in addKeyToDirectTargetIndex pc3 k (Resource r) (Target r))"

definition addIndirectRelation :: "('rc, 'lc, 'p) cache_env \<Rightarrow> FGARelation \<Rightarrow> cachedGrant \<Rightarrow>
    ('rc, 'lc, 'p) projectAuthzCache \<Rightarrow> ('rc, 'lc, 'p) projectAuthzCache" where
  "addIndirectRelation env r grant pc =
     pc\<lparr>indirectRelationCache :=
          fst (lru_add (rel_lru env) (indirectRelationCache pc) (key r) grant)\<rparr>"

text \<open>The invalidation loops: for each entry of the inner map, in the order Go ranges over it,
  for each key of its slice, \<open>Remove\<close>; then the index entry goes.\<close>

definition removeDirectRelationsByResource :: "('rc, 'lc, 'p) cache_env \<Rightarrow> string \<Rightarrow>
    ('rc, 'lc, 'p) projectAuthzCache \<Rightarrow> ('rc, 'lc, 'p) projectAuthzCache" where
  "removeDirectRelationsByResource env r pc =
    (let targetsToKeys = (case directResourcesIndex pc r of None \<Rightarrow> [] | Some m \<Rightarrow> m);
         c = fold (\<lambda>t c. fold (\<lambda>k c. lru_remove (rel_lru env) c k) (lookup_list targetsToKeys t) c)
               (range_order env (map fst targetsToKeys)) (directRelationCache pc)
     in pc\<lparr>directRelationCache := c, directResourcesIndex := (directResourcesIndex pc)(r := None)\<rparr>)"

definition removeDirectRelationsByTarget :: "('rc, 'lc, 'p) cache_env \<Rightarrow> string \<Rightarrow>
    ('rc, 'lc, 'p) projectAuthzCache \<Rightarrow> ('rc, 'lc, 'p) projectAuthzCache" where
  "removeDirectRelationsByTarget env t pc =
    (let resourcesToKeys = (case directTargetsIndex pc t of None \<Rightarrow> [] | Some m \<Rightarrow> m);
         c = fold (\<lambda>r c. fold (\<lambda>k c. lru_remove (rel_lru env) c k) (lookup_list resourcesToKeys r) c)
               (range_order env (map fst resourcesToKeys)) (directRelationCache pc)
     in pc\<lparr>directRelationCache := c, directTargetsIndex := (directTargetsIndex pc)(t := None)\<rparr>)"

definition removeDirectRelationsByResourceAndTarget :: "('rc, 'lc, 'p) cache_env \<Rightarrow> FGARelation \<Rightarrow>
    ('rc, 'lc, 'p) projectAuthzCache \<Rightarrow> ('rc, 'lc, 'p) projectAuthzCache" where
  "removeDirectRelationsByResourceAndTarget env r pc =
     removeDirectRelationsByTarget env (Target r)
       (removeDirectRelationsByResource env (Resource r) pc)"

section \<open>The invariant\<close>

definition direct_indexed :: "('rc, 'lc, 'p) cache_env \<Rightarrow> ('rc, 'lc, 'p) projectAuthzCache \<Rightarrow> bool" where
  "direct_indexed env pc \<longleftrightarrow> (\<forall>k \<in> dom (direct_grants env pc).
     \<exists>r. key r = k \<and> directKeyComponents pc k = Some \<lparr>kc_r = Resource r, kc_t = Target r\<rparr> \<and>
         k \<in> set (resource_keys pc (Resource r) (Target r)) \<and>
         k \<in> set (target_keys pc (Resource r) (Target r)))"

lemma direct_indexedI:
  assumes "\<And>k g. direct_grants env pc k = Some g \<Longrightarrow>
    \<exists>r. key r = k \<and> directKeyComponents pc k = Some \<lparr>kc_r = Resource r, kc_t = Target r\<rparr> \<and>
         k \<in> set (resource_keys pc (Resource r) (Target r)) \<and>
         k \<in> set (target_keys pc (Resource r) (Target r))"
  shows "direct_indexed env pc"
  using assms by (auto simp: direct_indexed_def)

lemma direct_indexedE:
  assumes "direct_indexed env pc" "direct_grants env pc k = Some g"
  obtains r where "key r = k" "directKeyComponents pc k = Some \<lparr>kc_r = Resource r, kc_t = Target r\<rparr>"
    "k \<in> set (resource_keys pc (Resource r) (Target r))"
    "k \<in> set (target_keys pc (Resource r) (Target r))"
  using assms unfolding direct_indexed_def by blast

text \<open>The listings depend on their index only.\<close>

lemma resource_keys_cong: "directResourcesIndex pc' = directResourcesIndex pc \<Longrightarrow>
    resource_keys pc' = resource_keys pc"
  by (simp add: resource_keys_def fun_eq_iff)

lemma target_keys_cong: "directTargetsIndex pc' = directTargetsIndex pc \<Longrightarrow>
    target_keys pc' = target_keys pc"
  by (simp add: target_keys_def fun_eq_iff)

lemma direct_grants_cong: "directRelationCache pc' = directRelationCache pc \<Longrightarrow>
    direct_grants env pc' = direct_grants env pc"
  by (simp add: direct_grants_def)

lemma indirect_grants_cong: "indirectRelationCache pc' = indirectRelationCache pc \<Longrightarrow>
    indirect_grants env pc' = indirect_grants env pc"
  by (simp add: indirect_grants_def)

lemma direct_indexed_cong:
  assumes "directRelationCache pc' = directRelationCache pc"
    "directResourcesIndex pc' = directResourcesIndex pc"
    "directTargetsIndex pc' = directTargetsIndex pc"
    "directKeyComponents pc' = directKeyComponents pc"
  shows "direct_indexed env pc' = direct_indexed env pc"
  by (simp add: direct_indexed_def direct_grants_cong[OF assms(1)] resource_keys_cong[OF assms(2)]
      target_keys_cong[OF assms(3)] assms(4))

section \<open>Adding\<close>

lemma addDirectRelation_components:
  "directKeyComponents (addDirectRelation env r g pc) =
    (directKeyComponents pc |` (- lru_evicted (rel_lru env) (directRelationCache pc) (key r) g))
      (key r \<mapsto> \<lparr>kc_r = Resource r, kc_t = Target r\<rparr>)"
  by (simp add: addDirectRelation_def Let_def split_beta frame_simps runEvictions_components
      lru_evicted_def)

lemma addDirectRelation_keys:
  fixes pc :: "('rc, 'lc, 'p) projectAuthzCache"
  shows "k \<in> set (resource_keys pc r' t') \<or> k = key r \<and> r' = Resource r \<and> t' = Target r \<Longrightarrow>
      k \<notin> lru_evicted (rel_lru env) (directRelationCache pc) (key r) g \<Longrightarrow>
      k \<in> set (resource_keys (addDirectRelation env r g pc) r' t')"
    and "k \<in> set (target_keys pc r' t') \<or> k = key r \<and> r' = Resource r \<and> t' = Target r \<Longrightarrow>
      k \<notin> lru_evicted (rel_lru env) (directRelationCache pc) (key r) g \<Longrightarrow>
      k \<in> set (target_keys (addDirectRelation env r g pc) r' t')"
proof -
  let ?a = "lru_add (rel_lru env) (directRelationCache pc) (key r) g"
  let ?p = "pc\<lparr>directRelationCache := fst ?a\<rparr>"
  have kc: "resource_keys (q\<lparr>directKeyComponents := x\<rparr>) = resource_keys q"
    "target_keys (q\<lparr>directKeyComponents := x\<rparr>) = target_keys q"
    for q :: "('rc, 'lc, 'p) projectAuthzCache" and x
    by (simp_all add: resource_keys_def target_keys_def fun_eq_iff)
  have c: "resource_keys ?p = resource_keys pc" "target_keys ?p = target_keys pc"
    by (simp_all add: resource_keys_def target_keys_def fun_eq_iff)
  show "k \<in> set (resource_keys pc r' t') \<or> k = key r \<and> r' = Resource r \<and> t' = Target r \<Longrightarrow>
      k \<notin> lru_evicted (rel_lru env) (directRelationCache pc) (key r) g \<Longrightarrow>
      k \<in> set (resource_keys (addDirectRelation env r g pc) r' t')"
    by (auto simp: addDirectRelation_def Let_def split_beta frame_simps resource_index.in_keys_add kc
        runEvictions_keys_other lru_evicted_def c)
  show "k \<in> set (target_keys pc r' t') \<or> k = key r \<and> r' = Resource r \<and> t' = Target r \<Longrightarrow>
      k \<notin> lru_evicted (rel_lru env) (directRelationCache pc) (key r) g \<Longrightarrow>
      k \<in> set (target_keys (addDirectRelation env r g pc) r' t')"
    by (auto simp: addDirectRelation_def Let_def split_beta frame_simps target_index.in_keys_add kc
        runEvictions_keys_other lru_evicted_def c)
qed

lemma addDirectRelation_cache:
  "directRelationCache (addDirectRelation env r g pc) =
     fst (lru_add (rel_lru env) (directRelationCache pc) (key r) g)"
  by (simp add: addDirectRelation_def Let_def split_beta frame_simps)

text \<open>Everything the relation caches do not own is left alone by the operations above.\<close>

definition same_outside_relations :: "('rc, 'lc, 'p) projectAuthzCache \<Rightarrow>
    ('rc, 'lc, 'p) projectAuthzCache \<Rightarrow> bool" where
  "same_outside_relations pc pc' \<longleftrightarrow> (\<exists>d i ri ti kc. pc' = pc\<lparr>directRelationCache := d,
     directResourcesIndex := ri, directTargetsIndex := ti, directKeyComponents := kc,
     indirectRelationCache := i\<rparr>)"

lemma same_outside_relationsI:
  "pc' = pc\<lparr>directRelationCache := d, directResourcesIndex := ri, directTargetsIndex := ti,
     directKeyComponents := kc, indirectRelationCache := i\<rparr> \<Longrightarrow> same_outside_relations pc pc'"
  unfolding same_outside_relations_def by blast

lemma same_outside_relations_refl [simp]: "same_outside_relations pc pc"
  by (rule same_outside_relationsI[where d = "directRelationCache pc" and ri = "directResourcesIndex pc"
        and ti = "directTargetsIndex pc" and kc = "directKeyComponents pc"
        and i = "indirectRelationCache pc"]) simp

lemma same_outside_relations_trans:
  "same_outside_relations a b \<Longrightarrow> same_outside_relations b c \<Longrightarrow> same_outside_relations a c"
  unfolding same_outside_relations_def by (elim exE) (simp, blast)

lemma same_outside_relationsD:
  assumes "same_outside_relations pc pc'"
  shows "schemaCache pc' = schemaCache pc" "compiledConditions pc' = compiledConditions pc"
    "loadedSchemaVersion pc' = loadedSchemaVersion pc" "celEvalTimeout pc' = celEvalTimeout pc"
    "lookupCache pc' = lookupCache pc" "lookupCacheEnabled pc' = lookupCacheEnabled pc"
    "lookupCacheTTL pc' = lookupCacheTTL pc" "lookupCacheMaxResult pc' = lookupCacheMaxResult pc"
    "remoteChanges pc' = remoteChanges pc" "entryHeap pc' = entryHeap pc"
    "nextEntry pc' = nextEntry pc" "timers pc' = timers pc"
  using assms by (auto simp: same_outside_relations_def)

lemma same_but_indexes_outside: "same_but_indexes pc pc' \<Longrightarrow> same_outside_relations pc pc'"
proof -
  assume "same_but_indexes pc pc'"
  then obtain ri ti kc where eq: "pc' = pc\<lparr>directResourcesIndex := ri, directTargetsIndex := ti,
      directKeyComponents := kc\<rparr>"
    unfolding same_but_indexes_def by blast
  show ?thesis
    by (rule same_outside_relationsI[where d = "directRelationCache pc"
          and i = "indirectRelationCache pc" and ri = ri and ti = ti and kc = kc]) (simp add: eq)
qed

lemma same_outside_direct [simp]: "same_outside_relations pc (pc\<lparr>directRelationCache := c\<rparr>)"
  by (rule same_outside_relationsI[where d = c and ri = "directResourcesIndex pc"
        and ti = "directTargetsIndex pc" and kc = "directKeyComponents pc"
        and i = "indirectRelationCache pc"]) simp

lemma same_outside_components [simp]: "same_outside_relations pc (pc\<lparr>directKeyComponents := kc\<rparr>)"
  by (rule same_outside_relationsI[where d = "directRelationCache pc" and ri = "directResourcesIndex pc"
        and ti = "directTargetsIndex pc" and kc = kc and i = "indirectRelationCache pc"]) simp

lemma same_outside_indirect [simp]: "same_outside_relations pc (pc\<lparr>indirectRelationCache := c\<rparr>)"
  by (rule same_outside_relationsI[where d = "directRelationCache pc" and ri = "directResourcesIndex pc"
        and ti = "directTargetsIndex pc" and kc = "directKeyComponents pc" and i = c]) simp

lemma same_outside_addDirect [simp]: "same_outside_relations pc (addDirectRelation env r g pc)"
  unfolding addDirectRelation_def Let_def split_beta
  by (intro same_outside_relations_trans[OF _ same_but_indexes_outside[OF same_add_target]]
      same_outside_relations_trans[OF _ same_but_indexes_outside[OF same_add_resource]]
      same_outside_relations_trans[OF _ same_outside_components]
      same_outside_relations_trans[OF _ same_but_indexes_outside[OF same_runEvictions]]
      same_outside_direct)

lemma same_outside_addIndirect [simp]: "same_outside_relations pc (addIndirectRelation env r g pc)"
  by (simp add: addIndirectRelation_def)

lemma same_outside_removeByResource [simp]:
  "same_outside_relations pc (removeDirectRelationsByResource env r pc)"
  unfolding removeDirectRelationsByResource_def Let_def same_outside_relations_def
  by (intro exI[where x = "indirectRelationCache pc"] exI[where x = "directTargetsIndex pc"]
      exI[where x = "directKeyComponents pc"] exI) simp

lemma same_outside_removeByTarget [simp]:
  "same_outside_relations pc (removeDirectRelationsByTarget env t pc)"
  unfolding removeDirectRelationsByTarget_def Let_def same_outside_relations_def
  by (intro exI[where x = "indirectRelationCache pc"] exI[where x = "directResourcesIndex pc"]
      exI[where x = "directKeyComponents pc"] exI) simp

lemma same_outside_removeBoth [simp]:
  "same_outside_relations pc (removeDirectRelationsByResourceAndTarget env r pc)"
  unfolding removeDirectRelationsByResourceAndTarget_def
  by (rule same_outside_relations_trans[OF same_outside_removeByResource same_outside_removeByTarget])

section \<open>Effects under the cache contract\<close>

context cache_contract
begin

lemma caches_wf_cong:
  assumes "lookupCache pc' = lookupCache pc" "wfr (directRelationCache pc')" "wfr (indirectRelationCache pc')"
    "caches_wf wfr wfl pc"
  shows "caches_wf wfr wfl pc'"
  using assms by (simp add: caches_wf_def)

lemma addDirectRelation_grants:
  assumes "caches_wf wfr wfl pc"
  shows "direct_grants env (addDirectRelation env r g pc) =
      ((direct_grants env pc)(key r \<mapsto> g)) |` (- lru_evicted (rel_lru env) (directRelationCache pc) (key r) g)"
    and "indirect_grants env (addDirectRelation env r g pc) = indirect_grants env pc"
    and "caches_wf wfr wfl (addDirectRelation env r g pc)"
proof -
  have wf: "wfr (directRelationCache pc)" "wfr (indirectRelationCache pc)"
    using assms by (simp_all add: caches_wf_def)
  have ind: "indirectRelationCache (addDirectRelation env r g pc) = indirectRelationCache pc"
    by (simp add: addDirectRelation_def Let_def split_beta same_but_indexesD[OF same_add_target]
        same_but_indexesD[OF same_add_resource])
  show "direct_grants env (addDirectRelation env r g pc) =
      ((direct_grants env pc)(key r \<mapsto> g)) |` (- lru_evicted (rel_lru env) (directRelationCache pc) (key r) g)"
    using rel.add_content[OF wf(1)] by (simp add: direct_grants_def addDirectRelation_cache)
  show "indirect_grants env (addDirectRelation env r g pc) = indirect_grants env pc"
    by (rule indirect_grants_cong[OF ind])
  show "caches_wf wfr wfl (addDirectRelation env r g pc)"
    using rel.wf_add[OF wf(1)] wf(2)
    by (intro caches_wf_cong[OF _ _ _ assms])
       (simp_all add: addDirectRelation_cache ind same_outside_relationsD(5)[OF same_outside_addDirect])
qed

lemma addDirectRelation_stored:
  assumes "caches_wf wfr wfl pc"
  shows "direct_grants env (addDirectRelation env r g pc) (key r) = Some g"
proof -
  have "key r \<notin> lru_evicted (rel_lru env) (directRelationCache pc) (key r) g"
    using assms by (intro rel.add_not_evicted) (simp add: caches_wf_def)
  then show ?thesis by (simp add: addDirectRelation_grants(1)[OF assms] restrict_map_def)
qed

lemma addDirectRelation_indexed:
  assumes "caches_wf wfr wfl pc" "direct_indexed env pc"
  shows "direct_indexed env (addDirectRelation env r g pc)"
proof (rule direct_indexedI)
  fix k g'
  let ?pc = "addDirectRelation env r g pc"
  let ?ev = "lru_evicted (rel_lru env) (directRelationCache pc) (key r) g"
  assume "direct_grants env ?pc k = Some g'"
  then have notev: "k \<notin> ?ev" and old: "k = key r \<or> direct_grants env pc k = Some g'"
    by (auto simp: addDirectRelation_grants[OF assms(1)] restrict_map_def split: if_splits)
  show "\<exists>r. key r = k \<and> directKeyComponents ?pc k = Some \<lparr>kc_r = Resource r, kc_t = Target r\<rparr> \<and>
         k \<in> set (resource_keys ?pc (Resource r) (Target r)) \<and>
         k \<in> set (target_keys ?pc (Resource r) (Target r))"
  proof (cases "k = key r")
    case True
    then show ?thesis
      using notev addDirectRelation_keys[where k = k and pc = pc and r = r and env = env and g = g and
          r' = "Resource r" and t' = "Target r"]
      by (intro exI[of _ r]) (auto simp: addDirectRelation_components)
  next
    case False
    with old have "direct_grants env pc k = Some g'" by simp
    then obtain r' where r': "key r' = k"
      "directKeyComponents pc k = Some \<lparr>kc_r = Resource r', kc_t = Target r'\<rparr>"
      "k \<in> set (resource_keys pc (Resource r') (Target r'))"
      "k \<in> set (target_keys pc (Resource r') (Target r'))"
      by (rule direct_indexedE[OF assms(2)])
    then show ?thesis
      using False notev addDirectRelation_keys[where k = k and pc = pc and r' = "Resource r'" and t' = "Target r'"]
      by (intro exI[of _ r']) (auto simp: addDirectRelation_components restrict_map_def)
  qed
qed

lemma addIndirectRelation_grants:
  assumes "caches_wf wfr wfl pc"
  shows "direct_grants env (addIndirectRelation env r g pc) = direct_grants env pc"
    and "indirect_grants env (addIndirectRelation env r g pc) =
      ((indirect_grants env pc)(key r \<mapsto> g)) |` (- lru_evicted (rel_lru env) (indirectRelationCache pc) (key r) g)"
    and "caches_wf wfr wfl (addIndirectRelation env r g pc)"
    and "direct_indexed env (addIndirectRelation env r g pc) = direct_indexed env pc"
proof -
  have wf: "wfr (indirectRelationCache pc)" using assms by (simp add: caches_wf_def)
  show "direct_grants env (addIndirectRelation env r g pc) = direct_grants env pc"
    by (simp add: direct_grants_def addIndirectRelation_def)
  show "indirect_grants env (addIndirectRelation env r g pc) =
      ((indirect_grants env pc)(key r \<mapsto> g)) |` (- lru_evicted (rel_lru env) (indirectRelationCache pc) (key r) g)"
    using rel.add_content[OF wf] by (simp add: indirect_grants_def addIndirectRelation_def)
  show "caches_wf wfr wfl (addIndirectRelation env r g pc)"
    using assms rel.wf_add[OF wf] by (simp add: caches_wf_def addIndirectRelation_def)
  show "direct_indexed env (addIndirectRelation env r g pc) = direct_indexed env pc"
    by (rule direct_indexed_cong) (simp_all add: addIndirectRelation_def)
qed

subsection \<open>Invalidation\<close>

lemma removeByResource_cache:
  assumes "wfr (directRelationCache pc)"
  shows "wfr (directRelationCache (removeDirectRelationsByResource env r pc))"
    and "direct_grants env (removeDirectRelationsByResource env r pc) =
      direct_grants env pc |` (- {k. \<exists>t. k \<in> set (resource_keys pc r t)})"
proof -
  let ?m = "case directResourcesIndex pc r of None \<Rightarrow> [] | Some m \<Rightarrow> m"
  have keys: "(\<Union>t\<in>set (range_order env (map fst ?m)). set (lookup_list ?m t)) =
      {k. \<exists>t. k \<in> set (resource_keys pc r t)}"
    by (auto simp: range_order_set resource_keys_def split: option.splits dest: lookup_list_in_keys)
  show "wfr (directRelationCache (removeDirectRelationsByResource env r pc))"
    by (simp add: removeDirectRelationsByResource_def Let_def rel.wf_remove_lists[OF assms])
  show "direct_grants env (removeDirectRelationsByResource env r pc) =
      direct_grants env pc |` (- {k. \<exists>t. k \<in> set (resource_keys pc r t)})"
    unfolding direct_grants_def removeDirectRelationsByResource_def Let_def
    by simp (subst rel.remove_lists_content[OF assms], simp only: keys)
qed

lemma removeByTarget_cache:
  assumes "wfr (directRelationCache pc)"
  shows "wfr (directRelationCache (removeDirectRelationsByTarget env t pc))"
    and "direct_grants env (removeDirectRelationsByTarget env t pc) =
      direct_grants env pc |` (- {k. \<exists>r. k \<in> set (target_keys pc r t)})"
proof -
  let ?m = "case directTargetsIndex pc t of None \<Rightarrow> [] | Some m \<Rightarrow> m"
  have keys: "(\<Union>r\<in>set (range_order env (map fst ?m)). set (lookup_list ?m r)) =
      {k. \<exists>r. k \<in> set (target_keys pc r t)}"
    by (auto simp: range_order_set target_keys_def split: option.splits dest: lookup_list_in_keys)
  show "wfr (directRelationCache (removeDirectRelationsByTarget env t pc))"
    by (simp add: removeDirectRelationsByTarget_def Let_def rel.wf_remove_lists[OF assms])
  show "direct_grants env (removeDirectRelationsByTarget env t pc) =
      direct_grants env pc |` (- {k. \<exists>r. k \<in> set (target_keys pc r t)})"
    unfolding direct_grants_def removeDirectRelationsByTarget_def Let_def
    by simp (subst rel.remove_lists_content[OF assms], simp only: keys)
qed

end

lemma removeByResource_frame [simp]:
  "directKeyComponents (removeDirectRelationsByResource env r pc) = directKeyComponents pc"
  "target_keys (removeDirectRelationsByResource env r pc) = target_keys pc"
  "indirectRelationCache (removeDirectRelationsByResource env r pc) = indirectRelationCache pc"
  "resource_keys (removeDirectRelationsByResource env r pc) r' =
     (if r' = r then (\<lambda>_. []) else resource_keys pc r')"
  by (simp_all add: removeDirectRelationsByResource_def Let_def target_keys_def resource_keys_def fun_eq_iff)

lemma removeByTarget_frame [simp]:
  "directKeyComponents (removeDirectRelationsByTarget env t pc) = directKeyComponents pc"
  "resource_keys (removeDirectRelationsByTarget env t pc) = resource_keys pc"
  "indirectRelationCache (removeDirectRelationsByTarget env t pc) = indirectRelationCache pc"
  "target_keys (removeDirectRelationsByTarget env t pc) r t' =
     (if t' = t then [] else target_keys pc r t')"
  by (simp_all add: removeDirectRelationsByTarget_def Let_def target_keys_def resource_keys_def fun_eq_iff)

text \<open>The grants that survive an invalidation: those whose recorded components avoid what was
  swept. This is what makes an invalidation complete.\<close>

definition swept :: "FGARelation \<Rightarrow> keyComponents \<Rightarrow> bool" where
  "swept r c \<longleftrightarrow> kc_r c = Resource r \<or> kc_t c = Target r"

context cache_contract
begin

lemma removeByResource_indexed:
  assumes "caches_wf wfr wfl pc" "direct_indexed env pc"
  shows "direct_indexed env (removeDirectRelationsByResource env r pc)"
    and "direct_grants env (removeDirectRelationsByResource env r pc) k = Some g \<Longrightarrow>
      direct_grants env pc k = Some g \<and>
      (\<exists>c. directKeyComponents pc k = Some c \<and> kc_r c \<noteq> r)"
    and "caches_wf wfr wfl (removeDirectRelationsByResource env r pc)"
proof -
  have wf: "wfr (directRelationCache pc)" using assms(1) by (simp add: caches_wf_def)
  note eff = removeByResource_cache[OF wf]
  have old: "direct_grants env pc k = Some g"
    and notin: "\<And>t. k \<notin> set (resource_keys pc r t)"
    if "direct_grants env (removeDirectRelationsByResource env r pc) k = Some g" for k g
    using that by (auto simp: eff restrict_map_def split: if_splits)
  show "direct_indexed env (removeDirectRelationsByResource env r pc)"
  proof (rule direct_indexedI)
    fix k g
    assume a: "direct_grants env (removeDirectRelationsByResource env r pc) k = Some g"
    obtain r' where r': "key r' = k"
      "directKeyComponents pc k = Some \<lparr>kc_r = Resource r', kc_t = Target r'\<rparr>"
      "k \<in> set (resource_keys pc (Resource r') (Target r'))"
      "k \<in> set (target_keys pc (Resource r') (Target r'))"
      by (rule direct_indexedE[OF assms(2) old[OF a]])
    moreover have "Resource r' \<noteq> r" using r'(3) notin[OF a] by auto
    ultimately show "\<exists>r'. key r' = k \<and>
       directKeyComponents (removeDirectRelationsByResource env r pc) k =
         Some \<lparr>kc_r = Resource r', kc_t = Target r'\<rparr> \<and>
       k \<in> set (resource_keys (removeDirectRelationsByResource env r pc) (Resource r') (Target r')) \<and>
       k \<in> set (target_keys (removeDirectRelationsByResource env r pc) (Resource r') (Target r'))"
      by (intro exI[of _ r']) simp
  qed
  show "direct_grants env pc k = Some g \<and> (\<exists>c. directKeyComponents pc k = Some c \<and> kc_r c \<noteq> r)"
    if a: "direct_grants env (removeDirectRelationsByResource env r pc) k = Some g"
  proof -
    obtain r' where r': "key r' = k"
      "directKeyComponents pc k = Some \<lparr>kc_r = Resource r', kc_t = Target r'\<rparr>"
      "k \<in> set (resource_keys pc (Resource r') (Target r'))"
      "k \<in> set (target_keys pc (Resource r') (Target r'))"
      by (rule direct_indexedE[OF assms(2) old[OF a]])
    from r'(3) have "Resource r' \<noteq> r" using notin[OF a] by auto
    with r'(2) show ?thesis using old[OF a] by auto
  qed
  show "caches_wf wfr wfl (removeDirectRelationsByResource env r pc)"
  proof -
    have "lookupCache (removeDirectRelationsByResource env r pc) = lookupCache pc"
      by (rule same_outside_relationsD) simp
    with assms(1) eff(1)[of r] show ?thesis by (simp add: caches_wf_def)
  qed
qed

lemma removeByTarget_indexed:
  assumes "caches_wf wfr wfl pc" "direct_indexed env pc"
  shows "direct_indexed env (removeDirectRelationsByTarget env t pc)"
    and "direct_grants env (removeDirectRelationsByTarget env t pc) k = Some g \<Longrightarrow>
      direct_grants env pc k = Some g \<and>
      (\<exists>c. directKeyComponents pc k = Some c \<and> kc_t c \<noteq> t)"
    and "caches_wf wfr wfl (removeDirectRelationsByTarget env t pc)"
proof -
  have wf: "wfr (directRelationCache pc)" using assms(1) by (simp add: caches_wf_def)
  note eff = removeByTarget_cache[OF wf]
  have old: "direct_grants env pc k = Some g"
    and notin: "\<And>r. k \<notin> set (target_keys pc r t)"
    if "direct_grants env (removeDirectRelationsByTarget env t pc) k = Some g" for k g
    using that by (auto simp: eff restrict_map_def split: if_splits)
  show "direct_indexed env (removeDirectRelationsByTarget env t pc)"
  proof (rule direct_indexedI)
    fix k g
    assume a: "direct_grants env (removeDirectRelationsByTarget env t pc) k = Some g"
    obtain r' where r': "key r' = k"
      "directKeyComponents pc k = Some \<lparr>kc_r = Resource r', kc_t = Target r'\<rparr>"
      "k \<in> set (resource_keys pc (Resource r') (Target r'))"
      "k \<in> set (target_keys pc (Resource r') (Target r'))"
      by (rule direct_indexedE[OF assms(2) old[OF a]])
    moreover have "Target r' \<noteq> t" using r'(4) notin[OF a] by auto
    ultimately show "\<exists>r'. key r' = k \<and>
       directKeyComponents (removeDirectRelationsByTarget env t pc) k =
         Some \<lparr>kc_r = Resource r', kc_t = Target r'\<rparr> \<and>
       k \<in> set (resource_keys (removeDirectRelationsByTarget env t pc) (Resource r') (Target r')) \<and>
       k \<in> set (target_keys (removeDirectRelationsByTarget env t pc) (Resource r') (Target r'))"
      by (intro exI[of _ r']) simp
  qed
  show "direct_grants env pc k = Some g \<and> (\<exists>c. directKeyComponents pc k = Some c \<and> kc_t c \<noteq> t)"
    if a: "direct_grants env (removeDirectRelationsByTarget env t pc) k = Some g"
  proof -
    obtain r' where r': "key r' = k"
      "directKeyComponents pc k = Some \<lparr>kc_r = Resource r', kc_t = Target r'\<rparr>"
      "k \<in> set (resource_keys pc (Resource r') (Target r'))"
      "k \<in> set (target_keys pc (Resource r') (Target r'))"
      by (rule direct_indexedE[OF assms(2) old[OF a]])
    from r'(4) have "Target r' \<noteq> t" using notin[OF a] by auto
    with r'(2) show ?thesis using old[OF a] by auto
  qed
  show "caches_wf wfr wfl (removeDirectRelationsByTarget env t pc)"
  proof -
    have "lookupCache (removeDirectRelationsByTarget env t pc) = lookupCache pc"
      by (rule same_outside_relationsD) simp
    with assms(1) eff(1)[of t] show ?thesis by (simp add: caches_wf_def)
  qed
qed

lemma removeBoth_indexed:
  assumes "caches_wf wfr wfl pc" "direct_indexed env pc"
  shows "direct_indexed env (removeDirectRelationsByResourceAndTarget env r pc)"
    and "direct_grants env (removeDirectRelationsByResourceAndTarget env r pc) k = Some g \<Longrightarrow>
      direct_grants env pc k = Some g \<and> (\<exists>c. directKeyComponents pc k = Some c \<and> \<not> swept r c)"
    and "caches_wf wfr wfl (removeDirectRelationsByResourceAndTarget env r pc)"
    and "directKeyComponents (removeDirectRelationsByResourceAndTarget env r pc) = directKeyComponents pc"
    and "indirect_grants env (removeDirectRelationsByResourceAndTarget env r pc) = indirect_grants env pc"
proof -
  note a = removeByResource_indexed[OF assms, of "Resource r"]
  note b = removeByTarget_indexed[OF a(3) a(1), of "Target r"]
  show "direct_indexed env (removeDirectRelationsByResourceAndTarget env r pc)"
    "caches_wf wfr wfl (removeDirectRelationsByResourceAndTarget env r pc)"
    "directKeyComponents (removeDirectRelationsByResourceAndTarget env r pc) = directKeyComponents pc"
    using b(1,3) by (simp_all add: removeDirectRelationsByResourceAndTarget_def)
  show "indirect_grants env (removeDirectRelationsByResourceAndTarget env r pc) = indirect_grants env pc"
    by (rule indirect_grants_cong) (simp add: removeDirectRelationsByResourceAndTarget_def)
  show "direct_grants env pc k = Some g \<and> (\<exists>c. directKeyComponents pc k = Some c \<and> \<not> swept r c)"
    if "direct_grants env (removeDirectRelationsByResourceAndTarget env r pc) k = Some g"
    using b(2)[OF that[unfolded removeDirectRelationsByResourceAndTarget_def]] a(2)[of k g]
    by (auto simp: swept_def)
qed

end

end
