(* ===== verification/GoStrings.thy ===== *)
theory GoStrings
  imports Prelude
begin

text \<open>
  The functions of Go's \<open>strings\<close> package that the program calls, on byte strings. Separators
  and cut sets are single ASCII characters in every call, so they are characters here.
\<close>

section \<open>SplitN\<close>

text \<open>\<open>strings.SplitN(s, sep, n)\<close> cuts at the first \<open>n - 1\<close> separators.\<close>

fun cut :: "char \<Rightarrow> string \<Rightarrow> (string \<times> string) option" where
  "cut c [] = None"
| "cut c (x # xs) = (if x = c then Some ([], xs)
     else map_option (\<lambda>(a, b). (x # a, b)) (cut c xs))"

fun SplitN :: "char \<Rightarrow> nat \<Rightarrow> string \<Rightarrow> string list" where
  "SplitN c 0 s = []"
| "SplitN c (Suc 0) s = [s]"
| "SplitN c (Suc (Suc n)) s = (case cut c s of
     None \<Rightarrow> [s] | Some (a, b) \<Rightarrow> a # SplitN c (Suc n) b)"

lemma cut_append: "c \<notin> set a \<Longrightarrow> cut c (a @ c # b) = Some (a, b)"
  by (induction a) auto

lemma cut_None: "cut c s = None \<longleftrightarrow> c \<notin> set s"
  by (induction s) auto

lemma cut_Some: "cut c s = Some (a, b) \<Longrightarrow> s = a @ c # b \<and> c \<notin> set a"
  by (induction s arbitrary: a) (auto split: if_splits)

lemma SplitN_3_join:
  "c \<notin> set a \<Longrightarrow> c \<notin> set b \<Longrightarrow> SplitN c 3 (a @ [c] @ b @ [c] @ d) = [a, b, d]"
  by (simp add: numeral_3_eq_3 cut_append)

lemma SplitN_3_recompose:
  "SplitN c 3 s = [a, b, d] \<Longrightarrow> s = a @ [c] @ b @ [c] @ d \<and> c \<notin> set a \<and> c \<notin> set b"
  by (auto simp: numeral_3_eq_3 split: option.splits dest!: cut_Some)

section \<open>TrimRight and TrimSpace\<close>

definition TrimRight :: "string \<Rightarrow> char \<Rightarrow> string" where
  "TrimRight s c = rev (dropWhile (\<lambda>x. x = c) (rev s))"

text \<open>
  \<open>strings.TrimSpace\<close> removes leading and trailing Unicode white space. On a byte string the
  white space characters are these byte sequences: the ASCII ones, and the UTF-8 encodings of
  U+0085, U+00A0, U+1680, U+2000 to U+200A, U+2028, U+2029, U+202F, U+205F and U+3000.
\<close>

definition space_runes :: "string list" where
  "space_runes = map (map char_of)
     ([[9], [10], [11], [12], [13], [32 :: nat], [194, 133], [194, 160], [225, 154, 128],
       [226, 128, 168], [226, 128, 169], [226, 128, 175], [226, 129, 159], [227, 128, 128]] @
      map (\<lambda>i. [226, 128, 128 + i]) [0 ..< 11])"

text \<open>The length of a white space character that \<open>s\<close> starts with (zero when it does not).\<close>

definition space_prefix :: "string list \<Rightarrow> string \<Rightarrow> nat" where
  "space_prefix spaces s = (case filter (\<lambda>w. take (length w) s = w) spaces of
     [] \<Rightarrow> 0 | w # _ \<Rightarrow> length w)"

function trim_spaces :: "string list \<Rightarrow> string \<Rightarrow> string" where
  "trim_spaces spaces s =
    (if space_prefix spaces s = 0 \<or> s = [] then s
     else trim_spaces spaces (drop (space_prefix spaces s) s))"
  by pat_completeness auto
termination
  by (relation "measure (\<lambda>(spaces, s). length s)") auto

declare trim_spaces.simps [simp del]

definition TrimSpace :: "string \<Rightarrow> string" where
  "TrimSpace s = rev (trim_spaces (map rev space_runes) (rev (trim_spaces space_runes s)))"

lemma trim_spaces_idem: "trim_spaces spaces (trim_spaces spaces s) = trim_spaces spaces s"
proof (induction spaces s rule: trim_spaces.induct)
  case (1 spaces s)
  then show ?case
    by (cases "space_prefix spaces s = 0 \<or> s = []")
       (simp_all add: trim_spaces.simps[of spaces s])
qed

lemma TrimRight_no_suffix: "TrimRight s c = [] \<or> last (TrimRight s c) \<noteq> c"
proof (cases "dropWhile (\<lambda>x. x = c) (rev s)")
  case Nil
  then show ?thesis by (simp add: TrimRight_def)
next
  case (Cons x xs)
  then have "x \<noteq> c" by (auto simp: dropWhile_eq_Cons_conv)
  with Cons show ?thesis by (simp add: TrimRight_def)
qed

lemma TrimRight_prefix: "\<exists>n. s = TrimRight s c @ replicate n c"
proof -
  let ?w = "takeWhile (\<lambda>x. x = c) (rev s)"
  have w: "?w = replicate (length ?w) c"
    by (rule replicate_eqI) (auto dest: set_takeWhileD)
  have "rev (?w @ dropWhile (\<lambda>x. x = c) (rev s)) = s"
    by (simp only: takeWhile_dropWhile_id rev_rev_ident)
  then have "s = TrimRight s c @ rev ?w"
    by (simp only: rev_append TrimRight_def)
  then show ?thesis
    using w by (metis rev_replicate)
qed

section \<open>Itoa\<close>

text \<open>\<open>strconv.Itoa\<close>: decimal digits, a minus sign before a negative number.\<close>

fun nat_digits :: "nat \<Rightarrow> string" where
  "nat_digits n = (if n < 10 then [char_of (48 + n)]
     else nat_digits (n div 10) @ [char_of (48 + n mod 10)])"

declare nat_digits.simps [simp del]

definition Itoa :: "go_int \<Rightarrow> string" where
  "Itoa w = (if sint w < 0 then ''-'' @ nat_digits (nat (- sint w)) else nat_digits (nat (sint w)))"

text \<open>Reading the digits back, to state that a printed number is the number.\<close>

definition digits_value :: "string \<Rightarrow> nat" where
  "digits_value s = foldl (\<lambda>n c. 10 * n + (of_char c - 48)) 0 s"

lemma digits_value_nat_digits: "digits_value (nat_digits n) = n"
proof (induction n rule: nat_digits.induct)
  case (1 n)
  show ?case
  proof (cases "n < 10")
    case True
    then show ?thesis
      by (simp add: nat_digits.simps[of n] digits_value_def of_char_of take_bit_eq_mod)
  next
    case False
    have d: "n mod 10 < 10" by simp
    have "digits_value (nat_digits n) = 10 * digits_value (nat_digits (n div 10)) + n mod 10"
      using False d by (simp add: nat_digits.simps[of n] digits_value_def of_char_of take_bit_eq_mod)
    then show ?thesis using "1.IH" False by simp
  qed
qed

lemma nat_digits_digit: "c \<in> set (nat_digits n) \<Longrightarrow> 48 \<le> (of_char c :: nat) \<and> (of_char c :: nat) \<le> 57"
proof (induction n rule: nat_digits.induct)
  case (1 n)
  then show ?case
    by (cases "n < 10")
       (auto simp: nat_digits.simps[of n] of_char_of take_bit_eq_mod)
qed

end
