(* ===== verification/LookupCache.thy ===== *)
theory LookupCache
  imports CacheState GoStrings
begin

text \<open>
  The lookup cache for \<open>WhoCanAccess\<close> and \<open>WhatCanTargetAccess\<close> (\<open>whoCanAccessKey\<close> to
  \<open>addToLookupCache\<close> of \<open>projectauthzcache.go\<close>). The readings of \<open>time.Now()\<close> within one
  critical section are the one instant \<open>now\<close>. Entries live in \<open>entryHeap\<close>, because
  \<open>addToLookupCache\<close> writes through the pointer the LRU cache returned; the slices inside an
  entry are only appended to, so lists model them.
\<close>

section \<open>Keys\<close>

definition whoCanAccessKey :: "string \<Rightarrow> string \<Rightarrow> string \<Rightarrow> cache_key" where
  "whoCanAccessKey resource relationDefinition namespace =
     ''wca:'' @ resource @ '':'' @ relationDefinition @ '':'' @ namespace"

definition whatCanTargetAccessKey :: "string \<Rightarrow> cache_key" where
  "whatCanTargetAccessKey target = ''wcta:'' @ target"

text \<open>The encoding of a relation in a \<open>WhatCanTargetAccess\<close> entry.\<close>

definition encode_relation :: "string \<Rightarrow> string \<Rightarrow> string \<Rightarrow> string" where
  "encode_relation resource relationDefinition namespace =
     resource @ ''|'' @ relationDefinition @ ''|'' @ namespace"

section \<open>Reading and writing the entries\<close>

text \<open>\<open>pc.lookupCache.Get(ctx, key)\<close>, then the entry behind the pointer.\<close>

definition lookup_entry :: "('rc, 'lc, 'p) cache_env \<Rightarrow> cache_key \<Rightarrow> ('rc, 'lc, 'p) projectAuthzCache \<Rightarrow>
    (addr \<times> LookupCacheEntry) option \<times> ('rc, 'lc, 'p) projectAuthzCache" where
  "lookup_entry env k pc = (case lookupCache pc of
     None \<Rightarrow> (None, pc)
   | Some c \<Rightarrow>
      (case lru_get (look_lru env) c k of
         (found, c') \<Rightarrow>
           (Option.bind found (\<lambda>a. map_option (\<lambda>e. (a, e)) (entryHeap pc a)),
            pc\<lparr>lookupCache := Some c'\<rparr>)))"

text \<open>\<open>pc.lookupCache.Add(ctx, key, &LookupCacheEntry{...})\<close>: a fresh entry.\<close>

definition store_entry :: "('rc, 'lc, 'p) cache_env \<Rightarrow> cache_key \<Rightarrow> LookupCacheEntry \<Rightarrow>
    ('rc, 'lc, 'p) projectAuthzCache \<Rightarrow> ('rc, 'lc, 'p) projectAuthzCache" where
  "store_entry env k e pc = (case lookupCache pc of
     None \<Rightarrow> pc
   | Some c \<Rightarrow> pc\<lparr>lookupCache := Some (fst (lru_add (look_lru env) c k (nextEntry pc))),
        entryHeap := (entryHeap pc)(nextEntry pc \<mapsto> e), nextEntry := Suc (nextEntry pc)\<rparr>)"

definition lookup_disabled :: "('rc, 'lc, 'p) projectAuthzCache \<Rightarrow> bool" where
  "lookup_disabled pc \<longleftrightarrow> \<not> lookupCacheEnabled pc \<or> lookupCache pc = None"

definition GetWhoCanAccessCached :: "('rc, 'lc, 'p) cache_env \<Rightarrow> gotime \<Rightarrow> string \<Rightarrow> string \<Rightarrow> string \<Rightarrow>
    ('rc, 'lc, 'p) projectAuthzCache \<Rightarrow> (string list \<times> bool) \<times> ('rc, 'lc, 'p) projectAuthzCache" where
  "GetWhoCanAccessCached env now resource relationDefinition namespace pc =
    (if lookup_disabled pc then (([], False), pc)
     else case lookup_entry env (whoCanAccessKey resource relationDefinition namespace) pc of
       (None, pc') \<Rightarrow> (([], False), pc')
     | (Some (a, entry), pc') \<Rightarrow>
        if now > ExpiresAt entry then (([], False), pc')
        else ((Results entry, True), pc'))"

definition SetWhoCanAccessCached :: "('rc, 'lc, 'p) cache_env \<Rightarrow> gotime \<Rightarrow> string \<Rightarrow> string \<Rightarrow> string \<Rightarrow>
    string list \<Rightarrow> ('rc, 'lc, 'p) projectAuthzCache \<Rightarrow> ('rc, 'lc, 'p) projectAuthzCache" where
  "SetWhoCanAccessCached env now resource relationDefinition namespace targets pc =
    (if lookup_disabled pc then pc
     else if go_less (lookupCacheMaxResult pc) (go_len targets) then pc
     else store_entry env (whoCanAccessKey resource relationDefinition namespace)
            \<lparr>Results = targets, CachedAt = now, ExpiresAt = now + sint (lookupCacheTTL pc)\<rparr> pc)"

text \<open>The loop that decodes an entry: results that do not split into three parts are skipped.\<close>

fun decode_relations :: "string \<Rightarrow> string list \<Rightarrow> AuthzRelation list" where
  "decode_relations target [] = []"
| "decode_relations target (r # rs) =
    (case SplitN (CHR ''|'') 3 r of
       [p0, p1, p2] \<Rightarrow> \<lparr>AR_Resource = p0, AR_RelationDefinition = p1, AR_Namespace = p2,
           AR_Target = target, AR_TargetSetResource = '''', AR_TargetSetRelationDefinition = '''',
           AR_TargetSetRelationDefinitionNamespace = ''''\<rparr> # decode_relations target rs
     | _ \<Rightarrow> decode_relations target rs)"

definition GetWhatCanTargetAccessCached :: "('rc, 'lc, 'p) cache_env \<Rightarrow> gotime \<Rightarrow> string \<Rightarrow>
    ('rc, 'lc, 'p) projectAuthzCache \<Rightarrow>
    (AuthzRelation list \<times> bool) \<times> ('rc, 'lc, 'p) projectAuthzCache" where
  "GetWhatCanTargetAccessCached env now target pc =
    (if lookup_disabled pc then (([], False), pc)
     else case lookup_entry env (whatCanTargetAccessKey target) pc of
       (None, pc') \<Rightarrow> (([], False), pc')
     | (Some (a, entry), pc') \<Rightarrow>
        if now > ExpiresAt entry then (([], False), pc')
        else (let relations = decode_relations target (Results entry)
              in if relations = [] then (([], False), pc') else ((relations, True), pc')))"

definition SetWhatCanTargetAccessCached :: "('rc, 'lc, 'p) cache_env \<Rightarrow> gotime \<Rightarrow> string \<Rightarrow>
    AuthzRelation list \<Rightarrow> ('rc, 'lc, 'p) projectAuthzCache \<Rightarrow> ('rc, 'lc, 'p) projectAuthzCache" where
  "SetWhatCanTargetAccessCached env now target relations pc =
    (if lookup_disabled pc then pc
     else if go_less (lookupCacheMaxResult pc) (go_len relations) then pc
     else store_entry env (whatCanTargetAccessKey target)
            \<lparr>Results = map (\<lambda>r. encode_relation (AR_Resource r) (AR_RelationDefinition r)
                               (AR_Namespace r)) relations,
             CachedAt = now, ExpiresAt = now + sint (lookupCacheTTL pc)\<rparr> pc)"

text \<open>\<open>Purge\<close> of the lookup cache; it has no eviction callback.\<close>

definition purgeLookupCache :: "('rc, 'lc, 'p) cache_env \<Rightarrow> ('rc, 'lc, 'p) projectAuthzCache \<Rightarrow>
    ('rc, 'lc, 'p) projectAuthzCache" where
  "purgeLookupCache env pc = (case lookupCache pc of
     None \<Rightarrow> pc
   | Some c \<Rightarrow> pc\<lparr>lookupCache := Some (fst (lru_purge (look_lru env) c))\<rparr>)"

definition InvalidateLookupCache :: "('rc, 'lc, 'p) cache_env \<Rightarrow> ('rc, 'lc, 'p) projectAuthzCache \<Rightarrow>
    ('rc, 'lc, 'p) projectAuthzCache" where
  "InvalidateLookupCache env pc = (if lookup_disabled pc then pc else purgeLookupCache env pc)"

section \<open>Adding a relation to existing entries\<close>

text \<open>One of the two blocks of \<open>addToLookupCache\<close>: the entry under \<open>k\<close>, when there is one that
  has not expired, gains \<open>x\<close> unless it has it.\<close>

definition append_result :: "('rc, 'lc, 'p) cache_env \<Rightarrow> gotime \<Rightarrow> cache_key \<Rightarrow> string \<Rightarrow>
    ('rc, 'lc, 'p) projectAuthzCache \<Rightarrow> ('rc, 'lc, 'p) projectAuthzCache" where
  "append_result env now k x pc =
    (case lookup_entry env k pc of
       (None, pc') \<Rightarrow> pc'
     | (Some (a, entry), pc') \<Rightarrow>
        if now < ExpiresAt entry \<and> x \<notin> set (Results entry)
        then pc'\<lparr>entryHeap := (entryHeap pc')(a \<mapsto> entry\<lparr>Results := Results entry @ [x]\<rparr>)\<rparr>
        else pc')"

definition addToLookupCache :: "('rc, 'lc, 'p) cache_env \<Rightarrow> gotime \<Rightarrow> FGARelation \<Rightarrow>
    ('rc, 'lc, 'p) projectAuthzCache \<Rightarrow> ('rc, 'lc, 'p) projectAuthzCache" where
  "addToLookupCache env now r pc =
    (if lookup_disabled pc then pc
     else append_result env now (whatCanTargetAccessKey (Target r))
            (encode_relation (Resource r) (Relation r) (ResourceType r))
            (append_result env now (whoCanAccessKey (Resource r) (Relation r) (ResourceType r))
               (Target r) pc))"

section \<open>The entries as a map\<close>

text \<open>The abstract lookup cache: the entry a key leads to, through the LRU cache and the heap.\<close>

definition lookup_entries :: "('rc, 'lc, 'p) cache_env \<Rightarrow> ('rc, 'lc, 'p) projectAuthzCache \<Rightarrow>
    cache_key \<rightharpoonup> LookupCacheEntry" where
  "lookup_entries env pc = (\<lambda>k. case lookupCache pc of
     None \<Rightarrow> None
   | Some c \<Rightarrow> Option.bind (lru_content (look_lru env) c k) (entryHeap pc))"

text \<open>Stored addresses are allocated and no two keys share one, so writing through one pointer
  changes one entry.\<close>

definition lookup_inv :: "('rc, 'lc, 'p) cache_env \<Rightarrow> ('lc \<Rightarrow> bool) \<Rightarrow>
    ('rc, 'lc, 'p) projectAuthzCache \<Rightarrow> bool" where
  "lookup_inv env wfl pc \<longleftrightarrow> (case lookupCache pc of
     None \<Rightarrow> True
   | Some c \<Rightarrow> wfl c \<and>
      (\<forall>k k' a. lru_content (look_lru env) c k = Some a \<and> lru_content (look_lru env) c k' = Some a \<longrightarrow> k = k') \<and>
      (\<forall>k a. lru_content (look_lru env) c k = Some a \<longrightarrow> a < nextEntry pc \<and> entryHeap pc a \<noteq> None))"

text \<open>Everything outside the lookup cache and its heap.\<close>

definition same_outside_lookup :: "('rc, 'lc, 'p) projectAuthzCache \<Rightarrow>
    ('rc, 'lc, 'p) projectAuthzCache \<Rightarrow> bool" where
  "same_outside_lookup pc pc' \<longleftrightarrow>
     (\<exists>c h n. pc' = pc\<lparr>lookupCache := c, entryHeap := h, nextEntry := n\<rparr>) \<and>
     (lookupCache pc' = None \<longleftrightarrow> lookupCache pc = None)"

lemma same_outside_lookupI:
  assumes "pc' = pc\<lparr>lookupCache := c, entryHeap := h, nextEntry := n\<rparr>"
    "c = None \<longleftrightarrow> lookupCache pc = None"
  shows "same_outside_lookup pc pc'"
  using assms unfolding same_outside_lookup_def by auto

lemma same_outside_lookup_refl [simp]: "same_outside_lookup pc pc"
  by (rule same_outside_lookupI[where c = "lookupCache pc" and h = "entryHeap pc" and n = "nextEntry pc"])
     simp_all

lemma same_outside_lookup_trans:
  "same_outside_lookup a b \<Longrightarrow> same_outside_lookup b c \<Longrightarrow> same_outside_lookup a c"
  unfolding same_outside_lookup_def by (elim conjE exE) (simp, blast)

lemma same_outside_lookupD:
  assumes "same_outside_lookup pc pc'"
  shows "directRelationCache pc' = directRelationCache pc"
    "indirectRelationCache pc' = indirectRelationCache pc"
    "directResourcesIndex pc' = directResourcesIndex pc"
    "directTargetsIndex pc' = directTargetsIndex pc"
    "directKeyComponents pc' = directKeyComponents pc"
    "schemaCache pc' = schemaCache pc" "compiledConditions pc' = compiledConditions pc"
    "loadedSchemaVersion pc' = loadedSchemaVersion pc" "celEvalTimeout pc' = celEvalTimeout pc"
    "lookupCacheEnabled pc' = lookupCacheEnabled pc"
    "lookupCacheTTL pc' = lookupCacheTTL pc" "lookupCacheMaxResult pc' = lookupCacheMaxResult pc"
    "remoteChanges pc' = remoteChanges pc" "timers pc' = timers pc"
    "lookup_disabled pc' = lookup_disabled pc"
  using assms by (auto simp: same_outside_lookup_def lookup_disabled_def)

text \<open>The block of \<open>addToLookupCache\<close> on the abstract entries.\<close>

definition append_spec :: "gotime \<Rightarrow> cache_key \<Rightarrow> string \<Rightarrow> (cache_key \<rightharpoonup> LookupCacheEntry) \<Rightarrow>
    cache_key \<rightharpoonup> LookupCacheEntry" where
  "append_spec now k x m = (case m k of
     None \<Rightarrow> m
   | Some e \<Rightarrow> if now < ExpiresAt e \<and> x \<notin> set (Results e)
              then m(k \<mapsto> e\<lparr>Results := Results e @ [x]\<rparr>) else m)"

lemma append_spec_other: "k' \<noteq> k \<Longrightarrow> append_spec now k x m k' = m k'"
  by (simp add: append_spec_def split: option.splits)

text \<open>What happens to one entry.\<close>

definition extend_entry :: "gotime \<Rightarrow> string \<Rightarrow> LookupCacheEntry \<Rightarrow> LookupCacheEntry" where
  "extend_entry now x e = (if now < ExpiresAt e \<and> x \<notin> set (Results e)
     then e\<lparr>Results := Results e @ [x]\<rparr> else e)"

lemma append_spec_same: "append_spec now k x m k = map_option (extend_entry now x) (m k)"
  by (simp add: append_spec_def extend_entry_def split: option.splits)

context cache_contract
begin

lemma lookup_entry_spec:
  assumes "lookup_inv env wfl pc" "lookup_entry env k pc = (res, pc')"
  shows "map_option snd res = lookup_entries env pc k"
    and "lookup_entries env pc' = lookup_entries env pc"
    and "lookup_inv env wfl pc'" and "same_outside_lookup pc pc'"
    and "res = Some (a, e) \<Longrightarrow> \<exists>c. lookupCache pc' = Some c \<and> lru_content (look_lru env) c k = Some a"
    and "entryHeap pc' = entryHeap pc"
proof -
  have "map_option snd res = lookup_entries env pc k \<and> lookup_entries env pc' = lookup_entries env pc \<and>
    lookup_inv env wfl pc' \<and> same_outside_lookup pc pc' \<and>
    (res = Some (a, e) \<longrightarrow> (\<exists>c. lookupCache pc' = Some c \<and> lru_content (look_lru env) c k = Some a)) \<and>
    entryHeap pc' = entryHeap pc"
  proof (cases "lookupCache pc")
    case None
    then show ?thesis using assms by (auto simp: lookup_entry_def lookup_entries_def)
  next
    case (Some c)
    obtain found c' where g: "lru_get (look_lru env) c k = (found, c')" by fastforce
    have wf: "wfl c" using assms(1) Some by (simp add: lookup_inv_def)
    have c': "wfl c'" "lru_content (look_lru env) c' = lru_content (look_lru env) c"
      using look.wf_get[OF wf, of k] look.get_content[OF wf, of k] g by simp_all
    have found: "lru_content (look_lru env) c k = found" by (simp add: lru_content_def g)
    have pc': "pc' = pc\<lparr>lookupCache := Some c'\<rparr>"
      and res: "res = Option.bind found (\<lambda>a. map_option (\<lambda>e. (a, e)) (entryHeap pc a))"
      using assms(2) by (simp_all add: lookup_entry_def Some g)
    have "same_outside_lookup pc pc'"
      by (rule same_outside_lookupI[where c = "Some c'" and h = "entryHeap pc" and n = "nextEntry pc"])
         (simp_all add: pc' Some)
    moreover have "map_option snd res = lookup_entries env pc k"
      by (cases found) (simp_all add: res lookup_entries_def Some found option.map_comp comp_def
          option.map_ident)
    ultimately show ?thesis
      using assms(1) c' found
      by (auto simp: pc' lookup_entries_def Some lookup_inv_def res split: bind_splits)
  qed
  then show "map_option snd res = lookup_entries env pc k"
    "lookup_entries env pc' = lookup_entries env pc"
    "lookup_inv env wfl pc'" "same_outside_lookup pc pc'"
    "res = Some (a, e) \<Longrightarrow> \<exists>c. lookupCache pc' = Some c \<and> lru_content (look_lru env) c k = Some a"
    "entryHeap pc' = entryHeap pc"
    by blast+
qed

lemma store_entry_spec:
  assumes "lookup_inv env wfl pc" "lookupCache pc = Some c"
  shows "lookup_entries env (store_entry env k e pc) =
      ((lookup_entries env pc)(k \<mapsto> e)) |` (- lru_evicted (look_lru env) c k (nextEntry pc))"
    and "lookup_entries env (store_entry env k e pc) k = Some e"
    and "lookup_inv env wfl (store_entry env k e pc)"
    and "same_outside_lookup pc (store_entry env k e pc)"
proof -
  have wf: "wfl c" using assms by (simp add: lookup_inv_def)
  let ?c = "fst (lru_add (look_lru env) c k (nextEntry pc))"
  let ?ev = "lru_evicted (look_lru env) c k (nextEntry pc)"
  have pc': "store_entry env k e pc = pc\<lparr>lookupCache := Some ?c,
      entryHeap := (entryHeap pc)(nextEntry pc \<mapsto> e), nextEntry := Suc (nextEntry pc)\<rparr>"
    by (simp add: store_entry_def assms(2))
  note add = look.add_content[OF wf, of k "nextEntry pc"] look.add_not_evicted[OF wf, of k "nextEntry pc"]
    look.wf_add[OF wf, of k "nextEntry pc"]
  have alloc: "lru_content (look_lru env) c k' = Some a \<Longrightarrow> a < nextEntry pc \<and> entryHeap pc a \<noteq> None" for k' a
    using assms by (auto simp: lookup_inv_def)
  have inj: "lru_content (look_lru env) c k1 = Some a \<Longrightarrow> lru_content (look_lru env) c k2 = Some a \<Longrightarrow> k1 = k2" for k1 k2 a
    using assms by (auto simp: lookup_inv_def)
  show eq: "lookup_entries env (store_entry env k e pc) = ((lookup_entries env pc)(k \<mapsto> e)) |` (- ?ev)"
  proof
    fix k'
    show "lookup_entries env (store_entry env k e pc) k' = (((lookup_entries env pc)(k \<mapsto> e)) |` (- ?ev)) k'"
      using alloc[of k'] by (cases "lru_content (look_lru env) c k'")
        (auto simp: pc' lookup_entries_def assms(2) add restrict_map_def)
  qed
  show "lookup_entries env (store_entry env k e pc) k = Some e"
    using add(2) by (simp add: eq)
  show "lookup_inv env wfl (store_entry env k e pc)"
    unfolding lookup_inv_def pc'
    using add alloc inj by (auto simp: restrict_map_def less_Suc_eq split: if_splits)
  show "same_outside_lookup pc (store_entry env k e pc)"
    by (rule same_outside_lookupI[OF pc']) (simp add: assms(2))
qed

lemma heap_update_entries:
  assumes "lookup_inv env wfl pc" "lookupCache pc = Some c" "lru_content (look_lru env) c k = Some a"
  shows "lookup_entries env (pc\<lparr>entryHeap := (entryHeap pc)(a \<mapsto> e)\<rparr>) = (lookup_entries env pc)(k \<mapsto> e)"
    and "lookup_inv env wfl (pc\<lparr>entryHeap := (entryHeap pc)(a \<mapsto> e)\<rparr>)"
proof -
  have inj: "lru_content (look_lru env) c k' = Some a \<Longrightarrow> k' = k" for k'
    using assms by (auto simp: lookup_inv_def)
  show "lookup_entries env (pc\<lparr>entryHeap := (entryHeap pc)(a \<mapsto> e)\<rparr>) = (lookup_entries env pc)(k \<mapsto> e)"
  proof
    fix k'
    show "lookup_entries env (pc\<lparr>entryHeap := (entryHeap pc)(a \<mapsto> e)\<rparr>) k' = ((lookup_entries env pc)(k \<mapsto> e)) k'"
      using inj[of k'] by (cases "lru_content (look_lru env) c k'")
        (auto simp: lookup_entries_def assms(2,3))
  qed
  show "lookup_inv env wfl (pc\<lparr>entryHeap := (entryHeap pc)(a \<mapsto> e)\<rparr>)"
    using assms by (auto simp: lookup_inv_def)
qed

lemma append_result_spec:
  assumes "lookup_inv env wfl pc"
  shows "lookup_entries env (append_result env now k x pc) = append_spec now k x (lookup_entries env pc)"
    and "lookup_inv env wfl (append_result env now k x pc)"
    and "same_outside_lookup pc (append_result env now k x pc)"
proof -
  obtain res pc' where le: "lookup_entry env k pc = (res, pc')" by fastforce
  note spec = lookup_entry_spec[OF assms le]
  have "lookup_entries env (append_result env now k x pc) = append_spec now k x (lookup_entries env pc) \<and>
    lookup_inv env wfl (append_result env now k x pc) \<and>
    same_outside_lookup pc (append_result env now k x pc)"
  proof (cases res)
    case None
    then show ?thesis using spec(1-4) by (simp add: append_result_def le append_spec_def)
  next
    case (Some p)
    obtain a e where p: "p = (a, e)" by fastforce
    obtain c where c: "lookupCache pc' = Some c" "lru_content (look_lru env) c k = Some a"
      using spec(5)[of a e] Some p by blast
    have e: "lookup_entries env pc k = Some e" using spec(1) Some p by simp
    let ?e = "e\<lparr>Results := Results e @ [x]\<rparr>"
    let ?pc = "pc'\<lparr>entryHeap := (entryHeap pc')(a \<mapsto> ?e)\<rparr>"
    note upd = heap_update_entries[OF spec(3) c, of ?e]
    have "same_outside_lookup pc' ?pc"
      by (rule same_outside_lookupI[where c = "lookupCache pc'" and n = "nextEntry pc'"
            and h = "(entryHeap pc')(a \<mapsto> ?e)"]) simp_all
    from same_outside_lookup_trans[OF spec(4) this] show ?thesis
      using spec(2,3,4) upd e by (auto simp: append_result_def le Some p append_spec_def)
  qed
  then show "lookup_entries env (append_result env now k x pc) = append_spec now k x (lookup_entries env pc)"
    "lookup_inv env wfl (append_result env now k x pc)"
    "same_outside_lookup pc (append_result env now k x pc)"
    by blast+
qed

lemma addToLookupCache_spec:
  assumes "lookup_inv env wfl pc"
  shows "lookup_entries env (addToLookupCache env now r pc) =
      (if lookup_disabled pc then lookup_entries env pc
       else append_spec now (whatCanTargetAccessKey (Target r))
              (encode_relation (Resource r) (Relation r) (ResourceType r))
              (append_spec now (whoCanAccessKey (Resource r) (Relation r) (ResourceType r)) (Target r)
                (lookup_entries env pc)))"
    and "lookup_inv env wfl (addToLookupCache env now r pc)"
    and "same_outside_lookup pc (addToLookupCache env now r pc)"
proof -
  let ?w = "whoCanAccessKey (Resource r) (Relation r) (ResourceType r)"
  let ?pc1 = "append_result env now ?w (Target r) pc"
  note a = append_result_spec[OF assms, of now ?w "Target r"]
  note b = append_result_spec[OF a(2), of now "whatCanTargetAccessKey (Target r)"
      "encode_relation (Resource r) (Relation r) (ResourceType r)"]
  show "lookup_entries env (addToLookupCache env now r pc) =
      (if lookup_disabled pc then lookup_entries env pc
       else append_spec now (whatCanTargetAccessKey (Target r))
              (encode_relation (Resource r) (Relation r) (ResourceType r))
              (append_spec now ?w (Target r) (lookup_entries env pc)))"
    "lookup_inv env wfl (addToLookupCache env now r pc)"
    using assms a b by (simp_all add: addToLookupCache_def)
  show "same_outside_lookup pc (addToLookupCache env now r pc)"
    using same_outside_lookup_trans[OF a(3) b(3)] by (simp add: addToLookupCache_def)
qed

lemma purgeLookupCache_spec:
  assumes "lookup_inv env wfl pc"
  shows "lookup_entries env (purgeLookupCache env pc) = Map.empty"
    and "lookup_inv env wfl (purgeLookupCache env pc)"
    and "same_outside_lookup pc (purgeLookupCache env pc)"
proof -
  have "lookup_entries env (purgeLookupCache env pc) = Map.empty \<and>
    lookup_inv env wfl (purgeLookupCache env pc) \<and> same_outside_lookup pc (purgeLookupCache env pc)"
  proof (cases "lookupCache pc")
    case None
    then show ?thesis using assms by (simp add: purgeLookupCache_def lookup_entries_def fun_eq_iff)
  next
    case (Some c)
    have wf: "wfl c" using assms Some by (simp add: lookup_inv_def)
    have pc': "purgeLookupCache env pc = pc\<lparr>lookupCache := Some (fst (lru_purge (look_lru env) c))\<rparr>"
      by (simp add: purgeLookupCache_def Some)
    have "same_outside_lookup pc (purgeLookupCache env pc)"
      by (rule same_outside_lookupI[where c = "Some (fst (lru_purge (look_lru env) c))"
            and h = "entryHeap pc" and n = "nextEntry pc"]) (simp_all add: pc' Some)
    then show ?thesis
      using look.purge_content[OF wf] look.wf_purge[OF wf]
      by (simp add: pc' lookup_entries_def lookup_inv_def fun_eq_iff)
  qed
  then show "lookup_entries env (purgeLookupCache env pc) = Map.empty"
    "lookup_inv env wfl (purgeLookupCache env pc)" "same_outside_lookup pc (purgeLookupCache env pc)"
    by blast+
qed

end

context cache_contract
begin

lemma GetWhoCanAccessCached_spec:
  assumes "lookup_inv env wfl pc" "GetWhoCanAccessCached env now r d n pc = (res, pc')"
  shows "res = (if lookup_disabled pc then ([], False)
      else case lookup_entries env pc (whoCanAccessKey r d n) of
        None \<Rightarrow> ([], False)
      | Some e \<Rightarrow> if now > ExpiresAt e then ([], False) else (Results e, True))"
    and "lookup_entries env pc' = lookup_entries env pc" "lookup_inv env wfl pc'"
    and "same_outside_lookup pc pc'"
proof -
  obtain found pc1 where le: "lookup_entry env (whoCanAccessKey r d n) pc = (found, pc1)" by fastforce
  note spec = lookup_entry_spec(1-4)[OF assms(1) le]
  show "res = (if lookup_disabled pc then ([], False)
      else case lookup_entries env pc (whoCanAccessKey r d n) of
        None \<Rightarrow> ([], False)
      | Some e \<Rightarrow> if now > ExpiresAt e then ([], False) else (Results e, True))"
    using assms(2) by (auto simp: GetWhoCanAccessCached_def le spec(1)[symmetric] split: option.splits if_splits)
  show "lookup_entries env pc' = lookup_entries env pc" "lookup_inv env wfl pc'" "same_outside_lookup pc pc'"
    using assms(2) spec(2-4) assms(1)
    by (auto simp: GetWhoCanAccessCached_def le split: option.splits if_splits)
qed

lemma GetWhatCanTargetAccessCached_spec:
  assumes "lookup_inv env wfl pc" "GetWhatCanTargetAccessCached env now t pc = (res, pc')"
  shows "res = (if lookup_disabled pc then ([], False)
      else case lookup_entries env pc (whatCanTargetAccessKey t) of
        None \<Rightarrow> ([], False)
      | Some e \<Rightarrow> if now > ExpiresAt e \<or> decode_relations t (Results e) = [] then ([], False)
                 else (decode_relations t (Results e), True))"
    and "lookup_entries env pc' = lookup_entries env pc" "lookup_inv env wfl pc'"
    and "same_outside_lookup pc pc'"
proof -
  obtain found pc1 where le: "lookup_entry env (whatCanTargetAccessKey t) pc = (found, pc1)" by fastforce
  note spec = lookup_entry_spec(1-4)[OF assms(1) le]
  show "res = (if lookup_disabled pc then ([], False)
      else case lookup_entries env pc (whatCanTargetAccessKey t) of
        None \<Rightarrow> ([], False)
      | Some e \<Rightarrow> if now > ExpiresAt e \<or> decode_relations t (Results e) = [] then ([], False)
                 else (decode_relations t (Results e), True))"
    using assms(2) by (auto simp: GetWhatCanTargetAccessCached_def le spec(1)[symmetric] Let_def
        split: option.splits if_splits)
  show "lookup_entries env pc' = lookup_entries env pc" "lookup_inv env wfl pc'" "same_outside_lookup pc pc'"
    using assms(2) spec(2-4) assms(1)
    by (auto simp: GetWhatCanTargetAccessCached_def le Let_def split: option.splits if_splits)
qed

text \<open>Storing a result: nothing when the cache is off or the result is too long, otherwise the new
  entry under its key, at the price of the entries the LRU cache evicts.\<close>

lemma store_if_spec:
  assumes "lookup_inv env wfl pc"
    and "pc' = (if lookup_disabled pc then pc else if big then pc else store_entry env k e pc)"
  shows "lookup_inv env wfl pc'" and "same_outside_lookup pc pc'"
    and "\<not> lookup_disabled pc \<Longrightarrow> \<not> big \<Longrightarrow> lookup_entries env pc' k = Some e"
    and "k' \<noteq> k \<Longrightarrow> lookup_entries env pc' k' = Some e' \<Longrightarrow> lookup_entries env pc k' = Some e'"
proof -
  have "lookup_inv env wfl pc' \<and> same_outside_lookup pc pc' \<and>
    (\<not> lookup_disabled pc \<and> \<not> big \<longrightarrow> lookup_entries env pc' k = Some e) \<and>
    (k' \<noteq> k \<and> lookup_entries env pc' k' = Some e' \<longrightarrow> lookup_entries env pc k' = Some e')"
  proof (cases "lookup_disabled pc \<or> big")
    case True
    then show ?thesis using assms by auto
  next
    case False
    then obtain c where "lookupCache pc = Some c" by (auto simp: lookup_disabled_def)
    from store_entry_spec[OF assms(1) this, of k e] False show ?thesis
      by (auto simp: assms(2) restrict_map_def split: if_splits)
  qed
  then show "lookup_inv env wfl pc'" "same_outside_lookup pc pc'"
    "\<not> lookup_disabled pc \<Longrightarrow> \<not> big \<Longrightarrow> lookup_entries env pc' k = Some e"
    "k' \<noteq> k \<Longrightarrow> lookup_entries env pc' k' = Some e' \<Longrightarrow> lookup_entries env pc k' = Some e'"
    by blast+
qed

lemmas SetWhoCanAccessCached_spec = store_if_spec[OF _ SetWhoCanAccessCached_def]
lemmas SetWhatCanTargetAccessCached_spec = store_if_spec[OF _ SetWhatCanTargetAccessCached_def]

lemma InvalidateLookupCache_spec:
  assumes "lookup_inv env wfl pc"
  shows "lookup_inv env wfl (InvalidateLookupCache env pc)"
    and "same_outside_lookup pc (InvalidateLookupCache env pc)"
    and "\<not> lookup_disabled pc \<Longrightarrow> lookup_entries env (InvalidateLookupCache env pc) = Map.empty"
  using purgeLookupCache_spec[OF assms] assms by (auto simp: InvalidateLookupCache_def)

end

section \<open>Encoding\<close>

lemma decode_encode:
  assumes "CHR ''|'' \<notin> set r" "CHR ''|'' \<notin> set d"
  shows "decode_relations t (encode_relation r d n # rs) =
    \<lparr>AR_Resource = r, AR_RelationDefinition = d, AR_Namespace = n, AR_Target = t,
     AR_TargetSetResource = '''', AR_TargetSetRelationDefinition = '''',
     AR_TargetSetRelationDefinitionNamespace = ''''\<rparr> # decode_relations t rs"
  using SplitN_3_join[OF assms, of n] by (simp add: encode_relation_def)

lemma decode_encode_all:
  assumes "\<forall>r\<in>set rels. CHR ''|'' \<notin> set (AR_Resource r) \<and> CHR ''|'' \<notin> set (AR_RelationDefinition r)"
  shows "decode_relations t (map (\<lambda>r. encode_relation (AR_Resource r) (AR_RelationDefinition r) (AR_Namespace r)) rels) =
    map (\<lambda>r. \<lparr>AR_Resource = AR_Resource r, AR_RelationDefinition = AR_RelationDefinition r,
       AR_Namespace = AR_Namespace r, AR_Target = t, AR_TargetSetResource = '''',
       AR_TargetSetRelationDefinition = '''', AR_TargetSetRelationDefinitionNamespace = ''''\<rparr>) rels"
  using assms by (induction rels) (simp_all add: decode_encode del: decode_relations.simps(2))

text \<open>The two kinds of lookup key never meet.\<close>

lemma lookup_keys_differ: "whoCanAccessKey r d n \<noteq> whatCanTargetAccessKey t"
  by (simp add: whoCanAccessKey_def whatCanTargetAccessKey_def)

lemma whatCanTargetAccessKey_inj: "whatCanTargetAccessKey t = whatCanTargetAccessKey t' \<longleftrightarrow> t = t'"
  by (simp add: whatCanTargetAccessKey_def)

end
