(* ===== verification/CacheUpdates.thy ===== *)
theory CacheUpdates
  imports DirectCache LookupCache
begin

text \<open>
  The operations that change a project's cache on behalf of requests: schemas, purges, written
  relations and fetched checks (\<open>GetSchema\<close> to \<open>hasAllCompiledConditions\<close> and \<open>purgeAllCaches\<close>
  of \<open>projectauthzcache.go\<close>). Each is one critical section. The
  invariants they keep are collected in \<open>CacheInvariants\<close>.
\<close>

section \<open>Schema\<close>

definition GetSchema :: "('rc, 'lc, 'p) projectAuthzCache \<Rightarrow> FGASchema option" where
  "GetSchema pc = schemaCache pc"

text \<open>The loop of \<open>setSchema\<close>: a condition that does not compile is logged and skipped.\<close>

fun compile_conditions :: "'p cel_ops \<Rightarrow> FGACondition list \<Rightarrow> (go_int32 \<rightharpoonup> 'p CompiledCondition) \<Rightarrow>
    go_int32 \<rightharpoonup> 'p CompiledCondition" where
  "compile_conditions ops [] compiled = compiled"
| "compile_conditions ops (c # cs) compiled =
    (case Compile ops c of
       Inl err \<Rightarrow> compile_conditions ops cs compiled
     | Inr program \<Rightarrow> compile_conditions ops cs (compiled(CondID c \<mapsto> program)))"

definition setSchema :: "('rc, 'lc, 'p) cache_env \<Rightarrow> FGASchema option \<Rightarrow>
    ('rc, 'lc, 'p) projectAuthzCache \<Rightarrow> ('rc, 'lc, 'p) projectAuthzCache" where
  "setSchema env schema pc =
    (let pc1 = pc\<lparr>schemaCache := schema, compiledConditions := Map.empty, loadedSchemaVersion := ''''\<rparr>
     in case schema of
       None \<Rightarrow> pc1
     | Some s \<Rightarrow> pc1\<lparr>loadedSchemaVersion := Version s,
                    compiledConditions := compile_conditions (cel env) (Conditions s) Map.empty\<rparr>)"

definition EnsureSchemaLoaded :: "('rc, 'lc, 'p) cache_env \<Rightarrow> FGASchema option \<Rightarrow>
    ('rc, 'lc, 'p) projectAuthzCache \<Rightarrow> ('rc, 'lc, 'p) projectAuthzCache" where
  "EnsureSchemaLoaded env schema pc =
    (if schemaCache pc \<noteq> None \<and> loadedSchemaVersion pc \<noteq> '''' then pc
     else setSchema env schema pc)"

section \<open>Purges\<close>

definition purgeRelationCaches :: "('rc, 'lc, 'p) cache_env \<Rightarrow> ('rc, 'lc, 'p) projectAuthzCache \<Rightarrow>
    ('rc, 'lc, 'p) projectAuthzCache" where
  "purgeRelationCaches env pc =
    (let pc1 = pc\<lparr>directResourcesIndex := Map.empty, directTargetsIndex := Map.empty,
                  directKeyComponents := Map.empty\<rparr>;
         (c, evicted) = lru_purge (rel_lru env) (directRelationCache pc1);
         pc2 = runEvictions evicted (pc1\<lparr>directRelationCache := c\<rparr>);
         pc3 = pc2\<lparr>indirectRelationCache := fst (lru_purge (rel_lru env) (indirectRelationCache pc2))\<rparr>
     in purgeLookupCache env pc3)"

definition purgeAllCaches :: "('rc, 'lc, 'p) cache_env \<Rightarrow> gotime \<Rightarrow> ('rc, 'lc, 'p) projectAuthzCache \<Rightarrow>
    ('rc, 'lc, 'p) projectAuthzCache" where
  "purgeAllCaches env now pc =
    (let pc1 = purgeRelationCaches env (setSchema env None pc)
     in pc1\<lparr>remoteChanges := (remoteChanges pc1)\<lparr>lastPollTime := now\<rparr>\<rparr>)"

text \<open>\<open>pc.indirectRelationCache.Purge(ctx)\<close>\<close>

definition purgeIndirect :: "('rc, 'lc, 'p) cache_env \<Rightarrow> ('rc, 'lc, 'p) projectAuthzCache \<Rightarrow>
    ('rc, 'lc, 'p) projectAuthzCache" where
  "purgeIndirect env pc =
     pc\<lparr>indirectRelationCache := fst (lru_purge (rel_lru env) (indirectRelationCache pc))\<rparr>"

definition UpdateCacheWithSchema :: "('rc, 'lc, 'p) cache_env \<Rightarrow> FGASchema option \<Rightarrow>
    ('rc, 'lc, 'p) projectAuthzCache \<Rightarrow> ('rc, 'lc, 'p) projectAuthzCache" where
  "UpdateCacheWithSchema env schema pc = purgeRelationCaches env (setSchema env schema pc)"

section \<open>Written relations\<close>

definition UpdateCacheWithAddedRelations :: "('rc, 'lc, 'p) cache_env \<Rightarrow> gotime \<Rightarrow> FGARelation list \<Rightarrow>
    ('rc, 'lc, 'p) projectAuthzCache \<Rightarrow> ('rc, 'lc, 'p) projectAuthzCache" where
  "UpdateCacheWithAddedRelations env now relations pc =
    (if relations = [] then pc
     else fold (\<lambda>r pc. addToLookupCache env now r (removeDirectRelationsByResourceAndTarget env r pc))
            relations (purgeIndirect env pc))"

definition UpdateCacheWithDeletedRelations :: "('rc, 'lc, 'p) cache_env \<Rightarrow> FGARelation list \<Rightarrow>
    ('rc, 'lc, 'p) projectAuthzCache \<Rightarrow> ('rc, 'lc, 'p) projectAuthzCache" where
  "UpdateCacheWithDeletedRelations env relations pc =
    (if relations = [] then pc
     else fold (removeDirectRelationsByResourceAndTarget env) relations (purgeIndirect env pc))"

section \<open>Fetched checks\<close>

fun hasAllCompiledConditions :: "('rc, 'lc, 'p) projectAuthzCache \<Rightarrow> go_int32 list \<Rightarrow> bool" where
  "hasAllCompiledConditions pc [] = True"
| "hasAllCompiledConditions pc (cid # ids) =
    (if compiledConditions pc cid = None then False else hasAllCompiledConditions pc ids)"

text \<open>The body of the loop of \<open>UpdateCacheWithChecks\<close>: the grant to cache, or \<open>None\<close> for each of
  its \<open>continue\<close>s.\<close>

definition cacheable_grant :: "('rc, 'lc, 'p) projectAuthzCache \<Rightarrow> FGACheck \<Rightarrow> cachedGrant option" where
  "cacheable_grant pc c =
    (let i = Info c
     in if FactUsed i then None
        else if Conditional i then
          (if SchemaVersion i \<noteq> loadedSchemaVersion pc \<or>
              (TrueConditions i = [] \<and> FalseConditions i = []) \<or>
              \<not> hasAllCompiledConditions pc (TrueConditions i) \<or>
              \<not> hasAllCompiledConditions pc (FalseConditions i) then None
           else if MissingContext i \<noteq> [] \<or> ConditionalErr i \<noteq> '''' then None
           else Some \<lparr>allowed = Allowed c,
                      cond = Some \<lparr>trueConds = TrueConditions i, falseConds = FalseConditions i\<rparr>\<rparr>)
        else Some \<lparr>allowed = Allowed c, cond = None\<rparr>)"

definition cacheCheck :: "('rc, 'lc, 'p) cache_env \<Rightarrow> FGACheck \<Rightarrow> ('rc, 'lc, 'p) projectAuthzCache \<Rightarrow>
    ('rc, 'lc, 'p) projectAuthzCache" where
  "cacheCheck env c pc = (case cacheable_grant pc c of
     None \<Rightarrow> pc
   | Some grant \<Rightarrow>
      if Direct (Info c) then addDirectRelation env (CheckRelation c) grant pc
      else addIndirectRelation env (CheckRelation c) grant pc)"

definition UpdateCacheWithChecks :: "('rc, 'lc, 'p) cache_env \<Rightarrow> FGACheck list \<Rightarrow>
    ('rc, 'lc, 'p) projectAuthzCache \<Rightarrow> ('rc, 'lc, 'p) projectAuthzCache" where
  "UpdateCacheWithChecks env sdkChecks pc =
    (if sdkChecks = [] then pc else fold (cacheCheck env) sdkChecks pc)"

end
