(* ===== verification/CacheInvariants.thy ===== *)
theory CacheInvariants
  imports CacheUpdates
begin

text \<open>
  The invariant \<open>cache_inv\<close> of a project's cache and its preservation by every update:
  well-formed LRU caches, a complete direct index, an injective lookup heap, compiled
  conditions that belong to the schema held, and conditional grants that carry a usable
  certificate for a loaded, versioned schema.
\<close>

section \<open>The invariant\<close>

definition schema_sync :: "('rc, 'lc, 'p) cache_env \<Rightarrow> ('rc, 'lc, 'p) projectAuthzCache \<Rightarrow> bool" where
  "schema_sync env pc \<longleftrightarrow>
     loadedSchemaVersion pc = (case schemaCache pc of None \<Rightarrow> '''' | Some s \<Rightarrow> Version s) \<and>
     compiledConditions pc = (case schemaCache pc of None \<Rightarrow> Map.empty
        | Some s \<Rightarrow> compile_conditions (cel env) (Conditions s) Map.empty)"

definition cert_usable :: "('rc, 'lc, 'p) projectAuthzCache \<Rightarrow> conditionalCert \<Rightarrow> bool" where
  "cert_usable pc cert \<longleftrightarrow> loadedSchemaVersion pc \<noteq> '''' \<and>
     (trueConds cert \<noteq> [] \<or> falseConds cert \<noteq> []) \<and>
     set (trueConds cert) \<union> set (falseConds cert) \<subseteq> dom (compiledConditions pc)"

definition holds_grant :: "('rc, 'lc, 'p) cache_env \<Rightarrow> ('rc, 'lc, 'p) projectAuthzCache \<Rightarrow>
    cache_key \<Rightarrow> cachedGrant \<Rightarrow> bool" where
  "holds_grant env pc k g \<longleftrightarrow> direct_grants env pc k = Some g \<or> indirect_grants env pc k = Some g"

definition certs_usable :: "('rc, 'lc, 'p) cache_env \<Rightarrow> ('rc, 'lc, 'p) projectAuthzCache \<Rightarrow> bool" where
  "certs_usable env pc \<longleftrightarrow>
     (\<forall>k g cert. holds_grant env pc k g \<and> cond g = Some cert \<longrightarrow> cert_usable pc cert)"

definition cache_inv :: "('rc, 'lc, 'p) cache_env \<Rightarrow> ('rc \<Rightarrow> bool) \<Rightarrow> ('lc \<Rightarrow> bool) \<Rightarrow>
    ('rc, 'lc, 'p) projectAuthzCache \<Rightarrow> bool" where
  "cache_inv env wfr wfl pc \<longleftrightarrow> caches_wf wfr wfl pc \<and> direct_indexed env pc \<and>
     lookup_inv env wfl pc \<and> schema_sync env pc \<and> certs_usable env pc"

lemma cache_invI:
  assumes "caches_wf wfr wfl pc" "direct_indexed env pc" "lookup_inv env wfl pc"
    "schema_sync env pc" "certs_usable env pc"
  shows "cache_inv env wfr wfl pc"
  using assms by (simp add: cache_inv_def)

lemma cache_invD:
  assumes "cache_inv env wfr wfl pc"
  shows "caches_wf wfr wfl pc" "direct_indexed env pc" "lookup_inv env wfl pc"
    "schema_sync env pc" "certs_usable env pc"
  using assms by (simp_all add: cache_inv_def)

text \<open>A state that reads the same fields meets the same parts of the invariant.\<close>

lemma lookup_inv_cong:
  assumes "lookupCache pc' = lookupCache pc" "entryHeap pc' = entryHeap pc" "nextEntry pc' = nextEntry pc"
  shows "lookup_inv env wfl pc' = lookup_inv env wfl pc"
  using assms by (simp add: lookup_inv_def split: option.splits)

lemma lookup_entries_cong:
  assumes "lookupCache pc' = lookupCache pc" "entryHeap pc' = entryHeap pc"
  shows "lookup_entries env pc' = lookup_entries env pc"
  using assms by (simp add: lookup_entries_def cong: option.case_cong)

lemma schema_sync_cong:
  assumes "schemaCache pc' = schemaCache pc" "compiledConditions pc' = compiledConditions pc"
    "loadedSchemaVersion pc' = loadedSchemaVersion pc"
  shows "schema_sync env pc' = schema_sync env pc"
  using assms by (simp add: schema_sync_def)

lemma certs_usable_mono:
  assumes "certs_usable env pc" "\<And>k g. holds_grant env pc' k g \<Longrightarrow> holds_grant env pc k g"
    "compiledConditions pc' = compiledConditions pc" "loadedSchemaVersion pc' = loadedSchemaVersion pc"
  shows "certs_usable env pc'"
  using assms by (fastforce simp: certs_usable_def cert_usable_def)

lemma certs_usable_none:
  "(\<And>k g. \<not> holds_grant env pc k g) \<Longrightarrow> certs_usable env pc"
  by (simp add: certs_usable_def)

lemma no_schema_no_certs:
  assumes "schema_sync env pc" "certs_usable env pc" "schemaCache pc = None" "holds_grant env pc k g"
  shows "cond g = None"
  using assms by (cases "cond g") (auto simp: schema_sync_def certs_usable_def cert_usable_def)

lemma hasAllCompiledConditions_iff:
  "hasAllCompiledConditions pc ids \<longleftrightarrow> set ids \<subseteq> dom (compiledConditions pc)"
  by (induction ids) (auto simp: domIff)

section \<open>Schema updates\<close>

lemma setSchema_fields [simp]:
  "schemaCache (setSchema env s pc) = s"
  "directRelationCache (setSchema env s pc) = directRelationCache pc"
  "indirectRelationCache (setSchema env s pc) = indirectRelationCache pc"
  "directResourcesIndex (setSchema env s pc) = directResourcesIndex pc"
  "directTargetsIndex (setSchema env s pc) = directTargetsIndex pc"
  "directKeyComponents (setSchema env s pc) = directKeyComponents pc"
  "lookupCache (setSchema env s pc) = lookupCache pc"
  "lookupCacheEnabled (setSchema env s pc) = lookupCacheEnabled pc"
  "entryHeap (setSchema env s pc) = entryHeap pc" "nextEntry (setSchema env s pc) = nextEntry pc"
  "remoteChanges (setSchema env s pc) = remoteChanges pc" "timers (setSchema env s pc) = timers pc"
  "celEvalTimeout (setSchema env s pc) = celEvalTimeout pc"
  by (simp_all add: setSchema_def Let_def split: option.splits)

lemma setSchema_sync [simp]: "schema_sync env (setSchema env s pc)"
  by (simp add: schema_sync_def setSchema_def Let_def split: option.splits)

lemma setSchema_grants [simp]:
  "direct_grants env' (setSchema env s pc) = direct_grants env' pc"
  "indirect_grants env' (setSchema env s pc) = indirect_grants env' pc"
  by (simp_all add: direct_grants_def indirect_grants_def)

lemma EnsureSchemaLoaded_polling [simp]:
  "remoteChanges (EnsureSchemaLoaded env s pc) = remoteChanges pc"
  "timers (EnsureSchemaLoaded env s pc) = timers pc"
  by (simp_all add: EnsureSchemaLoaded_def)

lemma setSchema_inv_parts:
  "caches_wf wfr wfl (setSchema env s pc) = caches_wf wfr wfl pc"
  "direct_indexed env (setSchema env s pc) = direct_indexed env pc"
  "lookup_inv env wfl (setSchema env s pc) = lookup_inv env wfl pc"
proof -
  show "caches_wf wfr wfl (setSchema env s pc) = caches_wf wfr wfl pc"
    by (simp add: caches_wf_def)
  show "direct_indexed env (setSchema env s pc) = direct_indexed env pc"
    by (rule direct_indexed_cong) simp_all
  show "lookup_inv env wfl (setSchema env s pc) = lookup_inv env wfl pc"
    by (rule lookup_inv_cong) simp_all
qed

text \<open>The conditions held are those of the schema that compile, the last one of an ID winning.\<close>

lemma compile_conditions_dom:
  "dom (compile_conditions ops cs m) = dom m \<union> {CondID c | c cc. c \<in> set cs \<and> Compile ops c = Inr cc}"
  by (induction cs arbitrary: m) (auto split: sum.splits)

lemma compile_conditions_Some:
  "compile_conditions ops cs m cid = Some cc \<Longrightarrow>
    (\<exists>c\<in>set cs. CondID c = cid \<and> Compile ops c = Inr cc) \<or> m cid = Some cc"
  by (induction cs arbitrary: m) (fastforce split: sum.splits if_splits)+

context cache_contract
begin

lemma EnsureSchemaLoaded_inv:
  assumes "cache_inv env wfr wfl pc"
  shows "cache_inv env wfr wfl (EnsureSchemaLoaded env s pc)"
    and "direct_grants env (EnsureSchemaLoaded env s pc) = direct_grants env pc"
    and "indirect_grants env (EnsureSchemaLoaded env s pc) = indirect_grants env pc"
    and "holds_grant env pc k g \<Longrightarrow> cond g = Some cert \<Longrightarrow> EnsureSchemaLoaded env s pc = pc"
proof -
  note inv = cache_invD[OF assms]
  show grants: "direct_grants env (EnsureSchemaLoaded env s pc) = direct_grants env pc"
    "indirect_grants env (EnsureSchemaLoaded env s pc) = indirect_grants env pc"
    by (simp_all add: EnsureSchemaLoaded_def)
  have skip: "EnsureSchemaLoaded env s pc = pc" if "holds_grant env pc k g" "cond g = Some cert" for k g cert
  proof -
    have "loadedSchemaVersion pc \<noteq> ''''" "schemaCache pc \<noteq> None"
      using inv(4,5) that by (auto simp: certs_usable_def cert_usable_def schema_sync_def split: option.splits)
    then show ?thesis by (simp add: EnsureSchemaLoaded_def)
  qed
  show "holds_grant env pc k g \<Longrightarrow> cond g = Some cert \<Longrightarrow> EnsureSchemaLoaded env s pc = pc"
    by (rule skip)
  have certs: "certs_usable env (EnsureSchemaLoaded env s pc)"
  proof (cases "\<exists>k g cert. holds_grant env pc k g \<and> cond g = Some cert")
    case True
    then show ?thesis using skip inv(5) by auto
  next
    case False
    then show ?thesis unfolding certs_usable_def holds_grant_def grants by blast
  qed
  show "cache_inv env wfr wfl (EnsureSchemaLoaded env s pc)"
    using inv certs by (intro cache_invI) (simp_all add: EnsureSchemaLoaded_def setSchema_inv_parts)
qed

section \<open>Purges\<close>

lemma purgeRelationCaches_spec:
  assumes "caches_wf wfr wfl pc" "lookup_inv env wfl pc"
  shows "direct_grants env (purgeRelationCaches env pc) = Map.empty"
    and "indirect_grants env (purgeRelationCaches env pc) = Map.empty"
    and "lookup_entries env (purgeRelationCaches env pc) = Map.empty"
    and "caches_wf wfr wfl (purgeRelationCaches env pc)"
    and "lookup_inv env wfl (purgeRelationCaches env pc)"
    and "directResourcesIndex (purgeRelationCaches env pc) = Map.empty"
    and "directTargetsIndex (purgeRelationCaches env pc) = Map.empty"
    and "directKeyComponents (purgeRelationCaches env pc) = Map.empty"
    and "schemaCache (purgeRelationCaches env pc) = schemaCache pc"
    and "compiledConditions (purgeRelationCaches env pc) = compiledConditions pc"
    and "loadedSchemaVersion (purgeRelationCaches env pc) = loadedSchemaVersion pc"
    and "remoteChanges (purgeRelationCaches env pc) = remoteChanges pc"
    and "timers (purgeRelationCaches env pc) = timers pc"
    and "lookup_disabled (purgeRelationCaches env pc) = lookup_disabled pc"
proof -
  have wf: "wfr (directRelationCache pc)" "wfr (indirectRelationCache pc)"
    using assms by (simp_all add: caches_wf_def)
  let ?pc1 = "pc\<lparr>directResourcesIndex := Map.empty, directTargetsIndex := Map.empty,
      directKeyComponents := Map.empty\<rparr>"
  let ?pc3 = "?pc1\<lparr>directRelationCache := fst (lru_purge (rel_lru env) (directRelationCache pc)),
      indirectRelationCache := fst (lru_purge (rel_lru env) (indirectRelationCache pc))\<rparr>"
  have eq: "purgeRelationCaches env pc = purgeLookupCache env ?pc3"
    by (simp add: purgeRelationCaches_def Let_def split_beta runEvictions_no_components)
  have inv3: "lookup_inv env wfl ?pc3"
    using assms(2) lookup_inv_cong[of ?pc3 pc] by simp
  note p = purgeLookupCache_spec[OF inv3]
  note q = same_outside_lookupD[OF p(3)]
  show "direct_grants env (purgeRelationCaches env pc) = Map.empty"
    using rel.purge_content[OF wf(1)] q(1) by (simp add: direct_grants_def eq)
  show "indirect_grants env (purgeRelationCaches env pc) = Map.empty"
    using rel.purge_content[OF wf(2)] q(2) by (simp add: indirect_grants_def eq)
  show "lookup_entries env (purgeRelationCaches env pc) = Map.empty"
    "lookup_inv env wfl (purgeRelationCaches env pc)" using p by (simp_all add: eq)
  show "caches_wf wfr wfl (purgeRelationCaches env pc)"
    using rel.wf_purge[OF wf(1)] rel.wf_purge[OF wf(2)] p(2) q(1,2)
    by (auto simp: caches_wf_def eq lookup_inv_def split: option.splits)
  show "directResourcesIndex (purgeRelationCaches env pc) = Map.empty"
    "directTargetsIndex (purgeRelationCaches env pc) = Map.empty"
    "directKeyComponents (purgeRelationCaches env pc) = Map.empty"
    "schemaCache (purgeRelationCaches env pc) = schemaCache pc"
    "compiledConditions (purgeRelationCaches env pc) = compiledConditions pc"
    "loadedSchemaVersion (purgeRelationCaches env pc) = loadedSchemaVersion pc"
    "remoteChanges (purgeRelationCaches env pc) = remoteChanges pc"
    "timers (purgeRelationCaches env pc) = timers pc"
    using q by (simp_all add: eq)
  show "lookup_disabled (purgeRelationCaches env pc) = lookup_disabled pc"
    using q by (simp add: eq lookup_disabled_def)
qed

lemma purgeRelationCaches_inv:
  assumes "caches_wf wfr wfl pc" "lookup_inv env wfl pc" "schema_sync env pc"
  shows "cache_inv env wfr wfl (purgeRelationCaches env pc)"
proof (rule cache_invI)
  note p = purgeRelationCaches_spec[OF assms(1,2)]
  show "caches_wf wfr wfl (purgeRelationCaches env pc)" "lookup_inv env wfl (purgeRelationCaches env pc)"
    by (fact p)+
  show "direct_indexed env (purgeRelationCaches env pc)"
    by (rule direct_indexedI) (simp add: p)
  show "schema_sync env (purgeRelationCaches env pc)"
    using assms(3) schema_sync_cong[OF p(9,10,11)] by simp
  show "certs_usable env (purgeRelationCaches env pc)"
    by (rule certs_usable_none) (simp add: holds_grant_def p)
qed

lemma UpdateCacheWithSchema_inv:
  assumes "cache_inv env wfr wfl pc"
  shows "cache_inv env wfr wfl (UpdateCacheWithSchema env s pc)"
  unfolding UpdateCacheWithSchema_def
  using cache_invD[OF assms] by (intro purgeRelationCaches_inv) (simp_all add: setSchema_inv_parts)

end

text \<open>The polling state is not part of the invariant.\<close>

lemma cache_inv_cong:
  assumes "directRelationCache pc' = directRelationCache pc"
    "indirectRelationCache pc' = indirectRelationCache pc"
    "directResourcesIndex pc' = directResourcesIndex pc"
    "directTargetsIndex pc' = directTargetsIndex pc"
    "directKeyComponents pc' = directKeyComponents pc"
    "schemaCache pc' = schemaCache pc" "compiledConditions pc' = compiledConditions pc"
    "loadedSchemaVersion pc' = loadedSchemaVersion pc"
    "lookupCache pc' = lookupCache pc" "entryHeap pc' = entryHeap pc" "nextEntry pc' = nextEntry pc"
  shows "cache_inv env wfr wfl pc' = cache_inv env wfr wfl pc"
proof -
  have "caches_wf wfr wfl pc' = caches_wf wfr wfl pc"
    by (simp add: caches_wf_def assms)
  moreover have "direct_indexed env pc' = direct_indexed env pc"
    by (rule direct_indexed_cong[OF assms(1,3-5)])
  moreover have "lookup_inv env wfl pc' = lookup_inv env wfl pc"
    by (rule lookup_inv_cong[OF assms(9-11)])
  moreover have "schema_sync env pc' = schema_sync env pc"
    by (rule schema_sync_cong[OF assms(6-8)])
  moreover have "certs_usable env pc' = certs_usable env pc"
    by (simp add: certs_usable_def cert_usable_def holds_grant_def direct_grants_def
        indirect_grants_def assms)
  ultimately show ?thesis by (simp add: cache_inv_def)
qed

lemma cache_inv_remoteChanges [simp]:
  "cache_inv env wfr wfl (pc\<lparr>remoteChanges := x\<rparr>) = cache_inv env wfr wfl pc"
  by (rule cache_inv_cong) simp_all

lemma cache_inv_timers [simp]:
  "cache_inv env wfr wfl (pc\<lparr>timers := x\<rparr>) = cache_inv env wfr wfl pc"
  by (rule cache_inv_cong) simp_all

context cache_contract
begin

lemma purgeAllCaches_inv:
  assumes "cache_inv env wfr wfl pc"
  shows "cache_inv env wfr wfl (purgeAllCaches env now pc)"
  unfolding purgeAllCaches_def Let_def
  using cache_invD[OF assms] by (simp add: purgeRelationCaches_inv setSchema_inv_parts)

lemma purgeAllCaches_spec:
  assumes "cache_inv env wfr wfl pc"
  shows "direct_grants env (purgeAllCaches env now pc) = Map.empty"
    and "indirect_grants env (purgeAllCaches env now pc) = Map.empty"
    and "lookup_entries env (purgeAllCaches env now pc) = Map.empty"
    and "schemaCache (purgeAllCaches env now pc) = None"
    and "compiledConditions (purgeAllCaches env now pc) = Map.empty"
    and "loadedSchemaVersion (purgeAllCaches env now pc) = ''''"
    and "lastPollTime (remoteChanges (purgeAllCaches env now pc)) = now"
    and "directKeyComponents (purgeAllCaches env now pc) = Map.empty"
    and "directResourcesIndex (purgeAllCaches env now pc) = Map.empty"
    and "directTargetsIndex (purgeAllCaches env now pc) = Map.empty"
    and "timers (purgeAllCaches env now pc) = timers pc"
    and "purgeCooldownTimer (remoteChanges (purgeAllCaches env now pc)) = purgeCooldownTimer (remoteChanges pc)"
    and "purgeCooldownWindow (remoteChanges (purgeAllCaches env now pc)) = purgeCooldownWindow (remoteChanges pc)"
proof -
  have "caches_wf wfr wfl (setSchema env None pc)" "lookup_inv env wfl (setSchema env None pc)"
    using cache_invD[OF assms] by (simp_all add: setSchema_inv_parts)
  note p = purgeRelationCaches_spec[OF this]
  have sync: "compiledConditions (setSchema env None pc) = Map.empty"
    "loadedSchemaVersion (setSchema env None pc) = ''''"
    by (simp_all add: setSchema_def)
  show "direct_grants env (purgeAllCaches env now pc) = Map.empty"
    "indirect_grants env (purgeAllCaches env now pc) = Map.empty"
    using p(1,2) by (simp_all add: purgeAllCaches_def Let_def direct_grants_def indirect_grants_def)
  show "lookup_entries env (purgeAllCaches env now pc) = Map.empty"
    using p(3) lookup_entries_cong[of "purgeAllCaches env now pc"
        "purgeRelationCaches env (setSchema env None pc)" env]
    by (simp add: purgeAllCaches_def Let_def)
  show "schemaCache (purgeAllCaches env now pc) = None"
    "compiledConditions (purgeAllCaches env now pc) = Map.empty"
    "loadedSchemaVersion (purgeAllCaches env now pc) = ''''"
    "lastPollTime (remoteChanges (purgeAllCaches env now pc)) = now"
    "directKeyComponents (purgeAllCaches env now pc) = Map.empty"
    "directResourcesIndex (purgeAllCaches env now pc) = Map.empty"
    "directTargetsIndex (purgeAllCaches env now pc) = Map.empty"
    "timers (purgeAllCaches env now pc) = timers pc"
    "purgeCooldownTimer (remoteChanges (purgeAllCaches env now pc)) = purgeCooldownTimer (remoteChanges pc)"
    "purgeCooldownWindow (remoteChanges (purgeAllCaches env now pc)) = purgeCooldownWindow (remoteChanges pc)"
    using p sync by (simp_all add: purgeAllCaches_def Let_def)
qed

lemma purgeIndirect_spec:
  assumes "cache_inv env wfr wfl pc"
  shows "cache_inv env wfr wfl (purgeIndirect env pc)"
    and "direct_grants env (purgeIndirect env pc) = direct_grants env pc"
    and "indirect_grants env (purgeIndirect env pc) = Map.empty"
    and "directKeyComponents (purgeIndirect env pc) = directKeyComponents pc"
    and "same_outside_relations pc (purgeIndirect env pc)"
proof -
  note inv = cache_invD[OF assms]
  have wf: "wfr (indirectRelationCache pc)" using inv(1) by (simp add: caches_wf_def)
  show d: "direct_grants env (purgeIndirect env pc) = direct_grants env pc"
    by (simp add: purgeIndirect_def direct_grants_def)
  show i: "indirect_grants env (purgeIndirect env pc) = Map.empty"
    using rel.purge_content[OF wf] by (simp add: purgeIndirect_def indirect_grants_def)
  show "directKeyComponents (purgeIndirect env pc) = directKeyComponents pc"
    by (simp add: purgeIndirect_def)
  show s: "same_outside_relations pc (purgeIndirect env pc)"
    by (simp add: purgeIndirect_def)
  note q = same_outside_relationsD[OF s]
  show "cache_inv env wfr wfl (purgeIndirect env pc)"
  proof (rule cache_invI)
    show "caches_wf wfr wfl (purgeIndirect env pc)"
      using inv(1) rel.wf_purge[OF wf] by (simp add: caches_wf_def purgeIndirect_def)
    show "direct_indexed env (purgeIndirect env pc)"
      using inv(2) direct_indexed_cong[of "purgeIndirect env pc" pc env] by (simp add: purgeIndirect_def)
    show "lookup_inv env wfl (purgeIndirect env pc)"
      using inv(3) lookup_inv_cong[OF q(5,10,11)] by simp
    show "schema_sync env (purgeIndirect env pc)"
      using inv(4) schema_sync_cong[OF q(1,2,3)] by simp
    show "certs_usable env (purgeIndirect env pc)"
      by (rule certs_usable_mono[OF inv(5)]) (simp_all add: holds_grant_def d i q)
  qed
qed

end

end
