(* ===== verification/CacheSteps.thy ===== *)
theory CacheSteps
  imports CacheInvariants
begin

text \<open>
  What the request-driven operations do to a project's cache: reads change recency only,
  written relations sweep every direct grant that shares a resource or a target with them,
  fetched checks add grants one by one, and each keeps \<open>cache_inv\<close>. A grant found after an
  update was there before or is one of the fetched checks.
\<close>

section \<open>Fetched checks\<close>

text \<open>The conditional checks of a backend name the schema version they were evaluated under.\<close>

definition versioned_check :: "FGACheck \<Rightarrow> bool" where
  "versioned_check c \<longleftrightarrow> (Conditional (Info c) \<longrightarrow> SchemaVersion (Info c) \<noteq> '''')"

lemma cacheable_grant_Some_iff:
  "cacheable_grant pc c = Some g \<longleftrightarrow> \<not> FactUsed (Info c) \<and> allowed g = Allowed c \<and>
    (if Conditional (Info c) then
       SchemaVersion (Info c) = loadedSchemaVersion pc \<and>
       (TrueConditions (Info c) \<noteq> [] \<or> FalseConditions (Info c) \<noteq> []) \<and>
       set (TrueConditions (Info c)) \<union> set (FalseConditions (Info c)) \<subseteq> dom (compiledConditions pc) \<and>
       MissingContext (Info c) = [] \<and> ConditionalErr (Info c) = '''' \<and>
       cond g = Some \<lparr>trueConds = TrueConditions (Info c), falseConds = FalseConditions (Info c)\<rparr>
     else cond g = None)"
  by (cases g) (auto simp: cacheable_grant_def Let_def hasAllCompiledConditions_iff)

lemma cacheable_grant_cong:
  assumes "loadedSchemaVersion pc' = loadedSchemaVersion pc" "compiledConditions pc' = compiledConditions pc"
  shows "cacheable_grant pc' c = cacheable_grant pc c"
  by (simp only: cacheable_grant_def Let_def hasAllCompiledConditions_iff assms)

lemma cacheable_grant_usable:
  assumes "cacheable_grant pc c = Some g" "cond g = Some cert" "versioned_check c"
  shows "cert_usable pc cert"
  using assms by (auto simp: cacheable_grant_Some_iff cert_usable_def versioned_check_def split: if_splits)

lemma same_outside_cacheCheck [simp]: "same_outside_relations pc (cacheCheck env c pc)"
  by (simp add: cacheCheck_def split: option.splits)

context cache_contract
begin

text \<open>Adding a grant to either cache: what is found there later was there, or is the grant added.\<close>

lemma add_grant_inv:
  assumes "cache_inv env wfr wfl pc" "\<And>cert. cond g = Some cert \<Longrightarrow> cert_usable pc cert"
    and pc': "pc' = addDirectRelation env r g pc \<or> pc' = addIndirectRelation env r g pc"
  shows "cache_inv env wfr wfl pc'"
    and "holds_grant env pc' k g' \<Longrightarrow> holds_grant env pc k g' \<or> k = key r \<and> g' = g"
proof -
  note inv = cache_invD[OF assms(1)]
  have outside: "same_outside_relations pc pc'" using pc' by auto
  note q = same_outside_relationsD[OF outside]
  have wf: "caches_wf wfr wfl pc'"
    using pc' addDirectRelation_grants(3)[OF inv(1)] addIndirectRelation_grants(3)[OF inv(1)] by auto
  have idx: "direct_indexed env pc'"
    using pc' addDirectRelation_indexed[OF inv(1,2)] addIndirectRelation_grants(4)[OF inv(1)] inv(2) by auto
  have held: "holds_grant env pc k g' \<or> k = key r \<and> g' = g" if "holds_grant env pc' k g'" for k g'
    using that pc' unfolding holds_grant_def
    by (elim disjE) (auto simp: addDirectRelation_grants[OF inv(1)] addIndirectRelation_grants[OF inv(1)]
        restrict_map_def split: if_splits)
  show "holds_grant env pc' k g' \<Longrightarrow> holds_grant env pc k g' \<or> k = key r \<and> g' = g"
    by (rule held)
  have usable: "cert_usable pc' cert = cert_usable pc cert" for cert
    by (simp add: cert_usable_def q)
  have "certs_usable env pc'"
    using inv(5) held assms(2) unfolding certs_usable_def usable by blast
  then show "cache_inv env wfr wfl pc'"
    using wf idx inv(3,4) lookup_inv_cong[OF q(5,10,11)] schema_sync_cong[OF q(1,2,3)]
    by (intro cache_invI) simp_all
qed

lemma cacheCheck_inv:
  assumes "cache_inv env wfr wfl pc" "versioned_check c"
  shows "cache_inv env wfr wfl (cacheCheck env c pc)"
    and "holds_grant env (cacheCheck env c pc) k g \<Longrightarrow>
      holds_grant env pc k g \<or> k = key (CheckRelation c) \<and> cacheable_grant pc c = Some g"
proof -
  have "cache_inv env wfr wfl (cacheCheck env c pc) \<and> (holds_grant env (cacheCheck env c pc) k g \<longrightarrow>
      holds_grant env pc k g \<or> k = key (CheckRelation c) \<and> cacheable_grant pc c = Some g)"
  proof (cases "cacheable_grant pc c")
    case None
    then show ?thesis using assms by (simp add: cacheCheck_def)
  next
    case (Some g0)
    have or: "cacheCheck env c pc = addDirectRelation env (CheckRelation c) g0 pc \<or>
        cacheCheck env c pc = addIndirectRelation env (CheckRelation c) g0 pc"
      by (simp add: cacheCheck_def Some)
    from add_grant_inv[OF assms(1) cacheable_grant_usable[OF Some _ assms(2)] or] Some
    show ?thesis by blast
  qed
  then show "cache_inv env wfr wfl (cacheCheck env c pc)"
    "holds_grant env (cacheCheck env c pc) k g \<Longrightarrow>
      holds_grant env pc k g \<or> k = key (CheckRelation c) \<and> cacheable_grant pc c = Some g"
    by blast+
qed

lemma UpdateCacheWithChecks_inv:
  assumes "cache_inv env wfr wfl pc" "\<And>c. c \<in> set cs \<Longrightarrow> versioned_check c"
  shows "cache_inv env wfr wfl (UpdateCacheWithChecks env cs pc)"
    and "holds_grant env (UpdateCacheWithChecks env cs pc) k g \<Longrightarrow>
      holds_grant env pc k g \<or> (\<exists>c\<in>set cs. k = key (CheckRelation c) \<and> cacheable_grant pc c = Some g)"
    and "same_outside_relations pc (UpdateCacheWithChecks env cs pc)"
proof -
  define P where "P pc' \<longleftrightarrow> cache_inv env wfr wfl pc' \<and> same_outside_relations pc pc' \<and>
    (\<forall>k g. holds_grant env pc' k g \<longrightarrow> holds_grant env pc k g \<or>
       (\<exists>c\<in>set cs. k = key (CheckRelation c) \<and> cacheable_grant pc c = Some g))" for pc'
  have "P (fold (cacheCheck env) cs pc)"
  proof (rule fold_invariant_set)
    show "P pc" using assms(1) by (simp add: P_def)
  next
    fix c pc'
    assume c: "c \<in> set cs" and P: "P pc'"
    have s: "same_outside_relations pc pc'" and inv: "cache_inv env wfr wfl pc'"
      using P by (simp_all add: P_def)
    have g: "cacheable_grant pc' c = cacheable_grant pc c"
      by (rule cacheable_grant_cong) (simp_all add: same_outside_relationsD[OF s])
    note step = cacheCheck_inv[OF inv assms(2)[OF c]]
    have "same_outside_relations pc (cacheCheck env c pc')"
      using same_outside_relations_trans[OF s same_outside_cacheCheck] .
    then show "P (cacheCheck env c pc')"
      using step P c unfolding P_def g by blast
  qed
  then have "P (UpdateCacheWithChecks env cs pc)"
    by (cases "cs = []") (simp_all add: UpdateCacheWithChecks_def)
  then show "cache_inv env wfr wfl (UpdateCacheWithChecks env cs pc)"
    "holds_grant env (UpdateCacheWithChecks env cs pc) k g \<Longrightarrow>
      holds_grant env pc k g \<or> (\<exists>c\<in>set cs. k = key (CheckRelation c) \<and> cacheable_grant pc c = Some g)"
    "same_outside_relations pc (UpdateCacheWithChecks env cs pc)"
    unfolding P_def by blast+
qed

end

section \<open>Operations on the lookup cache\<close>

lemma grants_outside_lookup:
  assumes "same_outside_lookup pc pc'"
  shows "direct_grants env pc' = direct_grants env pc" "indirect_grants env pc' = indirect_grants env pc"
    "holds_grant env pc' = holds_grant env pc"
  using same_outside_lookupD[OF assms] by (simp_all add: direct_grants_def indirect_grants_def holds_grant_def fun_eq_iff)

lemma cache_inv_lookup:
  assumes "cache_inv env wfr wfl pc" "same_outside_lookup pc pc'" "lookup_inv env wfl pc'"
  shows "cache_inv env wfr wfl pc'"
proof (rule cache_invI)
  note inv = cache_invD[OF assms(1)] and q = same_outside_lookupD[OF assms(2)]
  show "caches_wf wfr wfl pc'"
    using inv(1) assms(3) q by (auto simp: caches_wf_def lookup_inv_def split: option.splits)
  show "direct_indexed env pc'"
    using inv(2) direct_indexed_cong[OF q(1,3,4,5)] by simp
  show "lookup_inv env wfl pc'" by (fact assms(3))
  show "schema_sync env pc'" using inv(4) schema_sync_cong[OF q(6,7,8)] by simp
  show "certs_usable env pc'"
    using inv(5) by (simp add: certs_usable_def cert_usable_def grants_outside_lookup[OF assms(2)] q)
qed

section \<open>Reads\<close>

lemma cache_inv_reads:
  assumes "cache_inv env wfr wfl pc" "reads_alike env pc pc'" "caches_wf wfr wfl pc'" "nextEntry pc' = nextEntry pc"
  shows "cache_inv env wfr wfl pc'"
proof (rule cache_invI)
  note inv = cache_invD[OF assms(1)] and q = reads_alikeD[OF assms(2)]
  show "caches_wf wfr wfl pc'" by (fact assms(3))
  show "direct_indexed env pc'"
    using inv(2) by (simp add: direct_indexed_def q resource_keys_cong[OF q(5)] target_keys_cong[OF q(6)])
  show "lookup_inv env wfl pc'" using inv(3) lookup_inv_cong[OF q(8,9) assms(4)] by simp
  show "schema_sync env pc'" using inv(4) schema_sync_cong[OF q(10,3,11)] by simp
  show "certs_usable env pc'"
    using inv(5) by (simp add: certs_usable_def cert_usable_def holds_grant_def q)
qed

section \<open>Written relations\<close>

context cache_contract
begin

lemma CheckRelations_inv:
  assumes "cache_inv env wfr wfl pc" "CheckRelations env pc rs ctx = (res, pc')"
  shows "cache_inv env wfr wfl pc'" and "reads_alike env pc pc'"
proof -
  obtain a b c where res: "res = (a, b, c)" by (metis prod_cases3)
  note spec = CheckRelations_spec(4,5)[OF cache_invD(1)[OF assms(1)] assms(2)[unfolded res]]
  show "reads_alike env pc pc'" by (rule spec)
  have "nextEntry pc' = nextEntry pc" using spec(2) by (auto simp: reads_alike_def)
  then show "cache_inv env wfr wfl pc'" by (rule cache_inv_reads[OF assms(1) spec(2,1)])
qed

lemma remove_inv:
  assumes "cache_inv env wfr wfl pc"
    and "pc' = removeDirectRelationsByResource env r pc \<or> pc' = removeDirectRelationsByTarget env t pc"
  shows "cache_inv env wfr wfl pc'"
proof (rule cache_invI)
  note inv = cache_invD[OF assms(1)]
  have outside: "same_outside_relations pc pc'" using assms(2) by auto
  note q = same_outside_relationsD[OF outside]
  note a = removeByResource_indexed[OF inv(1,2)] and b = removeByTarget_indexed[OF inv(1,2)]
  show "caches_wf wfr wfl pc'" "direct_indexed env pc'" using assms(2) a(1,3) b(1,3) by auto
  show "lookup_inv env wfl pc'" using inv(3) lookup_inv_cong[OF q(5,10,11)] by simp
  show "schema_sync env pc'" using inv(4) schema_sync_cong[OF q(1,2,3)] by simp
  have "indirect_grants env pc' = indirect_grants env pc"
    using assms(2) by (auto intro: indirect_grants_cong)
  then show "certs_usable env pc'"
    using assms(2) a(2) b(2) by (intro certs_usable_mono[OF inv(5)]) (auto simp: holds_grant_def q)
qed

lemma removeBoth_inv:
  assumes "cache_inv env wfr wfl pc"
  shows "cache_inv env wfr wfl (removeDirectRelationsByResourceAndTarget env r pc)"
  unfolding removeDirectRelationsByResourceAndTarget_def
  by (rule remove_inv) (auto intro: remove_inv[OF assms])

end

text \<open>
  The state between an invalidation's start \<open>pc\<close> and \<open>pc'\<close>, after it has swept the components
  \<open>gone\<close>: no indirect grants, only direct grants that were there and avoid \<open>gone\<close>.
\<close>

definition sweeping :: "('rc, 'lc, 'p) cache_env \<Rightarrow> ('rc \<Rightarrow> bool) \<Rightarrow> ('lc \<Rightarrow> bool) \<Rightarrow>
    (keyComponents \<Rightarrow> bool) \<Rightarrow> ('rc, 'lc, 'p) projectAuthzCache \<Rightarrow>
    ('rc, 'lc, 'p) projectAuthzCache \<Rightarrow> bool" where
  "sweeping env wfr wfl gone pc pc' \<longleftrightarrow> cache_inv env wfr wfl pc' \<and>
     indirect_grants env pc' = Map.empty \<and> directKeyComponents pc' = directKeyComponents pc \<and>
     schemaCache pc' = schemaCache pc \<and> celEvalTimeout pc' = celEvalTimeout pc \<and>
     compiledConditions pc' = compiledConditions pc \<and> loadedSchemaVersion pc' = loadedSchemaVersion pc \<and>
     remoteChanges pc' = remoteChanges pc \<and> timers pc' = timers pc \<and>
     (\<forall>k g. direct_grants env pc' k = Some g \<longrightarrow> direct_grants env pc k = Some g \<and>
        (\<exists>c. directKeyComponents pc k = Some c \<and> \<not> gone c))"

lemma sweepingD:
  assumes "sweeping env wfr wfl gone pc pc'"
  shows "cache_inv env wfr wfl pc'" "indirect_grants env pc' = Map.empty"
    "schemaCache pc' = schemaCache pc" "celEvalTimeout pc' = celEvalTimeout pc"
    "compiledConditions pc' = compiledConditions pc" "loadedSchemaVersion pc' = loadedSchemaVersion pc"
    "remoteChanges pc' = remoteChanges pc" "timers pc' = timers pc"
    "direct_grants env pc' k = Some g \<Longrightarrow> direct_grants env pc k = Some g"
    "direct_grants env pc' k = Some g \<Longrightarrow> \<exists>c. directKeyComponents pc k = Some c \<and> \<not> gone c"
  using assms by (auto simp: sweeping_def)

context cache_contract
begin

lemma sweeping_start:
  assumes "cache_inv env wfr wfl pc"
  shows "sweeping env wfr wfl (\<lambda>_. False) pc (purgeIndirect env pc)"
proof -
  note p = purgeIndirect_spec[OF assms]
  have "\<exists>c. directKeyComponents pc k = Some c" if "direct_grants env pc k = Some g" for k g
    by (rule direct_indexedE[OF cache_invD(2)[OF assms] that]) blast
  then show ?thesis
    using p(1-4) same_outside_relationsD[OF p(5)] by (auto simp: sweeping_def)
qed

lemma sweeping_by_resource:
  assumes "sweeping env wfr wfl gone pc pc'"
  shows "sweeping env wfr wfl (\<lambda>c. gone c \<or> kc_r c = r) pc (removeDirectRelationsByResource env r pc')"
proof -
  let ?q = "removeDirectRelationsByResource env r pc'"
  have inv: "cache_inv env wfr wfl pc'" and kc: "directKeyComponents pc' = directKeyComponents pc"
    using assms by (simp_all add: sweeping_def)
  have "direct_grants env pc k = Some g \<and> (\<exists>c. directKeyComponents pc k = Some c \<and> \<not> (gone c \<or> kc_r c = r))"
    if "direct_grants env ?q k = Some g" for k g
    using removeByResource_indexed(2)[OF cache_invD(1,2)[OF inv] that] assms kc by (force simp: sweeping_def)
  moreover have "cache_inv env wfr wfl ?q" by (rule remove_inv[OF inv]) auto
  moreover have "indirect_grants env ?q = Map.empty"
    using assms indirect_grants_cong[of ?q pc' env] by (simp add: sweeping_def)
  ultimately show ?thesis
    using assms same_outside_relationsD[OF same_outside_removeByResource[of pc' env r]]
    by (simp add: sweeping_def)
qed

lemma sweeping_by_target:
  assumes "sweeping env wfr wfl gone pc pc'"
  shows "sweeping env wfr wfl (\<lambda>c. gone c \<or> kc_t c = t) pc (removeDirectRelationsByTarget env t pc')"
proof -
  let ?q = "removeDirectRelationsByTarget env t pc'"
  have inv: "cache_inv env wfr wfl pc'" and kc: "directKeyComponents pc' = directKeyComponents pc"
    using assms by (simp_all add: sweeping_def)
  have "direct_grants env pc k = Some g \<and> (\<exists>c. directKeyComponents pc k = Some c \<and> \<not> (gone c \<or> kc_t c = t))"
    if "direct_grants env ?q k = Some g" for k g
    using removeByTarget_indexed(2)[OF cache_invD(1,2)[OF inv] that] assms kc by (force simp: sweeping_def)
  moreover have "cache_inv env wfr wfl ?q" by (rule remove_inv[OF inv]) auto
  moreover have "indirect_grants env ?q = Map.empty"
    using assms indirect_grants_cong[of ?q pc' env] by (simp add: sweeping_def)
  ultimately show ?thesis
    using assms same_outside_relationsD[OF same_outside_removeByTarget[of pc' env t]]
    by (simp add: sweeping_def)
qed

text \<open>A fold of steps, each sweeping what its element names, sweeps what any element names.\<close>

lemma sweeping_fold:
  assumes "sweeping env wfr wfl gone pc pc'"
    and "\<And>x gone' q. sweeping env wfr wfl gone' pc q \<Longrightarrow>
           sweeping env wfr wfl (\<lambda>c. gone' c \<or> P x c) pc (f x q)"
  shows "sweeping env wfr wfl (\<lambda>c. gone c \<or> (\<exists>x\<in>set xs. P x c)) pc (fold f xs pc')"
  using assms(1)
proof (induction xs arbitrary: gone pc')
  case Nil
  then show ?case by simp
next
  case (Cons x xs)
  have "sweeping env wfr wfl (\<lambda>c. (gone c \<or> P x c) \<or> (\<exists>x\<in>set xs. P x c)) pc (fold f xs (f x pc'))"
    by (rule Cons.IH[OF assms(2)[OF Cons.prems]])
  moreover have "(\<lambda>c. (gone c \<or> P x c) \<or> (\<exists>x\<in>set xs. P x c)) = (\<lambda>c. gone c \<or> (\<exists>x\<in>set (x # xs). P x c))"
    by auto
  ultimately show ?case by simp
qed

lemma sweeping_both:
  assumes "sweeping env wfr wfl gone pc pc'"
  shows "sweeping env wfr wfl (\<lambda>c. gone c \<or> swept r c) pc
    (removeDirectRelationsByResourceAndTarget env r pc')"
  using sweeping_by_target[OF sweeping_by_resource[OF assms], where r1 = "Resource r" and t = "Target r"]
  by (simp add: removeDirectRelationsByResourceAndTarget_def swept_def disj_assoc)

lemma sweeping_lookup:
  assumes "sweeping env wfr wfl gone pc q" "same_outside_lookup q q'" "lookup_inv env wfl q'"
  shows "sweeping env wfr wfl gone pc q'"
  using assms(1) cache_inv_lookup[OF sweepingD(1)[OF assms(1)] assms(2,3)]
  by (simp add: sweeping_def grants_outside_lookup[OF assms(2)] same_outside_lookupD[OF assms(2)])

lemma UpdateCacheWithDeletedRelations_sweeps:
  assumes "cache_inv env wfr wfl pc" "rels \<noteq> []"
  shows "sweeping env wfr wfl (\<lambda>c. \<exists>r\<in>set rels. swept r c) pc (UpdateCacheWithDeletedRelations env rels pc)"
  using sweeping_fold[OF sweeping_start[OF assms(1)], where P = swept and xs = rels
      and f = "removeDirectRelationsByResourceAndTarget env"] sweeping_both assms(2)
  by (simp add: UpdateCacheWithDeletedRelations_def)

lemma UpdateCacheWithAddedRelations_sweeps:
  assumes "cache_inv env wfr wfl pc" "rels \<noteq> []"
  shows "sweeping env wfr wfl (\<lambda>c. \<exists>r\<in>set rels. swept r c) pc (UpdateCacheWithAddedRelations env now rels pc)"
proof -
  have "sweeping env wfr wfl (\<lambda>c. gone' c \<or> swept r c) pc
      (addToLookupCache env now r (removeDirectRelationsByResourceAndTarget env r q))"
    if "sweeping env wfr wfl gone' pc q" for r gone' q
  proof -
    note s = sweeping_both[OF that, of r]
    note a = addToLookupCache_spec[OF cache_invD(3)[OF sweepingD(1)[OF s]], of now r]
    show ?thesis by (rule sweeping_lookup[OF s a(3,2)])
  qed
  from sweeping_fold[OF sweeping_start[OF assms(1)] this, where xs = rels] assms(2)
  show ?thesis by (simp add: UpdateCacheWithAddedRelations_def)
qed

lemma UpdateCacheWithRelations_inv:
  assumes "cache_inv env wfr wfl pc"
  shows "cache_inv env wfr wfl (UpdateCacheWithAddedRelations env now rels pc)"
    and "cache_inv env wfr wfl (UpdateCacheWithDeletedRelations env rels pc)"
  using UpdateCacheWithAddedRelations_sweeps[OF assms, of rels now]
    UpdateCacheWithDeletedRelations_sweeps[OF assms, of rels] assms
  by (cases "rels = []"; simp add: UpdateCacheWithAddedRelations_def UpdateCacheWithDeletedRelations_def
      sweeping_def)+

end

end
