(* ===== verification/RemotePolling.thy ===== *)
theory RemotePolling
  imports CacheSteps
begin

text \<open>
  Polling the backend for remote changes, and the cooldown before an error purges the caches
  (\<open>updateCacheWithRemotePolling\<close>, \<open>fetchRemoteChanges\<close>, \<open>purgeAfterCooldown\<close>,
  \<open>cancelPurgeCooldown\<close> and the callback of its timer, in \<open>projectauthzcache.go\<close>).

  A tick runs as one critical section. Its clock readings are \<open>t0\<close> (before the request to the
  backend) and \<open>t1\<close> (after it). \<open>GetModified\<close> is the SDK's answer as a function of the time asked
  about; \<open>IsError\<close> is the SDK's error classifier.

  Timers follow Go's runtime: \<open>time.AfterFunc\<close> arms a timer, \<open>Stop\<close> disarms it if it has not
  fired, and a timer that fires starts its callback, which must then wait for the mutex; a
  callback that has started cannot be stopped.
\<close>

section \<open>Timers\<close>

definition AfterFunc :: "gotime \<Rightarrow> duration \<Rightarrow> ('rc, 'lc, 'p) projectAuthzCache \<Rightarrow>
    nat \<times> ('rc, 'lc, 'p) projectAuthzCache" where
  "AfterFunc now d pc =
    (let i = nextTimer (timers pc)
     in (i, pc\<lparr>timers := (timers pc)\<lparr>armedTimers := (armedTimers (timers pc))(i \<mapsto> now + sint d),
                                    nextTimer := Suc i\<rparr>\<rparr>))"

definition StopTimer :: "nat \<Rightarrow> ('rc, 'lc, 'p) projectAuthzCache \<Rightarrow> ('rc, 'lc, 'p) projectAuthzCache" where
  "StopTimer i pc = pc\<lparr>timers := (timers pc)\<lparr>armedTimers := (armedTimers (timers pc))(i := None)\<rparr>\<rparr>"

text \<open>The runtime fires a timer whose deadline has passed.\<close>

definition fireTimer :: "gotime \<Rightarrow> nat \<Rightarrow> ('rc, 'lc, 'p) projectAuthzCache \<Rightarrow>
    ('rc, 'lc, 'p) projectAuthzCache option" where
  "fireTimer now i pc = (case armedTimers (timers pc) i of
     None \<Rightarrow> None
   | Some deadline \<Rightarrow>
      if deadline \<le> now
      then Some (pc\<lparr>timers := (timers pc)\<lparr>armedTimers := (armedTimers (timers pc))(i := None),
                                         startedCallbacks := startedCallbacks (timers pc) @ [i]\<rparr>\<rparr>)
      else None)"

section \<open>The cooldown\<close>

definition setCooldownTimer :: "nat option \<Rightarrow> ('rc, 'lc, 'p) projectAuthzCache \<Rightarrow>
    ('rc, 'lc, 'p) projectAuthzCache" where
  "setCooldownTimer t pc = pc\<lparr>remoteChanges := (remoteChanges pc)\<lparr>purgeCooldownTimer := t\<rparr>\<rparr>"

text \<open>The body of the function passed to \<open>time.AfterFunc\<close>, run by a started callback.\<close>

definition cooldownCallback :: "('rc, 'lc, 'p) cache_env \<Rightarrow> gotime \<Rightarrow> ('rc, 'lc, 'p) projectAuthzCache \<Rightarrow>
    ('rc, 'lc, 'p) projectAuthzCache" where
  "cooldownCallback env now pc =
    (if purgeCooldownTimer (remoteChanges pc) \<noteq> None
     then setCooldownTimer None (purgeAllCaches env now pc)
     else pc)"

definition runCallback :: "('rc, 'lc, 'p) cache_env \<Rightarrow> gotime \<Rightarrow> nat \<Rightarrow> ('rc, 'lc, 'p) projectAuthzCache \<Rightarrow>
    ('rc, 'lc, 'p) projectAuthzCache option" where
  "runCallback env now i pc =
    (if i \<in> set (startedCallbacks (timers pc))
     then Some (cooldownCallback env now
            (pc\<lparr>timers := (timers pc)\<lparr>startedCallbacks := remove1 i (startedCallbacks (timers pc))\<rparr>\<rparr>))
     else None)"

definition purgeAfterCooldown :: "('rc, 'lc, 'p) cache_env \<Rightarrow> gotime \<Rightarrow> ('rc, 'lc, 'p) projectAuthzCache \<Rightarrow>
    ('rc, 'lc, 'p) projectAuthzCache" where
  "purgeAfterCooldown env now pc =
    (if purgeCooldownWindow (remoteChanges pc) = 0 then purgeAllCaches env now pc
     else if purgeCooldownTimer (remoteChanges pc) = None then
       (case AfterFunc now (purgeCooldownWindow (remoteChanges pc)) pc of
          (i, pc') \<Rightarrow> setCooldownTimer (Some i) pc')
     else pc)"

definition cancelPurgeCooldown :: "('rc, 'lc, 'p) projectAuthzCache \<Rightarrow> ('rc, 'lc, 'p) projectAuthzCache" where
  "cancelPurgeCooldown pc = (case purgeCooldownTimer (remoteChanges pc) of
     None \<Rightarrow> pc
   | Some i \<Rightarrow> setCooldownTimer None (StopTimer i pc))"

section \<open>One tick\<close>

definition getModifiedLimitReachedErrorCode :: string where
  "getModifiedLimitReachedErrorCode = ''E173012''"

definition isTooManyModifiedRelationsError :: "(goerror \<Rightarrow> string \<Rightarrow> bool) \<Rightarrow> goerror \<Rightarrow> bool" where
  "isTooManyModifiedRelationsError IsError err = IsError err getModifiedLimitReachedErrorCode"

definition setLastPollTime :: "gotime \<Rightarrow> ('rc, 'lc, 'p) projectAuthzCache \<Rightarrow>
    ('rc, 'lc, 'p) projectAuthzCache" where
  "setLastPollTime t pc = pc\<lparr>remoteChanges := (remoteChanges pc)\<lparr>lastPollTime := t\<rparr>\<rparr>"

definition fetchRemoteChanges :: "(gotime \<Rightarrow> goerror + AuthzModified) \<Rightarrow> gotime \<Rightarrow>
    ('rc, 'lc, 'p) projectAuthzCache \<Rightarrow>
    (goerror + AuthzModified) \<times> ('rc, 'lc, 'p) projectAuthzCache" where
  "fetchRemoteChanges GetModified currPollTime pc =
    (case GetModified (lastPollTime (remoteChanges pc)) of
       Inl err \<Rightarrow> (Inl err, pc)
     | Inr m \<Rightarrow> (Inr m, setLastPollTime currPollTime pc))"

definition noRelations :: "('rc, 'lc, 'p) cache_env \<Rightarrow> ('rc, 'lc, 'p) projectAuthzCache \<Rightarrow> bool" where
  "noRelations env pc \<longleftrightarrow> lru_len (rel_lru env) (directRelationCache pc) = 0 \<and>
     lru_len (rel_lru env) (indirectRelationCache pc) = 0"

text \<open>The invalidation at the end of the tick: the changed resources, then the changed targets.\<close>

definition applyRemoteChanges :: "('rc, 'lc, 'p) cache_env \<Rightarrow> AuthzModified \<Rightarrow>
    ('rc, 'lc, 'p) projectAuthzCache \<Rightarrow> ('rc, 'lc, 'p) projectAuthzCache" where
  "applyRemoteChanges env m pc =
     fold (removeDirectRelationsByTarget env) (ModTargets m)
       (fold (removeDirectRelationsByResource env) (ModResources m) (purgeIndirect env pc))"

definition updateCacheWithRemotePolling :: "('rc, 'lc, 'p) cache_env \<Rightarrow> (goerror \<Rightarrow> string \<Rightarrow> bool) \<Rightarrow>
    (gotime \<Rightarrow> goerror + AuthzModified) \<Rightarrow> gotime \<Rightarrow> gotime \<Rightarrow>
    ('rc, 'lc, 'p) projectAuthzCache \<Rightarrow> ('rc, 'lc, 'p) projectAuthzCache" where
  "updateCacheWithRemotePolling env IsError GetModified t0 t1 pc =
    (if noRelations env pc then setSchema env None (setLastPollTime t0 pc)
     else case fetchRemoteChanges GetModified t0 pc of
       (Inl err, pc1) \<Rightarrow>
         if isTooManyModifiedRelationsError IsError err
         then purgeAllCaches env t1 (cancelPurgeCooldown pc1)
         else purgeAfterCooldown env t1 pc1
     | (Inr m, pc1) \<Rightarrow>
         (let pc2 = cancelPurgeCooldown pc1
          in if SchemaChanged m then purgeAllCaches env t1 pc2
             else if ModResources m = [] \<and> ModTargets m = [] then pc2
             else applyRemoteChanges env m pc2))"

section \<open>Frames\<close>

text \<open>The polling state is the fields \<open>remoteChanges\<close> and \<open>timers\<close>; changing them changes
  nothing else.\<close>

definition same_outside_polling :: "('rc, 'lc, 'p) projectAuthzCache \<Rightarrow>
    ('rc, 'lc, 'p) projectAuthzCache \<Rightarrow> bool" where
  "same_outside_polling pc pc' \<longleftrightarrow> (\<exists>x y. pc' = pc\<lparr>remoteChanges := x, timers := y\<rparr>)"

lemma same_outside_pollingI:
  "pc' = pc\<lparr>remoteChanges := x, timers := y\<rparr> \<Longrightarrow> same_outside_polling pc pc'"
  by (auto simp: same_outside_polling_def)

lemma same_outside_polling_simps [simp]:
  "same_outside_polling pc pc"
  "same_outside_polling pc (setCooldownTimer t pc)"
  "same_outside_polling pc (setLastPollTime now pc)"
  "same_outside_polling pc (StopTimer i pc)"
  "same_outside_polling pc (snd (AfterFunc now d pc))"
  by (rule same_outside_pollingI[where x = "remoteChanges pc" and y = "timers pc"], simp)
     (auto simp: setCooldownTimer_def setLastPollTime_def StopTimer_def AfterFunc_def Let_def
        intro: same_outside_pollingI[where y = "timers pc"] same_outside_pollingI[where x = "remoteChanges pc"])

lemma same_outside_polling_trans:
  "same_outside_polling a b \<Longrightarrow> same_outside_polling b c \<Longrightarrow> same_outside_polling a c"
  unfolding same_outside_polling_def by (elim exE) (simp, blast)

lemma same_outside_pollingD:
  assumes "same_outside_polling pc pc'"
  shows "cache_inv env wfr wfl pc' = cache_inv env wfr wfl pc"
    "direct_grants env pc' = direct_grants env pc" "indirect_grants env pc' = indirect_grants env pc"
    "directKeyComponents pc' = directKeyComponents pc" "loadedSchemaVersion pc' = loadedSchemaVersion pc"
    "compiledConditions pc' = compiledConditions pc" "schemaCache pc' = schemaCache pc"
    "celEvalTimeout pc' = celEvalTimeout pc" "lookup_entries env pc' = lookup_entries env pc"
    "noRelations env pc' = noRelations env pc"
proof -
  obtain x y where eq: "pc' = pc\<lparr>remoteChanges := x, timers := y\<rparr>"
    using assms by (auto simp: same_outside_polling_def)
  show "cache_inv env wfr wfl pc' = cache_inv env wfr wfl pc" by (simp add: eq)
  show "lookup_entries env pc' = lookup_entries env pc" by (rule lookup_entries_cong) (simp_all add: eq)
  show "direct_grants env pc' = direct_grants env pc" "indirect_grants env pc' = indirect_grants env pc"
    "directKeyComponents pc' = directKeyComponents pc" "loadedSchemaVersion pc' = loadedSchemaVersion pc"
    "compiledConditions pc' = compiledConditions pc" "schemaCache pc' = schemaCache pc"
    "celEvalTimeout pc' = celEvalTimeout pc" "noRelations env pc' = noRelations env pc"
    by (simp_all add: eq direct_grants_def indirect_grants_def noRelations_def)
qed

lemma same_outside_cancel [simp]: "same_outside_polling pc (cancelPurgeCooldown pc)"
  unfolding cancelPurgeCooldown_def
  by (auto split: option.splits
      intro: same_outside_polling_trans[OF same_outside_polling_simps(4) same_outside_polling_simps(2)])

lemma cancelPurgeCooldown_timer [simp]:
  "purgeCooldownTimer (remoteChanges (cancelPurgeCooldown pc)) = None"
  "lastPollTime (remoteChanges (cancelPurgeCooldown pc)) = lastPollTime (remoteChanges pc)"
  "purgeCooldownWindow (remoteChanges (cancelPurgeCooldown pc)) = purgeCooldownWindow (remoteChanges pc)"
  by (simp_all add: cancelPurgeCooldown_def setCooldownTimer_def StopTimer_def split: option.splits)

lemma setLastPollTime_fields [simp]:
  "remoteChanges (setLastPollTime t pc) = (remoteChanges pc)\<lparr>lastPollTime := t\<rparr>"
  "timers (setLastPollTime t pc) = timers pc"
  by (simp_all add: setLastPollTime_def)

lemma setCooldownTimer_fields [simp]:
  "remoteChanges (setCooldownTimer x pc) = (remoteChanges pc)\<lparr>purgeCooldownTimer := x\<rparr>"
  "timers (setCooldownTimer x pc) = timers pc"
  by (simp_all add: setCooldownTimer_def)

section \<open>What a tick does\<close>

context cache_contract
begin

lemma noRelations_iff:
  assumes "caches_wf wfr wfl pc"
  shows "noRelations env pc \<longleftrightarrow> direct_grants env pc = Map.empty \<and> indirect_grants env pc = Map.empty"
  using assms rel.len_zero by (simp add: noRelations_def caches_wf_def direct_grants_def indirect_grants_def)

lemma applyRemoteChanges_sweeps:
  assumes "cache_inv env wfr wfl pc"
  shows "sweeping env wfr wfl (\<lambda>c. kc_r c \<in> set (ModResources m) \<or> kc_t c \<in> set (ModTargets m)) pc
    (applyRemoteChanges env m pc)"
proof -
  let ?q = "fold (removeDirectRelationsByResource env) (ModResources m) (purgeIndirect env pc)"
  have r: "sweeping env wfr wfl (\<lambda>c. False \<or> (\<exists>r\<in>set (ModResources m). kc_r c = r)) pc ?q"
    by (rule sweeping_fold[OF sweeping_start[OF assms]]) (rule sweeping_by_resource)
  have t: "sweeping env wfr wfl (\<lambda>c. (False \<or> (\<exists>r\<in>set (ModResources m). kc_r c = r)) \<or>
      (\<exists>t\<in>set (ModTargets m). kc_t c = t)) pc (fold (removeDirectRelationsByTarget env) (ModTargets m) ?q)"
    by (rule sweeping_fold[OF r]) (rule sweeping_by_target)
  have "(\<lambda>c. (False \<or> (\<exists>x\<in>set (ModResources m). kc_r c = x)) \<or> (\<exists>x\<in>set (ModTargets m). kc_t c = x)) =
      (\<lambda>c. kc_r c \<in> set (ModResources m) \<or> kc_t c \<in> set (ModTargets m))" by auto
  with t show ?thesis by (simp add: applyRemoteChanges_def)
qed

text \<open>The five ways a tick can end, each with its effect on the grants, the schema, the poll time
  and the cooldown.\<close>

lemma poll_idle:
  assumes "noRelations env pc"
  shows "updateCacheWithRemotePolling env IsError GetModified t0 t1 pc =
    setSchema env None (setLastPollTime t0 pc)"
  using assms by (simp add: updateCacheWithRemotePolling_def)

lemma poll_success:
  assumes "\<not> noRelations env pc" "GetModified (lastPollTime (remoteChanges pc)) = Inr m"
  shows "updateCacheWithRemotePolling env IsError GetModified t0 t1 pc =
    (let pc2 = cancelPurgeCooldown (setLastPollTime t0 pc)
     in if SchemaChanged m then purgeAllCaches env t1 pc2
        else if ModResources m = [] \<and> ModTargets m = [] then pc2
        else applyRemoteChanges env m pc2)"
  using assms by (simp add: updateCacheWithRemotePolling_def fetchRemoteChanges_def)

lemma poll_failure:
  assumes "\<not> noRelations env pc" "GetModified (lastPollTime (remoteChanges pc)) = Inl err"
  shows "updateCacheWithRemotePolling env IsError GetModified t0 t1 pc =
    (if IsError err getModifiedLimitReachedErrorCode
     then purgeAllCaches env t1 (cancelPurgeCooldown pc) else purgeAfterCooldown env t1 pc)"
  using assms by (simp add: updateCacheWithRemotePolling_def fetchRemoteChanges_def
      isTooManyModifiedRelationsError_def)

lemma purgeAfterCooldown_keeps:
  assumes "purgeCooldownWindow (remoteChanges pc) \<noteq> 0"
  shows "same_outside_polling pc (purgeAfterCooldown env now pc)"
  using assms same_outside_polling_trans[OF same_outside_polling_simps(5) same_outside_polling_simps(2)]
  by (auto simp: purgeAfterCooldown_def split_beta)

lemma purgeAfterCooldown_inv:
  assumes "cache_inv env wfr wfl pc"
  shows "cache_inv env wfr wfl (purgeAfterCooldown env now pc)"
proof (cases "purgeCooldownWindow (remoteChanges pc) = 0")
  case True
  then show ?thesis using purgeAllCaches_inv[OF assms] by (simp add: purgeAfterCooldown_def)
next
  case False
  then show ?thesis using same_outside_pollingD(1)[OF purgeAfterCooldown_keeps] assms by blast
qed

lemma cancel_inv: "cache_inv env wfr wfl (cancelPurgeCooldown pc) = cache_inv env wfr wfl pc"
  by (rule same_outside_pollingD(1)) simp

lemma idle_inv:
  assumes "cache_inv env wfr wfl pc" "noRelations env pc"
  shows "cache_inv env wfr wfl (setSchema env None (setLastPollTime t0 pc))"
proof -
  let ?q = "setLastPollTime t0 pc"
  have q: "cache_inv env wfr wfl ?q" using assms same_outside_pollingD(1)[of pc ?q] by simp
  have "noRelations env ?q" using assms same_outside_pollingD(10)[of pc ?q] by simp
  then have "\<not> holds_grant env (setSchema env None ?q) k g" for k g
    using noRelations_iff[OF cache_invD(1)[OF q]] by (simp add: holds_grant_def)
  then show ?thesis
    using cache_invD[OF q] by (intro cache_invI) (simp_all add: setSchema_inv_parts certs_usable_none)
qed

lemma updateCacheWithRemotePolling_inv:
  assumes "cache_inv env wfr wfl pc"
  shows "cache_inv env wfr wfl (updateCacheWithRemotePolling env IsError GetModified t0 t1 pc)"
proof (cases "noRelations env pc")
  case True
  then show ?thesis using idle_inv[OF assms] by (simp add: poll_idle)
next
  case False
  have q: "cache_inv env wfr wfl (cancelPurgeCooldown (setLastPollTime t0 pc))"
    using assms same_outside_pollingD(1)[of pc "setLastPollTime t0 pc"] by (simp add: cancel_inv)
  show ?thesis
  proof (cases "GetModified (lastPollTime (remoteChanges pc))")
    case (Inl err)
    then show ?thesis
      using purgeAfterCooldown_inv[OF assms] purgeAllCaches_inv assms
      by (simp add: poll_failure[OF False] cancel_inv)
  next
    case (Inr m)
    then show ?thesis
      using q purgeAllCaches_inv[OF q] sweepingD(1)[OF applyRemoteChanges_sweeps[OF q]]
      by (simp add: poll_success[OF False] Let_def)
  qed
qed

lemma cooldownCallback_inv:
  assumes "cache_inv env wfr wfl pc"
  shows "cache_inv env wfr wfl (cooldownCallback env now pc)"
  using assms purgeAllCaches_inv[OF assms, of now]
  by (simp add: cooldownCallback_def same_outside_pollingD(1)[OF same_outside_polling_simps(2)])

end

end
