(* ===== verification/ProjectCacheNew.thy ===== *)
theory ProjectCacheNew
  imports Config RemotePolling
begin

text \<open>
  \<open>NewProjectAuthzCache\<close> and \<open>StartRemoteChangesPolling\<close> of \<open>projectauthzcache.go\<close>. The LRU
  constructors are parameters (\<open>lru.New\<close>, \<open>lru.NewWithEvict\<close> of the package outside the
  repository): they take a size and a name and may fail. \<open>time.NewTicker\<close> panics on a period
  that is not positive.
\<close>

record ('rc, 'lc) lru_constructors =
  New_relations :: "go_int \<Rightarrow> string \<Rightarrow> goerror + 'rc"
  New_lookup :: "go_int \<Rightarrow> string \<Rightarrow> goerror + 'lc"
  NewWithEvict_relations :: "go_int \<Rightarrow> string \<Rightarrow> goerror + 'rc"

text \<open>The runtime before any timer was armed.\<close>

definition no_timers :: timer_runtime where
  "no_timers = \<lparr>armedTimers = Map.empty, startedCallbacks = [], nextTimer = 0\<rparr>"

definition NewProjectAuthzCache :: "('rc, 'lc) lru_constructors \<Rightarrow> config_source \<Rightarrow> gotime \<Rightarrow> string \<Rightarrow>
    goerror + ('rc, 'lc, 'p) projectAuthzCache" where
  "NewProjectAuthzCache new src now projectID =
    (case New_relations new (GetIndirectRelationCacheSizePerProject src)
            (''authz-indirect-relations-'' @ projectID) of
       Inl err \<Rightarrow> Inl err
     | Inr indirect \<Rightarrow>
        (case (if GetLookupCacheEnabled src
               then (case New_lookup new (GetLookupCacheSizePerProject src)
                            (''authz-lookup-'' @ projectID) of
                       Inl err \<Rightarrow> Inl err
                     | Inr c \<Rightarrow> Inr (Some c))
               else Inr None) of
           Inl err \<Rightarrow> Inl err
         | Inr lookup \<Rightarrow>
            (case NewWithEvict_relations new (GetDirectRelationCacheSizePerProject src)
                    (''authz-direct-relations-'' @ projectID) of
               Inl err \<Rightarrow> Inl err
             | Inr direct \<Rightarrow> Inr
                \<lparr>schemaCache = None, directRelationCache = direct,
                 directResourcesIndex = Map.empty, directTargetsIndex = Map.empty,
                 directKeyComponents = Map.empty, indirectRelationCache = indirect,
                 compiledConditions = Map.empty, loadedSchemaVersion = '''',
                 celEvalTimeout = in_millis (GetCELEvalTimeoutInMillis src),
                 lookupCache = lookup, lookupCacheEnabled = GetLookupCacheEnabled src,
                 lookupCacheTTL = in_seconds (GetLookupCacheTTLInSeconds src),
                 lookupCacheMaxResult = GetLookupCacheMaxResultSize src,
                 remoteChanges = \<lparr>lastPollTime = now,
                   remotePollingInterval = in_millis (GetRemotePollingIntervalInMillis src),
                   purgeCooldownWindow = in_minutes (GetPurgeCooldownWindowInMinutes src),
                   purgeCooldownTimer = None\<rparr>,
                 entryHeap = Map.empty, nextEntry = 0, timers = no_timers\<rparr>)))"

text \<open>The period of the ticker, or the panic; the loop it starts calls
  \<open>updateCacheWithRemotePolling\<close> on every tick until the context is done.\<close>

definition StartRemoteChangesPolling :: "('rc, 'lc, 'p) projectAuthzCache \<Rightarrow> goerror + duration" where
  "StartRemoteChangesPolling pc =
    (if go_less 0 (remotePollingInterval (remoteChanges pc))
     then Inr (remotePollingInterval (remoteChanges pc))
     else Inl (GoPanic ''non-positive interval for NewTicker''))"

fun polling_loop :: "('rc, 'lc, 'p) cache_env \<Rightarrow> (goerror \<Rightarrow> string \<Rightarrow> bool) \<Rightarrow>
    ((gotime \<Rightarrow> goerror + AuthzModified) \<times> gotime \<times> gotime) list \<Rightarrow>
    ('rc, 'lc, 'p) projectAuthzCache \<Rightarrow> ('rc, 'lc, 'p) projectAuthzCache" where
  "polling_loop env IsError [] pc = pc"
| "polling_loop env IsError ((GetModified, t0, t1) # ticks) pc =
     polling_loop env IsError ticks (updateCacheWithRemotePolling env IsError GetModified t0 t1 pc)"

text \<open>The contract of the constructors: what they return is well-formed and empty.\<close>

definition constructors_ok :: "('rc, 'lc, 'p) cache_env \<Rightarrow> ('rc \<Rightarrow> bool) \<Rightarrow> ('lc \<Rightarrow> bool) \<Rightarrow>
    ('rc, 'lc) lru_constructors \<Rightarrow> bool" where
  "constructors_ok env wfr wfl new \<longleftrightarrow>
     (\<forall>n s c. New_relations new n s = Inr c \<longrightarrow> wfr c \<and> lru_content (rel_lru env) c = Map.empty) \<and>
     (\<forall>n s c. NewWithEvict_relations new n s = Inr c \<longrightarrow> wfr c \<and> lru_content (rel_lru env) c = Map.empty) \<and>
     (\<forall>n s c. New_lookup new n s = Inr c \<longrightarrow> wfl c \<and> lru_content (look_lru env) c = Map.empty)"

text \<open>The constructors of the reference cache refuse a size that is not positive.\<close>

definition lru_list_new :: "go_int \<Rightarrow> string \<Rightarrow> goerror + ('k, 'v) lru_list" where
  "lru_list_new n name = (if go_less 0 n then Inr (nat (sint n), [])
     else Inl (PlainError ''must provide a positive size''))"

definition lru_list_constructors ::
    "((cache_key, cachedGrant) lru_list, (cache_key, addr) lru_list) lru_constructors" where
  "lru_list_constructors = \<lparr>New_relations = lru_list_new, New_lookup = lru_list_new,
     NewWithEvict_relations = lru_list_new\<rparr>"

lemma lru_list_new_ok:
  "lru_list_new n s = Inr q \<Longrightarrow> lru_list_wf q \<and> lru_content lru_list_ops q = Map.empty"
  by (auto simp: lru_list_new_def lru_list_wf_def lru_list_content go_less_def split: if_splits)

lemma lru_list_constructors_ok:
  "constructors_ok (reference_env c) lru_list_wf lru_list_wf lru_list_constructors"
  by (auto simp: constructors_ok_def lru_list_constructors_def reference_env_def dest: lru_list_new_ok)

text \<open>A new cache is empty and meets the invariant; its fields are the settings.\<close>

lemma NewProjectAuthzCache_fields:
  assumes "NewProjectAuthzCache new src now projectID = Inr pc"
  shows "lastPollTime (remoteChanges pc) = now" "purgeCooldownTimer (remoteChanges pc) = None"
    "timers pc = no_timers" "schemaCache pc = None" "compiledConditions pc = Map.empty"
    "loadedSchemaVersion pc = ''''"
    "remotePollingInterval (remoteChanges pc) = in_millis (GetRemotePollingIntervalInMillis src)"
    "purgeCooldownWindow (remoteChanges pc) = in_minutes (GetPurgeCooldownWindowInMinutes src)"
    "lookupCacheTTL pc = in_seconds (GetLookupCacheTTLInSeconds src)"
    "celEvalTimeout pc = in_millis (GetCELEvalTimeoutInMillis src)"
    "lookupCacheMaxResult pc = GetLookupCacheMaxResultSize src"
    "lookup_disabled pc \<longleftrightarrow> \<not> GetLookupCacheEnabled src"
    "directKeyComponents pc = Map.empty"
  using assms by (auto simp: NewProjectAuthzCache_def lookup_disabled_def split: sum.splits if_splits)

lemma NewProjectAuthzCache_inv:
  assumes "NewProjectAuthzCache new src now projectID = Inr pc" "constructors_ok env wfr wfl new"
  shows "cache_inv env wfr wfl pc"
    and "direct_grants env pc = Map.empty" "indirect_grants env pc = Map.empty"
    and "lookup_entries env pc = Map.empty"
proof -
  have wf: "wfr (directRelationCache pc)" "wfr (indirectRelationCache pc)"
    "lru_content (rel_lru env) (directRelationCache pc) = Map.empty"
    "lru_content (rel_lru env) (indirectRelationCache pc) = Map.empty"
    and l: "\<And>c. lookupCache pc = Some c \<Longrightarrow> wfl c \<and> lru_content (look_lru env) c = Map.empty"
    using assms by (auto simp: NewProjectAuthzCache_def constructors_ok_def split: sum.splits if_splits)
  note fields = NewProjectAuthzCache_fields[OF assms(1)]
  show grants: "direct_grants env pc = Map.empty" "indirect_grants env pc = Map.empty"
    using wf by (simp_all add: direct_grants_def indirect_grants_def)
  show "lookup_entries env pc = Map.empty"
    using l by (cases "lookupCache pc") (simp_all add: lookup_entries_def fun_eq_iff)
  show "cache_inv env wfr wfl pc"
  proof (rule cache_invI)
    show "caches_wf wfr wfl pc" using wf l by (cases "lookupCache pc") (simp_all add: caches_wf_def)
    show "direct_indexed env pc" by (rule direct_indexedI) (simp add: grants)
    show "lookup_inv env wfl pc" using l by (cases "lookupCache pc") (simp_all add: lookup_inv_def)
    show "schema_sync env pc" by (simp add: schema_sync_def fields)
    show "certs_usable env pc" by (rule certs_usable_none) (simp add: holds_grant_def grants)
  qed
qed

text \<open>Up to the largest setting whose nanoseconds fit in 64 bits, the ticker's period is the
  setting's; one millisecond more and the program panics.\<close>

lemma StartRemoteChangesPolling_ok:
  assumes "NewProjectAuthzCache new src now projectID = Inr pc"
    "sint (GetRemotePollingIntervalInMillis src) \<le> 9223372036854"
  shows "\<exists>d. StartRemoteChangesPolling pc = Inr d \<and>
    sint d = 1000000 * sint (GetRemotePollingIntervalInMillis src) \<and> 15000000000 \<le> sint d"
proof -
  have "15000 \<le> sint (GetRemotePollingIntervalInMillis src)" by (rule config_lower_bounds)
  with sint_in_millis[of "GetRemotePollingIntervalInMillis src"] assms(2)
  show ?thesis
    by (simp add: StartRemoteChangesPolling_def NewProjectAuthzCache_fields[OF assms(1)] go_less_def)
qed

lemma same_outside_polling_served:
  assumes "same_outside_polling pc pc'"
  shows "served env pc' ctx r = served env pc ctx r"
  by (simp add: served_def cached_grant_def same_outside_pollingD(2,3)[OF assms]
      certMatches_cong[OF same_outside_pollingD(6,8)[OF assms]] split: option.splits)

context cache_contract
begin

lemma polling_loop_inv:
  "cache_inv env wfr wfl pc \<Longrightarrow> cache_inv env wfr wfl (polling_loop env IsError ticks pc)"
  by (induction ticks arbitrary: pc) (auto simp: updateCacheWithRemotePolling_inv)

text \<open>Polls with nothing to report touch the polling state only.\<close>

lemma quiet_polls:
  assumes "cache_inv env wfr wfl pc" "\<not> noRelations env pc"
    "\<forall>(GetModified, t0, t1)\<in>set ticks. \<forall>since. \<exists>m. GetModified since = Inr m \<and>
       ModResources m = [] \<and> ModTargets m = [] \<and> \<not> SchemaChanged m"
  shows "same_outside_polling pc (polling_loop env IsError ticks pc)"
    and "cache_inv env wfr wfl (polling_loop env IsError ticks pc)"
proof -
  show "same_outside_polling pc (polling_loop env IsError ticks pc)"
    using assms(2,3)
  proof (induction ticks arbitrary: pc)
    case Nil
    then show ?case by simp
  next
    case (Cons tick ticks)
    obtain G t0 t1 where tick: "tick = (G, t0, t1)" by (metis prod_cases3)
    let ?q = "updateCacheWithRemotePolling env IsError G t0 t1 pc"
    obtain m where m: "G (lastPollTime (remoteChanges pc)) = Inr m" "ModResources m = []" "ModTargets m = []"
      "\<not> SchemaChanged m" using Cons.prems(2) tick by fastforce
    have "?q = cancelPurgeCooldown (setLastPollTime t0 pc)"
      using m by (simp add: poll_success[where GetModified = G, OF Cons.prems(1) m(1)] Let_def)
    then have q: "same_outside_polling pc ?q"
      using same_outside_polling_trans[OF same_outside_polling_simps(3) same_outside_cancel] by simp
    have "\<not> noRelations env ?q" using Cons.prems(1) same_outside_pollingD(10)[OF q] by simp
    from Cons.IH[OF this] Cons.prems(2) have "same_outside_polling ?q (polling_loop env IsError ticks ?q)" by simp
    from same_outside_polling_trans[OF q this] show ?case by (simp add: tick)
  qed
  show "cache_inv env wfr wfl (polling_loop env IsError ticks pc)" by (rule polling_loop_inv[OF assms(1)])
qed

end

end
