(* ===== verification/Coherence.thy ===== *)
theory Coherence
  imports CacheSteps
begin

text \<open>
  What the cache promises: an answer it serves is the backend's answer. The backend is abstract:
  the truth of every relation under every request context, the relations it reports as direct,
  and the value of a schema version's conditions. A backend changes by modifications, the
  \<open>AuthzModified\<close> values the SDK's \<open>GetModified\<close> reports; \<open>coherent\<close> says that the cache agrees
  with the backend up to a list of modifications it has not been told of.

  The program's sweep rests on one property of the backend, \<open>modifies\<close>: a modification changes
  a relation that was answered directly only when it names the relation's resource or target.
  Indirect answers may change with any modification, so the program drops all of them.
\<close>

section \<open>The backend\<close>

record backend =
  universe :: "FGARelation set"
  truth :: "FGARelation \<Rightarrow> reqcontext \<Rightarrow> bool"
  reported_direct :: "FGARelation \<Rightarrow> bool"
  cond_value :: "string \<Rightarrow> go_int32 \<Rightarrow> reqcontext \<Rightarrow> bool option"

definition components_of :: "FGARelation \<Rightarrow> keyComponents" where
  "components_of r = \<lparr>kc_r = Resource r, kc_t = Target r\<rparr>"

lemma components_of_sel [simp]: "kc_r (components_of r) = Resource r" "kc_t (components_of r) = Target r"
  by (simp_all add: components_of_def)

text \<open>
  The key the cache files a relation under must identify what the backend knows of it. Keys join
  the parts with \<open>:\<close> and leave the two types out, so this is a condition on the relations in use.
\<close>

definition keys_identify :: "backend \<Rightarrow> bool" where
  "keys_identify b \<longleftrightarrow> (\<forall>r\<in>universe b. \<forall>r'\<in>universe b. key r = key r' \<longrightarrow>
     Resource r = Resource r' \<and> Target r = Target r' \<and>
     truth b r = truth b r' \<and> reported_direct b r = reported_direct b r')"

definition cert_holds :: "backend \<Rightarrow> string \<Rightarrow> conditionalCert \<Rightarrow> reqcontext \<Rightarrow> bool" where
  "cert_holds b ver cert ctx \<longleftrightarrow>
     (\<forall>cid\<in>set (trueConds cert). cond_value b ver cid ctx = Some True) \<and>
     (\<forall>cid\<in>set (falseConds cert). cond_value b ver cid ctx = Some False)"

definition grant_true :: "backend \<Rightarrow> string \<Rightarrow> cachedGrant \<Rightarrow> FGARelation \<Rightarrow> bool" where
  "grant_true b ver g r \<longleftrightarrow> (\<forall>ctx. (\<forall>cert. cond g = Some cert \<longrightarrow> cert_holds b ver cert ctx) \<longrightarrow>
     allowed g = truth b r ctx)"

definition schema_unchanged :: "AuthzModified list \<Rightarrow> bool" where
  "schema_unchanged ms \<longleftrightarrow> (\<forall>m\<in>set ms. \<not> SchemaChanged m)"

definition touched :: "AuthzModified list \<Rightarrow> keyComponents \<Rightarrow> bool" where
  "touched ms c \<longleftrightarrow> (\<exists>m\<in>set ms. kc_r c \<in> set (ModResources m) \<or> kc_t c \<in> set (ModTargets m))"

definition nothing_modified :: "AuthzModified list \<Rightarrow> bool" where
  "nothing_modified ms \<longleftrightarrow> (\<forall>m\<in>set ms. ModResources m = [] \<and> ModTargets m = [])"

lemma modified_simps [simp]:
  "schema_unchanged []" "\<not> touched [] c" "nothing_modified []"
  "schema_unchanged (m # ms) \<longleftrightarrow> \<not> SchemaChanged m \<and> schema_unchanged ms"
  "schema_unchanged (ms @ ms') \<longleftrightarrow> schema_unchanged ms \<and> schema_unchanged ms'"
  "touched (m # ms) c \<longleftrightarrow> (kc_r c \<in> set (ModResources m) \<or> kc_t c \<in> set (ModTargets m)) \<or> touched ms c"
  "touched (ms @ ms') c \<longleftrightarrow> touched ms c \<or> touched ms' c"
  "nothing_modified (m # ms) \<longleftrightarrow> ModResources m = [] \<and> ModTargets m = [] \<and> nothing_modified ms"
  "nothing_modified (ms @ ms') \<longleftrightarrow> nothing_modified ms \<and> nothing_modified ms'"
  by (auto simp: schema_unchanged_def touched_def nothing_modified_def)

definition modifies :: "AuthzModified \<Rightarrow> backend \<Rightarrow> backend \<Rightarrow> bool" where
  "modifies m b b' \<longleftrightarrow> universe b' = universe b \<and> cond_value b' = cond_value b \<and>
     (schema_unchanged [m] \<longrightarrow>
        (nothing_modified [m] \<longrightarrow> (\<forall>r\<in>universe b. truth b' r = truth b r \<and>
           (reported_direct b r \<longrightarrow> reported_direct b' r))) \<and>
        (\<forall>r\<in>universe b. reported_direct b r \<and> \<not> touched [m] (components_of r) \<longrightarrow>
           truth b' r = truth b r \<and> reported_direct b' r))"

section \<open>Coherence of the cache\<close>

text \<open>What it takes for one grant to be usable after the modifications \<open>ms\<close> in the backend's
  present state: a direct grant that none of them touches, an indirect one if there are none.\<close>

definition fresh_grant :: "backend \<Rightarrow> AuthzModified list \<Rightarrow> string \<Rightarrow> bool \<Rightarrow> cachedGrant \<Rightarrow>
    FGARelation \<Rightarrow> bool" where
  "fresh_grant b ms ver direct g r \<longleftrightarrow>
     (schema_unchanged ms \<longrightarrow>
       (if direct then \<not> touched ms (components_of r) \<longrightarrow> grant_true b ver g r \<and> reported_direct b r
        else nothing_modified ms \<longrightarrow> grant_true b ver g r))"

definition coherent :: "('rc, 'lc, 'p) cache_env \<Rightarrow> backend \<Rightarrow> AuthzModified list \<Rightarrow>
    ('rc, 'lc, 'p) projectAuthzCache \<Rightarrow> bool" where
  "coherent env b ms pc \<longleftrightarrow>
     (\<forall>k g. direct_grants env pc k = Some g \<longrightarrow> (\<exists>r\<in>universe b. key r = k \<and>
        directKeyComponents pc k = Some (components_of r) \<and>
        fresh_grant b ms (loadedSchemaVersion pc) True g r)) \<and>
     (\<forall>k g. indirect_grants env pc k = Some g \<longrightarrow> (\<exists>r\<in>universe b. key r = k \<and>
        fresh_grant b ms (loadedSchemaVersion pc) False g r))"

lemma grant_true_key:
  assumes "keys_identify b" "r \<in> universe b" "r' \<in> universe b" "key r = key r'"
  shows "grant_true b ver g r = grant_true b ver g r'"
  using assms unfolding keys_identify_def grant_true_def by metis

lemma grant_true_modifies:
  assumes "truth b' r = truth b r" "cond_value b' = cond_value b"
  shows "grant_true b' ver g r = grant_true b ver g r"
  using assms by (simp add: grant_true_def cert_holds_def)

lemma fresh_grant_modifies:
  assumes "fresh_grant b ms ver d g r" "modifies m b b'" "r \<in> universe b"
  shows "fresh_grant b' (ms @ [m]) ver d g r"
proof -
  have cv: "cond_value b' = cond_value b" using assms(2) by (simp add: modifies_def)
  have "grant_true b' ver g r = grant_true b ver g r" if "truth b' r = truth b r"
    by (rule grant_true_modifies[OF that cv])
  then show ?thesis
    using assms by (auto simp: fresh_grant_def modifies_def)
qed

lemma fresh_grant_mono:
  assumes "fresh_grant b ms ver d g r" "set ms \<subseteq> set ms'"
  shows "fresh_grant b ms' ver d g r"
  using assms unfolding fresh_grant_def schema_unchanged_def touched_def nothing_modified_def
  by (auto split: if_splits)

lemma coherent_modifies:
  assumes "coherent env b ms pc" "modifies m b b'"
  shows "coherent env b' (ms @ [m]) pc"
proof -
  have u: "universe b' = universe b" using assms(2) by (simp add: modifies_def)
  show ?thesis
    using assms(1) fresh_grant_modifies[OF _ assms(2)] unfolding coherent_def u by meson
qed

lemma coherent_mono:
  assumes "coherent env b ms pc" "set ms \<subseteq> set ms'"
  shows "coherent env b ms' pc"
  using assms(1) fresh_grant_mono[OF _ assms(2)] unfolding coherent_def by meson

lemma coherent_no_grants:
  assumes "direct_grants env pc = Map.empty" "indirect_grants env pc = Map.empty"
  shows "coherent env b ms pc"
  using assms by (simp add: coherent_def)

lemma coherent_cong:
  assumes "direct_grants env pc' = direct_grants env pc" "indirect_grants env pc' = indirect_grants env pc"
    "directKeyComponents pc' = directKeyComponents pc" "loadedSchemaVersion pc' = loadedSchemaVersion pc"
  shows "coherent env b ms pc' = coherent env b ms pc"
  by (simp add: coherent_def assms)

text \<open>The relations whose grant the pending modifications \<open>ms\<close> cannot have made stale.\<close>

definition unaffected :: "('rc, 'lc, 'p) cache_env \<Rightarrow> AuthzModified list \<Rightarrow>
    ('rc, 'lc, 'p) projectAuthzCache \<Rightarrow> FGARelation \<Rightarrow> bool" where
  "unaffected env ms pc r \<longleftrightarrow> schema_unchanged ms \<and> (nothing_modified ms \<or>
     direct_grants env pc (key r) \<noteq> None \<and> \<not> touched ms (components_of r))"

lemma unaffected_none [simp]: "unaffected env [] pc r"
  by (simp add: unaffected_def)

lemma nothing_modified_touched: "nothing_modified ms \<Longrightarrow> \<not> touched ms c"
  by (simp add: nothing_modified_def touched_def)

lemma coherent_grant_true:
  assumes "keys_identify b" "coherent env b ms pc" "cached_grant env pc (key r) = Some (g, d)"
    "r \<in> universe b" "unaffected env ms pc r"
  shows "grant_true b (loadedSchemaVersion pc) g r"
proof -
  have "\<exists>r'\<in>universe b. key r' = key r \<and> fresh_grant b ms (loadedSchemaVersion pc) d g r'"
  proof (cases d)
    case True
    then have "direct_grants env pc (key r) = Some g"
      using assms(3) by (auto simp: cached_grant_def split: option.splits)
    then show ?thesis using assms(2) unfolding coherent_def eq_True[THEN iffD2, OF True] by blast
  next
    case False
    then have "indirect_grants env pc (key r) = Some g"
      using assms(3) by (auto simp: cached_grant_def split: option.splits)
    then show ?thesis using assms(2) unfolding coherent_def eq_False[THEN iffD2, OF False] by blast
  qed
  then obtain r' where r': "r' \<in> universe b" "key r' = key r" "fresh_grant b ms (loadedSchemaVersion pc) d g r'"
    by blast
  have "components_of r' = components_of r"
    using assms(1,4) r'(1,2) unfolding keys_identify_def components_of_def by metis
  moreover have "d \<Longrightarrow> \<not> touched ms (components_of r)" "\<not> d \<Longrightarrow> nothing_modified ms"
    using assms(3,5) nothing_modified_touched
    by (auto simp: unaffected_def cached_grant_def split: option.splits)
  ultimately have "grant_true b (loadedSchemaVersion pc) g r'"
    using r'(3) assms(5) by (cases d) (simp_all add: fresh_grant_def unaffected_def)
  then show ?thesis using grant_true_key[OF assms(1) r'(1) assms(4) r'(2)] by simp
qed

lemma coherent_quiet:
  assumes "coherent env b (ms @ ms') pc" "schema_unchanged ms'" "nothing_modified ms'"
  shows "coherent env b ms pc"
proof -
  have "fresh_grant b (ms @ ms') ver d g r = fresh_grant b ms ver d g r" for ver d g r
    using assms(2,3) nothing_modified_touched[OF assms(3)] by (simp add: fresh_grant_def)
  then show ?thesis using assms(1) by (simp add: coherent_def)
qed

section \<open>Evaluating conditions at the edge\<close>

text \<open>The contract of the CEL library and of the backend's coercion: a condition of a schema that
  compiles and evaluates at the edge has the value the backend gives it.\<close>

definition edge_agrees :: "'p cel_ops \<Rightarrow> backend \<Rightarrow> FGASchema \<Rightarrow> bool" where
  "edge_agrees ops b s \<longleftrightarrow> (\<forall>c\<in>set (Conditions s). \<forall>cc ctx timeout v.
     Compile ops c = Inr cc \<and> Eval ops cc ctx timeout = (v, True) \<longrightarrow>
     cond_value b (Version s) (CondID c) ctx = Some v)"

definition schema_agrees :: "('rc, 'lc, 'p) cache_env \<Rightarrow> backend \<Rightarrow>
    ('rc, 'lc, 'p) projectAuthzCache \<Rightarrow> bool" where
  "schema_agrees env b pc \<longleftrightarrow> (\<forall>s. schemaCache pc = Some s \<longrightarrow> edge_agrees (cel env) b s)"

lemma compiled_condition_value:
  assumes "schema_sync env pc" "schema_agrees env b pc" "compiledConditions pc cid = Some cc"
    "Eval (cel env) cc ctx timeout = (v, True)"
  shows "cond_value b (loadedSchemaVersion pc) cid ctx = Some v"
proof (cases "schemaCache pc")
  case None
  then show ?thesis using assms(1,3) by (simp add: schema_sync_def)
next
  case (Some s)
  have "compile_conditions (cel env) (Conditions s) Map.empty cid = Some cc"
    using assms(1,3) Some by (simp add: schema_sync_def)
  then obtain c where "c \<in> set (Conditions s)" "CondID c = cid" "Compile (cel env) c = Inr cc"
    using compile_conditions_Some by fastforce
  then show ?thesis
    using assms(1,2,4) Some unfolding schema_agrees_def edge_agrees_def schema_sync_def by auto
qed

lemma certMatches_holds:
  assumes "schema_sync env pc" "schema_agrees env b pc" "certMatches env pc cert ctx"
  shows "cert_holds b (loadedSchemaVersion pc) cert ctx"
  using assms(3) compiled_condition_value[OF assms(1,2)]
  unfolding certMatches_iff conditionsEvalTo_iff cert_holds_def by blast

section \<open>Answers\<close>

text \<open>A check served from a coherent cache carries the backend's answer.\<close>

lemma served_true:
  assumes "keys_identify b" "coherent env b ms pc" "schema_sync env pc" "schema_agrees env b pc"
    "served env pc ctx r = Some c" "r \<in> universe b" "unaffected env ms pc r"
  shows "Allowed c = truth b r ctx" and "CheckRelation c = r"
proof -
  obtain g d where g: "cached_grant env pc (key r) = Some (g, d)"
    and cert: "\<And>cert. cond g = Some cert \<Longrightarrow> certMatches env pc cert ctx"
    and c: "Allowed c = allowed g"
    using assms(5) by (auto simp: served_def unconditional_check_def conditional_check_def
        split: option.splits if_splits)
  from coherent_grant_true[OF assms(1,2) g assms(6,7)]
  show "Allowed c = truth b r ctx"
    using c certMatches_holds[OF assms(3,4) cert] by (auto simp: grant_true_def)
  show "CheckRelation c = r" by (rule served_relation[OF assms(5)])
qed

text \<open>
  The contract of a check from the SDK, up to the modifications since it was computed: an
  unconditional answer that used no facts holds under every context, a conditional one that was
  fully evaluated holds under every context in which the conditions of its certificate keep their
  values. Nothing is asked of the other answers.
\<close>

definition certified :: "FGACheckInfo \<Rightarrow> bool" where
  "certified i \<longleftrightarrow> \<not> FactUsed i \<and> (Conditional i \<longrightarrow> (TrueConditions i \<noteq> [] \<or> FalseConditions i \<noteq> []) \<and>
     MissingContext i = [] \<and> ConditionalErr i = '''')"

definition fresh_check :: "backend \<Rightarrow> AuthzModified list \<Rightarrow> FGACheck \<Rightarrow> bool" where
  "fresh_check b ms c \<longleftrightarrow> versioned_check c \<and> CheckRelation c \<in> universe b \<and>
     (certified (Info c) \<longrightarrow>
        fresh_grant b ms (SchemaVersion (Info c)) (Direct (Info c))
          \<lparr>allowed = Allowed c,
           cond = (if Conditional (Info c)
                   then Some \<lparr>trueConds = TrueConditions (Info c), falseConds = FalseConditions (Info c)\<rparr>
                   else None)\<rparr>
          (CheckRelation c))"

lemma fresh_check_modifies:
  assumes "fresh_check b ms c" "modifies m b b'"
  shows "fresh_check b' (ms @ [m]) c"
proof -
  have "universe b' = universe b" using assms(2) by (simp add: modifies_def)
  then show ?thesis
    using assms(1) fresh_grant_modifies[OF _ assms(2)] unfolding fresh_check_def by simp
qed

lemma fresh_check_mono:
  assumes "fresh_check b ms c" "set ms \<subseteq> set ms'"
  shows "fresh_check b ms' c"
  using assms(1) fresh_grant_mono[OF _ assms(2)] unfolding fresh_check_def by simp

lemma fresh_grant_unconditional:
  "cond g = None \<Longrightarrow> fresh_grant b ms ver d g r = fresh_grant b ms ver' d g r"
  by (simp add: fresh_grant_def grant_true_def)

lemma fresh_check_grant:
  assumes "fresh_check b ms c" "cacheable_grant pc c = Some g"
  shows "fresh_grant b ms (loadedSchemaVersion pc) (Direct (Info c)) g (CheckRelation c)"
proof -
  let ?g = "\<lparr>allowed = Allowed c, cond = (if Conditional (Info c)
      then Some \<lparr>trueConds = TrueConditions (Info c), falseConds = FalseConditions (Info c)\<rparr> else None)\<rparr>"
  have g: "g = ?g" using assms(2) by (cases g) (auto simp: cacheable_grant_Some_iff split: if_splits)
  have "fresh_grant b ms (SchemaVersion (Info c)) (Direct (Info c)) g (CheckRelation c)"
    using assms g by (auto simp: fresh_check_def certified_def cacheable_grant_Some_iff split: if_splits)
  moreover have "SchemaVersion (Info c) = loadedSchemaVersion pc \<or> cond g = None"
    using assms(2) by (auto simp: cacheable_grant_Some_iff split: if_splits)
  ultimately show ?thesis
    using fresh_grant_unconditional by metis
qed

section \<open>Updates keep coherence\<close>

context cache_contract
begin

lemma cacheCheck_coherent:
  assumes "cache_inv env wfr wfl pc" "coherent env b ms pc" "fresh_check b ms c"
  shows "coherent env b ms (cacheCheck env c pc)"
proof (cases "cacheable_grant pc c")
  case None
  then show ?thesis using assms(2) by (simp add: cacheCheck_def)
next
  case (Some g)
  note wf = cache_invD(1)[OF assms(1)] and fresh = fresh_check_grant[OF assms(3) Some]
  have u: "CheckRelation c \<in> universe b" using assms(3) by (simp add: fresh_check_def)
  show ?thesis
  proof (cases "Direct (Info c)")
    case True
    let ?q = "addDirectRelation env (CheckRelation c) g pc"
    have "loadedSchemaVersion ?q = loadedSchemaVersion pc"
      by (simp add: same_outside_relationsD[OF same_outside_addDirect])
    then have "coherent env b ms ?q"
      using assms(2) fresh True u
      by (auto simp: coherent_def addDirectRelation_grants[OF wf] addDirectRelation_components
          restrict_map_def components_of_def[symmetric] split: if_splits)
    then show ?thesis by (simp add: cacheCheck_def Some True)
  next
    case False
    let ?q = "addIndirectRelation env (CheckRelation c) g pc"
    have "loadedSchemaVersion ?q = loadedSchemaVersion pc" "directKeyComponents ?q = directKeyComponents pc"
      by (simp_all add: addIndirectRelation_def)
    then have "coherent env b ms ?q"
      using assms(2) fresh False u
      by (auto simp: coherent_def addIndirectRelation_grants[OF wf] restrict_map_def split: if_splits)
    then show ?thesis by (simp add: cacheCheck_def Some False)
  qed
qed

lemma UpdateCacheWithChecks_coherent:
  assumes "cache_inv env wfr wfl pc" "coherent env b ms pc" "\<And>c. c \<in> set cs \<Longrightarrow> fresh_check b ms c"
  shows "coherent env b ms (UpdateCacheWithChecks env cs pc)"
proof -
  have "cache_inv env wfr wfl (fold (cacheCheck env) cs pc) \<and> coherent env b ms (fold (cacheCheck env) cs pc)"
  proof (rule fold_invariant_set)
    show "cache_inv env wfr wfl pc \<and> coherent env b ms pc" using assms(1,2) by simp
  next
    fix c q
    assume "c \<in> set cs" and q: "cache_inv env wfr wfl q \<and> coherent env b ms q"
    then have "fresh_check b ms c" by (intro assms(3))
    then show "cache_inv env wfr wfl (cacheCheck env c q) \<and> coherent env b ms (cacheCheck env c q)"
      using q cacheCheck_inv(1) cacheCheck_coherent by (simp add: fresh_check_def)
  qed
  then show ?thesis by (cases "cs = []") (simp_all add: UpdateCacheWithChecks_def assms(2))
qed

text \<open>A sweep that removes what the pending modifications touch leaves nothing stale.\<close>

lemma sweeping_coherent:
  assumes "sweeping env wfr wfl gone pc pc'" "coherent env b (ms @ ms') pc" "schema_unchanged ms'"
    "\<And>c. touched ms' c \<Longrightarrow> gone c"
  shows "coherent env b ms pc'"
proof -
  have ver: "loadedSchemaVersion pc' = loadedSchemaVersion pc"
    and kc: "directKeyComponents pc' = directKeyComponents pc" and i: "indirect_grants env pc' = Map.empty"
    using assms(1) by (simp_all add: sweeping_def)
  have "\<exists>r\<in>universe b. key r = k \<and> directKeyComponents pc' k = Some (components_of r) \<and>
      fresh_grant b ms (loadedSchemaVersion pc') True g r" if found: "direct_grants env pc' k = Some g" for k g
  proof -
    obtain c where g: "direct_grants env pc k = Some g" "directKeyComponents pc k = Some c" "\<not> gone c"
      using sweepingD(9,10)[OF assms(1) found] by blast
    obtain r where r: "r \<in> universe b" "key r = k" "directKeyComponents pc k = Some (components_of r)"
      "fresh_grant b (ms @ ms') (loadedSchemaVersion pc) True g r"
      using assms(2) g(1) unfolding coherent_def by blast
    have "\<not> touched ms' (components_of r)" using assms(4) g r(3) by auto
    then have "fresh_grant b ms (loadedSchemaVersion pc) True g r"
      using r(4) assms(3) by (simp add: fresh_grant_def)
    with r kc ver show ?thesis by auto
  qed
  then show ?thesis by (simp add: coherent_def i)
qed

text \<open>Loading a schema never invalidates a grant: a conditional one keeps the schema it has.\<close>

lemma EnsureSchemaLoaded_coherent:
  assumes "cache_inv env wfr wfl pc" "coherent env b ms pc"
  shows "coherent env b ms (EnsureSchemaLoaded env s pc)"
proof -
  let ?q = "EnsureSchemaLoaded env s pc"
  note e = EnsureSchemaLoaded_inv(2-4)[OF assms(1), where s = s]
  have kc: "directKeyComponents ?q = directKeyComponents pc" by (simp add: EnsureSchemaLoaded_def)
  have ver: "fresh_grant b ms (loadedSchemaVersion ?q) d g r = fresh_grant b ms (loadedSchemaVersion pc) d g r"
    if "holds_grant env pc k g" for d g r k
  proof (cases "cond g")
    case None
    then show ?thesis by (rule fresh_grant_unconditional)
  next
    case (Some cert)
    then show ?thesis using e(3)[OF that] by simp
  qed
  show ?thesis
    using assms(2) ver unfolding coherent_def e(1,2) kc holds_grant_def by meson
qed

end

text \<open>A relation whose resource and target hold no \<open>:\<close> is identified by its key.\<close>

lemma append_delim_inj:
  assumes "c \<notin> set xs" "c \<notin> set ys" "xs @ c # us = ys @ c # vs"
  shows "xs = ys \<and> us = vs"
  using assms
proof (induction xs arbitrary: ys)
  case Nil
  then show ?case by (cases ys) auto
next
  case (Cons x xs)
  then show ?case by (cases ys) auto
qed

definition colon_free :: "FGARelation \<Rightarrow> bool" where
  "colon_free r \<longleftrightarrow> CHR '':'' \<notin> set (Resource r) \<and> CHR '':'' \<notin> set (Target r)"

lemma key_inj_colon_free:
  assumes "colon_free r" "colon_free r'" "key r = key r'"
  shows "Resource r = Resource r' \<and> Target r = Target r' \<and> Relation r = Relation r'"
proof -
  have eq: "Resource r @ CHR '':'' # (Target r @ CHR '':'' # Relation r) =
      Resource r' @ CHR '':'' # (Target r' @ CHR '':'' # Relation r')"
    using assms(3) by (simp add: key_def)
  have one: "Resource r = Resource r'" "Target r @ CHR '':'' # Relation r = Target r' @ CHR '':'' # Relation r'"
    using append_delim_inj[OF _ _ eq] assms(1,2) by (simp_all add: colon_free_def)
  show ?thesis
    using one(1) append_delim_inj[OF _ _ one(2)] assms(1,2) by (simp add: colon_free_def)
qed

end
