(* ===== verification/Metrics.thy ===== *)
theory Metrics
  imports Prelude
begin

text \<open>
  \<open>src/internal/services/metrics/collector.go\<close>: the per-project, per-API accumulators. The
  counters are 64-bit words, so sums wrap as they do in Go. \<open>sync.Map\<close> and the maps are
  association lists with distinct keys; each method body under a project's lock is one step.
\<close>

section \<open>Data\<close>

type_synonym APIName = string

definition APICheck :: APIName where "APICheck = ''Check''"
definition APIWhoCanAccess :: APIName where "APIWhoCanAccess = ''WhoCanAccess''"
definition APIWhatCanTargetAccess :: APIName where "APIWhatCanTargetAccess = ''WhatCanTargetAccess''"

record CallMetrics =
  CacheHit :: bool
  CandidatesCount :: go_int
  FilteredCount :: go_int
  ResultSize :: go_int
  DurationMs :: go_int

record AggregatedMetrics =
  HitCount :: go_int
  MissCount :: go_int
  TotalCalls :: go_int
  SumCandidates :: go_int
  SumFiltered :: go_int
  SumResultSize :: go_int
  SumDurationHitsMs :: go_int
  SumDurationMissesMs :: go_int
  MinDurationHitsMs :: go_int
  MaxDurationHitsMs :: go_int
  MinDurationMissesMs :: go_int
  MaxDurationMissesMs :: go_int

definition MaxInt64 :: go_int where
  "MaxInt64 = 9223372036854775807"

definition newAggregatedMetrics :: AggregatedMetrics where
  "newAggregatedMetrics = \<lparr>HitCount = 0, MissCount = 0, TotalCalls = 0, SumCandidates = 0,
     SumFiltered = 0, SumResultSize = 0, SumDurationHitsMs = 0, SumDurationMissesMs = 0,
     MinDurationHitsMs = MaxInt64, MaxDurationHitsMs = 0,
     MinDurationMissesMs = MaxInt64, MaxDurationMissesMs = 0\<rparr>"

type_synonym Collector = "(string \<times> (APIName \<times> AggregatedMetrics) list) list"

section \<open>Operations\<close>

definition NewCollector :: Collector where
  "NewCollector = []"

definition getOrCreateProjectMetrics :: "string \<Rightarrow> Collector \<Rightarrow> Collector" where
  "getOrCreateProjectMetrics projectID c =
    (case map_of c projectID of Some pm \<Rightarrow> c | None \<Rightarrow> AList.update projectID [] c)"

text \<open>What \<open>Record\<close> does to the accumulator.\<close>

definition record_call :: "CallMetrics \<Rightarrow> AggregatedMetrics \<Rightarrow> AggregatedMetrics" where
  "record_call m agg =
    (let agg = agg\<lparr>TotalCalls := TotalCalls agg + 1,
                  SumCandidates := SumCandidates agg + CandidatesCount m,
                  SumFiltered := SumFiltered agg + FilteredCount m,
                  SumResultSize := SumResultSize agg + ResultSize m\<rparr>
     in if CacheHit m then
          (let agg = agg\<lparr>HitCount := HitCount agg + 1,
                         SumDurationHitsMs := SumDurationHitsMs agg + DurationMs m\<rparr>;
               agg = (if go_less (DurationMs m) (MinDurationHitsMs agg)
                      then agg\<lparr>MinDurationHitsMs := DurationMs m\<rparr> else agg)
           in if go_less (MaxDurationHitsMs agg) (DurationMs m)
              then agg\<lparr>MaxDurationHitsMs := DurationMs m\<rparr> else agg)
        else
          (let agg = agg\<lparr>MissCount := MissCount agg + 1,
                         SumDurationMissesMs := SumDurationMissesMs agg + DurationMs m\<rparr>;
               agg = (if go_less (DurationMs m) (MinDurationMissesMs agg)
                      then agg\<lparr>MinDurationMissesMs := DurationMs m\<rparr> else agg)
           in if go_less (MaxDurationMissesMs agg) (DurationMs m)
              then agg\<lparr>MaxDurationMissesMs := DurationMs m\<rparr> else agg))"

definition RecordCall :: "string \<Rightarrow> APIName \<Rightarrow> CallMetrics \<Rightarrow> Collector \<Rightarrow> Collector" where
  "RecordCall projectID api m c =
    (let c1 = getOrCreateProjectMetrics projectID c;
         byAPI = lookup_list c1 projectID;
         agg = (case map_of byAPI api of Some agg \<Rightarrow> agg | None \<Rightarrow> newAggregatedMetrics)
     in AList.update projectID (AList.update api (record_call m agg) byAPI) c1)"

text \<open>The range over the projects: each non-empty one is copied out and emptied.\<close>

fun SnapshotAndReset :: "Collector \<Rightarrow> Collector \<times> Collector" where
  "SnapshotAndReset [] = ([], [])"
| "SnapshotAndReset ((projectID, byAPI) # c) =
    (case SnapshotAndReset c of (snapshot, c') \<Rightarrow>
       if byAPI = [] then (snapshot, (projectID, byAPI) # c')
       else ((projectID, byAPI) # snapshot, (projectID, []) # c'))"

section \<open>What a collector holds\<close>

definition metrics_of :: "Collector \<Rightarrow> string \<Rightarrow> APIName \<rightharpoonup> AggregatedMetrics" where
  "metrics_of c p = map_of (lookup_list c p)"

definition aggregate :: "CallMetrics list \<Rightarrow> AggregatedMetrics" where
  "aggregate ms = fold record_call ms newAggregatedMetrics"

lemma metrics_of_Record:
  "metrics_of (RecordCall p api m c) p' api' =
    (if p' = p \<and> api' = api
     then Some (record_call m (case metrics_of c p api of Some agg \<Rightarrow> agg | None \<Rightarrow> newAggregatedMetrics))
     else metrics_of c p' api')"
  by (auto simp: metrics_of_def RecordCall_def getOrCreateProjectMetrics_def Let_def
      AList.update_conv' lookup_list_def split: option.splits)

text \<open>A call as the service records it.\<close>

type_synonym recorded_call = "string \<times> APIName \<times> CallMetrics"

definition RecordAll :: "recorded_call list \<Rightarrow> Collector \<Rightarrow> Collector" where
  "RecordAll calls c = fold (\<lambda>(p, api, m). RecordCall p api m) calls c"

definition calls_of :: "recorded_call list \<Rightarrow> string \<Rightarrow> APIName \<Rightarrow> CallMetrics list" where
  "calls_of calls p api = map (\<lambda>(p, api, m). m) (filter (\<lambda>(p', api', m). p' = p \<and> api' = api) calls)"

lemma metrics_of_RecordAll:
  "metrics_of (RecordAll calls c) p api =
    (if calls_of calls p api = [] then metrics_of c p api
     else Some (fold record_call (calls_of calls p api)
       (case metrics_of c p api of Some agg \<Rightarrow> agg | None \<Rightarrow> newAggregatedMetrics)))"
proof (induction calls arbitrary: c)
  case Nil
  then show ?case by (simp add: RecordAll_def calls_of_def)
next
  case (Cons call calls)
  obtain p' api' m where call: "call = (p', api', m)" by (metis prod_cases3)
  have "RecordAll (call # calls) c = RecordAll calls (RecordCall p' api' m c)"
    by (simp add: RecordAll_def call)
  then show ?case using Cons.IH[of "RecordCall p' api' m c"]
    by (auto simp: metrics_of_Record calls_of_def call)
qed

text \<open>A snapshot of a collector with distinct projects, none of its accumulators lost: the
  snapshot holds what the collector held, and the collector holds nothing.\<close>

lemma SnapshotAndReset_fst: "fst (SnapshotAndReset c) = filter (\<lambda>(p, b). b \<noteq> []) c"
  by (induction c rule: SnapshotAndReset.induct) (auto split: prod.splits)

lemma SnapshotAndReset_snd: "snd (SnapshotAndReset c) = map (\<lambda>(p, b). (p, [])) c"
  by (induction c rule: SnapshotAndReset.induct) (auto split: prod.splits)

lemma lookup_list_filter:
  "distinct (map fst c) \<Longrightarrow> lookup_list (filter (\<lambda>(p, b). b \<noteq> []) c) p = lookup_list c p"
proof (induction c)
  case Nil
  then show ?case by simp
next
  case (Cons x c)
  obtain q b where x: "x = (q, b)" by fastforce
  have "map_of (filter (\<lambda>(p, b). b \<noteq> []) c) q = None" if "q \<notin> fst ` set c"
    using that by (force simp: map_of_eq_None_iff)
  then show ?case using Cons by (auto simp: lookup_list_def x)
qed

lemma SnapshotAndReset_contents:
  assumes "distinct (map fst c)"
  shows "metrics_of (fst (SnapshotAndReset c)) p = metrics_of c p"
    and "metrics_of (snd (SnapshotAndReset c)) p = Map.empty"
proof -
  show "metrics_of (fst (SnapshotAndReset c)) p = metrics_of c p"
    using lookup_list_filter[OF assms] by (simp add: metrics_of_def SnapshotAndReset_fst)
  have "lookup_list (map (\<lambda>(p, b). (p, [] :: (APIName \<times> AggregatedMetrics) list)) c) p = []"
    by (induction c) (auto simp: lookup_list_def)
  then show "metrics_of (snd (SnapshotAndReset c)) p = Map.empty"
    by (simp add: metrics_of_def SnapshotAndReset_snd)
qed

lemma distinct_RecordCall: "distinct (map fst c) \<Longrightarrow> distinct (map fst (RecordCall p api m c))"
  by (simp add: RecordCall_def Let_def getOrCreateProjectMetrics_def distinct_update split: option.splits)

lemma distinct_RecordAll: "distinct (map fst c) \<Longrightarrow> distinct (map fst (RecordAll calls c))"
  unfolding RecordAll_def by (rule fold_invariant_set) (auto simp: distinct_RecordCall)

lemma distinct_reset: "distinct (map fst c) \<Longrightarrow> distinct (map fst (snd (SnapshotAndReset c)))"
  by (simp add: SnapshotAndReset_snd comp_def split_beta)

section \<open>Accumulators as sums\<close>

lemma record_call_simps [simp]:
  "TotalCalls (record_call m a) = TotalCalls a + 1"
  "SumCandidates (record_call m a) = SumCandidates a + CandidatesCount m"
  "SumFiltered (record_call m a) = SumFiltered a + FilteredCount m"
  "SumResultSize (record_call m a) = SumResultSize a + ResultSize m"
  "HitCount (record_call m a) = (if CacheHit m then HitCount a + 1 else HitCount a)"
  "MissCount (record_call m a) = (if CacheHit m then MissCount a else MissCount a + 1)"
  "SumDurationHitsMs (record_call m a) =
     (if CacheHit m then SumDurationHitsMs a + DurationMs m else SumDurationHitsMs a)"
  "SumDurationMissesMs (record_call m a) =
     (if CacheHit m then SumDurationMissesMs a else SumDurationMissesMs a + DurationMs m)"
  "MinDurationHitsMs (record_call m a) =
     (if CacheHit m then go_min (MinDurationHitsMs a) (DurationMs m) else MinDurationHitsMs a)"
  "MaxDurationHitsMs (record_call m a) =
     (if CacheHit m then go_max (MaxDurationHitsMs a) (DurationMs m) else MaxDurationHitsMs a)"
  "MinDurationMissesMs (record_call m a) =
     (if CacheHit m then MinDurationMissesMs a else go_min (MinDurationMissesMs a) (DurationMs m))"
  "MaxDurationMissesMs (record_call m a) =
     (if CacheHit m then MaxDurationMissesMs a else go_max (MaxDurationMissesMs a) (DurationMs m))"
  by (simp_all add: record_call_def Let_def go_min_def go_max_def)

definition hits :: "CallMetrics list \<Rightarrow> CallMetrics list" where "hits ms = filter CacheHit ms"
definition misses :: "CallMetrics list \<Rightarrow> CallMetrics list" where "misses ms = filter (\<lambda>m. \<not> CacheHit m) ms"

lemma hits_misses_simps [simp]:
  "hits [] = []" "misses [] = []"
  "hits (m # ms) = (if CacheHit m then m # hits ms else hits ms)"
  "misses (m # ms) = (if CacheHit m then misses ms else m # misses ms)"
  by (simp_all add: hits_def misses_def)

lemma fold_record_call_sums:
  "TotalCalls (fold record_call ms a) = TotalCalls a + of_nat (length ms)"
  "HitCount (fold record_call ms a) = HitCount a + of_nat (length (hits ms))"
  "MissCount (fold record_call ms a) = MissCount a + of_nat (length (misses ms))"
  "SumCandidates (fold record_call ms a) = SumCandidates a + sum_list (map CandidatesCount ms)"
  "SumFiltered (fold record_call ms a) = SumFiltered a + sum_list (map FilteredCount ms)"
  "SumResultSize (fold record_call ms a) = SumResultSize a + sum_list (map ResultSize ms)"
  "SumDurationHitsMs (fold record_call ms a) = SumDurationHitsMs a + sum_list (map DurationMs (hits ms))"
  "SumDurationMissesMs (fold record_call ms a) = SumDurationMissesMs a + sum_list (map DurationMs (misses ms))"
  by (induction ms arbitrary: a) (simp_all add: add_ac)

lemma fold_record_call_extremes:
  "sint (MinDurationHitsMs (fold record_call ms a)) =
     fold min (map (\<lambda>m. sint (DurationMs m)) (hits ms)) (sint (MinDurationHitsMs a))"
  "sint (MaxDurationHitsMs (fold record_call ms a)) =
     fold max (map (\<lambda>m. sint (DurationMs m)) (hits ms)) (sint (MaxDurationHitsMs a))"
  "sint (MinDurationMissesMs (fold record_call ms a)) =
     fold min (map (\<lambda>m. sint (DurationMs m)) (misses ms)) (sint (MinDurationMissesMs a))"
  "sint (MaxDurationMissesMs (fold record_call ms a)) =
     fold max (map (\<lambda>m. sint (DurationMs m)) (misses ms)) (sint (MaxDurationMissesMs a))"
  by (induction ms arbitrary: a) (simp_all add: sint_go_min sint_go_max min.commute max.commute)

lemma length_hits_misses: "length (hits ms) + length (misses ms) = length ms"
  by (simp add: hits_def misses_def sum_length_filter_compl)

lemma sint_MaxInt64: "sint MaxInt64 = 2 ^ 63 - 1"
  using sint_word_of_int_range[of "2 ^ 63 - 1"] by (simp add: MaxInt64_def)

lemma newAggregatedMetrics_simps [simp]:
  "HitCount newAggregatedMetrics = 0" "MissCount newAggregatedMetrics = 0"
  "TotalCalls newAggregatedMetrics = 0" "SumCandidates newAggregatedMetrics = 0"
  "SumFiltered newAggregatedMetrics = 0" "SumResultSize newAggregatedMetrics = 0"
  "SumDurationHitsMs newAggregatedMetrics = 0" "SumDurationMissesMs newAggregatedMetrics = 0"
  "MinDurationHitsMs newAggregatedMetrics = MaxInt64" "MaxDurationHitsMs newAggregatedMetrics = 0"
  "MinDurationMissesMs newAggregatedMetrics = MaxInt64" "MaxDurationMissesMs newAggregatedMetrics = 0"
  by (simp_all add: newAggregatedMetrics_def)

section \<open>Windows\<close>

text \<open>What the collector has for the calls \<open>calls\<close> alone.\<close>

definition metrics_for :: "recorded_call list \<Rightarrow> string \<Rightarrow> APIName \<rightharpoonup> AggregatedMetrics" where
  "metrics_for calls p api =
    (if calls_of calls p api = [] then None else Some (aggregate (calls_of calls p api)))"

section \<open>Extremes and averages\<close>

lemma fold_min_le: "fold min xs (a :: int) \<le> a" "x \<in> set xs \<Longrightarrow> fold min xs a \<le> x"
proof -
  have le: "fold min xs (a :: int) \<le> a" for xs a
    by (induction xs arbitrary: a) (simp_all, metis min.boundedE)
  then show "fold min xs a \<le> a" .
  show "x \<in> set xs \<Longrightarrow> fold min xs a \<le> x"
    by (induction xs arbitrary: a) (auto intro: order_trans[OF le])
qed

lemma fold_max_ge: "a \<le> fold max xs (a :: int)" "x \<in> set xs \<Longrightarrow> x \<le> fold max xs a"
proof -
  have ge: "a \<le> fold max xs (a :: int)" for xs a
    by (induction xs arbitrary: a) (simp_all, metis max.boundedE)
  then show "a \<le> fold max xs a" .
  show "x \<in> set xs \<Longrightarrow> x \<le> fold max xs a"
    by (induction xs arbitrary: a) (auto intro: order_trans[OF _ ge])
qed

text \<open>A rounded average lies between the bounds of what it averages.\<close>

lemma average_bounds:
  assumes "xs \<noteq> []" "\<And>x. x \<in> set xs \<Longrightarrow> lo \<le> x \<and> x \<le> (hi :: int)"
  shows "lo \<le> sum_list xs div int (length xs)" "sum_list xs div int (length xs) \<le> hi"
proof -
  have b: "lo * int (length xs) \<le> sum_list xs \<and> sum_list xs \<le> hi * int (length xs)"
    using assms(2) by (induction xs) (force simp: algebra_simps)+
  have n: "0 < int (length xs)" using assms(1) by simp
  show "lo \<le> sum_list xs div int (length xs)"
    using zdiv_mono1[OF conjunct1[OF b] n] n by simp
  show "sum_list xs div int (length xs) \<le> hi"
    using zdiv_mono1[OF conjunct2[OF b] n] n by simp
qed

lemma sum_list_hits_misses:
  "sum_list (map f (hits ms)) + sum_list (map f (misses ms)) = sum_list (map (f :: CallMetrics \<Rightarrow> int) ms)"
  by (induction ms) auto

lemma set_hits_misses: "set (hits ms) \<union> set (misses ms) = set ms"
  by (auto simp: hits_def misses_def)

end
