(* ===== verification/MetricsReport.thy ===== *)
theory MetricsReport
  imports Complex_Main Metrics GoStrings Config "HOL-Library.Log_Nat"
begin

text \<open>
  \<open>src/internal/services/metrics/reporter.go\<close>: the payload built from an accumulator, the URL it
  is posted to, and one report. Marshalling, the HTTP client and the build's git hash are outside
  the repository (\<open>reporter_ops\<close>); the order in which Go ranges over the two maps of a snapshot is
  a parameter. A ratio of two \<open>float64\<close> values is the exact quotient rounded to 53 bits, ties to
  even; the counters are far from the range limits of the format, so no other case arises.
\<close>

section \<open>float64\<close>

definition round_half_even :: "rat \<Rightarrow> int" where
  "round_half_even q =
    (let n = \<lfloor>q\<rfloor>; r = q - of_int n
     in if r < 1 / 2 then n else if 1 / 2 < r then n + 1 else if even n then n else n + 1)"

text \<open>The exponent of the last bit of the 53 that hold \<open>q\<close>.\<close>

definition ulp_exponent :: "rat \<Rightarrow> int" where
  "ulp_exponent q =
    (case quotient_of \<bar>q\<bar> of (n, d) \<Rightarrow>
       (let e = bitlen n - bitlen d
        in (if (2 :: rat) powi e \<le> \<bar>q\<bar> then e else e - 1) - 52))"

definition float64_round :: "rat \<Rightarrow> rat" where
  "float64_round q = (if q = 0 then 0
     else of_int (round_half_even (q / 2 powi ulp_exponent q)) * 2 powi ulp_exponent q)"

text \<open>\<open>float64(a) / float64(b)\<close>\<close>

definition float64_ratio :: "go_int \<Rightarrow> go_int \<Rightarrow> rat" where
  "float64_ratio a b =
     float64_round (float64_round (of_int (sint a)) / float64_round (of_int (sint b)))"

section \<open>The payload\<close>

record APIMetricsPayload =
  P_API :: string
  P_HitCount :: go_int
  P_MissCount :: go_int
  P_TotalCalls :: go_int
  AvgHitCandidates :: rat
  AvgHitFiltered :: rat
  AvgResultSize :: rat
  AvgDurationMs :: go_int
  MinDurationMs :: go_int
  MaxDurationMs :: go_int
  AvgDurationHitMs :: go_int
  MinDurationHitMs :: go_int
  MaxDurationHitMs :: go_int
  AvgDurationMissMs :: go_int
  MinDurationMissMs :: go_int
  MaxDurationMissMs :: go_int

definition buildPayload :: "APIName \<Rightarrow> AggregatedMetrics \<Rightarrow> APIMetricsPayload" where
  "buildPayload api agg =
    (let p = \<lparr>P_API = api, P_HitCount = HitCount agg, P_MissCount = MissCount agg,
              P_TotalCalls = TotalCalls agg, AvgHitCandidates = 0, AvgHitFiltered = 0,
              AvgResultSize = 0, AvgDurationMs = 0, MinDurationMs = 0, MaxDurationMs = 0,
              AvgDurationHitMs = 0, MinDurationHitMs = 0, MaxDurationHitMs = 0,
              AvgDurationMissMs = 0, MinDurationMissMs = 0, MaxDurationMissMs = 0\<rparr>;
         p = (if go_less 0 (TotalCalls agg)
              then p\<lparr>AvgResultSize := float64_ratio (SumResultSize agg) (TotalCalls agg),
                     AvgDurationMs := go_div (SumDurationHitsMs agg + SumDurationMissesMs agg) (TotalCalls agg)\<rparr>
              else p);
         p = (if go_less 0 (HitCount agg)
              then p\<lparr>AvgHitCandidates := float64_ratio (SumCandidates agg) (HitCount agg),
                     AvgHitFiltered := float64_ratio (SumFiltered agg) (HitCount agg),
                     AvgDurationHitMs := go_div (SumDurationHitsMs agg) (HitCount agg),
                     MinDurationHitMs := MinDurationHitsMs agg,
                     MaxDurationHitMs := MaxDurationHitsMs agg\<rparr>
              else p);
         p = (if go_less 0 (MissCount agg)
              then p\<lparr>AvgDurationMissMs := go_div (SumDurationMissesMs agg) (MissCount agg),
                     MinDurationMissMs := MinDurationMissesMs agg,
                     MaxDurationMissMs := MaxDurationMissesMs agg\<rparr>
              else p);
         minHit = (if HitCount agg = 0 then MaxInt64 else MinDurationHitsMs agg);
         minMiss = (if MissCount agg = 0 then MaxInt64 else MinDurationMissesMs agg);
         p = p\<lparr>MinDurationMs := go_min minHit minMiss\<rparr>;
         p = (if MinDurationMs p = MaxInt64 then p\<lparr>MinDurationMs := 0\<rparr> else p)
     in p\<lparr>MaxDurationMs := go_max (MaxDurationHitsMs agg) (MaxDurationMissesMs agg)\<rparr>)"

section \<open>The URL\<close>

definition defaultAPIPrefix :: string where "defaultAPIPrefix = ''https://api''"
definition defaultDomainName :: string where "defaultDomainName = ''descope.com''"
definition defaultBaseURL :: string where
  "defaultBaseURL = defaultAPIPrefix @ ''.'' @ defaultDomainName"

definition baseURLForProject :: "string \<Rightarrow> string \<Rightarrow> string" where
  "baseURLForProject projectID customBaseURL =
    (let trimmed = TrimSpace customBaseURL
     in if trimmed \<noteq> '''' then TrimRight trimmed (CHR ''/'')
        else if 32 \<le> length projectID
        then defaultAPIPrefix @ ''.'' @ take 4 (drop 1 projectID) @ ''.'' @ defaultDomainName
        else defaultBaseURL)"

section \<open>Reporting\<close>

record Reporter =
  customBaseURL :: string
  managementKey :: string
  report_interval :: duration
  enabled :: bool

definition NewReporter :: "string \<Rightarrow> string \<Rightarrow> go_int \<Rightarrow> bool \<Rightarrow> Reporter" where
  "NewReporter baseURL key intervalSeconds on =
     \<lparr>customBaseURL = baseURL, managementKey = key, report_interval = in_seconds intervalSeconds,
      enabled = on\<rparr>"

text \<open>The reporter that \<open>serve\<close> of \<open>src/cmd/authzcache/main.go\<close> makes from the client's URL and key and
  the settings.\<close>

definition serve_reporter :: "string \<Rightarrow> string \<Rightarrow> config_source \<Rightarrow> Reporter" where
  "serve_reporter baseURL key src =
     NewReporter baseURL key (GetMetricsReportIntervalInSeconds src) (GetMetricsReportEnabled src)"

text \<open>Whether \<open>Start\<close> leaves a reporting goroutine behind, and that goroutine's ticker.\<close>

definition StartReporter :: "Reporter \<Rightarrow> (goerror + duration) option" where
  "StartReporter r =
    (if \<not> enabled r then None
     else Some (if go_less 0 (report_interval r) then Inr (report_interval r)
                else Inl (GoPanic ''non-positive interval for NewTicker'')))"

record http_request =
  req_method :: string
  req_url :: string
  req_headers :: "(string \<times> string) list"
  req_body :: string

record 'w reporter_ops =
  Marshal :: "APIMetricsPayload list \<Rightarrow> goerror + string"
  NewRequest :: "http_request \<Rightarrow> goerror option"
  Do :: "http_request \<Rightarrow> 'w \<Rightarrow> (goerror + go_int) \<times> 'w"
  HeaderAuthzCacheGitSha :: string
  GetGitSha :: string

text \<open>\<open>post\<close>: the error it returns. A status outside 200 to 299 is only logged.\<close>

definition post :: "'w reporter_ops \<Rightarrow> Reporter \<Rightarrow> string \<Rightarrow> APIMetricsPayload list \<Rightarrow> 'w \<Rightarrow>
    goerror option \<times> 'w" where
  "post ops r projectID payloads w =
    (case Marshal ops payloads of
       Inl err \<Rightarrow> (Some err, w)
     | Inr body \<Rightarrow>
        (let req = \<lparr>req_method = ''POST'',
                    req_url = baseURLForProject projectID (customBaseURL r) @ ''/v1/mgmt/fga/cache/metrics'',
                    req_headers = [], req_body = body\<rparr>
         in case NewRequest ops req of
              Some err \<Rightarrow> (Some err, w)
            | None \<Rightarrow>
               (let req = req\<lparr>req_headers := [(''Content-Type'', ''application/json''),
                      (''Authorization'', ''Bearer '' @ projectID @ '':'' @ managementKey r),
                      (HeaderAuthzCacheGitSha ops, GetGitSha ops)]\<rparr>
                in case Do ops req w of
                     (Inl err, w') \<Rightarrow> (Some err, w')
                   | (Inr status, w') \<Rightarrow> (None, w'))))"

text \<open>The payloads of one project, in the order \<open>apis\<close> of the range; accumulators without calls
  are skipped.\<close>

fun build_payloads :: "(APIName \<times> AggregatedMetrics) list \<Rightarrow> APIName list \<Rightarrow> APIMetricsPayload list" where
  "build_payloads byAPI [] = []"
| "build_payloads byAPI (api # apis) =
    (case map_of byAPI api of
       None \<Rightarrow> build_payloads byAPI apis
     | Some agg \<Rightarrow>
        if TotalCalls agg = 0 then build_payloads byAPI apis
        else buildPayload api agg # build_payloads byAPI apis)"

fun report_projects :: "'w reporter_ops \<Rightarrow> (string list \<Rightarrow> string list) \<Rightarrow> Reporter \<Rightarrow> Collector \<Rightarrow>
    string list \<Rightarrow> 'w \<Rightarrow> 'w" where
  "report_projects ops order r snapshot [] w = w"
| "report_projects ops order r snapshot (projectID # ps) w =
    (let byAPI = lookup_list snapshot projectID;
         payloads = build_payloads byAPI (order (map fst byAPI))
     in if byAPI = [] \<or> payloads = [] then report_projects ops order r snapshot ps w
        else report_projects ops order r snapshot ps (snd (post ops r projectID payloads w)))"

definition report :: "'w reporter_ops \<Rightarrow> (string list \<Rightarrow> string list) \<Rightarrow> Reporter \<Rightarrow> Collector \<Rightarrow> 'w \<Rightarrow>
    Collector \<times> 'w" where
  "report ops order r collector w =
    (case SnapshotAndReset collector of (snapshot, collector') \<Rightarrow>
       (collector', report_projects ops order r snapshot (order (map fst snapshot)) w))"

section \<open>Exact ratios\<close>

lemma round_half_even_of_int [simp]: "round_half_even (of_int n) = n"
  by (simp add: round_half_even_def)

text \<open>Integers below \<open>2^53\<close> are exact.\<close>

lemma ulp_exponent_small_int:
  assumes "n \<noteq> 0" "\<bar>n\<bar> < 2 ^ 53"
  shows "ulp_exponent (of_int n) \<le> 0"
proof -
  have q: "quotient_of \<bar>of_int n :: rat\<bar> = (\<bar>n\<bar>, 1)"
    using quotient_of_int[of "\<bar>n\<bar>"] by (simp add: Rat.of_int_def)
  have "bitlen \<bar>n\<bar> \<le> 53"
    using assms by (simp add: bitlen_le_iff_power)
  moreover have "bitlen 1 = 1" using compute_bitlen[of 1] by simp
  ultimately show ?thesis by (simp add: ulp_exponent_def q Let_def)
qed

lemma float64_round_small_int:
  assumes "\<bar>n\<bar> < 2 ^ 53"
  shows "float64_round (of_int n) = of_int n"
proof (cases "n = 0")
  case True
  then show ?thesis by (simp add: float64_round_def)
next
  case False
  obtain k where e: "ulp_exponent (of_int n) = - int k"
    using ulp_exponent_small_int[OF False assms] by (metis minus_minus nonneg_int_cases neg_0_le_iff_le)
  have up: "(of_int n :: rat) / 2 powi (- int k) = of_int (n * 2 ^ k)"
    by (simp add: power_int_minus field_simps)
  have "round_half_even ((of_int n :: rat) / 2 powi (- int k)) = n * 2 ^ k"
    unfolding up by (rule round_half_even_of_int)
  then show ?thesis
    using False by (simp add: float64_round_def e power_int_minus)
qed


section \<open>The payload of an accumulator\<close>

lemma payload_fields:
  "P_HitCount (buildPayload api agg) = HitCount agg" "P_MissCount (buildPayload api agg) = MissCount agg"
  "P_TotalCalls (buildPayload api agg) = TotalCalls agg"
  "AvgDurationMs (buildPayload api agg) = (if go_less 0 (TotalCalls agg)
     then go_div (SumDurationHitsMs agg + SumDurationMissesMs agg) (TotalCalls agg) else 0)"
  "MinDurationMs (buildPayload api agg) =
     (let m = go_min (if HitCount agg = 0 then MaxInt64 else MinDurationHitsMs agg)
                (if MissCount agg = 0 then MaxInt64 else MinDurationMissesMs agg)
      in if m = MaxInt64 then 0 else m)"
  "MaxDurationMs (buildPayload api agg) = go_max (MaxDurationHitsMs agg) (MaxDurationMissesMs agg)"
  by (simp_all add: buildPayload_def Let_def)

lemma sint_sum_durations:
  assumes "\<forall>m\<in>set ms. 0 \<le> sint (DurationMs m)" "sum_list (map (\<lambda>m. sint (DurationMs m)) ms) < 2 ^ 63"
  shows "sint (sum_list (map DurationMs ms)) = sum_list (map (\<lambda>m. sint (DurationMs m)) ms)"
  using sint_sum_list[of "map DurationMs ms"] assms by (simp add: comp_def)

lemma payload_totals:
  assumes "ms \<noteq> []" "length ms < 2 ^ 63" "\<forall>m\<in>set ms. 0 \<le> sint (DurationMs m)"
    "sum_list (map (\<lambda>m. sint (DurationMs m)) ms) < 2 ^ 63" "p = buildPayload api (aggregate ms)"
  shows "P_HitCount p + P_MissCount p = P_TotalCalls p" "sint (P_TotalCalls p) = int (length ms)"
    "sint (AvgDurationMs p) = sum_list (map (\<lambda>m. sint (DurationMs m)) ms) div int (length ms)"
proof -
  let ?d = "\<lambda>m. sint (DurationMs m)" and ?n = "word_of_nat (length ms) :: go_int"
  have n: "sint ?n = int (length ms)" using sint_go_len[OF assms(2)] by (simp add: go_len_def)
  have tot: "TotalCalls (aggregate ms) = ?n" by (simp add: aggregate_def fold_record_call_sums)
  show "P_HitCount p + P_MissCount p = P_TotalCalls p"
    by (simp add: assms(5) payload_fields aggregate_def fold_record_call_sums length_hits_misses[of ms, symmetric])
  show t: "sint (P_TotalCalls p) = int (length ms)" by (simp add: assms(5) payload_fields tot n)
  have h: "\<forall>m\<in>set (hits ms). 0 \<le> ?d m" "\<forall>m\<in>set (misses ms). 0 \<le> ?d m"
    using assms(3) by (auto simp: hits_def misses_def)
  have nn: "0 \<le> sum_list (map ?d (hits ms))" "0 \<le> sum_list (map ?d (misses ms))"
    by (rule sum_list_nonneg, use h in auto)+
  note split = sum_list_hits_misses[of ?d ms]
  have s: "sint (SumDurationHitsMs (aggregate ms)) = sum_list (map ?d (hits ms))"
    "sint (SumDurationMissesMs (aggregate ms)) = sum_list (map ?d (misses ms))"
    using sint_sum_durations[OF h(1)] sint_sum_durations[OF h(2)] nn split assms(4)
    by (simp_all add: aggregate_def fold_record_call_sums)
  have sum: "sint (SumDurationHitsMs (aggregate ms) + SumDurationMissesMs (aggregate ms)) = sum_list (map ?d ms)"
    using sint_add_range[of "SumDurationHitsMs (aggregate ms)" "SumDurationMissesMs (aggregate ms)"]
      s nn split assms(4) by simp
  have pos: "0 < int (length ms)" using assms(1) by simp
  have "0 \<le> sum_list (map ?d ms)" using nn split by simp
  then show "sint (AvgDurationMs p) = sum_list (map ?d ms) div int (length ms)"
    using go_div_nonneg[of "SumDurationHitsMs (aggregate ms) + SumDurationMissesMs (aggregate ms)" ?n] sum n pos
    by (simp add: assms(5) payload_fields tot go_less_def)
qed

lemma payload_extremes:
  assumes "ms \<noteq> []" "length ms < 2 ^ 63" "\<forall>m\<in>set ms. 0 \<le> sint (DurationMs m)"
    "sum_list (map (\<lambda>m. sint (DurationMs m)) ms) < 2 ^ 63" "p = buildPayload api (aggregate ms)"
  shows "sint (MinDurationMs p) \<le> sint (AvgDurationMs p)" "sint (AvgDurationMs p) \<le> sint (MaxDurationMs p)"
proof -
  let ?d = "\<lambda>m. sint (DurationMs m)"
  have len: "length (hits ms) < 2 ^ 63" "length (misses ms) < 2 ^ 63"
    using assms(2) length_hits_misses[of ms] by simp_all
  have zero: "word_of_nat (length xs) = (0 :: go_int) \<longleftrightarrow> xs = []" if "length xs < 2 ^ 63" for xs :: "CallMetrics list"
    using sint_go_len[OF that] by (auto simp: go_len_def)
  let ?minHit = "if HitCount (aggregate ms) = 0 then MaxInt64 else MinDurationHitsMs (aggregate ms)"
  let ?minMiss = "if MissCount (aggregate ms) = 0 then MaxInt64 else MinDurationMissesMs (aggregate ms)"
  have counts: "HitCount (aggregate ms) = word_of_nat (length (hits ms))"
    "MissCount (aggregate ms) = word_of_nat (length (misses ms))"
    by (simp_all add: aggregate_def fold_record_call_sums)
  have least: "sint (MinDurationMs p) \<le> min (sint ?minHit) (sint ?minMiss)"
    unfolding assms(5) payload_fields Let_def sint_go_min[symmetric] by (simp add: sint_MaxInt64)
  have mins: "sint (MinDurationHitsMs (aggregate ms)) = fold min (map ?d (hits ms)) (sint MaxInt64)"
    "sint (MinDurationMissesMs (aggregate ms)) = fold min (map ?d (misses ms)) (sint MaxInt64)"
    by (simp_all add: aggregate_def fold_record_call_extremes)
  have lo: "sint (MinDurationMs p) \<le> ?d m" if m: "m \<in> set ms" for m
  proof -
    have "m \<in> set (hits ms) \<or> m \<in> set (misses ms)" using m set_hits_misses by blast
    then show ?thesis
    proof
      assume h: "m \<in> set (hits ms)"
      then have "HitCount (aggregate ms) \<noteq> 0" using zero[OF len(1)] counts by auto
      then have "sint (MinDurationMs p) \<le> fold min (map ?d (hits ms)) (sint MaxInt64)"
        using least by (simp add: mins)
      also have "\<dots> \<le> ?d m" using h by (intro fold_min_le(2)) auto
      finally show ?thesis .
    next
      assume h: "m \<in> set (misses ms)"
      then have "MissCount (aggregate ms) \<noteq> 0" using zero[OF len(2)] counts by auto
      then have "sint (MinDurationMs p) \<le> fold min (map ?d (misses ms)) (sint MaxInt64)"
        using least by (simp add: mins)
      also have "\<dots> \<le> ?d m" using h by (intro fold_min_le(2)) auto
      finally show ?thesis .
    qed
  qed
  have hi: "?d m \<le> sint (MaxDurationMs p)" if "m \<in> set ms" for m
  proof -
    have "m \<in> set (hits ms) \<or> m \<in> set (misses ms)" using that set_hits_misses by blast
    moreover have "?d m \<le> fold max (map ?d xs) 0" if "m \<in> set xs" for xs
      using that by (intro fold_max_ge(2)) auto
    ultimately show ?thesis
      by (auto simp: assms(5) payload_fields sint_go_max aggregate_def fold_record_call_extremes
          intro: max.coboundedI1 max.coboundedI2)
  qed
  have "map ?d ms \<noteq> []" "\<And>x. x \<in> set (map ?d ms) \<Longrightarrow> sint (MinDurationMs p) \<le> x \<and> x \<le> sint (MaxDurationMs p)"
    using assms(1) lo hi by auto
  from average_bounds[OF this] payload_totals(3)[OF assms]
  show "sint (MinDurationMs p) \<le> sint (AvgDurationMs p)" "sint (AvgDurationMs p) \<le> sint (MaxDurationMs p)"
    by simp_all
qed

end
