(* ===== verification/Service.thy ===== *)
theory Service
  imports ProjectCacheNew Coherence MetricsReport
begin

text \<open>
  \<open>src/internal/services/authz.go\<close>: the service behind the API. Its state is the map of project
  caches and the metrics collector. The Descope management SDK is outside the repository: its
  calls are parameters that act on an abstract world \<open>'w\<close>, and \<open>time.Now()\<close> reads the world's
  clock. The SDK handle of a project is the project's ID. \<open>projectCacheCreator\<close> is
  \<open>NewProjectAuthzCache\<close>, as \<open>main.go\<close> wires it.

  A handler is a function of the service state and the world. It models one request running on
  its own; what happens when requests, polls and timers interleave is in \<open>CacheSystem\<close>.
\<close>

section \<open>State and parameters\<close>

record 'w sdk_ops =
  NewManagement :: "string \<Rightarrow> 'w \<Rightarrow> goerror option \<times> 'w"
  SaveSchema :: "string \<Rightarrow> FGASchema \<Rightarrow> 'w \<Rightarrow> goerror option \<times> 'w"
  LoadSchema :: "string \<Rightarrow> 'w \<Rightarrow> (goerror + FGASchema) \<times> 'w"
  CreateRelations :: "string \<Rightarrow> FGARelation list \<Rightarrow> 'w \<Rightarrow> goerror option \<times> 'w"
  DeleteRelations :: "string \<Rightarrow> FGARelation list \<Rightarrow> 'w \<Rightarrow> goerror option \<times> 'w"
  CheckWithContext :: "string \<Rightarrow> FGARelation list \<Rightarrow> reqcontext \<Rightarrow> 'w \<Rightarrow> (goerror + FGACheck list) \<times> 'w"
  SDK_WhoCanAccess :: "string \<Rightarrow> string \<Rightarrow> string \<Rightarrow> string \<Rightarrow> 'w \<Rightarrow> (goerror + string list) \<times> 'w"
  SDK_WhatCanTargetAccess :: "string \<Rightarrow> string \<Rightarrow> 'w \<Rightarrow> (goerror + AuthzRelation list) \<times> 'w"
  Now :: "'w \<Rightarrow> gotime"

record ('rc, 'lc, 'p, 'w) service_env =
  cenv :: "('rc, 'lc, 'p) cache_env"
  lrus :: "('rc, 'lc) lru_constructors"
  settings :: config_source
  sdk :: "'w sdk_ops"

record ('rc, 'lc, 'p) authzCache =
  projects :: "string \<rightharpoonup> ('rc, 'lc, 'p) projectAuthzCache"
  metricsCollector :: "Collector option"

definition put_cache :: "string \<Rightarrow> ('rc, 'lc, 'p) projectAuthzCache \<Rightarrow> ('rc, 'lc, 'p) authzCache \<Rightarrow>
    ('rc, 'lc, 'p) authzCache" where
  "put_cache pid pc a = a\<lparr>projects := (projects a)(pid \<mapsto> pc)\<rparr>"

text \<open>\<open>New\<close>\<close>

definition NewAuthzCache :: "Collector option \<Rightarrow> ('rc, 'lc, 'p) authzCache" where
  "NewAuthzCache collector = \<lparr>projects = Map.empty, metricsCollector = collector\<rparr>"

section \<open>Helpers\<close>

definition getOrCreateProjectCache :: "('rc, 'lc, 'p, 'w) service_env \<Rightarrow> string \<Rightarrow>
    ('rc, 'lc, 'p) authzCache \<Rightarrow> 'w \<Rightarrow>
    (goerror + ('rc, 'lc, 'p) projectAuthzCache) \<times> ('rc, 'lc, 'p) authzCache \<times> 'w" where
  "getOrCreateProjectCache se pid a w =
    (case projects a pid of
       Some pc \<Rightarrow> (Inr pc, a, w)
     | None \<Rightarrow>
        (case NewManagement (sdk se) pid w of
           (Some err, w1) \<Rightarrow> (Inl err, a, w1)
         | (None, w1) \<Rightarrow>
            (case NewProjectAuthzCache (lrus se) (settings se) (Now (sdk se) w1) pid of
               Inl err \<Rightarrow> (Inl err, a, w1)
             | Inr pc \<Rightarrow>
                (case StartRemoteChangesPolling pc of
                   Inl err \<Rightarrow> (Inl err, a, w1)
                 | Inr period \<Rightarrow> (Inr pc, put_cache pid pc a, w1)))))"

text \<open>\<open>time.Since(start).Milliseconds()\<close>; \<open>Sub\<close> saturates at the ends of \<open>Duration\<close>.\<close>

definition since_ms :: "gotime \<Rightarrow> gotime \<Rightarrow> go_int" where
  "since_ms start now = go_div (word_of_int (max (- (2 ^ 63)) (min (2 ^ 63 - 1) (now - start)))) 1000000"

definition recordMetric :: "('rc, 'lc, 'p, 'w) service_env \<Rightarrow> string \<Rightarrow> APIName \<Rightarrow> bool \<Rightarrow> go_int \<Rightarrow> go_int \<Rightarrow>
    go_int \<Rightarrow> gotime \<Rightarrow> 'w \<Rightarrow> ('rc, 'lc, 'p) authzCache \<Rightarrow> ('rc, 'lc, 'p) authzCache" where
  "recordMetric se pid api hit candidates filtered resultSize start w a =
    (case metricsCollector a of
       None \<Rightarrow> a
     | Some c \<Rightarrow> a\<lparr>metricsCollector := Some (RecordCall pid api
         \<lparr>CacheHit = hit, CandidatesCount = candidates, FilteredCount = filtered, ResultSize = resultSize,
          DurationMs = since_ms start (Now (sdk se) w)\<rparr> c)\<rparr>)"

fun hasCacheableConditional :: "FGACheck list \<Rightarrow> bool" where
  "hasCacheableConditional [] = False"
| "hasCacheableConditional (c # cs) =
    (if Conditional (Info c) \<and> \<not> FactUsed (Info c) \<and> MissingContext (Info c) = [] \<and>
        ConditionalErr (Info c) = '''' \<and> (TrueConditions (Info c) \<noteq> [] \<or> FalseConditions (Info c) \<noteq> [])
     then True else hasCacheableConditional cs)"

definition ensureSchemaLoaded :: "('rc, 'lc, 'p, 'w) service_env \<Rightarrow> string \<Rightarrow>
    ('rc, 'lc, 'p) projectAuthzCache \<Rightarrow> 'w \<Rightarrow> ('rc, 'lc, 'p) projectAuthzCache \<times> 'w" where
  "ensureSchemaLoaded se pid pc w =
    (if (case GetSchema pc of None \<Rightarrow> False | Some schema \<Rightarrow> Version schema \<noteq> '''') then (pc, w)
     else case LoadSchema (sdk se) pid w of
       (Inl err, w1) \<Rightarrow> (pc, w1)
     | (Inr schema, w1) \<Rightarrow> (EnsureSchemaLoaded (cenv se) (Some schema) pc, w1))"

section \<open>Writes\<close>

definition CreateFGASchema :: "('rc, 'lc, 'p, 'w) service_env \<Rightarrow> string \<Rightarrow> string \<Rightarrow>
    ('rc, 'lc, 'p) authzCache \<Rightarrow> 'w \<Rightarrow> (goerror + unit) \<times> ('rc, 'lc, 'p) authzCache \<times> 'w" where
  "CreateFGASchema se pid dsl a w =
    (case getOrCreateProjectCache se pid a w of
       (Inl err, a1, w1) \<Rightarrow> (Inl err, a1, w1)
     | (Inr pc, a1, w1) \<Rightarrow>
        (case SaveSchema (sdk se) pid \<lparr>Schema = dsl, Version = '''', Conditions = []\<rparr> w1 of
           (Some err, w2) \<Rightarrow> (Inl err, a1, w2)
         | (None, w2) \<Rightarrow>
            (Inr (), put_cache pid (UpdateCacheWithSchema (cenv se)
               (Some \<lparr>Schema = dsl, Version = '''', Conditions = []\<rparr>) pc) a1, w2)))"

definition CreateFGARelations :: "('rc, 'lc, 'p, 'w) service_env \<Rightarrow> string \<Rightarrow> FGARelation list \<Rightarrow>
    ('rc, 'lc, 'p) authzCache \<Rightarrow> 'w \<Rightarrow> (goerror + unit) \<times> ('rc, 'lc, 'p) authzCache \<times> 'w" where
  "CreateFGARelations se pid relations a w =
    (if relations = [] then (Inr (), a, w)
     else case getOrCreateProjectCache se pid a w of
       (Inl err, a1, w1) \<Rightarrow> (Inl err, a1, w1)
     | (Inr pc, a1, w1) \<Rightarrow>
        (case CreateRelations (sdk se) pid relations w1 of
           (Some err, w2) \<Rightarrow> (Inl err, a1, w2)
         | (None, w2) \<Rightarrow>
            (Inr (), put_cache pid (UpdateCacheWithAddedRelations (cenv se) (Now (sdk se) w2) relations pc) a1, w2)))"

definition DeleteFGARelations :: "('rc, 'lc, 'p, 'w) service_env \<Rightarrow> string \<Rightarrow> FGARelation list \<Rightarrow>
    ('rc, 'lc, 'p) authzCache \<Rightarrow> 'w \<Rightarrow> (goerror + unit) \<times> ('rc, 'lc, 'p) authzCache \<times> 'w" where
  "DeleteFGARelations se pid relations a w =
    (if relations = [] then (Inr (), a, w)
     else case getOrCreateProjectCache se pid a w of
       (Inl err, a1, w1) \<Rightarrow> (Inl err, a1, w1)
     | (Inr pc, a1, w1) \<Rightarrow>
        (case DeleteRelations (sdk se) pid relations w1 of
           (Some err, w2) \<Rightarrow> (Inl err, a1, w2)
         | (None, w2) \<Rightarrow>
            (Inr (), put_cache pid (UpdateCacheWithDeletedRelations (cenv se) relations pc) a1, w2)))"

section \<open>Check\<close>

text \<open>The loop that merges cached and fetched checks; \<open>None\<close> is the index out of range of
  \<open>sdkChecks[j]\<close>.\<close>

fun merge_checks :: "(nat \<rightharpoonup> FGACheck) \<Rightarrow> nat \<Rightarrow> FGARelation list \<Rightarrow> FGACheck list \<Rightarrow> FGACheck list option" where
  "merge_checks idx i [] sdkChecks = Some []"
| "merge_checks idx i (r # rs) sdkChecks =
    (case idx i of
       Some check \<Rightarrow> map_option ((#) check) (merge_checks idx (Suc i) rs sdkChecks)
     | None \<Rightarrow>
        (case sdkChecks of
           [] \<Rightarrow> None
         | c # cs \<Rightarrow> map_option ((#) c) (merge_checks idx (Suc i) rs cs)))"

definition Check :: "('rc, 'lc, 'p, 'w) service_env \<Rightarrow> string \<Rightarrow> FGARelation list \<Rightarrow> reqcontext \<Rightarrow>
    ('rc, 'lc, 'p) authzCache \<Rightarrow> 'w \<Rightarrow> (goerror + FGACheck list) \<times> ('rc, 'lc, 'p) authzCache \<times> 'w" where
  "Check se pid relations extraContext a w =
    (let start = Now (sdk se) w
     in case getOrCreateProjectCache se pid a w of
       (Inl err, a1, w1) \<Rightarrow> (Inl err, a1, w1)
     | (Inr pc, a1, w1) \<Rightarrow>
        (case CheckRelations (cenv se) pc relations extraContext of
           ((cachedChecks, toCheckViaSDK, indexToCachedChecks), pc1) \<Rightarrow>
             if toCheckViaSDK = [] then
               (Inr cachedChecks, recordMetric se pid APICheck True 0 0 (go_len cachedChecks) start w1
                  (put_cache pid pc1 a1), w1)
             else case CheckWithContext (sdk se) pid toCheckViaSDK extraContext w1 of
               (Inl err, w2) \<Rightarrow> (Inl err, put_cache pid pc1 a1, w2)
             | (Inr sdkChecks, w2) \<Rightarrow>
                (case (if hasCacheableConditional sdkChecks then ensureSchemaLoaded se pid pc1 w2
                       else (pc1, w2)) of
                   (pc2, w3) \<Rightarrow>
                     (let a2 = put_cache pid (UpdateCacheWithChecks (cenv se) sdkChecks pc2) a1
                      in case merge_checks indexToCachedChecks 0 relations sdkChecks of
                           None \<Rightarrow> (Inl (GoPanic ''index out of range''), a2, w3)
                         | Some result \<Rightarrow>
                            (Inr result, recordMetric se pid APICheck False (go_len toCheckViaSDK) 0
                               (go_len result) start w3 a2, w3)))))"

section \<open>Lookups\<close>

text \<open>The candidates whose check is allowed; \<open>None\<close> is the index out of range of \<open>candidates[i]\<close>.\<close>

fun verified_candidates :: "'c list \<Rightarrow> FGACheck list \<Rightarrow> 'c list option" where
  "verified_candidates candidates [] = Some []"
| "verified_candidates [] (check # checks) =
    (if Allowed check then None else verified_candidates [] checks)"
| "verified_candidates (c # candidates) (check # checks) =
    (if Allowed check then map_option ((#) c) (verified_candidates candidates checks)
     else verified_candidates candidates checks)"

definition filter_candidates :: "('rc, 'lc, 'p, 'w) service_env \<Rightarrow> string \<Rightarrow> ('c \<Rightarrow> FGARelation) \<Rightarrow>
    'c list \<Rightarrow> reqcontext \<Rightarrow> ('rc, 'lc, 'p) authzCache \<Rightarrow> 'w \<Rightarrow>
    (goerror + 'c list) \<times> ('rc, 'lc, 'p) authzCache \<times> 'w" where
  "filter_candidates se pid to_relation candidates extraContext a w =
    (case Check se pid (map to_relation candidates) extraContext a w of
       (Inl err, a1, w1) \<Rightarrow> (Inl err, a1, w1)
     | (Inr checks, a1, w1) \<Rightarrow>
        (case verified_candidates candidates checks of
           None \<Rightarrow> (Inl (GoPanic ''index out of range''), a1, w1)
         | Some verified \<Rightarrow> (Inr verified, a1, w1)))"

definition who_relation :: "string \<Rightarrow> string \<Rightarrow> string \<Rightarrow> string \<Rightarrow> FGARelation" where
  "who_relation resource relationDefinition namespace target =
     \<lparr>Resource = resource, ResourceType = namespace, Relation = relationDefinition,
      Target = target, TargetType = ''*''\<rparr>"

definition filterWhoCanAccessCandidates :: "('rc, 'lc, 'p, 'w) service_env \<Rightarrow> string \<Rightarrow> string \<Rightarrow> string \<Rightarrow>
    string \<Rightarrow> string list \<Rightarrow> reqcontext \<Rightarrow> ('rc, 'lc, 'p) authzCache \<Rightarrow> 'w \<Rightarrow>
    (goerror + string list) \<times> ('rc, 'lc, 'p) authzCache \<times> 'w" where
  "filterWhoCanAccessCandidates se pid resource relationDefinition namespace =
     filter_candidates se pid (who_relation resource relationDefinition namespace)"

definition what_relation :: "string \<Rightarrow> AuthzRelation \<Rightarrow> FGARelation" where
  "what_relation target r =
     \<lparr>Resource = AR_Resource r, ResourceType = AR_Namespace r, Relation = AR_RelationDefinition r,
      Target = target, TargetType = ''*''\<rparr>"

definition filterWhatCanTargetAccessCandidates :: "('rc, 'lc, 'p, 'w) service_env \<Rightarrow> string \<Rightarrow> string \<Rightarrow>
    AuthzRelation list \<Rightarrow> reqcontext \<Rightarrow> ('rc, 'lc, 'p) authzCache \<Rightarrow> 'w \<Rightarrow>
    (goerror + AuthzRelation list) \<times> ('rc, 'lc, 'p) authzCache \<times> 'w" where
  "filterWhatCanTargetAccessCandidates se pid target =
     filter_candidates se pid (what_relation target)"

definition WhoCanAccess :: "('rc, 'lc, 'p, 'w) service_env \<Rightarrow> string \<Rightarrow> string \<Rightarrow> string \<Rightarrow> string \<Rightarrow>
    reqcontext \<Rightarrow> ('rc, 'lc, 'p) authzCache \<Rightarrow> 'w \<Rightarrow>
    (goerror + string list) \<times> ('rc, 'lc, 'p) authzCache \<times> 'w" where
  "WhoCanAccess se pid resource relationDefinition namespace extraContext a w =
    (let start = Now (sdk se) w
     in case getOrCreateProjectCache se pid a w of
       (Inl err, a1, w1) \<Rightarrow> (Inl err, a1, w1)
     | (Inr pc, a1, w1) \<Rightarrow>
        (case GetWhoCanAccessCached (cenv se) (Now (sdk se) w1) resource relationDefinition namespace pc of
           ((candidates, cacheHit), pc1) \<Rightarrow>
             (let a2 = put_cache pid pc1 a1
              in if cacheHit \<and> candidates \<noteq> [] then
                   (case filterWhoCanAccessCandidates se pid resource relationDefinition namespace
                           candidates extraContext a2 w1 of
                      (Inl err, a3, w2) \<Rightarrow> (Inl err, a3, w2)
                    | (Inr verified, a3, w2) \<Rightarrow>
                       (Inr verified, recordMetric se pid APIWhoCanAccess True (go_len candidates)
                          (go_len candidates - go_len verified) (go_len verified) start w2 a3, w2))
                 else
                   (case SDK_WhoCanAccess (sdk se) pid resource relationDefinition namespace w1 of
                      (Inl err, w2) \<Rightarrow> (Inl err, a2, w2)
                    | (Inr targets, w2) \<Rightarrow>
                       (Inr targets, recordMetric se pid APIWhoCanAccess False 0 0 (go_len targets) start w2
                          (put_cache pid (SetWhoCanAccessCached (cenv se) (Now (sdk se) w2) resource
                             relationDefinition namespace targets pc1) a2), w2)))))"

definition WhatCanTargetAccess :: "('rc, 'lc, 'p, 'w) service_env \<Rightarrow> string \<Rightarrow> string \<Rightarrow>
    reqcontext \<Rightarrow> ('rc, 'lc, 'p) authzCache \<Rightarrow> 'w \<Rightarrow>
    (goerror + AuthzRelation list) \<times> ('rc, 'lc, 'p) authzCache \<times> 'w" where
  "WhatCanTargetAccess se pid target extraContext a w =
    (let start = Now (sdk se) w
     in case getOrCreateProjectCache se pid a w of
       (Inl err, a1, w1) \<Rightarrow> (Inl err, a1, w1)
     | (Inr pc, a1, w1) \<Rightarrow>
        (case GetWhatCanTargetAccessCached (cenv se) (Now (sdk se) w1) target pc of
           ((candidates, cacheHit), pc1) \<Rightarrow>
             (let a2 = put_cache pid pc1 a1
              in if cacheHit \<and> candidates \<noteq> [] then
                   (case filterWhatCanTargetAccessCandidates se pid target candidates extraContext a2 w1 of
                      (Inl err, a3, w2) \<Rightarrow> (Inl err, a3, w2)
                    | (Inr verified, a3, w2) \<Rightarrow>
                       (Inr verified, recordMetric se pid APIWhatCanTargetAccess True (go_len candidates)
                          (go_len candidates - go_len verified) (go_len verified) start w2 a3, w2))
                 else
                   (case SDK_WhatCanTargetAccess (sdk se) pid target w1 of
                      (Inl err, w2) \<Rightarrow> (Inl err, a2, w2)
                    | (Inr relations, w2) \<Rightarrow>
                       (Inr relations, recordMetric se pid APIWhatCanTargetAccess False 0 0 (go_len relations) start w2
                          (put_cache pid (SetWhatCanTargetAccessCached (cenv se) (Now (sdk se) w2) target
                             relations pc1) a2), w2)))))"

end
