(* ===== verification/CacheSystem.thy ===== *)
theory CacheSystem
  imports Coherence RemotePolling
begin

text \<open>
  A project's cache at work: the cache, the backend, and the requests, polls and timers that act
  on them, as a step relation. Each step is one critical section of the program, one event of the
  runtime (a timer fires), or one change of the backend. The backend keeps a log of its
  modifications with their times; \<open>GetModified since\<close> reports at least the modifications logged
  from \<open>since\<close> on when the request was made.

  Checks travel: the SDK computes an answer at one moment and the program stores it at a later
  one. \<open>sy_inflight\<close> holds such answers with the position in the log and the time at which they
  were computed. A poll may come in between and move \<open>lastPollTime\<close> past that time; the program
  stores the answer all the same. So the cache can have missed what the backend changed since
  \<open>sy_floor\<close>, which the program does not know: it is \<open>lastPollTime\<close>, or the time of the oldest such
  late answer stored since the cache was last empty.
\<close>

section \<open>State and steps\<close>

type_synonym modification_log = "(gotime \<times> AuthzModified) list"

record ('rc, 'lc, 'p) cache_system =
  sy_cache :: "('rc, 'lc, 'p) projectAuthzCache"
  sy_clock :: gotime
  sy_backend :: backend
  sy_log :: modification_log
  sy_inflight :: "(nat \<times> gotime \<times> FGACheck list) list"
  sy_floor :: gotime

definition pending :: "modification_log \<Rightarrow> gotime \<Rightarrow> AuthzModified list" where
  "pending log since = map snd (filter (\<lambda>e. since \<le> fst e) log)"

text \<open>The modifications a cache may have missed.\<close>

definition untold :: "('rc, 'lc, 'p) cache_system \<Rightarrow> AuthzModified list" where
  "untold s = pending (sy_log s) (sy_floor s)"

text \<open>The floor after a poll or a purge has left the cache \<open>pc\<close>: without late answers, and in an empty
  cache, it is the poll time.\<close>

definition new_floor :: "('rc, 'lc, 'p) cache_env \<Rightarrow> ('rc, 'lc, 'p) cache_system \<Rightarrow>
    ('rc, 'lc, 'p) projectAuthzCache \<Rightarrow> gotime" where
  "new_floor env s pc =
    (if sy_floor s = lastPollTime (remoteChanges (sy_cache s)) \<or> noRelations env pc
     then lastPollTime (remoteChanges pc) else sy_floor s)"

text \<open>\<open>m\<close> reports the modifications \<open>ms\<close>.\<close>

definition reports :: "AuthzModified \<Rightarrow> AuthzModified list \<Rightarrow> bool" where
  "reports m ms \<longleftrightarrow> (\<forall>m'\<in>set ms. (SchemaChanged m' \<longrightarrow> SchemaChanged m) \<and>
     set (ModResources m') \<subseteq> set (ModResources m) \<and> set (ModTargets m') \<subseteq> set (ModTargets m))"

text \<open>Time passes and the backend changes.\<close>

inductive backend_step :: "gotime \<times> backend \<times> modification_log \<Rightarrow>
    gotime \<times> backend \<times> modification_log \<Rightarrow> bool" where
  time_passes: "t \<le> t' \<Longrightarrow> backend_step (t, b, log) (t', b, log)"
| backend_changes: "modifies m b b' \<Longrightarrow> backend_step (t, b, log) (t, b', log @ [(t, m)])"

inductive system_step :: "('rc, 'lc, 'p) cache_env \<Rightarrow> (goerror \<Rightarrow> string \<Rightarrow> bool) \<Rightarrow>
    ('rc, 'lc, 'p) cache_system \<Rightarrow> ('rc, 'lc, 'p) cache_system \<Rightarrow> bool"
  for env :: "('rc, 'lc, 'p) cache_env" and IsError :: "goerror \<Rightarrow> string \<Rightarrow> bool" where
  backend: "backend_step (sy_clock s, sy_backend s, sy_log s) (t, b, log) \<Longrightarrow>
    system_step env IsError s (s\<lparr>sy_clock := t, sy_backend := b, sy_log := log\<rparr>)"
| poll: "backend_step\<^sup>*\<^sup>* (sy_clock s, sy_backend s, sy_log s) (t, b, log) \<Longrightarrow>
    (\<And>since m. GetModified since = Inr m \<Longrightarrow> reports m (pending (sy_log s) since)) \<Longrightarrow>
    pc = updateCacheWithRemotePolling env IsError GetModified (sy_clock s) t (sy_cache s) \<Longrightarrow>
    system_step env IsError s (s\<lparr>sy_clock := t, sy_backend := b, sy_log := log,
      sy_cache := pc, sy_floor := new_floor env s pc\<rparr>)"
| fire: "fireTimer (sy_clock s) i (sy_cache s) = Some pc \<Longrightarrow>
    system_step env IsError s (s\<lparr>sy_cache := pc\<rparr>)"
| callback: "runCallback env (sy_clock s) i (sy_cache s) = Some pc \<Longrightarrow>
    system_step env IsError s (s\<lparr>sy_cache := pc, sy_floor := new_floor env s pc\<rparr>)"
| read: "CheckRelations env (sy_cache s) rs ctx = (res, pc) \<Longrightarrow>
    system_step env IsError s (s\<lparr>sy_cache := pc\<rparr>)"
| answer: "(\<And>c. c \<in> set cs \<Longrightarrow> fresh_check (sy_backend s) [] c) \<Longrightarrow>
    system_step env IsError s (s\<lparr>sy_inflight := sy_inflight s @ [(length (sy_log s), sy_clock s, cs)]\<rparr>)"
| store: "(n, t, cs) \<in> set (sy_inflight s) \<Longrightarrow>
    system_step env IsError s (s\<lparr>sy_cache := UpdateCacheWithChecks env cs (sy_cache s),
      sy_floor := min (sy_floor s) t\<rparr>)"
| load_schema: "(\<And>sc. schema = Some sc \<Longrightarrow> edge_agrees (cel env) (sy_backend s) sc) \<Longrightarrow>
    system_step env IsError s (s\<lparr>sy_cache := EnsureSchemaLoaded env schema (sy_cache s)\<rparr>)"
| save_schema: "(\<And>sc. schema = Some sc \<Longrightarrow> edge_agrees (cel env) (sy_backend s) sc) \<Longrightarrow>
    system_step env IsError s (s\<lparr>sy_cache := UpdateCacheWithSchema env schema (sy_cache s)\<rparr>)"
| added: "system_step env IsError s
    (s\<lparr>sy_cache := UpdateCacheWithAddedRelations env (sy_clock s) rels (sy_cache s)\<rparr>)"
| deleted: "system_step env IsError s
    (s\<lparr>sy_cache := UpdateCacheWithDeletedRelations env rels (sy_cache s)\<rparr>)"
| get_wca: "GetWhoCanAccessCached env (sy_clock s) r d n (sy_cache s) = (res, pc) \<Longrightarrow>
    system_step env IsError s (s\<lparr>sy_cache := pc\<rparr>)"
| set_wca: "system_step env IsError s
    (s\<lparr>sy_cache := SetWhoCanAccessCached env (sy_clock s) r d n targets (sy_cache s)\<rparr>)"
| get_wcta: "GetWhatCanTargetAccessCached env (sy_clock s) tgt (sy_cache s) = (res', pc) \<Longrightarrow>
    system_step env IsError s (s\<lparr>sy_cache := pc\<rparr>)"
| set_wcta: "system_step env IsError s
    (s\<lparr>sy_cache := SetWhatCanTargetAccessCached env (sy_clock s) tgt ars (sy_cache s)\<rparr>)"
| invalidate: "system_step env IsError s (s\<lparr>sy_cache := InvalidateLookupCache env (sy_cache s)\<rparr>)"

section \<open>The log\<close>

lemma pending_append [simp]: "pending (log @ log') t = pending log t @ pending log' t"
  by (simp add: pending_def)

lemma pending_subset: "t \<le> t' \<Longrightarrow> set (pending log t') \<subseteq> set (pending log t)"
  by (auto simp: pending_def)

lemma pending_all: "(\<And>e. e \<in> set log \<Longrightarrow> t \<le> fst e) \<Longrightarrow> pending log t = map snd log"
  by (simp add: pending_def)

text \<open>While the backend runs, the log grows by entries no older than the time it started, and what
  was fresh stays fresh up to them.\<close>

definition backend_ran :: "gotime \<Rightarrow> backend \<Rightarrow> modification_log \<Rightarrow> gotime \<Rightarrow> backend \<Rightarrow> bool" where
  "backend_ran t b new t' b' \<longleftrightarrow> t \<le> t' \<and> (\<forall>e\<in>set new. t \<le> fst e \<and> fst e \<le> t') \<and>
     universe b' = universe b \<and> cond_value b' = cond_value b \<and>
     (\<forall>ms ver d g r. r \<in> universe b \<longrightarrow> fresh_grant b ms ver d g r \<longrightarrow>
        fresh_grant b' (ms @ map snd new) ver d g r)"

lemma backend_ran_refl: "backend_ran t b [] t b"
  by (simp add: backend_ran_def)

lemma backend_ran_time:
  "backend_ran t b new t1 b' \<Longrightarrow> t1 \<le> t' \<Longrightarrow> backend_ran t b new t' b'"
  unfolding backend_ran_def by fastforce

lemma backend_ran_change:
  assumes "backend_ran t b new t' b1" "modifies m b1 b'"
  shows "backend_ran t b (new @ [(t', m)]) t' b'"
proof -
  have u: "universe b' = universe b" "cond_value b' = cond_value b" "universe b1 = universe b"
    using assms by (simp_all add: backend_ran_def modifies_def)
  have "fresh_grant b' (ms @ map snd (new @ [(t', m)])) ver d g r"
    if "r \<in> universe b" "fresh_grant b ms ver d g r" for ms ver d g r
  proof -
    have "fresh_grant b1 (ms @ map snd new) ver d g r" using assms(1) that by (simp add: backend_ran_def)
    from fresh_grant_modifies[OF this assms(2)] that(1) u(3) show ?thesis by simp
  qed
  then show ?thesis using assms(1) u by (auto simp: backend_ran_def)
qed

lemma backend_steps_ran:
  assumes "backend_step\<^sup>*\<^sup>* (t, b, log) (t', b', log')"
  shows "\<exists>new. log' = log @ new \<and> backend_ran t b new t' b'"
  using assms
proof (induction "(t', b', log')" arbitrary: t' b' log' rule: rtranclp_induct)
  case base
  then show ?case using backend_ran_refl by auto
next
  case (step y)
  obtain t1 b1 log1 where y: "y = (t1, b1, log1)" by (metis prod_cases3)
  obtain new where new: "log1 = log @ new" "backend_ran t b new t1 b1"
    using step.hyps(3)[OF y] by blast
  have "backend_step (t1, b1, log1) (t', b', log')" using step.hyps(2) y by simp
  then show ?case
  proof cases
    case time_passes
    then show ?thesis using new backend_ran_time by (intro exI[of _ new]) auto
  next
    case (backend_changes m)
    then show ?thesis using new backend_ran_change by (intro exI[of _ "new @ [(t1, m)]"]) auto
  qed
qed

lemma backend_ran_coherent:
  assumes "coherent env b ms pc" "backend_ran t b new t' b'"
  shows "coherent env b' (ms @ map snd new) pc"
proof -
  have u: "universe b' = universe b" using assms(2) by (simp add: backend_ran_def)
  have f: "r \<in> universe b \<Longrightarrow> fresh_grant b ms ver d g r \<Longrightarrow> fresh_grant b' (ms @ map snd new) ver d g r"
    for ver d g r using assms(2) by (simp add: backend_ran_def)
  show ?thesis using assms(1) f unfolding coherent_def u by meson
qed

lemma backend_ran_fresh_check:
  assumes "fresh_check b ms c" "backend_ran t b new t' b'"
  shows "fresh_check b' (ms @ map snd new) c"
  using assms by (auto simp: fresh_check_def backend_ran_def)

lemma backend_ran_schema_agrees:
  assumes "schema_agrees env b pc" "backend_ran t b new t' b'"
  shows "schema_agrees env b' pc"
  using assms by (simp add: schema_agrees_def edge_agrees_def backend_ran_def)

section \<open>The invariant\<close>

text \<open>An answer in flight is fresh up to the modifications logged since it was computed, and those
  are no older than it.\<close>

definition inflight_ok :: "backend \<Rightarrow> modification_log \<Rightarrow> nat \<times> gotime \<times> FGACheck list \<Rightarrow> bool" where
  "inflight_ok b log f = (case f of (n, t, cs) \<Rightarrow>
     (\<forall>e\<in>set (drop n log). t \<le> fst e) \<and> n \<le> length log \<and>
     (\<forall>c\<in>set cs. fresh_check b (map snd (drop n log)) c))"

definition system_inv :: "('rc, 'lc, 'p) cache_env \<Rightarrow> ('rc \<Rightarrow> bool) \<Rightarrow> ('lc \<Rightarrow> bool) \<Rightarrow>
    ('rc, 'lc, 'p) cache_system \<Rightarrow> bool" where
  "system_inv env wfr wfl s \<longleftrightarrow> cache_inv env wfr wfl (sy_cache s) \<and>
     coherent env (sy_backend s) (untold s) (sy_cache s) \<and>
     schema_agrees env (sy_backend s) (sy_cache s) \<and>
     lastPollTime (remoteChanges (sy_cache s)) \<le> sy_clock s \<and>
     sy_floor s \<le> lastPollTime (remoteChanges (sy_cache s)) \<and>
     (\<forall>f\<in>set (sy_inflight s). inflight_ok (sy_backend s) (sy_log s) f \<and> fst (snd f) \<le> sy_clock s)"

lemma system_inv_lookup: "system_inv env wfr wfl s \<Longrightarrow> lookup_inv env wfl (sy_cache s)"
  by (simp add: system_inv_def cache_inv_def)

lemma inflight_ok_ran:
  assumes "inflight_ok b log (n, t0, cs)" "backend_ran t b new t' b'" "t0 \<le> t"
  shows "inflight_ok b' (log @ new) (n, t0, cs)"
  using assms backend_ran_fresh_check[OF _ assms(2)]
  by (fastforce simp: inflight_ok_def backend_ran_def)

text \<open>The part of the invariant a change of the cache alone has to restore.\<close>

lemma system_inv_floor:
  assumes "system_inv env wfr wfl s" "cache_inv env wfr wfl pc"
    "coherent env (sy_backend s) (pending (sy_log s) f) pc" "schema_agrees env (sy_backend s) pc"
    "lastPollTime (remoteChanges pc) \<le> sy_clock s" "f \<le> lastPollTime (remoteChanges pc)"
  shows "system_inv env wfr wfl (s\<lparr>sy_cache := pc, sy_floor := f\<rparr>)"
  using assms by (simp add: system_inv_def untold_def)

lemma system_inv_cache:
  assumes "system_inv env wfr wfl s" "cache_inv env wfr wfl pc"
    "coherent env (sy_backend s) (untold s) pc" "schema_agrees env (sy_backend s) pc"
    "lastPollTime (remoteChanges pc) = lastPollTime (remoteChanges (sy_cache s))"
  shows "system_inv env wfr wfl (s\<lparr>sy_cache := pc\<rparr>)"
  using assms by (simp add: system_inv_def untold_def)

lemma system_inv_quiet:
  assumes "system_inv env wfr wfl s" "cache_inv env wfr wfl pc"
    "direct_grants env pc = direct_grants env (sy_cache s)"
    "indirect_grants env pc = indirect_grants env (sy_cache s)"
    "directKeyComponents pc = directKeyComponents (sy_cache s)"
    "loadedSchemaVersion pc = loadedSchemaVersion (sy_cache s)"
    "schemaCache pc = schemaCache (sy_cache s)"
    "lastPollTime (remoteChanges pc) = lastPollTime (remoteChanges (sy_cache s))"
  shows "system_inv env wfr wfl (s\<lparr>sy_cache := pc\<rparr>)"
  using assms(1) coherent_cong[OF assms(3-6)] assms(7,8)
  by (intro system_inv_cache[OF assms(1,2)]) (simp_all add: system_inv_def schema_agrees_def)

section \<open>Every step keeps the invariant\<close>

context cache_contract
begin

lemma system_inv_backend:
  assumes "system_inv env wfr wfl s"
    "backend_step\<^sup>*\<^sup>* (sy_clock s, sy_backend s, sy_log s) (t, b, log)"
  shows "system_inv env wfr wfl (s\<lparr>sy_clock := t, sy_backend := b, sy_log := log\<rparr>)"
    and "\<exists>new. log = sy_log s @ new \<and> (\<forall>e\<in>set new. sy_clock s \<le> fst e) \<and>
      coherent env b (untold s @ map snd new) (sy_cache s)"
    and "sy_clock s \<le> t"
proof -
  let ?pc = "sy_cache s"
  let ?lp = "lastPollTime (remoteChanges ?pc)"
  obtain new where new: "log = sy_log s @ new" "backend_ran (sy_clock s) (sy_backend s) new t b"
    using backend_steps_ran[OF assms(2)] by blast
  have old: "\<forall>e\<in>set new. sy_clock s \<le> fst e" "sy_clock s \<le> t" using new(2) by (auto simp: backend_ran_def)
  have inv: "coherent env (sy_backend s) (untold s) ?pc" "schema_agrees env (sy_backend s) ?pc"
    "?lp \<le> sy_clock s" "cache_inv env wfr wfl ?pc" "sy_floor s \<le> ?lp"
    using assms(1) by (simp_all add: system_inv_def)
  have coh: "coherent env b (untold s @ map snd new) ?pc" "schema_agrees env b ?pc"
    using backend_ran_coherent[OF inv(1) new(2)] backend_ran_schema_agrees[OF inv(2) new(2)] by simp_all
  show "\<exists>new. log = sy_log s @ new \<and> (\<forall>e\<in>set new. sy_clock s \<le> fst e) \<and>
      coherent env b (untold s @ map snd new) (sy_cache s)"
    using new(1) old coh by blast
  show "sy_clock s \<le> t" by (fact old(2))
  have "inflight_ok b log f \<and> fst (snd f) \<le> t" if "f \<in> set (sy_inflight s)" for f
  proof -
    obtain n t0 cs where f: "f = (n, t0, cs)" by (metis prod_cases3)
    have "inflight_ok (sy_backend s) (sy_log s) f" "t0 \<le> sy_clock s"
      using assms(1) that f by (auto simp: system_inv_def)
    then show ?thesis using inflight_ok_ran[OF _ new(2)] old(2) f new(1) by simp
  qed
  moreover have "pending new (sy_floor s) = map snd new"
    using old(1) inv(3,5) by (intro pending_all) auto
  ultimately show "system_inv env wfr wfl (s\<lparr>sy_clock := t, sy_backend := b, sy_log := log\<rparr>)"
    using coh inv(3-5) old(2) new(1) by (simp add: system_inv_def untold_def)
qed

text \<open>A poll that is answered: everything untold when it was asked is accounted for.\<close>

lemma poll_answered_coherent:
  assumes "cache_inv env wfr wfl pc" "coherent env b (ms @ ms') pc" "reports m ms" "\<not> noRelations env pc"
    "GetModified (lastPollTime (remoteChanges pc)) = Inr m"
    "pc' = updateCacheWithRemotePolling env IsError GetModified t0 t1 pc"
  shows "coherent env b ms' pc'"
proof -
  let ?q = "cancelPurgeCooldown (setLastPollTime t0 pc)"
  have q: "same_outside_polling pc ?q"
    using same_outside_polling_trans[OF same_outside_polling_simps(3) same_outside_cancel] .
  note qD = same_outside_pollingD[OF q]
  have inv: "cache_inv env wfr wfl ?q" using assms(1) qD(1) by simp
  have coh: "coherent env b (ms' @ ms) ?q"
    using coherent_mono[OF assms(2), of "ms' @ ms"] coherent_cong[OF qD(2-5)] by auto
  have pc': "pc' = (if SchemaChanged m then purgeAllCaches env t1 ?q
      else if ModResources m = [] \<and> ModTargets m = [] then ?q else applyRemoteChanges env m ?q)"
    by (simp add: assms(6) poll_success[where GetModified = GetModified, OF assms(4,5)] Let_def)
  show ?thesis
  proof (cases "SchemaChanged m")
    case True
    then show ?thesis using purgeAllCaches_spec[OF inv] by (simp add: pc' coherent_no_grants)
  next
    case False
    then have s: "schema_unchanged ms" using assms(3) by (auto simp: reports_def schema_unchanged_def)
    show ?thesis
    proof (cases "ModResources m = [] \<and> ModTargets m = []")
      case True
      then have "nothing_modified ms" using assms(3) by (auto simp: reports_def nothing_modified_def)
      then show ?thesis using coherent_quiet[OF coh s] True False by (simp add: pc')
    next
      case quiet: False
      have "touched ms c \<Longrightarrow> kc_r c \<in> set (ModResources m) \<or> kc_t c \<in> set (ModTargets m)" for c
        using assms(3) by (auto simp: reports_def touched_def)
      then have "coherent env b ms' (applyRemoteChanges env m ?q)"
        by (rule sweeping_coherent[OF applyRemoteChanges_sweeps[OF inv] coh s])
      then show ?thesis
        using False quiet by (auto simp: pc')
    qed
  qed
qed

text \<open>A poll that fails either leaves the relations and the poll time alone or purges.\<close>

lemma poll_failed:
  assumes "cache_inv env wfr wfl pc" "\<not> noRelations env pc"
    "GetModified (lastPollTime (remoteChanges pc)) = Inl err"
    "pc' = updateCacheWithRemotePolling env IsError GetModified t0 t1 pc"
  shows "same_outside_polling pc pc' \<and> lastPollTime (remoteChanges pc') = lastPollTime (remoteChanges pc) \<or>
    direct_grants env pc' = Map.empty \<and> indirect_grants env pc' = Map.empty \<and> schemaCache pc' = None \<and>
    lastPollTime (remoteChanges pc') = t1"
proof -
  have c: "cache_inv env wfr wfl (cancelPurgeCooldown pc)" using assms(1) by (simp add: cancel_inv)
  note p = purgeAllCaches_spec[OF c, of t1] purgeAllCaches_spec[OF assms(1), of t1]
  show ?thesis
  proof (cases "IsError err getModifiedLimitReachedErrorCode \<or> purgeCooldownWindow (remoteChanges pc) = 0")
    case True
    then show ?thesis using p by (auto simp: assms(4) poll_failure[where GetModified = GetModified, OF assms(2,3)] purgeAfterCooldown_def)
  next
    case False
    then have "pc' = purgeAfterCooldown env t1 pc" by (simp add: assms(4) poll_failure[where GetModified = GetModified, OF assms(2,3)])
    moreover have "lastPollTime (remoteChanges (purgeAfterCooldown env t1 pc)) = lastPollTime (remoteChanges pc)"
      using False by (simp add: purgeAfterCooldown_def AfterFunc_def Let_def)
    ultimately show ?thesis using purgeAfterCooldown_keeps False by auto
  qed
qed

lemma coherent_outside_polling:
  "same_outside_polling pc pc' \<Longrightarrow> coherent env b ms pc' = coherent env b ms pc"
  by (rule coherent_cong) (simp_all add: same_outside_pollingD(2-5))

lemma schema_agrees_mono:
  assumes "schema_agrees env b pc" "schemaCache pc' = schemaCache pc \<or> schemaCache pc' = None"
  shows "schema_agrees env b pc'"
  using assms by (auto simp: schema_agrees_def)

text \<open>Whatever its outcome, a poll adds no grant.\<close>

lemma poll_keeps_coherent:
  assumes "cache_inv env wfr wfl pc" "coherent env b ms pc"
  shows "coherent env b ms (updateCacheWithRemotePolling env IsError GetModified t0 t1 pc)"
proof (cases "noRelations env pc")
  case True
  then have "\<And>k. direct_grants env pc k = None \<and> indirect_grants env pc k = None"
    using noRelations_iff[OF cache_invD(1)[OF assms(1)]] by simp
  then show ?thesis
    by (simp add: poll_idle[OF True] coherent_def same_outside_pollingD(2,3)[OF same_outside_polling_simps(3)])
next
  case False
  show ?thesis
  proof (cases "GetModified (lastPollTime (remoteChanges pc))")
    case (Inl err)
    from poll_failed[where GetModified = GetModified, OF assms(1) False Inl refl, of IsError t0 t1] show ?thesis
      using assms(2) coherent_outside_polling coherent_no_grants by blast
  next
    case (Inr m)
    let ?q = "cancelPurgeCooldown (setLastPollTime t0 pc)"
    have q: "same_outside_polling pc ?q"
      using same_outside_polling_trans[OF same_outside_polling_simps(3) same_outside_cancel] .
    have inv: "cache_inv env wfr wfl ?q" and coh: "coherent env b (ms @ []) ?q"
      using assms same_outside_pollingD(1)[OF q] coherent_outside_polling[OF q] by simp_all
    show ?thesis
      using coh sweeping_coherent[OF applyRemoteChanges_sweeps[OF inv] coh] purgeAllCaches_spec(1,2)[OF inv, of t1]
      by (simp add: poll_success[where GetModified = GetModified, OF False Inr] Let_def coherent_no_grants)
  qed
qed

text \<open>After a poll or a purge.\<close>

lemma system_inv_new_floor:
  assumes "system_inv env wfr wfl s" "cache_inv env wfr wfl pc"
    "sy_floor s = lastPollTime (remoteChanges (sy_cache s)) \<Longrightarrow>
      coherent env (sy_backend s) (pending (sy_log s) (lastPollTime (remoteChanges pc))) pc"
    "coherent env (sy_backend s) (untold s) pc" "schema_agrees env (sy_backend s) pc"
    "lastPollTime (remoteChanges (sy_cache s)) \<le> lastPollTime (remoteChanges pc)"
    "lastPollTime (remoteChanges pc) \<le> sy_clock s"
  shows "system_inv env wfr wfl (s\<lparr>sy_cache := pc, sy_floor := new_floor env s pc\<rparr>)"
proof (rule system_inv_floor[OF assms(1,2) _ assms(5,7)])
  have "sy_floor s \<le> lastPollTime (remoteChanges (sy_cache s))" using assms(1) by (simp add: system_inv_def)
  then show "new_floor env s pc \<le> lastPollTime (remoteChanges pc)" using assms(6) by (simp add: new_floor_def)
  show "coherent env (sy_backend s) (pending (sy_log s) (new_floor env s pc)) pc"
  proof (cases "noRelations env pc")
    case True
    then have "\<And>k. direct_grants env pc k = None \<and> indirect_grants env pc k = None"
      using noRelations_iff[OF cache_invD(1)[OF assms(2)]] by simp
    then show ?thesis by (simp add: coherent_def)
  next
    case False
    then show ?thesis using assms(3,4) by (simp add: new_floor_def untold_def)
  qed
qed

lemma poll_answered_lp:
  assumes "cache_inv env wfr wfl pc" "\<not> noRelations env pc"
    "GetModified (lastPollTime (remoteChanges pc)) = Inr m"
    "pc' = updateCacheWithRemotePolling env IsError GetModified t0 t1 pc"
  shows "schemaCache pc' = schemaCache pc \<or> schemaCache pc' = None"
    and "lastPollTime (remoteChanges pc') = (if SchemaChanged m then t1 else t0)"
proof -
  let ?q = "cancelPurgeCooldown (setLastPollTime t0 pc)"
  have "same_outside_polling pc ?q"
    using same_outside_polling_trans[OF same_outside_polling_simps(3) same_outside_cancel] .
  note q = same_outside_pollingD[OF this]
  have inv: "cache_inv env wfr wfl ?q" using assms(1) q(1) by simp
  have pc': "pc' = (if SchemaChanged m then purgeAllCaches env t1 ?q
      else if ModResources m = [] \<and> ModTargets m = [] then ?q else applyRemoteChanges env m ?q)"
    by (simp add: assms(4) poll_success[where GetModified = GetModified, OF assms(2,3)] Let_def)
  show "schemaCache pc' = schemaCache pc \<or> schemaCache pc' = None"
    "lastPollTime (remoteChanges pc') = (if SchemaChanged m then t1 else t0)"
    using purgeAllCaches_spec[OF inv, of t1] sweepingD(3,7)[OF applyRemoteChanges_sweeps[OF inv]]
    by (auto simp: pc' q(7))
qed

lemma poll_system_inv:
  assumes "system_inv env wfr wfl s"
    "backend_step\<^sup>*\<^sup>* (sy_clock s, sy_backend s, sy_log s) (t, b, log)"
    "\<And>since m. GetModified since = Inr m \<Longrightarrow> reports m (pending (sy_log s) since)"
    "pc' = updateCacheWithRemotePolling env IsError GetModified (sy_clock s) t (sy_cache s)"
  shows "system_inv env wfr wfl (s\<lparr>sy_clock := t, sy_backend := b, sy_log := log,
      sy_cache := pc', sy_floor := new_floor env s pc'\<rparr>)"
proof -
  let ?s = "s\<lparr>sy_clock := t, sy_backend := b, sy_log := log\<rparr>" and ?pc = "sy_cache s"
  let ?lp = "lastPollTime (remoteChanges ?pc)"
  note ran = system_inv_backend[OF assms(1,2)]
  obtain new where new: "log = sy_log s @ new" "\<forall>e\<in>set new. sy_clock s \<le> fst e"
    "coherent env b (untold s @ map snd new) ?pc"
    using ran(2) by blast
  have inv: "cache_inv env wfr wfl ?pc" "schema_agrees env b ?pc" "?lp \<le> sy_clock s"
    "coherent env b (untold ?s) ?pc"
    using assms(1) ran(1) by (simp_all add: system_inv_def)
  have inv': "cache_inv env wfr wfl pc'" unfolding assms(4) by (rule updateCacheWithRemotePolling_inv[OF inv(1)])
  have late: "set (map snd new) \<subseteq> set (pending log (sy_clock s))"
    using new(1,2) pending_all[of new "sy_clock s"] by simp
  have main: "(sy_floor s = ?lp \<longrightarrow> coherent env b (pending log (lastPollTime (remoteChanges pc'))) pc') \<and>
    (schemaCache pc' = schemaCache ?pc \<or> schemaCache pc' = None) \<and>
    ?lp \<le> lastPollTime (remoteChanges pc') \<and> lastPollTime (remoteChanges pc') \<le> t"
  proof (cases "noRelations env ?pc")
    case True
    have "\<And>k. direct_grants env ?pc k = None \<and> indirect_grants env ?pc k = None"
      using True noRelations_iff[OF cache_invD(1)[OF inv(1)]] by simp
    then show ?thesis
      using ran(3) inv(3) by (simp add: assms(4) poll_idle[OF True] coherent_def
          same_outside_pollingD(2,3)[OF same_outside_polling_simps(3)])
  next
    case False
    show ?thesis
    proof (cases "GetModified ?lp")
      case (Inl err)
      from poll_failed[where GetModified = GetModified, OF inv(1) False Inl refl, of IsError "sy_clock s" t]
      show ?thesis unfolding assms(4)[symmetric]
      proof (elim disjE conjE)
        assume same: "same_outside_polling ?pc pc'" and lp: "lastPollTime (remoteChanges pc') = ?lp"
        show ?thesis
          using inv(4) coherent_outside_polling[OF same] same_outside_pollingD(7)[OF same] inv(3) ran(3)
          by (auto simp: lp untold_def)
      next
        assume "direct_grants env pc' = Map.empty" "indirect_grants env pc' = Map.empty"
          "schemaCache pc' = None" "lastPollTime (remoteChanges pc') = t"
        then show ?thesis using inv(3) ran(3) by (simp add: coherent_no_grants)
      qed
    next
      case (Inr m)
      let ?told = "pending (sy_log s) ?lp"
      have rep: "reports m ?told" by (rule assms(3)[OF Inr])
      have lps: "lastPollTime (remoteChanges pc') = (if SchemaChanged m then t else sy_clock s)"
        "schemaCache pc' = schemaCache ?pc \<or> schemaCache pc' = None"
        using poll_answered_lp[where GetModified = GetModified, OF inv(1) False Inr assms(4)] by simp_all
      have "coherent env b (pending log (lastPollTime (remoteChanges pc'))) pc'" if "sy_floor s = ?lp"
      proof (cases "SchemaChanged m")
        case True
        have "direct_grants env pc' = Map.empty" "indirect_grants env pc' = Map.empty"
          using True purgeAllCaches_spec(1,2) inv(1)
          by (simp_all add: assms(4) poll_success[where GetModified = GetModified, OF False Inr] Let_def cancel_inv
              same_outside_pollingD(1)[OF same_outside_polling_simps(3)])
        then show ?thesis by (auto intro: coherent_no_grants)
      next
        case unchanged: False
        have "coherent env b (?told @ map snd new) ?pc" using new(3) that by (simp add: untold_def)
        from poll_answered_coherent[where GetModified = GetModified, OF inv(1) this rep False Inr assms(4)]
        show ?thesis using coherent_mono[OF _ late] unchanged lps(1) by simp
      qed
      then show ?thesis using lps ran(3) inv(3) by auto
    qed
  qed
  have floor: "new_floor env ?s pc' = new_floor env s pc'" by (simp add: new_floor_def)
  have "coherent env b (untold ?s) pc'" unfolding assms(4) by (rule poll_keeps_coherent[OF inv(1,4)])
  then have "system_inv env wfr wfl (?s\<lparr>sy_cache := pc', sy_floor := new_floor env ?s pc'\<rparr>)"
    using main schema_agrees_mono[OF inv(2)] by (intro system_inv_new_floor[OF ran(1) inv']) auto
  then show ?thesis by (simp add: floor)
qed

lemma callback_system_inv:
  assumes "system_inv env wfr wfl s" "runCallback env (sy_clock s) i (sy_cache s) = Some pc"
  shows "system_inv env wfr wfl (s\<lparr>sy_cache := pc, sy_floor := new_floor env s pc\<rparr>)"
proof -
  let ?x = "(timers (sy_cache s))\<lparr>startedCallbacks := remove1 i (startedCallbacks (timers (sy_cache s)))\<rparr>"
  let ?q = "(sy_cache s)\<lparr>timers := ?x\<rparr>"
  have pc: "pc = cooldownCallback env (sy_clock s) ?q"
    using assms(2) by (simp add: runCallback_def split: if_splits)
  have s: "cache_inv env wfr wfl ?q" "coherent env (sy_backend s) (untold s) (sy_cache s)"
    "schema_agrees env (sy_backend s) (sy_cache s)"
    "lastPollTime (remoteChanges (sy_cache s)) \<le> sy_clock s"
    using assms(1) by (simp_all add: system_inv_def)
  have inv: "cache_inv env wfr wfl pc" using cooldownCallback_inv[OF s(1)] by (simp add: pc)
  show ?thesis
  proof (cases "purgeCooldownTimer (remoteChanges (sy_cache s)) = None")
    case True
    then have eq: "pc = ?q" by (simp add: pc cooldownCallback_def)
    have "coherent env (sy_backend s) ms pc = coherent env (sy_backend s) ms (sy_cache s)" for ms
      by (rule coherent_cong) (simp_all add: eq direct_grants_def indirect_grants_def)
    then show ?thesis using s(2-4)
      by (intro system_inv_new_floor[OF assms(1) inv]) (simp_all add: eq untold_def schema_agrees_def)
  next
    case False
    then have pc2: "pc = setCooldownTimer None (purgeAllCaches env (sy_clock s) ?q)"
      by (simp add: pc cooldownCallback_def)
    note p = purgeAllCaches_spec[OF s(1), of "sy_clock s"] and f = same_outside_pollingD[OF same_outside_polling_simps(2)]
    have "direct_grants env pc = Map.empty" "indirect_grants env pc = Map.empty" by (simp_all add: pc2 f p)
    then show ?thesis using s(4)
      by (intro system_inv_new_floor[OF assms(1) inv]) (simp_all add: coherent_no_grants schema_agrees_def pc2 f p)
  qed
qed

lemma store_system_inv:
  assumes "system_inv env wfr wfl s" "(n, t, cs) \<in> set (sy_inflight s)"
  shows "system_inv env wfr wfl (s\<lparr>sy_cache := UpdateCacheWithChecks env cs (sy_cache s),
      sy_floor := min (sy_floor s) t\<rparr>)"
proof -
  let ?log = "sy_log s" and ?f = "min (sy_floor s) t"
  have ok: "inflight_ok (sy_backend s) ?log (n, t, cs)" and inv: "cache_inv env wfr wfl (sy_cache s)"
    "coherent env (sy_backend s) (untold s) (sy_cache s)" "schema_agrees env (sy_backend s) (sy_cache s)"
    "lastPollTime (remoteChanges (sy_cache s)) \<le> sy_clock s"
    "sy_floor s \<le> lastPollTime (remoteChanges (sy_cache s))"
    using assms by (auto simp: system_inv_def)
  have "pending (drop n ?log) ?f = map snd (drop n ?log)"
    using ok by (intro pending_all) (auto simp: inflight_ok_def min.coboundedI2)
  moreover have "pending ?log ?f = pending (take n ?log) ?f @ pending (drop n ?log) ?f"
    by (metis append_take_drop_id pending_append)
  ultimately have sub: "set (map snd (drop n ?log)) \<subseteq> set (pending ?log ?f)" by simp
  have coh: "coherent env (sy_backend s) (pending ?log ?f) (sy_cache s)"
    by (rule coherent_mono[OF inv(2)]) (simp add: untold_def pending_subset)
  have fresh: "fresh_check (sy_backend s) (pending ?log ?f) c" if "c \<in> set cs" for c
    using ok that fresh_check_mono[OF _ sub] by (simp add: inflight_ok_def)
  have versioned: "versioned_check c" if "c \<in> set cs" for c
    using fresh[OF that] by (simp add: fresh_check_def)
  note q = same_outside_relationsD[OF UpdateCacheWithChecks_inv(3)[OF inv(1) versioned]]
  show ?thesis
  proof (rule system_inv_floor[OF assms(1)])
    show "cache_inv env wfr wfl (UpdateCacheWithChecks env cs (sy_cache s))"
      by (rule UpdateCacheWithChecks_inv(1)[OF inv(1) versioned])
    show "coherent env (sy_backend s) (pending ?log ?f) (UpdateCacheWithChecks env cs (sy_cache s))"
      by (rule UpdateCacheWithChecks_coherent[OF inv(1) coh fresh])
    show "schema_agrees env (sy_backend s) (UpdateCacheWithChecks env cs (sy_cache s))"
      by (rule schema_agrees_mono[OF inv(3)]) (simp add: q)
    show "lastPollTime (remoteChanges (UpdateCacheWithChecks env cs (sy_cache s))) \<le> sy_clock s"
      "?f \<le> lastPollTime (remoteChanges (UpdateCacheWithChecks env cs (sy_cache s)))"
      using inv(4,5) by (simp_all add: q min.coboundedI1)
  qed
qed

lemma sweep_system_inv:
  assumes "system_inv env wfr wfl s" "sweeping env wfr wfl gone (sy_cache s) pc"
  shows "system_inv env wfr wfl (s\<lparr>sy_cache := pc\<rparr>)"
proof (rule system_inv_cache[OF assms(1)])
  note sw = sweepingD[OF assms(2)]
  have inv: "coherent env (sy_backend s) (untold s @ []) (sy_cache s)"
    "schema_agrees env (sy_backend s) (sy_cache s)"
    using assms(1) by (simp_all add: system_inv_def)
  show "cache_inv env wfr wfl pc" by (rule sw)
  show "coherent env (sy_backend s) (untold s) pc" using sweeping_coherent[OF assms(2) inv(1)] by simp
  show "schema_agrees env (sy_backend s) pc"
    by (rule schema_agrees_mono[OF inv(2)]) (simp add: sw)
  show "lastPollTime (remoteChanges pc) = lastPollTime (remoteChanges (sy_cache s))" by (simp add: sw)
qed

lemma lookup_system_inv:
  assumes "system_inv env wfr wfl s" "same_outside_lookup (sy_cache s) pc" "lookup_inv env wfl pc"
  shows "system_inv env wfr wfl (s\<lparr>sy_cache := pc\<rparr>)"
proof -
  have "cache_inv env wfr wfl pc"
    using assms cache_inv_lookup by (auto simp: system_inv_def)
  then show ?thesis
    by (rule system_inv_quiet[OF assms(1)])
       (simp_all add: grants_outside_lookup[OF assms(2)] same_outside_lookupD[OF assms(2)])
qed

lemma schema_system_inv:
  assumes "system_inv env wfr wfl s" "\<And>sc. schema = Some sc \<Longrightarrow> edge_agrees (cel env) (sy_backend s) sc"
  shows "system_inv env wfr wfl (s\<lparr>sy_cache := EnsureSchemaLoaded env schema (sy_cache s)\<rparr>)"
    and "system_inv env wfr wfl (s\<lparr>sy_cache := UpdateCacheWithSchema env schema (sy_cache s)\<rparr>)"
proof -
  have inv: "cache_inv env wfr wfl (sy_cache s)" "coherent env (sy_backend s) (untold s) (sy_cache s)"
    "schema_agrees env (sy_backend s) (sy_cache s)"
    using assms(1) by (simp_all add: system_inv_def)
  show "system_inv env wfr wfl (s\<lparr>sy_cache := EnsureSchemaLoaded env schema (sy_cache s)\<rparr>)"
  proof (rule system_inv_cache[OF assms(1) EnsureSchemaLoaded_inv(1)[OF inv(1)]])
    show "coherent env (sy_backend s) (untold s) (EnsureSchemaLoaded env schema (sy_cache s))"
      by (rule EnsureSchemaLoaded_coherent[OF inv(1,2)])
    show "schema_agrees env (sy_backend s) (EnsureSchemaLoaded env schema (sy_cache s))"
      using inv(3) assms(2) by (simp add: EnsureSchemaLoaded_def schema_agrees_def)
    show "lastPollTime (remoteChanges (EnsureSchemaLoaded env schema (sy_cache s))) =
        lastPollTime (remoteChanges (sy_cache s))" by simp
  qed
  let ?q = "setSchema env schema (sy_cache s)"
  have "caches_wf wfr wfl ?q" "lookup_inv env wfl ?q"
    using cache_invD[OF inv(1)] by (simp_all add: setSchema_inv_parts)
  note p = purgeRelationCaches_spec[OF this]
  show "system_inv env wfr wfl (s\<lparr>sy_cache := UpdateCacheWithSchema env schema (sy_cache s)\<rparr>)"
  proof (rule system_inv_cache[OF assms(1) UpdateCacheWithSchema_inv[OF inv(1)]])
    show "coherent env (sy_backend s) (untold s) (UpdateCacheWithSchema env schema (sy_cache s))"
      by (rule coherent_no_grants) (simp_all add: UpdateCacheWithSchema_def p)
    show "schema_agrees env (sy_backend s) (UpdateCacheWithSchema env schema (sy_cache s))"
      using assms(2) by (simp add: UpdateCacheWithSchema_def p schema_agrees_def)
    show "lastPollTime (remoteChanges (UpdateCacheWithSchema env schema (sy_cache s))) =
        lastPollTime (remoteChanges (sy_cache s))" by (simp add: UpdateCacheWithSchema_def p)
  qed
qed

lemma fire_system_inv:
  assumes "system_inv env wfr wfl s" "fireTimer (sy_clock s) i (sy_cache s) = Some pc"
  shows "system_inv env wfr wfl (s\<lparr>sy_cache := pc\<rparr>)"
proof -
  obtain x where pc: "pc = (sy_cache s)\<lparr>timers := x\<rparr>"
    using assms(2) by (auto simp: fireTimer_def split: option.splits if_splits)
  then show ?thesis
    using assms(1) by (intro system_inv_quiet[OF assms(1)])
      (simp_all add: system_inv_def direct_grants_def indirect_grants_def)
qed

theorem system_step_inv:
  assumes "system_step env IsError s s'" "system_inv env wfr wfl s"
  shows "system_inv env wfr wfl s'"
  using assms
proof (cases rule: system_step.cases)
  case (backend t b log)
  then have "backend_step\<^sup>*\<^sup>* (sy_clock s, sy_backend s, sy_log s) (t, b, log)" by simp
  from system_inv_backend(1)[OF assms(2) this] backend show ?thesis by simp
next
  case (poll t b log GetModified pc)
  from poll_system_inv[OF assms(2) poll(2) _ poll(4)] poll(3) show ?thesis by (simp add: poll(1))
next
  case (read rs ctx res pc)
  have inv: "cache_inv env wfr wfl (sy_cache s)" using assms(2) by (simp add: system_inv_def)
  note r = CheckRelations_inv[OF inv read(2)]
  show ?thesis unfolding read(1)
    by (rule system_inv_quiet[OF assms(2) r(1)]) (simp_all add: reads_alikeD[OF r(2)])
next
  case (answer cs)
  have "inflight_ok (sy_backend s) (sy_log s) (length (sy_log s), sy_clock s, cs)"
    using answer(2) by (simp add: inflight_ok_def)
  with assms(2) show ?thesis by (auto simp: answer(1) system_inv_def untold_def)
next
  case (added rels)
  have inv: "cache_inv env wfr wfl (sy_cache s)" using assms(2) by (simp add: system_inv_def)
  show ?thesis
  proof (cases "rels = []")
    case True
    then show ?thesis using assms(2) by (simp add: added UpdateCacheWithAddedRelations_def)
  next
    case False
    from sweep_system_inv[OF assms(2) UpdateCacheWithAddedRelations_sweeps[OF inv False]] added
    show ?thesis by simp
  qed
next
  case (deleted rels)
  have inv: "cache_inv env wfr wfl (sy_cache s)" using assms(2) by (simp add: system_inv_def)
  show ?thesis
  proof (cases "rels = []")
    case True
    then show ?thesis using assms(2) by (simp add: deleted UpdateCacheWithDeletedRelations_def)
  next
    case False
    from sweep_system_inv[OF assms(2) UpdateCacheWithDeletedRelations_sweeps[OF inv False]] deleted
    show ?thesis by simp
  qed
next
  case (get_wca r d n res pc)
  have "lookup_inv env wfl (sy_cache s)" by (rule system_inv_lookup[OF assms(2)])
  note g = GetWhoCanAccessCached_spec(3,4)[OF this get_wca(2)]
  show ?thesis unfolding get_wca(1) by (rule lookup_system_inv[OF assms(2) g(2,1)])
next
  case (get_wcta t res pc)
  have "lookup_inv env wfl (sy_cache s)" by (rule system_inv_lookup[OF assms(2)])
  note g = GetWhatCanTargetAccessCached_spec(3,4)[OF this get_wcta(2)]
  show ?thesis unfolding get_wcta(1) by (rule lookup_system_inv[OF assms(2) g(2,1)])
next
  case (set_wca r d n targets)
  have "lookup_inv env wfl (sy_cache s)" by (rule system_inv_lookup[OF assms(2)])
  from lookup_system_inv[OF assms(2) SetWhoCanAccessCached_spec(2,1)[OF this]] set_wca show ?thesis by simp
next
  case (set_wcta t ars)
  have "lookup_inv env wfl (sy_cache s)" by (rule system_inv_lookup[OF assms(2)])
  from lookup_system_inv[OF assms(2) SetWhatCanTargetAccessCached_spec(2,1)[OF this]] set_wcta
  show ?thesis by simp
next
  case invalidate
  have "lookup_inv env wfl (sy_cache s)" by (rule system_inv_lookup[OF assms(2)])
  from lookup_system_inv[OF assms(2) InvalidateLookupCache_spec(2,1)[OF this]] invalidate show ?thesis by simp
qed (use assms(2) fire_system_inv callback_system_inv store_system_inv schema_system_inv in auto)

theorem reachable_system_inv:
  assumes "(system_step env IsError)\<^sup>*\<^sup>* s s'" "system_inv env wfr wfl s"
  shows "system_inv env wfr wfl s'"
  using assms by (induction rule: rtranclp_induct) (auto intro: system_step_inv)

text \<open>In a state that keeps the invariant, what the cache answers is the truth, for each relation
  that no untold modification can have affected.\<close>

theorem system_read_true:
  assumes "system_inv env wfr wfl s" "keys_identify (sy_backend s)"
    "CheckRelations env (sy_cache s) rs ctx = ((checks, unchecked, idx), pc)"
    "i < length rs" "idx i = Some c" "rs ! i \<in> universe (sy_backend s)"
    "unaffected env (untold s) (sy_cache s) (rs ! i)"
  shows "Allowed c = truth (sy_backend s) (rs ! i) ctx \<and> CheckRelation c = rs ! i"
proof -
  have inv: "cache_inv env wfr wfl (sy_cache s)" "coherent env (sy_backend s) (untold s) (sy_cache s)"
    "schema_agrees env (sy_backend s) (sy_cache s)"
    using assms(1) by (simp_all add: system_inv_def)
  have "served env (sy_cache s) ctx (rs ! i) = Some c"
    using CheckRelations_spec(3)[OF cache_invD(1)[OF inv(1)] assms(3)] assms(4,5) by simp
  then show ?thesis
    using served_true[OF assms(2) inv(2) cache_invD(4)[OF inv(1)] inv(3) _ assms(6,7)] by blast
qed

end

end
