(* ===== verification/ServiceCorrect.thy ===== *)
theory ServiceCorrect
  imports Service CacheSystem
begin

text \<open>
  Correctness of the service's handlers: what \<open>Check\<close> answers, which relations it asks the SDK
  about, what the lookups return after filtering, and that every handler keeps the caches of all
  projects well-formed and coherent with the backend.

  The service relies on the project cache through an interface, \<open>check_partition\<close>: reading the
  cache splits the request into answers and misses. The merge is proved correct from it once.
\<close>

section \<open>The interface to the cache\<close>

locale check_partition =
  fixes check :: "'pc \<Rightarrow> FGARelation list \<Rightarrow> reqcontext \<Rightarrow>
      (FGACheck list \<times> FGARelation list \<times> (nat \<rightharpoonup> FGACheck)) \<times> 'pc"
    and answer :: "'pc \<Rightarrow> reqcontext \<Rightarrow> FGARelation \<Rightarrow> FGACheck option"
    and inv :: "'pc \<Rightarrow> bool"
  assumes hits: "inv pc \<Longrightarrow> check pc rs ctx = ((cs, us, idx), pc') \<Longrightarrow>
      cs = List.map_filter (answer pc ctx) rs"
    and misses: "inv pc \<Longrightarrow> check pc rs ctx = ((cs, us, idx), pc') \<Longrightarrow>
      us = filter (\<lambda>r. answer pc ctx r = None) rs"
    and index: "inv pc \<Longrightarrow> check pc rs ctx = ((cs, us, idx), pc') \<Longrightarrow>
      idx = (\<lambda>i. if i < length rs then answer pc ctx (rs ! i) else None)"
    and keeps: "inv pc \<Longrightarrow> check pc rs ctx = (res, pc') \<Longrightarrow> inv pc'"
begin

lemma merge_from:
  assumes "list_all2 Q (filter (\<lambda>r. f r = None) rs) sdkChecks"
    "\<And>j. j < length rs \<Longrightarrow> idx (i + j) = f (rs ! j)"
  shows "\<exists>result. merge_checks idx i rs sdkChecks = Some result \<and>
    list_all2 (\<lambda>r c. f r = Some c \<or> f r = None \<and> Q r c) rs result"
  using assms
proof (induction rs arbitrary: i sdkChecks)
  case Nil
  then show ?case by simp
next
  case (Cons r rs)
  have at: "idx i = f r" using Cons.prems(2)[of 0] by simp
  have later: "idx (Suc i + j) = f (rs ! j)" if "j < length rs" for j
    using Cons.prems(2)[of "Suc j"] that by simp
  show ?case
  proof (cases "f r")
    case None
    then obtain c cs where "sdkChecks = c # cs" "Q r c" "list_all2 Q (filter (\<lambda>r. f r = None) rs) cs"
      using Cons.prems(1) by (auto simp: list_all2_Cons1)
    then show ?thesis using Cons.IH[OF _ later] None at by fastforce
  next
    case (Some c)
    then show ?thesis using Cons.IH[OF _ later] Cons.prems(1) at by fastforce
  qed
qed

text \<open>Merging puts an answer for each relation at its place: the cached one, or the SDK's.\<close>

lemma merged:
  assumes "inv pc" "check pc rs ctx = ((cs, us, idx), pc')" "list_all2 Q us sdkChecks"
  shows "\<exists>result. merge_checks idx 0 rs sdkChecks = Some result \<and>
    list_all2 (\<lambda>r c. answer pc ctx r = Some c \<or> answer pc ctx r = None \<and> Q r c) rs result"
  using assms(3) index[OF assms(1,2)] unfolding misses[OF assms(1,2)]
  by (intro merge_from) simp_all

lemma all_cached:
  assumes "inv pc" "check pc rs ctx = ((cs, [], idx), pc')"
  shows "list_all2 (\<lambda>r c. answer pc ctx r = Some c) rs cs"
proof -
  have "\<forall>r\<in>set rs. answer pc ctx r \<noteq> None"
    using misses[OF assms] by (auto simp: filter_empty_conv[symmetric] eq_commute)
  then have "list_all2 (\<lambda>r c. answer pc ctx r = Some c) rs (List.map_filter (answer pc ctx) rs)"
    by (induction rs) (auto simp: map_filter_simps)
  then show ?thesis using hits[OF assms] by simp
qed

end

section \<open>The merge\<close>

text \<open>The merge consumes one fetched check per position the index lacks.\<close>

lemma merge_checks_None_iff:
  "merge_checks idx i rs sdkChecks = None \<longleftrightarrow>
    length sdkChecks < length (filter (\<lambda>j. idx j = None) [i ..< i + length rs])"
proof (induction rs arbitrary: i sdkChecks)
  case Nil
  then show ?case by simp
next
  case (Cons r rs)
  have up: "[i ..< i + length (r # rs)] = i # [Suc i ..< Suc i + length rs]" by (simp add: upt_rec)
  show ?case
    unfolding up using Cons.IH[of "Suc i"] by (cases "idx i"; cases sdkChecks) auto
qed

sublocale cache_contract \<subseteq> reads: check_partition "CheckRelations env" "served env" "caches_wf wfr wfl"
proof
  fix pc :: "('rc, 'lc, 'p) projectAuthzCache" and rs ctx cs us idx pc' res
  assume wf: "caches_wf wfr wfl pc"
  show "cs = List.map_filter (served env pc ctx) rs" if "CheckRelations env pc rs ctx = ((cs, us, idx), pc')"
    by (rule CheckRelations_spec(1)[OF wf that])
  show "us = filter (\<lambda>r. served env pc ctx r = None) rs" if "CheckRelations env pc rs ctx = ((cs, us, idx), pc')"
    by (rule CheckRelations_spec(2)[OF wf that])
  show "idx = (\<lambda>i. if i < length rs then served env pc ctx (rs ! i) else None)"
    if "CheckRelations env pc rs ctx = ((cs, us, idx), pc')"
    by (rule CheckRelations_spec(3)[OF wf that])
  show "caches_wf wfr wfl pc'" if "CheckRelations env pc rs ctx = (res, pc')"
  proof -
    obtain a b c where "res = (a, b, c)" by (metis prod_cases3)
    then show ?thesis using CheckRelations_spec(4)[OF wf] that by blast
  qed
qed

section \<open>The contract of the SDK\<close>

text \<open>\<open>bk w pid\<close> is the backend of a project in a world. Reads do not change it; a check answers
  each relation in order, with the truth and a certificate that is sound; a write is a
  modification that names the resources and targets written.\<close>

definition writes :: "FGARelation list \<Rightarrow> backend \<Rightarrow> backend \<Rightarrow> bool" where
  "writes rels b b' \<longleftrightarrow> modifies \<lparr>ModResources = map Resource rels, ModTargets = map Target rels,
     SchemaChanged = False\<rparr> b b'"

definition sdk_ok :: "('rc, 'lc, 'p, 'w) service_env \<Rightarrow> ('w \<Rightarrow> string \<Rightarrow> backend) \<Rightarrow> bool" where
  "sdk_ok se bk \<longleftrightarrow>
     (\<forall>pid w e w'. NewManagement (sdk se) pid w = (e, w') \<longrightarrow> bk w' = bk w) \<and>
     (\<forall>pid rs ctx w res w'. CheckWithContext (sdk se) pid rs ctx w = (res, w') \<longrightarrow> bk w' = bk w \<and>
        (\<forall>cs. res = Inr cs \<longrightarrow> list_all2 (\<lambda>r c. CheckRelation c = r \<and> (r \<in> universe (bk w pid) \<longrightarrow>
           fresh_check (bk w pid) [] c \<and> Allowed c = truth (bk w pid) r ctx)) rs cs)) \<and>
     (\<forall>pid w res w'. LoadSchema (sdk se) pid w = (res, w') \<longrightarrow> bk w' = bk w \<and>
        (\<forall>s. res = Inr s \<longrightarrow> edge_agrees (cel (cenv se)) (bk w pid) s)) \<and>
     (\<forall>pid s w w'. SaveSchema (sdk se) pid s w = (None, w') \<longrightarrow> (\<forall>p. p \<noteq> pid \<longrightarrow> bk w' p = bk w p)) \<and>
     (\<forall>pid rels w w'. CreateRelations (sdk se) pid rels w = (None, w') \<longrightarrow>
        writes rels (bk w pid) (bk w' pid) \<and> (\<forall>p. p \<noteq> pid \<longrightarrow> bk w' p = bk w p)) \<and>
     (\<forall>pid rels w w'. DeleteRelations (sdk se) pid rels w = (None, w') \<longrightarrow>
        writes rels (bk w pid) (bk w' pid) \<and> (\<forall>p. p \<noteq> pid \<longrightarrow> bk w' p = bk w p)) \<and>
     (\<forall>pid r d n w res w'. SDK_WhoCanAccess (sdk se) pid r d n w = (res, w') \<longrightarrow> bk w' = bk w) \<and>
     (\<forall>pid t w res w'. SDK_WhatCanTargetAccess (sdk se) pid t w = (res, w') \<longrightarrow> bk w' = bk w)"

lemma sdk_okD:
  assumes "sdk_ok se bk"
  shows "NewManagement (sdk se) pid w = (e, w') \<Longrightarrow> bk w' = bk w"
    "CheckWithContext (sdk se) pid rs ctx w = (cres, w') \<Longrightarrow> bk w' = bk w"
    "CheckWithContext (sdk se) pid rs ctx w = (Inr cs, w') \<Longrightarrow>
        list_all2 (\<lambda>r c. CheckRelation c = r \<and> (r \<in> universe (bk w pid) \<longrightarrow>
           fresh_check (bk w pid) [] c \<and> Allowed c = truth (bk w pid) r ctx)) rs cs"
    "LoadSchema (sdk se) pid w = (sres, w') \<Longrightarrow> bk w' = bk w"
    "LoadSchema (sdk se) pid w = (Inr s, w') \<Longrightarrow> edge_agrees (cel (cenv se)) (bk w pid) s"
    "SaveSchema (sdk se) pid s' w = (None, w') \<Longrightarrow> p \<noteq> pid \<Longrightarrow> bk w' p = bk w p"
    "CreateRelations (sdk se) pid rels w = (None, w') \<Longrightarrow> writes rels (bk w pid) (bk w' pid)"
    "CreateRelations (sdk se) pid rels w = (None, w') \<Longrightarrow> p \<noteq> pid \<Longrightarrow> bk w' p = bk w p"
    "DeleteRelations (sdk se) pid rels w = (None, w') \<Longrightarrow> writes rels (bk w pid) (bk w' pid)"
    "DeleteRelations (sdk se) pid rels w = (None, w') \<Longrightarrow> p \<noteq> pid \<Longrightarrow> bk w' p = bk w p"
    "SDK_WhoCanAccess (sdk se) pid r d n w = (wres, w') \<Longrightarrow> bk w' = bk w"
    "SDK_WhatCanTargetAccess (sdk se) pid t w = (tres, w') \<Longrightarrow> bk w' = bk w"
proof -
  note all = assms[unfolded sdk_ok_def]
  note p1 = conjunct1[OF all] and q1 = conjunct2[OF all]
  note p2 = conjunct1[OF q1] and q2 = conjunct2[OF q1]
  note p3 = conjunct1[OF q2] and q3 = conjunct2[OF q2]
  note p4 = conjunct1[OF q3] and q4 = conjunct2[OF q3]
  note p5 = conjunct1[OF q4] and q5 = conjunct2[OF q4]
  note p6 = conjunct1[OF q5] and q6 = conjunct2[OF q5]
  note p7 = conjunct1[OF q6] and p8 = conjunct2[OF q6]
  show "NewManagement (sdk se) pid w = (e, w') \<Longrightarrow> bk w' = bk w"
    using p1 by blast
  show "CheckWithContext (sdk se) pid rs ctx w = (cres, w') \<Longrightarrow> bk w' = bk w"
    using p2 by blast
  show "CheckWithContext (sdk se) pid rs ctx w = (Inr cs, w') \<Longrightarrow>
        list_all2 (\<lambda>r c. CheckRelation c = r \<and> (r \<in> universe (bk w pid) \<longrightarrow>
           fresh_check (bk w pid) [] c \<and> Allowed c = truth (bk w pid) r ctx)) rs cs"
    using p2 by blast
  show "LoadSchema (sdk se) pid w = (sres, w') \<Longrightarrow> bk w' = bk w"
    using p3 by blast
  show "LoadSchema (sdk se) pid w = (Inr s, w') \<Longrightarrow> edge_agrees (cel (cenv se)) (bk w pid) s"
    using p3 by blast
  show "SaveSchema (sdk se) pid s' w = (None, w') \<Longrightarrow> p \<noteq> pid \<Longrightarrow> bk w' p = bk w p"
    using p4 by blast
  show "CreateRelations (sdk se) pid rels w = (None, w') \<Longrightarrow> writes rels (bk w pid) (bk w' pid)"
    using p5 by blast
  show "CreateRelations (sdk se) pid rels w = (None, w') \<Longrightarrow> p \<noteq> pid \<Longrightarrow> bk w' p = bk w p"
    using p5 by blast
  show "DeleteRelations (sdk se) pid rels w = (None, w') \<Longrightarrow> writes rels (bk w pid) (bk w' pid)"
    using p6 by blast
  show "DeleteRelations (sdk se) pid rels w = (None, w') \<Longrightarrow> p \<noteq> pid \<Longrightarrow> bk w' p = bk w p"
    using p6 by blast
  show "SDK_WhoCanAccess (sdk se) pid r d n w = (wres, w') \<Longrightarrow> bk w' = bk w"
    using p7 by blast
  show "SDK_WhatCanTargetAccess (sdk se) pid t w = (tres, w') \<Longrightarrow> bk w' = bk w"
    using p8 by blast
qed

section \<open>Caches that answer for the backend\<close>

definition cache_ok :: "('rc, 'lc, 'p) cache_env \<Rightarrow> ('rc \<Rightarrow> bool) \<Rightarrow> ('lc \<Rightarrow> bool) \<Rightarrow> backend \<Rightarrow>
    ('rc, 'lc, 'p) projectAuthzCache \<Rightarrow> bool" where
  "cache_ok env wfr wfl b pc \<longleftrightarrow> cache_inv env wfr wfl pc \<and> coherent env b [] pc \<and> schema_agrees env b pc"

definition service_ok :: "('rc, 'lc, 'p, 'w) service_env \<Rightarrow> ('rc \<Rightarrow> bool) \<Rightarrow> ('lc \<Rightarrow> bool) \<Rightarrow>
    ('w \<Rightarrow> string \<Rightarrow> backend) \<Rightarrow> ('rc, 'lc, 'p) authzCache \<Rightarrow> 'w \<Rightarrow> bool" where
  "service_ok se wfr wfl bk a w \<longleftrightarrow>
     (\<forall>pid pc. projects a pid = Some pc \<longrightarrow> cache_ok (cenv se) wfr wfl (bk w pid) pc)"

lemma service_okD:
  "service_ok se wfr wfl bk a w \<Longrightarrow> projects a pid = Some pc \<Longrightarrow> cache_ok (cenv se) wfr wfl (bk w pid) pc"
  by (simp add: service_ok_def)

lemma put_cache_projects [simp]: "projects (put_cache pid pc a) = (projects a)(pid \<mapsto> pc)"
  by (simp add: put_cache_def)

lemma recordMetric_projects [simp]: "projects (recordMetric se pid api h c f n t w a) = projects a"
  by (simp add: recordMetric_def split: option.splits)

lemma service_ok_metric [simp]:
  "service_ok se wfr wfl bk (recordMetric se pid api h c f n t w' a) w = service_ok se wfr wfl bk a w"
  by (simp add: service_ok_def)

lemma service_ok_put:
  assumes "service_ok se wfr wfl bk a w" "cache_ok (cenv se) wfr wfl (bk w' pid) pc"
    "\<And>p. p \<noteq> pid \<Longrightarrow> bk w' p = bk w p"
  shows "service_ok se wfr wfl bk (put_cache pid pc a) w'"
  using assms by (auto simp: service_ok_def)

lemma service_ok_world: "service_ok se wfr wfl bk a w \<Longrightarrow> bk w' = bk w \<Longrightarrow> service_ok se wfr wfl bk a w'"
  by (simp add: service_ok_def)

text \<open>Why the cache of a project cannot be created: the SDK gives no client, the constructor of one of
  its LRU caches fails, or its ticker refuses the polling interval, which panics.\<close>

definition creation_error :: "('rc, 'lc, 'p, 'w) service_env \<Rightarrow> string \<Rightarrow> goerror \<Rightarrow> bool" where
  "creation_error se pid err \<longleftrightarrow>
     (\<exists>w. fst (NewManagement (sdk se) pid w) = Some err) \<or>
     (\<exists>now. NewProjectAuthzCache (lrus se) (settings se) now pid =
        (Inl err :: goerror + ('rc, 'lc, 'p) projectAuthzCache)) \<or>
     (\<exists>now (pc :: ('rc, 'lc, 'p) projectAuthzCache).
        NewProjectAuthzCache (lrus se) (settings se) now pid = Inr pc \<and>
        StartRemoteChangesPolling pc = Inl err)"

lemma getOrCreate_error:
  assumes "fst (getOrCreateProjectCache se pid a w) = Inl err"
  shows "projects a pid = None \<and> creation_error se pid err"
  using assms unfolding creation_error_def getOrCreateProjectCache_def
  by (auto split: option.splits sum.splits prod.splits) (metis fst_conv)+

context cache_contract
begin

lemma cache_ok_read:
  assumes "cache_ok env wfr wfl b pc" "CheckRelations env pc rs ctx = (res, pc')"
  shows "cache_ok env wfr wfl b pc'"
proof -
  have inv: "cache_inv env wfr wfl pc" and coh: "coherent env b [] pc" "schema_agrees env b pc"
    using assms(1) by (simp_all add: cache_ok_def)
  note r = CheckRelations_inv[OF inv assms(2)]
  note q = reads_alikeD[OF r(2)]
  show ?thesis
    using r(1) coh coherent_cong[OF q(1,2,7,11)] by (simp add: cache_ok_def schema_agrees_def q)
qed

lemma cache_ok_lookup:
  assumes "cache_ok env wfr wfl b pc" "same_outside_lookup pc pc'" "lookup_inv env wfl pc'"
  shows "cache_ok env wfr wfl b pc'"
proof -
  have "cache_inv env wfr wfl pc" using assms(1) by (simp add: cache_ok_def)
  note inv = cache_inv_lookup[OF this assms(2,3)] and q = same_outside_lookupD[OF assms(2)]
  show ?thesis
    using assms(1) inv coherent_cong[OF grants_outside_lookup(1,2)[OF assms(2)] q(5,8)]
    by (simp add: cache_ok_def schema_agrees_def q)
qed

lemma cache_ok_checks:
  assumes "cache_ok env wfr wfl b pc" "\<And>c. c \<in> set cs \<Longrightarrow> fresh_check b [] c"
  shows "cache_ok env wfr wfl b (UpdateCacheWithChecks env cs pc)"
proof -
  have inv: "cache_inv env wfr wfl pc" and coh: "coherent env b [] pc" "schema_agrees env b pc"
    using assms(1) by (simp_all add: cache_ok_def)
  have v: "versioned_check c" if "c \<in> set cs" for c using assms(2)[OF that] by (simp add: fresh_check_def)
  note q = same_outside_relationsD[OF UpdateCacheWithChecks_inv(3)[OF inv v]]
  have "cache_inv env wfr wfl (UpdateCacheWithChecks env cs pc)"
    by (rule UpdateCacheWithChecks_inv(1)[OF inv v])
  moreover have "coherent env b [] (UpdateCacheWithChecks env cs pc)"
    by (rule UpdateCacheWithChecks_coherent[OF inv coh(1) assms(2)])
  moreover have "schema_agrees env b (UpdateCacheWithChecks env cs pc)"
    by (rule schema_agrees_mono[OF coh(2)]) (simp add: q)
  ultimately show ?thesis by (simp add: cache_ok_def)
qed

lemma cache_ok_load:
  assumes "cache_ok env wfr wfl b pc" "edge_agrees (cel env) b s"
  shows "cache_ok env wfr wfl b (EnsureSchemaLoaded env (Some s) pc)"
  using assms EnsureSchemaLoaded_inv(1) EnsureSchemaLoaded_coherent
  by (auto simp: cache_ok_def schema_agrees_def EnsureSchemaLoaded_def)

lemma cache_ok_save:
  assumes "cache_inv env wfr wfl pc" "edge_agrees (cel env) b s"
  shows "cache_ok env wfr wfl b (UpdateCacheWithSchema env (Some s) pc)"
proof -
  have "caches_wf wfr wfl (setSchema env (Some s) pc)" "lookup_inv env wfl (setSchema env (Some s) pc)"
    using cache_invD[OF assms(1)] by (simp_all add: setSchema_inv_parts)
  note p = purgeRelationCaches_spec[OF this]
  have "coherent env b [] (UpdateCacheWithSchema env (Some s) pc)"
    by (rule coherent_no_grants) (simp_all add: UpdateCacheWithSchema_def p)
  then show ?thesis
    using UpdateCacheWithSchema_inv[OF assms(1)] assms(2)
    by (simp add: cache_ok_def schema_agrees_def UpdateCacheWithSchema_def p)
qed

lemma cache_ok_sweep:
  assumes "cache_ok env wfr wfl b pc" "writes rels b b'" "rels \<noteq> []"
    "sweeping env wfr wfl (\<lambda>c. \<exists>r\<in>set rels. swept r c) pc pc'"
  shows "cache_ok env wfr wfl b' pc'"
proof -
  let ?m = "\<lparr>ModResources = map Resource rels, ModTargets = map Target rels, SchemaChanged = False\<rparr>"
  have coh: "coherent env b' ([] @ [?m]) pc"
    using assms(1,2) coherent_modifies by (fastforce simp: cache_ok_def writes_def)
  have "coherent env b' [] pc'"
    by (rule sweeping_coherent[OF assms(4) coh]) (auto simp: swept_def)
  moreover have "schema_agrees env b' pc'"
  proof -
    have cv: "cond_value b' = cond_value b" using assms(2) by (simp add: writes_def modifies_def)
    show ?thesis
      using assms(1) unfolding cache_ok_def schema_agrees_def edge_agrees_def cv sweepingD(3)[OF assms(4)]
      by blast
  qed
  ultimately show ?thesis using sweepingD(1)[OF assms(4)] by (simp add: cache_ok_def)
qed

lemma cache_ok_new:
  assumes "NewProjectAuthzCache new src now projectID = Inr pc" "constructors_ok env wfr wfl new"
  shows "cache_ok env wfr wfl b pc"
  using NewProjectAuthzCache_inv[OF assms] NewProjectAuthzCache_fields(4)[OF assms(1)]
  by (simp add: cache_ok_def coherent_no_grants schema_agrees_def)

section \<open>The handlers\<close>

lemma getOrCreate_ok:
  assumes "service_ok se wfr wfl bk a w" "sdk_ok se bk" "cenv se = env" "constructors_ok env wfr wfl (lrus se)"
    "getOrCreateProjectCache se pid a w = (res, a1, w1)"
  shows "service_ok se wfr wfl bk a1 w1" "bk w1 = bk w"
    "res = Inr pc \<Longrightarrow> projects a1 pid = Some pc \<and> cache_ok env wfr wfl (bk w1 pid) pc"
proof -
  have "service_ok se wfr wfl bk a1 w1 \<and> bk w1 = bk w \<and>
    (res = Inr pc \<longrightarrow> projects a1 pid = Some pc \<and> cache_ok env wfr wfl (bk w1 pid) pc)"
  proof (cases "projects a pid")
    case (Some pc')
    then show ?thesis using assms service_okD[OF assms(1) Some]
      by (auto simp: getOrCreateProjectCache_def)
  next
    case None
    obtain e w2 where new: "NewManagement (sdk se) pid w = (e, w2)" by fastforce
    have bk: "bk w2 = bk w" by (rule sdk_okD(1)[OF assms(2) new])
    have w1: "w1 = w2" using assms(5) None new
      by (auto simp: getOrCreateProjectCache_def split: option.splits sum.splits)
    have same: "service_ok se wfr wfl bk a w2" by (rule service_ok_world[OF assms(1) bk])
    show ?thesis
    proof (cases res)
      case (Inl err)
      then have "a1 = a" using assms(5) None new
        by (auto simp: getOrCreateProjectCache_def split: option.splits sum.splits)
      then show ?thesis using same bk w1 Inl by simp
    next
      case (Inr pc')
      then have pc': "NewProjectAuthzCache (lrus se) (settings se) (Now (sdk se) w2) pid = Inr pc'"
        "a1 = put_cache pid pc' a"
        using assms(5) None new by (auto simp: getOrCreateProjectCache_def split: option.splits sum.splits)
      have "cache_ok env wfr wfl (bk w2 pid) pc'" by (rule cache_ok_new[OF pc'(1) assms(4)])
      then show ?thesis
        using pc' Inr service_ok_put[OF same] bk w1 assms(3) by auto
    qed
  qed
  then show "service_ok se wfr wfl bk a1 w1" "bk w1 = bk w"
    "res = Inr pc \<Longrightarrow> projects a1 pid = Some pc \<and> cache_ok env wfr wfl (bk w1 pid) pc"
    by blast+
qed

lemma ensureSchemaLoaded_ok:
  assumes "cache_ok env wfr wfl (bk w pid) pc" "sdk_ok se bk" "cenv se = env"
    "ensureSchemaLoaded se pid pc w = (pc', w')"
  shows "cache_ok env wfr wfl (bk w' pid) pc'" "bk w' = bk w"
proof -
  have "cache_ok env wfr wfl (bk w' pid) pc' \<and> bk w' = bk w"
  proof (cases "case GetSchema pc of None \<Rightarrow> False | Some schema \<Rightarrow> Version schema \<noteq> ''''")
    case True
    then show ?thesis using assms(1,4) by (simp add: ensureSchemaLoaded_def)
  next
    case False
    obtain res w1 where load: "LoadSchema (sdk se) pid w = (res, w1)" by fastforce
    have bk: "bk w1 = bk w" by (rule sdk_okD(4)[OF assms(2) load])
    show ?thesis
    proof (cases res)
      case (Inl e)
      then show ?thesis using assms(1,4) False load bk by (simp add: ensureSchemaLoaded_def)
    next
      case (Inr s)
      have "edge_agrees (cel env) (bk w pid) s"
        using sdk_okD(5)[OF assms(2) load[unfolded Inr]] assms(3) by simp
      from cache_ok_load[OF assms(1) this] show ?thesis
        using assms(3,4) False load bk Inr by (simp add: ensureSchemaLoaded_def)
    qed
  qed
  then show "cache_ok env wfr wfl (bk w' pid) pc'" "bk w' = bk w" by blast+
qed

text \<open>What a successful \<open>Check\<close> returns, whatever the SDK answers: for each relation, in order, the
  check the cache serves or the SDK's answer to it.\<close>

lemma Check_cases:
  assumes "cenv se = env" "getOrCreateProjectCache se pid a w = (Inr pc, a1, w1)" "caches_wf wfr wfl pc"
    "Check se pid rs ctx a w = (res, a', w')"
  obtains
    (cached) cs pc1 where "res = Inr cs" "list_all2 (\<lambda>r c. served env pc ctx r = Some c) rs cs"
      "w' = w1" "projects a' = (projects a1)(pid \<mapsto> pc1)"
      "\<exists>idx. CheckRelations env pc rs ctx = ((cs, [], idx), pc1)"
  | (failed) err pc1 where "res = Inl err" "projects a' = (projects a1)(pid \<mapsto> pc1)"
      "CheckWithContext (sdk se) pid (filter (\<lambda>r. served env pc ctx r = None) rs) ctx w1 = (Inl err, w')"
      "\<exists>r. CheckRelations env pc rs ctx = (r, pc1)"
  | (fetched) sdkChecks w2 pc1 pc2 where
      "CheckWithContext (sdk se) pid (filter (\<lambda>r. served env pc ctx r = None) rs) ctx w1 = (Inr sdkChecks, w2)"
      "\<exists>r. CheckRelations env pc rs ctx = (r, pc1)"
      "(if hasCacheableConditional sdkChecks then ensureSchemaLoaded se pid pc1 w2 else (pc1, w2)) = (pc2, w')"
      "projects a' = (projects a1)(pid \<mapsto> UpdateCacheWithChecks env sdkChecks pc2)"
      "\<And>Q. list_all2 Q (filter (\<lambda>r. served env pc ctx r = None) rs) sdkChecks \<Longrightarrow>
        \<exists>result. res = Inr result \<and>
          list_all2 (\<lambda>r c. served env pc ctx r = Some c \<or> served env pc ctx r = None \<and> Q r c) rs result"
proof -
  obtain cs us idx pc1 where read: "CheckRelations env pc rs ctx = ((cs, us, idx), pc1)"
    by (cases "CheckRelations env pc rs ctx") (metis prod_cases3)
  have us: "us = filter (\<lambda>r. served env pc ctx r = None) rs" by (rule reads.misses[OF assms(3) read])
  show thesis
  proof (cases "us = []")
    case True
    have "list_all2 (\<lambda>r c. served env pc ctx r = Some c) rs cs"
      using reads.all_cached[OF assms(3)] read True by simp
    then show thesis using assms(4) read True
      by (intro cached) (auto simp: Check_def assms(1,2) Let_def)
  next
    case False
    obtain sres w2 where call: "CheckWithContext (sdk se) pid us ctx w1 = (sres, w2)" by fastforce
    show thesis
    proof (cases sres)
      case (Inl err)
      then show thesis using assms(4) read False call us
        by (intro failed) (auto simp: Check_def assms(1,2) Let_def)
    next
      case (Inr sdkChecks)
      obtain pc2 w3 where load: "(if hasCacheableConditional sdkChecks then ensureSchemaLoaded se pid pc1 w2
          else (pc1, w2)) = (pc2, w3)" by fastforce
      have eq: "(res, a', w') = (let a2 = put_cache pid (UpdateCacheWithChecks env sdkChecks pc2) a1
          in case merge_checks idx 0 rs sdkChecks of
               None \<Rightarrow> (Inl (GoPanic ''index out of range''), a2, w3)
             | Some result \<Rightarrow> (Inr result, recordMetric se pid APICheck False (go_len us) 0
                 (go_len result) (Now (sdk se) w) w3 a2, w3))"
        using assms(4) read False call Inr load by (simp add: Check_def assms(1,2) Let_def)
      have w': "w' = w3" and a': "projects a' = (projects a1)(pid \<mapsto> UpdateCacheWithChecks env sdkChecks pc2)"
        using eq by (auto simp: Let_def split: option.splits)
      show thesis
      proof (rule fetched)
        show "CheckWithContext (sdk se) pid (filter (\<lambda>r. served env pc ctx r = None) rs) ctx w1 = (Inr sdkChecks, w2)"
          using call Inr us by simp
        show "\<exists>r. CheckRelations env pc rs ctx = (r, pc1)" using read by blast
        show "(if hasCacheableConditional sdkChecks then ensureSchemaLoaded se pid pc1 w2 else (pc1, w2)) = (pc2, w')"
          using load w' by simp
        show "projects a' = (projects a1)(pid \<mapsto> UpdateCacheWithChecks env sdkChecks pc2)" by (fact a')
        show "\<exists>result. res = Inr result \<and>
            list_all2 (\<lambda>r c. served env pc ctx r = Some c \<or> served env pc ctx r = None \<and> Q r c) rs result"
          if inorder: "list_all2 Q (filter (\<lambda>r. served env pc ctx r = None) rs) sdkChecks" for Q
        proof -
          obtain result where "merge_checks idx 0 rs sdkChecks = Some result"
            "list_all2 (\<lambda>r c. served env pc ctx r = Some c \<or> served env pc ctx r = None \<and> Q r c) rs result"
            using reads.merged[OF assms(3) read] inorder us by blast
          then show ?thesis using eq by (simp add: Let_def)
        qed
      qed
    qed
  qed
qed

text \<open>The calls of a \<open>Check\<close>: none when every relation has a cached answer, else one with the misses.\<close>

lemma Check_calls:
  assumes "cenv se = env" "projects a pid = Some pc" "caches_wf wfr wfl pc"
    "Check se pid rs ctx a w = (res, a', w')"
  shows "filter (\<lambda>r. served env pc ctx r = None) rs = [] \<Longrightarrow>
      w' = w \<and> (\<exists>cs. res = Inr cs \<and> list_all2 (\<lambda>r c. served env pc ctx r = Some c) rs cs)"
    and "filter (\<lambda>r. served env pc ctx r = None) rs \<noteq> [] \<Longrightarrow>
      \<exists>sres w2. CheckWithContext (sdk se) pid (filter (\<lambda>r. served env pc ctx r = None) rs) ctx w = (sres, w2) \<and>
        (\<forall>err. sres = Inl err \<longrightarrow> res = Inl err \<and> w' = w2)"
proof -
  have get: "getOrCreateProjectCache se pid a w = (Inr pc, a, w)"
    by (simp add: getOrCreateProjectCache_def assms(2))
  obtain cs us idx pc1 where read: "CheckRelations env pc rs ctx = ((cs, us, idx), pc1)"
    by (cases "CheckRelations env pc rs ctx") (metis prod_cases3)
  have us: "filter (\<lambda>r. served env pc ctx r = None) rs = us" using reads.misses[OF assms(3) read] by simp
  show "filter (\<lambda>r. served env pc ctx r = None) rs = [] \<Longrightarrow>
      w' = w \<and> (\<exists>cs. res = Inr cs \<and> list_all2 (\<lambda>r c. served env pc ctx r = Some c) rs cs)"
    using assms(4) read reads.all_cached[OF assms(3), of rs ctx cs idx pc1]
    unfolding us by (auto simp: Check_def get Let_def assms(1))
  show "filter (\<lambda>r. served env pc ctx r = None) rs \<noteq> [] \<Longrightarrow>
      \<exists>sres w2. CheckWithContext (sdk se) pid (filter (\<lambda>r. served env pc ctx r = None) rs) ctx w = (sres, w2) \<and>
        (\<forall>err. sres = Inl err \<longrightarrow> res = Inl err \<and> w' = w2)"
    using assms(4) read unfolding us
    by (cases "CheckWithContext (sdk se) pid us ctx w") (auto simp: Check_def get Let_def assms(1))
qed

text \<open>A \<open>Check\<close> fails only when the project's cache cannot be created or the SDK's check of the misses
  fails; it is never an index that is out of range.\<close>

lemma Check_error:
  assumes "service_ok se wfr wfl bk a w" "sdk_ok se bk" "cenv se = env" "constructors_ok env wfr wfl (lrus se)"
    "Check se pid rs ctx a w = (Inl err, a', w')"
  shows "fst (getOrCreateProjectCache se pid a w) = Inl err \<or>
    (\<exists>us w1. fst (CheckWithContext (sdk se) pid us ctx w1) = Inl err)"
proof -
  obtain gres a1 w1 where get: "getOrCreateProjectCache se pid a w = (gres, a1, w1)" by (metis prod_cases3)
  note g = getOrCreate_ok[OF assms(1-4) get]
  show ?thesis
  proof (cases gres)
    case (Inl e)
    then show ?thesis using assms(5) get by (auto simp: Check_def Let_def)
  next
    case (Inr pc)
    have wf: "caches_wf wfr wfl pc" using g(3)[OF Inr] by (simp add: cache_ok_def cache_inv_def)
    from assms(3) get[unfolded Inr] wf assms(5) show ?thesis
    proof (cases rule: Check_cases)
      case (cached cs pc1)
      then show ?thesis by simp
    next
      case (failed e pc1)
      then show ?thesis by (metis fst_conv sum.inject(1))
    next
      case (fetched sdkChecks w2 pc1 pc2)
      from fetched(5)[OF sdk_okD(3)[OF assms(2) fetched(1)]] show ?thesis by auto
    qed
  qed
qed

text \<open>\<open>Check\<close> tells the truth and keeps every cache answering for its backend.\<close>

lemma Check_true:
  assumes "service_ok se wfr wfl bk a w" "sdk_ok se bk" "cenv se = env" "constructors_ok env wfr wfl (lrus se)"
    "keys_identify (bk w pid)" "set rs \<subseteq> universe (bk w pid)" "Check se pid rs ctx a w = (res, a', w')"
  shows "service_ok se wfr wfl bk a' w'" "bk w' = bk w"
    "res = Inr result \<Longrightarrow>
      list_all2 (\<lambda>r c. CheckRelation c = r \<and> Allowed c = truth (bk w pid) r ctx) rs result"
proof -
  obtain gres a1 w1 where get: "getOrCreateProjectCache se pid a w = (gres, a1, w1)" by (metis prod_cases3)
  note g = getOrCreate_ok[OF assms(1-4) get]
  have "service_ok se wfr wfl bk a' w' \<and> bk w' = bk w \<and> (res = Inr result \<longrightarrow>
      list_all2 (\<lambda>r c. CheckRelation c = r \<and> Allowed c = truth (bk w pid) r ctx) rs result)"
  proof (cases gres)
    case (Inl err)
    then show ?thesis using assms(7) g by (auto simp: Check_def get Let_def)
  next
    case (Inr pc)
    have pc: "cache_ok env wfr wfl (bk w pid) pc" using g(3)[OF Inr] g(2) by simp
    then have inv: "cache_inv env wfr wfl pc" "coherent env (bk w pid) [] pc" "schema_agrees env (bk w pid) pc"
      by (simp_all add: cache_ok_def)
    have true: "CheckRelation c = r \<and> Allowed c = truth (bk w pid) r ctx"
      if "served env pc ctx r = Some c" "r \<in> set rs" for r c
      using served_true[OF assms(5) inv(2) cache_invD(4)[OF inv(1)] inv(3) that(1)] assms(6) that(2) by auto
    let ?Q = "\<lambda>r c. CheckRelation c = r \<and> (r \<in> universe (bk w pid) \<longrightarrow>
        fresh_check (bk w pid) [] c \<and> Allowed c = truth (bk w pid) r ctx)"
    from assms(3) get[unfolded Inr] cache_invD(1)[OF inv(1)] assms(7)
    show ?thesis
    proof (cases rule: Check_cases)
      case (cached cs pc1)
      then have "cache_ok env wfr wfl (bk w pid) pc1" using cache_ok_read[OF pc] by blast
      then have "service_ok se wfr wfl bk (put_cache pid pc1 a1) w1"
        using service_ok_put[OF g(1)] g(2) assms(3) by simp
      moreover have "list_all2 (\<lambda>r c. CheckRelation c = r \<and> Allowed c = truth (bk w pid) r ctx) rs cs"
        using cached(2) by (rule list.rel_mono_strong) (use true in blast)
      ultimately show ?thesis using cached g(2) by (auto simp: service_ok_def)
    next
      case (failed err pc1)
      then have "cache_ok env wfr wfl (bk w pid) pc1" using cache_ok_read[OF pc] by blast
      then have "service_ok se wfr wfl bk (put_cache pid pc1 a1) w1"
        using service_ok_put[OF g(1)] g(2) assms(3) by simp
      moreover have "bk w' = bk w1" by (rule sdk_okD(2)[OF assms(2) failed(3)])
      ultimately show ?thesis using failed(1,2) g(2) by (auto simp: service_ok_def)
    next
      case (fetched sdkChecks w2 pc1 pc2)
      have pc1: "cache_ok env wfr wfl (bk w pid) pc1" using fetched(2) cache_ok_read[OF pc] by blast
      have w2: "bk w2 = bk w" using sdk_okD(2)[OF assms(2) fetched(1)] g(2) by simp
      have pc2: "cache_ok env wfr wfl (bk w' pid) pc2 \<and> bk w' = bk w"
      proof (cases "hasCacheableConditional sdkChecks")
        case True
        then have load: "ensureSchemaLoaded se pid pc1 w2 = (pc2, w')" using fetched(3) by simp
        have "cache_ok env wfr wfl (bk w2 pid) pc1" using pc1 w2 by simp
        from ensureSchemaLoaded_ok[OF this assms(2,3) load] w2 show ?thesis by simp
      next
        case False
        then show ?thesis using fetched(3) pc1 w2 by simp
      qed
      have inorder: "list_all2 ?Q (filter (\<lambda>r. served env pc ctx r = None) rs) sdkChecks"
        using sdk_okD(3)[OF assms(2) fetched(1)] g(2) by simp
      have fresh: "fresh_check (bk w pid) [] c" if "c \<in> set sdkChecks" for c
        by (rule list_all2_right[OF inorder that]) (use assms(6) in auto)
      have "cache_ok env wfr wfl (bk w pid) pc2" using pc2 by auto
      from cache_ok_checks[OF this fresh] pc2
      have "cache_ok env wfr wfl (bk w' pid) (UpdateCacheWithChecks env sdkChecks pc2)" by simp
      then have "service_ok se wfr wfl bk (put_cache pid (UpdateCacheWithChecks env sdkChecks pc2) a1) w'"
        using service_ok_put[OF g(1)] g(2) pc2 assms(3) by simp
      moreover obtain rs' where rs': "res = Inr rs'"
        "list_all2 (\<lambda>r c. served env pc ctx r = Some c \<or> served env pc ctx r = None \<and> ?Q r c) rs rs'"
        using fetched(5)[OF inorder] by blast
      moreover have "list_all2 (\<lambda>r c. CheckRelation c = r \<and> Allowed c = truth (bk w pid) r ctx) rs rs'"
        using rs'(2) by (rule list.rel_mono_strong) (use true assms(6) in blast)
      ultimately show ?thesis using fetched(4) pc2 by (auto simp: service_ok_def)
    qed
  qed
  then show "service_ok se wfr wfl bk a' w'" "bk w' = bk w" "res = Inr result \<Longrightarrow>
      list_all2 (\<lambda>r c. CheckRelation c = r \<and> Allowed c = truth (bk w pid) r ctx) rs result"
    by blast+
qed

text \<open>A successful write leaves every cache answering for the backend it leaves behind.\<close>

lemma writes_ok:
  assumes "service_ok se wfr wfl bk a w" "sdk_ok se bk" "cenv se = env" "constructors_ok env wfr wfl (lrus se)"
  shows "CreateFGARelations se pid rels a w = (Inr (), a', w') \<Longrightarrow> service_ok se wfr wfl bk a' w'"
    and "DeleteFGARelations se pid rels a w = (Inr (), a', w') \<Longrightarrow> service_ok se wfr wfl bk a' w'"
    and "CreateFGASchema se pid dsl a w = (Inr (), a', w') \<Longrightarrow> service_ok se wfr wfl bk a' w'"
proof -
  obtain gres a1 w1 where get: "getOrCreateProjectCache se pid a w = (gres, a1, w1)" by (metis prod_cases3)
  note g = getOrCreate_ok[OF assms get]
  show "service_ok se wfr wfl bk a' w'" if ran: "CreateFGARelations se pid rels a w = (Inr (), a', w')"
  proof (cases "rels = []")
    case True
    then show ?thesis using ran assms(1) by (simp add: CreateFGARelations_def)
  next
    case False
    then obtain pc where pc: "gres = Inr pc" "CreateRelations (sdk se) pid rels w1 = (None, w')"
      "a' = put_cache pid (UpdateCacheWithAddedRelations env (Now (sdk se) w') rels pc) a1"
      using ran get assms(3) by (auto simp: CreateFGARelations_def split: sum.splits option.splits prod.splits)
    note ok = conjunct2[OF g(3)[OF pc(1)]]
    have inv: "cache_inv env wfr wfl pc" using ok by (simp add: cache_ok_def)
    have "cache_ok env wfr wfl (bk w' pid) (UpdateCacheWithAddedRelations env (Now (sdk se) w') rels pc)"
      by (rule cache_ok_sweep[OF ok sdk_okD(7)[OF assms(2) pc(2)] False
            UpdateCacheWithAddedRelations_sweeps[OF inv False]])
    then show ?thesis
      using service_ok_put[OF g(1)] sdk_okD(8)[OF assms(2) pc(2)] assms(3) pc(3) by simp
  qed
  show "service_ok se wfr wfl bk a' w'" if ran: "DeleteFGARelations se pid rels a w = (Inr (), a', w')"
  proof (cases "rels = []")
    case True
    then show ?thesis using ran assms(1) by (simp add: DeleteFGARelations_def)
  next
    case False
    then obtain pc where pc: "gres = Inr pc" "DeleteRelations (sdk se) pid rels w1 = (None, w')"
      "a' = put_cache pid (UpdateCacheWithDeletedRelations env rels pc) a1"
      using ran get assms(3) by (auto simp: DeleteFGARelations_def split: sum.splits option.splits prod.splits)
    note ok = conjunct2[OF g(3)[OF pc(1)]]
    have inv: "cache_inv env wfr wfl pc" using ok by (simp add: cache_ok_def)
    have "cache_ok env wfr wfl (bk w' pid) (UpdateCacheWithDeletedRelations env rels pc)"
      by (rule cache_ok_sweep[OF ok sdk_okD(9)[OF assms(2) pc(2)] False
            UpdateCacheWithDeletedRelations_sweeps[OF inv False]])
    then show ?thesis
      using service_ok_put[OF g(1)] sdk_okD(10)[OF assms(2) pc(2)] assms(3) pc(3) by simp
  qed
  show "service_ok se wfr wfl bk a' w'" if ran: "CreateFGASchema se pid dsl a w = (Inr (), a', w')"
  proof -
    let ?s = "\<lparr>Schema = dsl, Version = '''', Conditions = []\<rparr>"
    obtain pc where pc: "gres = Inr pc" "SaveSchema (sdk se) pid ?s w1 = (None, w')"
      "a' = put_cache pid (UpdateCacheWithSchema env (Some ?s) pc) a1"
      using ran get assms(3) by (auto simp: CreateFGASchema_def split: sum.splits option.splits prod.splits)
    have "cache_inv env wfr wfl pc" using g(3)[OF pc(1)] by (simp add: cache_ok_def)
    then have "cache_ok env wfr wfl (bk w' pid) (UpdateCacheWithSchema env (Some ?s) pc)"
      by (rule cache_ok_save) (simp add: edge_agrees_def)
    then show ?thesis
      using service_ok_put[OF g(1)] sdk_okD(6)[OF assms(2) pc(2)] assms(3) pc(3) by simp
  qed
qed

end

text \<open>A write that fails has failed in the SDK, and it changes no cache.\<close>

lemma writes_fail:
  assumes "CreateFGARelations se pid rels a w = (Inl err, a', w') \<or> DeleteFGARelations se pid rels a w = (Inl err, a', w') \<or>
     CreateFGASchema se pid dsl a w = (Inl err, a', w')"
  shows "fst (getOrCreateProjectCache se pid a w) = Inl err \<or>
      (\<exists>w1. fst (CreateRelations (sdk se) pid rels w1) = Some err) \<or>
      (\<exists>w1. fst (DeleteRelations (sdk se) pid rels w1) = Some err) \<or>
      (\<exists>s w1. fst (SaveSchema (sdk se) pid s w1) = Some err)"
    and "projects a q = Some pc \<Longrightarrow> projects a' q = Some pc"
proof -
  obtain gres a1 w1 where get: "getOrCreateProjectCache se pid a w = (gres, a1, w1)" by (metis prod_cases3)
  have old: "projects a1 q = Some pc" if "projects a q = Some pc"
    using get that by (auto simp: getOrCreateProjectCache_def split: option.splits sum.splits prod.splits)
  have main: "a' = a1 \<and> (gres = Inl err \<or> (\<exists>w1. fst (CreateRelations (sdk se) pid rels w1) = Some err) \<or>
      (\<exists>w1. fst (DeleteRelations (sdk se) pid rels w1) = Some err) \<or>
      (\<exists>s w1. fst (SaveSchema (sdk se) pid s w1) = Some err))"
    using assms get
    by (elim disjE; auto simp: CreateFGARelations_def DeleteFGARelations_def CreateFGASchema_def
        split: if_splits sum.splits option.splits prod.splits; metis fst_conv)
  then show "fst (getOrCreateProjectCache se pid a w) = Inl err \<or>
      (\<exists>w1. fst (CreateRelations (sdk se) pid rels w1) = Some err) \<or>
      (\<exists>w1. fst (DeleteRelations (sdk se) pid rels w1) = Some err) \<or>
      (\<exists>s w1. fst (SaveSchema (sdk se) pid s w1) = Some err)"
    using get by auto
  show "projects a q = Some pc \<Longrightarrow> projects a' q = Some pc" using main old by blast
qed

end
