(* ===== verification/ServiceLookups.thy ===== *)
theory ServiceLookups
  imports ServiceCorrect
begin

text \<open>
  Correctness of the lookups: a result answered from the lookup cache is the sublist of the cached
  candidates that \<open>Check\<close> allows, so it holds only relations that are true now, however old the
  entry is; any other result is the SDK's. The filter never indexes out of range.
\<close>

section \<open>Filtering candidates\<close>

lemma verified_candidates_filter:
  assumes "list_all2 (\<lambda>c check. Allowed check = P c) candidates checks"
  shows "verified_candidates candidates checks = Some (filter P candidates)"
  using assms by (induction candidates checks rule: list_all2_induct) auto

context cache_contract
begin

lemma filter_candidates_true:
  assumes "service_ok se wfr wfl bk a w" "sdk_ok se bk" "cenv se = env" "constructors_ok env wfr wfl (lrus se)"
    "keys_identify (bk w pid)" "to_relation ` set candidates \<subseteq> universe (bk w pid)"
    "filter_candidates se pid to_relation candidates ctx a w = (res, a', w')"
  shows "service_ok se wfr wfl bk a' w'" "bk w' = bk w"
    "res = Inr verified \<Longrightarrow> verified = filter (\<lambda>c. truth (bk w pid) (to_relation c) ctx) candidates"
    "res = Inl err \<Longrightarrow> fst (Check se pid (map to_relation candidates) ctx a w) = Inl err"
proof -
  obtain cres a1 w1 where check: "Check se pid (map to_relation candidates) ctx a w = (cres, a1, w1)"
    by (metis prod_cases3)
  have u: "set (map to_relation candidates) \<subseteq> universe (bk w pid)" using assms(6) by simp
  note c = Check_true[OF assms(1-5) u check]
  have main: "a' = a1 \<and> w' = w1 \<and>
    (res = Inr verified \<longrightarrow> verified = filter (\<lambda>c. truth (bk w pid) (to_relation c) ctx) candidates) \<and>
    (res = Inl err \<longrightarrow> cres = Inl err)"
  proof (cases cres)
    case (Inl e)
    then show ?thesis using assms(7) check by (auto simp: filter_candidates_def)
  next
    case (Inr checks)
    have "list_all2 (\<lambda>c check. Allowed check = truth (bk w pid) (to_relation c) ctx) candidates checks"
      using c(3)[OF Inr] by (auto simp: list_all2_conv_all_nth)
    from verified_candidates_filter[OF this] show ?thesis
      using assms(7) check Inr by (auto simp: filter_candidates_def)
  qed
  show "service_ok se wfr wfl bk a' w'" "bk w' = bk w" using main c(1,2) by simp_all
  show "res = Inr verified \<Longrightarrow> verified = filter (\<lambda>c. truth (bk w pid) (to_relation c) ctx) candidates"
    "res = Inl err \<Longrightarrow> fst (Check se pid (map to_relation candidates) ctx a w) = Inl err"
    using main check by simp_all
qed

text \<open>The filter of a project whose cache exists fails only with the call that asks for the misses.\<close>

lemma filter_candidates_error:
  assumes "service_ok se wfr wfl bk a w" "sdk_ok se bk" "cenv se = env" "constructors_ok env wfr wfl (lrus se)"
    "keys_identify (bk w pid)" "to_relation ` set candidates \<subseteq> universe (bk w pid)"
    "filter_candidates se pid to_relation candidates ctx a w = (Inl err, a', w')" "projects a pid = Some pc"
  shows "\<exists>us w1. fst (CheckWithContext (sdk se) pid us ctx w1) = Inl err"
proof -
  obtain a1 w1 where check: "Check se pid (map to_relation candidates) ctx a w = (Inl err, a1, w1)"
    using filter_candidates_true(4)[OF assms(1-7) refl] by (metis prod.collapse)
  have "fst (getOrCreateProjectCache se pid a w) = Inr pc"
    by (simp add: getOrCreateProjectCache_def assms(8))
  then show ?thesis using Check_error[OF assms(1-4) check] by auto
qed

section \<open>The two lookups\<close>

text \<open>What a project's cache holds for a lookup, before the request: nothing for a project not
  seen yet.\<close>

lemma lookup_entries_after_get:
  assumes "getOrCreateProjectCache se pid a w = (Inr pc, a1, w1)" "cenv se = env"
    "constructors_ok env wfr wfl (lrus se)" "lookup_entries env pc k = Some e"
  shows "projects a pid = Some pc"
proof (cases "projects a pid")
  case None
  then have "\<exists>now. NewProjectAuthzCache (lrus se) (settings se) now pid = Inr pc"
    using assms(1) by (auto simp: getOrCreateProjectCache_def split: option.splits sum.splits prod.splits)
  then have "lookup_entries env pc = Map.empty" using NewProjectAuthzCache_inv(4) assms(3) by blast
  then show ?thesis using assms(4) by simp
next
  case (Some pc')
  then show ?thesis using assms(1) by (simp add: getOrCreateProjectCache_def)
qed

lemma WhoCanAccess_true:
  assumes "service_ok se wfr wfl bk a w" "sdk_ok se bk" "cenv se = env" "constructors_ok env wfr wfl (lrus se)"
    "keys_identify (bk w pid)"
    "\<forall>pc e. projects a pid = Some pc \<and> lookup_entries env pc (whoCanAccessKey r d n) = Some e \<longrightarrow>
       who_relation r d n ` set (Results e) \<subseteq> universe (bk w pid)"
    "WhoCanAccess se pid r d n ctx a w = (res, a', w')"
  shows "service_ok se wfr wfl bk a' w' \<and> bk w' = bk w \<and> (\<forall>targets. res = Inr targets \<longrightarrow>
    (\<exists>w1. fst (SDK_WhoCanAccess (sdk se) pid r d n w1) = Inr targets) \<and>
      (\<forall>pc e. projects a pid = Some pc \<and> lookup_entries env pc (whoCanAccessKey r d n) = Some e \<longrightarrow>
         lookup_disabled pc \<or> ExpiresAt e < Now (sdk se) w \<or> Results e = []) \<or>
    (\<exists>pc e. projects a pid = Some pc \<and> lookup_entries env pc (whoCanAccessKey r d n) = Some e \<and>
       targets = filter (\<lambda>t. truth (bk w pid) (who_relation r d n t) ctx) (Results e))) \<and>
    (\<forall>err. res = Inl err \<longrightarrow> fst (getOrCreateProjectCache se pid a w) = Inl err \<or>
      (\<exists>w1. fst (SDK_WhoCanAccess (sdk se) pid r d n w1) = Inl err) \<or>
      (\<exists>us w1. fst (CheckWithContext (sdk se) pid us ctx w1) = Inl err))"
proof -
  obtain gres a1 w1 where get: "getOrCreateProjectCache se pid a w = (gres, a1, w1)" by (metis prod_cases3)
  note g = getOrCreate_ok[OF assms(1-4) get]
  show ?thesis
  proof (cases gres)
    case (Inl err)
    then show ?thesis using assms(7) g by (auto simp: WhoCanAccess_def get Let_def)
  next
    case (Inr pc)
    have pc: "cache_ok env wfr wfl (bk w pid) pc" using g(3)[OF Inr] g(2) by simp
    have li: "lookup_inv env wfl pc" using pc by (simp add: cache_ok_def cache_inv_def)
    obtain cands hit pc1 where cached:
      "GetWhoCanAccessCached env (Now (sdk se) w1) r d n pc = ((cands, hit), pc1)" by (metis surj_pair)
    note q = GetWhoCanAccessCached_spec[OF li cached]
    have pc1: "cache_ok env wfr wfl (bk w pid) pc1" by (rule cache_ok_lookup[OF pc q(4,3)])
    have ok2: "service_ok se wfr wfl bk (put_cache pid pc1 a1) w1"
      using service_ok_put[OF g(1)] pc1 g(2) assms(3) by simp
    note run = assms(7)[unfolded WhoCanAccess_def get Inr Let_def prod.case sum.case assms(3) cached]
    show ?thesis
    proof (cases "hit \<and> cands \<noteq> []")
      case True
      then obtain e where e: "lookup_entries env pc (whoCanAccessKey r d n) = Some e" "cands = Results e"
        using q(1) by (auto split: if_splits option.splits)
      have here: "projects a pid = Some pc"
        by (rule lookup_entries_after_get[OF get[unfolded Inr] assms(3,4) e(1)])
      have u: "who_relation r d n ` set cands \<subseteq> universe (bk w1 pid)"
        using assms(6) here e g(2) by auto
      have ki: "keys_identify (bk w1 pid)" using assms(5) g(2) by simp
      obtain fres a3 w2 where f:
        "filterWhoCanAccessCandidates se pid r d n cands ctx (put_cache pid pc1 a1) w1 = (fres, a3, w2)"
        by (metis prod_cases3)
      note fl = filter_candidates_true[OF ok2 assms(2-4) ki u f[unfolded filterWhoCanAccessCandidates_def]]
      have fe: "\<exists>us w1. fst (CheckWithContext (sdk se) pid us ctx w1) = Inl err" if "fres = Inl err" for err
        by (rule filter_candidates_error[OF ok2 assms(2-4) ki u
              f[unfolded filterWhoCanAccessCandidates_def that]]) simp
      show ?thesis
        using run True f fl(1,2) fl(3)[of "projr fres"] g(2) here e fe by (cases fres) auto
    next
      case False
      have unusable: "lookup_disabled pc0 \<or> ExpiresAt e < Now (sdk se) w \<or> Results e = []"
        if "projects a pid = Some pc0" "lookup_entries env pc0 (whoCanAccessKey r d n) = Some e" for pc0 e
      proof -
        have "pc0 = pc" "w1 = w" using get that(1) Inr by (simp_all add: getOrCreateProjectCache_def)
        then show ?thesis using q(1) False that(2) by (auto split: if_splits)
      qed
      obtain sres w2 where call: "SDK_WhoCanAccess (sdk se) pid r d n w1 = (sres, w2)" by fastforce
      have w2: "bk w2 = bk w1" by (rule sdk_okD(11)[OF assms(2) call])
      have set: "cache_ok env wfr wfl (bk w pid) (SetWhoCanAccessCached env t r d n targets pc1)" for t targets
        by (rule cache_ok_lookup[OF pc1 SetWhoCanAccessCached_spec(2,1)[OF q(3)]])
      have "service_ok se wfr wfl bk (put_cache pid (SetWhoCanAccessCached env t r d n targets pc1)
          (put_cache pid pc1 a1)) w2" for t targets
        using service_ok_put[OF ok2] set w2 g(2) assms(3) by simp
      moreover have "service_ok se wfr wfl bk (put_cache pid pc1 a1) w2"
        by (rule service_ok_world[OF ok2 w2])
      ultimately show ?thesis
        using run False call w2 g(2) unusable by (cases sres) (auto intro: exI[of _ w1])
    qed
  qed
qed

lemma WhatCanTargetAccess_true:
  assumes "service_ok se wfr wfl bk a w" "sdk_ok se bk" "cenv se = env" "constructors_ok env wfr wfl (lrus se)"
    "keys_identify (bk w pid)"
    "\<forall>pc e. projects a pid = Some pc \<and> lookup_entries env pc (whatCanTargetAccessKey t) = Some e \<longrightarrow>
       what_relation t ` set (decode_relations t (Results e)) \<subseteq> universe (bk w pid)"
    "WhatCanTargetAccess se pid t ctx a w = (res, a', w')"
  shows "service_ok se wfr wfl bk a' w' \<and> bk w' = bk w \<and> (\<forall>relations. res = Inr relations \<longrightarrow>
    (\<exists>w1. fst (SDK_WhatCanTargetAccess (sdk se) pid t w1) = Inr relations) \<and>
      (\<forall>pc e. projects a pid = Some pc \<and> lookup_entries env pc (whatCanTargetAccessKey t) = Some e \<longrightarrow>
         lookup_disabled pc \<or> ExpiresAt e < Now (sdk se) w \<or> decode_relations t (Results e) = []) \<or>
    (\<exists>pc e. projects a pid = Some pc \<and> lookup_entries env pc (whatCanTargetAccessKey t) = Some e \<and>
       relations = filter (\<lambda>r. truth (bk w pid) (what_relation t r) ctx) (decode_relations t (Results e)))) \<and>
    (\<forall>err. res = Inl err \<longrightarrow> fst (getOrCreateProjectCache se pid a w) = Inl err \<or>
      (\<exists>w1. fst (SDK_WhatCanTargetAccess (sdk se) pid t w1) = Inl err) \<or>
      (\<exists>us w1. fst (CheckWithContext (sdk se) pid us ctx w1) = Inl err))"
proof -
  obtain gres a1 w1 where get: "getOrCreateProjectCache se pid a w = (gres, a1, w1)" by (metis prod_cases3)
  note g = getOrCreate_ok[OF assms(1-4) get]
  show ?thesis
  proof (cases gres)
    case (Inl err)
    then show ?thesis using assms(7) g by (auto simp: WhatCanTargetAccess_def get Let_def)
  next
    case (Inr pc)
    have pc: "cache_ok env wfr wfl (bk w pid) pc" using g(3)[OF Inr] g(2) by simp
    have li: "lookup_inv env wfl pc" using pc by (simp add: cache_ok_def cache_inv_def)
    obtain cands hit pc1 where cached:
      "GetWhatCanTargetAccessCached env (Now (sdk se) w1) t pc = ((cands, hit), pc1)" by (metis surj_pair)
    note q = GetWhatCanTargetAccessCached_spec[OF li cached]
    have pc1: "cache_ok env wfr wfl (bk w pid) pc1" by (rule cache_ok_lookup[OF pc q(4,3)])
    have ok2: "service_ok se wfr wfl bk (put_cache pid pc1 a1) w1"
      using service_ok_put[OF g(1)] pc1 g(2) assms(3) by simp
    note run = assms(7)[unfolded WhatCanTargetAccess_def get Inr Let_def prod.case sum.case assms(3) cached]
    show ?thesis
    proof (cases "hit \<and> cands \<noteq> []")
      case True
      then obtain e where e: "lookup_entries env pc (whatCanTargetAccessKey t) = Some e"
        "cands = decode_relations t (Results e)"
        using q(1) by (auto split: if_splits option.splits)
      have here: "projects a pid = Some pc"
        by (rule lookup_entries_after_get[OF get[unfolded Inr] assms(3,4) e(1)])
      have u: "what_relation t ` set cands \<subseteq> universe (bk w1 pid)"
        using assms(6) here e g(2) by auto
      have ki: "keys_identify (bk w1 pid)" using assms(5) g(2) by simp
      obtain fres a3 w2 where f:
        "filterWhatCanTargetAccessCandidates se pid t cands ctx (put_cache pid pc1 a1) w1 = (fres, a3, w2)"
        by (metis prod_cases3)
      note fl = filter_candidates_true[OF ok2 assms(2-4) ki u f[unfolded filterWhatCanTargetAccessCandidates_def]]
      have fe: "\<exists>us w1. fst (CheckWithContext (sdk se) pid us ctx w1) = Inl err" if "fres = Inl err" for err
        by (rule filter_candidates_error[OF ok2 assms(2-4) ki u
              f[unfolded filterWhatCanTargetAccessCandidates_def that]]) simp
      show ?thesis
        using run True f fl(1,2) fl(3)[of "projr fres"] g(2) here e fe by (cases fres) auto
    next
      case False
      have unusable: "lookup_disabled pc0 \<or> ExpiresAt e < Now (sdk se) w \<or> decode_relations t (Results e) = []"
        if "projects a pid = Some pc0" "lookup_entries env pc0 (whatCanTargetAccessKey t) = Some e" for pc0 e
      proof -
        have "pc0 = pc" "w1 = w" using get that(1) Inr by (simp_all add: getOrCreateProjectCache_def)
        then show ?thesis using q(1) False that(2) by (auto split: if_splits)
      qed
      obtain sres w2 where call: "SDK_WhatCanTargetAccess (sdk se) pid t w1 = (sres, w2)" by fastforce
      have w2: "bk w2 = bk w1" by (rule sdk_okD(12)[OF assms(2) call])
      have set: "cache_ok env wfr wfl (bk w pid) (SetWhatCanTargetAccessCached env now t rels pc1)" for now rels
        by (rule cache_ok_lookup[OF pc1 SetWhatCanTargetAccessCached_spec(2,1)[OF q(3)]])
      have "service_ok se wfr wfl bk (put_cache pid (SetWhatCanTargetAccessCached env now t rels pc1)
          (put_cache pid pc1 a1)) w2" for now rels
        using service_ok_put[OF ok2] set w2 g(2) assms(3) by simp
      moreover have "service_ok se wfr wfl bk (put_cache pid pc1 a1) w2"
        by (rule service_ok_world[OF ok2 w2])
      ultimately show ?thesis
        using run False call w2 g(2) unusable by (cases sres) (auto intro: exI[of _ w1])
    qed
  qed
qed

section \<open>Reading one's own writes\<close>

text \<open>A relation that was written is not answered from the cache afterwards.\<close>

lemma swept_not_served:
  assumes "keys_identify b" "coherent env b ms pc" "sweeping env wfr wfl (\<lambda>c. \<exists>r\<in>set rels. swept r c) pc pc'"
    "r \<in> universe b" "r' \<in> set rels" "Resource r = Resource r' \<or> Target r = Target r'"
  shows "served env pc' ctx r = None"
proof -
  have "direct_grants env pc' (key r) = None"
  proof (rule ccontr)
    assume "\<not> ?thesis"
    then obtain g where g: "direct_grants env pc' (key r) = Some g" by auto
    obtain c where c: "directKeyComponents pc (key r) = Some c" "\<not> (\<exists>r\<in>set rels. swept r c)"
      using sweepingD(10)[OF assms(3) g] by blast
    obtain q where q: "q \<in> universe b" "key q = key r" "directKeyComponents pc (key r) = Some (components_of q)"
      using assms(2) sweepingD(9)[OF assms(3) g] unfolding coherent_def by blast
    have "Resource q = Resource r \<and> Target q = Target r"
      using assms(1,4) q(1,2) unfolding keys_identify_def by blast
    then show False using c q(3) assms(5,6) by (auto simp: swept_def)
  qed
  then show ?thesis using sweepingD(2)[OF assms(3)] by (simp add: served_def cached_grant_def)
qed

end

end
