(* ===== verification/Cooldown.thy ===== *)
theory Cooldown
  imports CacheSystem ProjectCacheNew
begin

text \<open>
  The cooldown before an error purges the caches, over the steps of \<open>CacheSystem\<close>: a pending purge
  has a timer that is armed, with a deadline at most one window ahead, or whose callback has
  started. The runtime alone, without requests and polls, can carry the purge out within the window
  (\<open>due_can_purge\<close>), and once it has nothing left to do after the deadline it has (\<open>rest_purged\<close>). Later
  errors do not move the deadline.
\<close>

section \<open>The timers of a cache\<close>

definition timer_inv :: "gotime \<Rightarrow> ('rc, 'lc, 'p) projectAuthzCache \<Rightarrow> bool" where
  "timer_inv now pc \<longleftrightarrow>
     (\<forall>i \<in> dom (armedTimers (timers pc)) \<union> set (startedCallbacks (timers pc)). i < nextTimer (timers pc)) \<and>
     distinct (startedCallbacks (timers pc)) \<and>
     dom (armedTimers (timers pc)) \<inter> set (startedCallbacks (timers pc)) = {} \<and>
     (\<forall>i. purgeCooldownTimer (remoteChanges pc) = Some i \<longrightarrow>
        i \<in> set (startedCallbacks (timers pc)) \<or>
        (\<exists>deadline. armedTimers (timers pc) i = Some deadline \<and>
           deadline \<le> now + sint (purgeCooldownWindow (remoteChanges pc))))"

definition same_cooldown :: "('rc, 'lc, 'p) projectAuthzCache \<Rightarrow> ('rc, 'lc, 'p) projectAuthzCache \<Rightarrow> bool" where
  "same_cooldown pc pc' \<longleftrightarrow> timers pc' = timers pc \<and>
     purgeCooldownTimer (remoteChanges pc') = purgeCooldownTimer (remoteChanges pc) \<and>
     purgeCooldownWindow (remoteChanges pc') = purgeCooldownWindow (remoteChanges pc)"

lemma timer_inv_same: "same_cooldown pc pc' \<Longrightarrow> timer_inv now pc' = timer_inv now pc"
  by (simp add: timer_inv_def same_cooldown_def)

lemma timer_inv_later: "timer_inv now pc \<Longrightarrow> now \<le> now' \<Longrightarrow> timer_inv now' pc"
  by (fastforce simp: timer_inv_def)

lemma timer_inv_no_timer:
  assumes "timer_inv now pc"
  shows "timer_inv now (setCooldownTimer None pc)"
  using assms by (simp add: timer_inv_def)

lemma timer_inv_cancel:
  assumes "timer_inv now pc"
  shows "timer_inv now (cancelPurgeCooldown pc)"
  using assms by (cases "purgeCooldownTimer (remoteChanges pc)")
    (auto simp: timer_inv_def cancelPurgeCooldown_def StopTimer_def)

lemma timer_inv_fire:
  assumes "timer_inv now pc" "fireTimer t i pc = Some pc'"
  shows "timer_inv now pc'"
  using assms by (auto simp: timer_inv_def fireTimer_def disjoint_iff domIff split: option.splits if_splits)

context cache_contract
begin

lemma purgeAllCaches_same_cooldown:
  "cache_inv env wfr wfl pc \<Longrightarrow> same_cooldown pc (purgeAllCaches env now pc)"
  by (simp add: same_cooldown_def purgeAllCaches_spec)

lemma timer_inv_purgeAll:
  "cache_inv env wfr wfl pc \<Longrightarrow> timer_inv now (purgeAllCaches env t pc) = timer_inv now pc"
  by (rule timer_inv_same[OF purgeAllCaches_same_cooldown])

lemma timer_inv_purgeAfterCooldown:
  assumes "cache_inv env wfr wfl pc" "timer_inv now pc"
  shows "timer_inv now (purgeAfterCooldown env now pc)"
  using assms(2) timer_inv_purgeAll[OF assms(1)]
  by (auto simp: purgeAfterCooldown_def AfterFunc_def Let_def timer_inv_def less_Suc_eq)

lemma timer_inv_callback:
  assumes "cache_inv env wfr wfl pc" "timer_inv now pc" "runCallback env t i pc = Some pc'"
  shows "timer_inv now pc'"
proof -
  let ?q = "pc\<lparr>timers := (timers pc)\<lparr>startedCallbacks := remove1 i (startedCallbacks (timers pc))\<rparr>\<rparr>"
  have q: "cache_inv env wfr wfl ?q" using assms(1) by simp
  have pc': "pc' = cooldownCallback env t ?q" using assms(3) by (simp add: runCallback_def split: if_splits)
  have sub: "set (remove1 i xs) \<subseteq> set xs" for xs :: "nat list" by (rule set_remove1_subset)
  show ?thesis
  proof (cases "purgeCooldownTimer (remoteChanges pc) = None")
    case True
    then show ?thesis using assms(2) sub
      by (auto simp: pc' cooldownCallback_def timer_inv_def)
  next
    case False
    have "timer_inv now (setCooldownTimer None ?q)" using assms(2) sub by (auto simp: timer_inv_def)
    moreover have "same_cooldown (setCooldownTimer None ?q) (setCooldownTimer None (purgeAllCaches env t ?q))"
      using purgeAllCaches_same_cooldown[OF q, of t] by (simp add: same_cooldown_def)
    ultimately show ?thesis using False by (simp add: pc' cooldownCallback_def timer_inv_same)
  qed
qed

lemma timer_inv_poll:
  assumes "cache_inv env wfr wfl pc" "timer_inv t1 pc"
  shows "timer_inv t1 (updateCacheWithRemotePolling env IsError GetModified t0 t1 pc)"
proof (cases "noRelations env pc")
  case True
  have "same_cooldown pc (setSchema env None (setLastPollTime t0 pc))" by (simp add: same_cooldown_def)
  then show ?thesis using assms(2) by (simp add: poll_idle[OF True] timer_inv_same)
next
  case False
  let ?q = "cancelPurgeCooldown (setLastPollTime t0 pc)"
  have q: "cache_inv env wfr wfl ?q" "cache_inv env wfr wfl (cancelPurgeCooldown pc)"
    using assms(1) by (simp_all add: cancel_inv same_outside_pollingD(1)[OF same_outside_polling_simps(3)])
  have "timer_inv t1 (setLastPollTime t0 pc)"
    using assms(2) timer_inv_same[of pc "setLastPollTime t0 pc"] by (simp add: same_cooldown_def)
  then have t: "timer_inv t1 ?q" by (rule timer_inv_cancel)
  show ?thesis
  proof (cases "GetModified (lastPollTime (remoteChanges pc))")
    case (Inl err)
    then show ?thesis
      using timer_inv_purgeAfterCooldown[OF assms] timer_inv_purgeAll[OF q(2)] timer_inv_cancel[OF assms(2)]
      by (simp add: poll_failure[where GetModified = GetModified, OF False])
  next
    case (Inr m)
    have "same_cooldown ?q (applyRemoteChanges env m ?q)"
      using sweepingD(7,8)[OF applyRemoteChanges_sweeps[OF q(1)]] by (simp add: same_cooldown_def)
    then show ?thesis
      using t timer_inv_purgeAll[OF q(1)]
      by (simp add: poll_success[where GetModified = GetModified, OF False Inr] Let_def timer_inv_same)
  qed
qed

section \<open>Reachable states\<close>

lemma system_inv_cache_inv: "system_inv env wfr wfl s \<Longrightarrow> cache_inv env wfr wfl (sy_cache s)"
  by (simp add: system_inv_def)

lemma UpdateCacheWithSchema_same_cooldown:
  assumes "cache_inv env wfr wfl pc"
  shows "same_cooldown pc (UpdateCacheWithSchema env schema pc)"
proof -
  have "caches_wf wfr wfl (setSchema env schema pc)" "lookup_inv env wfl (setSchema env schema pc)"
    using cache_invD[OF assms] by (simp_all add: setSchema_inv_parts)
  then show ?thesis by (simp add: UpdateCacheWithSchema_def same_cooldown_def purgeRelationCaches_spec)
qed

lemma sweeping_same_cooldown: "sweeping env wfr wfl gone pc pc' \<Longrightarrow> same_cooldown pc pc'"
  by (simp add: same_cooldown_def sweeping_def)

lemma lookup_same_cooldown: "same_outside_lookup pc pc' \<Longrightarrow> same_cooldown pc pc'"
  by (simp add: same_cooldown_def same_outside_lookupD)

lemma written_same_cooldown:
  assumes "cache_inv env wfr wfl pc"
  shows "same_cooldown pc (UpdateCacheWithAddedRelations env now rels pc)"
    and "same_cooldown pc (UpdateCacheWithDeletedRelations env rels pc)"
  using sweeping_same_cooldown[OF UpdateCacheWithAddedRelations_sweeps[OF assms, of rels now]]
    sweeping_same_cooldown[OF UpdateCacheWithDeletedRelations_sweeps[OF assms, of rels]]
  by (cases "rels = []"; simp add: UpdateCacheWithAddedRelations_def UpdateCacheWithDeletedRelations_def
      same_cooldown_def)+

theorem system_step_timer_inv:
  assumes "system_step env IsError s s'" "system_inv env wfr wfl s" "timer_inv (sy_clock s) (sy_cache s)"
  shows "timer_inv (sy_clock s') (sy_cache s')"
proof -
  have inv: "cache_inv env wfr wfl (sy_cache s)" by (rule system_inv_cache_inv[OF assms(2)])
  note li = system_inv_lookup[OF assms(2)]
  have same: ?thesis if "sy_clock s' = sy_clock s" "same_cooldown (sy_cache s) (sy_cache s')"
    using timer_inv_same[OF that(2)] that(1) assms(3) by simp
  from assms(1) show ?thesis
  proof (cases rule: system_step.cases)
    case (backend t b log)
    then have "sy_clock s \<le> t" by (intro system_inv_backend(3)[OF assms(2)]) auto
    then show ?thesis using timer_inv_later[OF assms(3)] by (simp add: backend(1))
  next
    case (poll t b log GetModified pc)
    have "timer_inv t (sy_cache s)"
      by (rule timer_inv_later[OF assms(3) system_inv_backend(3)[OF assms(2) poll(2)]])
    then show ?thesis using timer_inv_poll[OF inv] by (simp add: poll(1,4))
  next
    case (fire i pc)
    then show ?thesis using timer_inv_fire[OF assms(3) fire(2)] by simp
  next
    case (callback i pc)
    then show ?thesis using timer_inv_callback[OF inv assms(3) callback(2)] by simp
  next
    case (read rs ctx res pc)
    then show ?thesis using CheckRelations_inv(2)[OF inv read(2)]
      by (intro same) (simp_all add: same_cooldown_def reads_alikeD)
  next
    case (answer cs)
    then show ?thesis using assms(3) by simp
  next
    case (store n t cs)
    have "versioned_check c" if "c \<in> set cs" for c
      using assms(2) store(2) that by (fastforce simp: system_inv_def inflight_ok_def fresh_check_def)
    then have "same_outside_relations (sy_cache s) (UpdateCacheWithChecks env cs (sy_cache s))"
      by (rule UpdateCacheWithChecks_inv(3)[OF inv])
    with store(1) show ?thesis
      by (intro same) (simp_all add: same_cooldown_def same_outside_relationsD)
  next
    case (load_schema schema)
    then show ?thesis by (intro same) (simp_all add: same_cooldown_def)
  next
    case (save_schema schema)
    then show ?thesis using UpdateCacheWithSchema_same_cooldown[OF inv] by (intro same) simp_all
  next
    case (added rels)
    then show ?thesis using written_same_cooldown[OF inv] by (intro same) simp_all
  next
    case (deleted rels)
    then show ?thesis using written_same_cooldown[OF inv] by (intro same) simp_all
  next
    case (get_wca r d n res pc)
    then show ?thesis using lookup_same_cooldown[OF GetWhoCanAccessCached_spec(4)[OF li get_wca(2)]]
      by (intro same) simp_all
  next
    case (set_wca r d n targets)
    then show ?thesis using lookup_same_cooldown[OF SetWhoCanAccessCached_spec(2)[OF li]]
      by (intro same) simp_all
  next
    case (get_wcta t res pc)
    then show ?thesis using lookup_same_cooldown[OF GetWhatCanTargetAccessCached_spec(4)[OF li get_wcta(2)]]
      by (intro same) simp_all
  next
    case (set_wcta t ars)
    then show ?thesis using lookup_same_cooldown[OF SetWhatCanTargetAccessCached_spec(2)[OF li]]
      by (intro same) simp_all
  next
    case invalidate
    then show ?thesis using lookup_same_cooldown[OF InvalidateLookupCache_spec(2)[OF li]]
      by (intro same) simp_all
  qed
qed

theorem reachable_timer_inv:
  assumes "(system_step env IsError)\<^sup>*\<^sup>* s s'" "system_inv env wfr wfl s" "timer_inv (sy_clock s) (sy_cache s)"
  shows "timer_inv (sy_clock s') (sy_cache s')"
  using assms
proof (induction rule: rtranclp_induct)
  case base
  then show ?case by simp
next
  case (step y z)
  then show ?case using reachable_system_inv[OF step.hyps(1)] system_step_timer_inv by blast
qed

end

section \<open>The runtime alone\<close>

text \<open>The steps that need neither a request nor a poll nor a change of the backend: time passes, an armed
  timer fires, a started callback runs.\<close>

inductive runtime_step :: "('rc, 'lc, 'p) cache_env \<Rightarrow> ('rc, 'lc, 'p) cache_system \<Rightarrow>
    ('rc, 'lc, 'p) cache_system \<Rightarrow> bool"
  for env :: "('rc, 'lc, 'p) cache_env" where
  runtime_time: "sy_clock s \<le> t \<Longrightarrow> runtime_step env s (s\<lparr>sy_clock := t\<rparr>)"
| runtime_fire: "fireTimer (sy_clock s) i (sy_cache s) = Some pc \<Longrightarrow> runtime_step env s (s\<lparr>sy_cache := pc\<rparr>)"
| runtime_callback: "runCallback env (sy_clock s) i (sy_cache s) = Some pc \<Longrightarrow>
    runtime_step env s (s\<lparr>sy_cache := pc, sy_floor := new_floor env s pc\<rparr>)"

lemma runtime_step_system:
  assumes "runtime_step env s s'"
  shows "system_step env IsError s s'"
  using assms
proof (cases rule: runtime_step.cases)
  case (runtime_time t)
  then have "backend_step (sy_clock s, sy_backend s, sy_log s) (t, sy_backend s, sy_log s)"
    by (intro backend_step.time_passes)
  from system_step.backend[OF this, of env IsError] show ?thesis using runtime_time(1) by simp
qed (auto intro: system_step.fire system_step.callback)

text \<open>Empty caches, no schema, and no purge pending.\<close>

definition purged :: "('rc, 'lc, 'p) cache_env \<Rightarrow> ('rc, 'lc, 'p) projectAuthzCache \<Rightarrow> bool" where
  "purged env pc \<longleftrightarrow> direct_grants env pc = Map.empty \<and> indirect_grants env pc = Map.empty \<and>
     lookup_entries env pc = Map.empty \<and> schemaCache pc = None \<and>
     purgeCooldownTimer (remoteChanges pc) = None"

text \<open>The runtime has nothing left to do at the present time.\<close>

definition at_rest :: "('rc, 'lc, 'p) cache_env \<Rightarrow> ('rc, 'lc, 'p) cache_system \<Rightarrow> bool" where
  "at_rest env s \<longleftrightarrow> (\<forall>i. fireTimer (sy_clock s) i (sy_cache s) = None \<and>
     runCallback env (sy_clock s) i (sy_cache s) = None)"

text \<open>A purge that is pending on the timer \<open>i\<close>, which is armed for \<open>deadline\<close> at the latest or has fired.\<close>

definition purge_due :: "nat \<Rightarrow> gotime \<Rightarrow> ('rc, 'lc, 'p) projectAuthzCache \<Rightarrow> bool" where
  "purge_due i deadline pc \<longleftrightarrow> purgeCooldownTimer (remoteChanges pc) = Some i \<and>
     (i \<in> set (startedCallbacks (timers pc)) \<or>
      (\<exists>d. armedTimers (timers pc) i = Some d \<and> d \<le> deadline))"

context cache_contract
begin

text \<open>Running a callback while a purge is pending empties the caches.\<close>

lemma callback_purges:
  assumes "cache_inv env wfr wfl pc" "purgeCooldownTimer (remoteChanges pc) \<noteq> None"
    "runCallback env now j pc = Some pc'"
  shows "purged env pc'" "cache_inv env wfr wfl pc'"
proof -
  let ?q = "pc\<lparr>timers := (timers pc)\<lparr>startedCallbacks := remove1 j (startedCallbacks (timers pc))\<rparr>\<rparr>"
  have q: "cache_inv env wfr wfl ?q" using assms(1) by simp
  have pc': "pc' = setCooldownTimer None (purgeAllCaches env now ?q)"
    using assms(2,3) by (auto simp: runCallback_def cooldownCallback_def split: if_splits)
  show "purged env pc'"
    by (simp add: pc' purged_def purgeAllCaches_spec[OF q, of now] same_outside_pollingD[OF same_outside_polling_simps(2)])
  show "cache_inv env wfr wfl pc'"
    by (simp add: pc' purgeAllCaches_inv[OF q] same_outside_pollingD[OF same_outside_polling_simps(2)])
qed

lemma purged_timers: "purged env (pc\<lparr>timers := x\<rparr>) = purged env pc"
proof -
  have "same_outside_polling pc (pc\<lparr>timers := x\<rparr>)"
    by (rule same_outside_pollingI[where x = "remoteChanges pc" and y = x]) simp
  from same_outside_pollingD[OF this] show ?thesis by (simp add: purged_def)
qed

text \<open>The runtime either keeps the purge due or has carried it out.\<close>

lemma runtime_step_due:
  assumes "runtime_step env s s'" "cache_inv env wfr wfl (sy_cache s)"
    "purge_due i deadline (sy_cache s) \<or> purged env (sy_cache s)"
  shows "cache_inv env wfr wfl (sy_cache s') \<and> (purge_due i deadline (sy_cache s') \<or> purged env (sy_cache s'))"
  using assms(1)
proof (cases rule: runtime_step.cases)
  case (runtime_time t)
  then show ?thesis using assms(2,3) by simp
next
  case (runtime_fire j pc)
  then obtain d where pc: "pc = (sy_cache s)\<lparr>timers := (timers (sy_cache s))\<lparr>
      armedTimers := (armedTimers (timers (sy_cache s)))(j := None),
      startedCallbacks := startedCallbacks (timers (sy_cache s)) @ [j]\<rparr>\<rparr>"
    by (auto simp: fireTimer_def split: option.splits if_splits)
  then show ?thesis using assms(2,3) runtime_fire(1) by (auto simp: purge_due_def purged_timers)
next
  case (runtime_callback j pc)
  show ?thesis
  proof (cases "purgeCooldownTimer (remoteChanges (sy_cache s)) = None")
    case False
    then show ?thesis using callback_purges[OF assms(2) _ runtime_callback(2)] runtime_callback(1) by simp
  next
    case True
    then have "purged env (sy_cache s)" using assms(3) by (simp add: purge_due_def)
    moreover have "pc = (sy_cache s)\<lparr>timers := (timers (sy_cache s))\<lparr>
        startedCallbacks := remove1 j (startedCallbacks (timers (sy_cache s)))\<rparr>\<rparr>"
      using runtime_callback(2) True by (auto simp: runCallback_def cooldownCallback_def split: if_splits)
    ultimately show ?thesis using assms(2) runtime_callback(1) by (simp add: purged_timers)
  qed
qed

lemma runtime_run_due:
  assumes "(runtime_step env)\<^sup>*\<^sup>* s s'" "cache_inv env wfr wfl (sy_cache s)" "purge_due i deadline (sy_cache s)"
  shows "cache_inv env wfr wfl (sy_cache s') \<and> (purge_due i deadline (sy_cache s') \<or> purged env (sy_cache s'))"
  using assms(1) by (induction rule: rtranclp_induct) (use assms(2,3) runtime_step_due in blast)+

text \<open>At rest after the deadline, it has carried it out.\<close>

lemma rest_purged:
  assumes "(runtime_step env)\<^sup>*\<^sup>* s s'" "cache_inv env wfr wfl (sy_cache s)" "purge_due i deadline (sy_cache s)"
    "deadline \<le> sy_clock s'" "at_rest env s'"
  shows "purged env (sy_cache s')"
proof -
  have "\<not> purge_due i deadline (sy_cache s')"
  proof
    assume "purge_due i deadline (sy_cache s')"
    then consider "i \<in> set (startedCallbacks (timers (sy_cache s')))"
      | d where "armedTimers (timers (sy_cache s')) i = Some d" "d \<le> deadline"
      by (auto simp: purge_due_def)
    then show False
    proof cases
      case 1
      then have "runCallback env (sy_clock s') i (sy_cache s') \<noteq> None" by (simp add: runCallback_def)
      then show False using assms(5) by (simp add: at_rest_def)
    next
      case 2
      then have "fireTimer (sy_clock s') i (sy_cache s') \<noteq> None" using assms(4) by (simp add: fireTimer_def)
      then show False using assms(5) by (simp add: at_rest_def)
    qed
  qed
  then show ?thesis using runtime_run_due[OF assms(1-3)] by blast
qed

text \<open>And it can: the timer fires at its deadline and the callback follows.\<close>

lemma due_can_purge:
  assumes "cache_inv env wfr wfl (sy_cache s)" "purge_due i deadline (sy_cache s)"
  shows "\<exists>s'. (runtime_step env)\<^sup>*\<^sup>* s s' \<and> purged env (sy_cache s') \<and> sy_clock s' \<le> max (sy_clock s) deadline"
proof -
  have run: "\<exists>s'. runtime_step env s1 s' \<and> purged env (sy_cache s') \<and> sy_clock s' = sy_clock s1"
    if at: "cache_inv env wfr wfl (sy_cache s1)" "purgeCooldownTimer (remoteChanges (sy_cache s1)) \<noteq> None"
      "i \<in> set (startedCallbacks (timers (sy_cache s1)))" for s1
  proof -
    obtain pc' where pc': "runCallback env (sy_clock s1) i (sy_cache s1) = Some pc'"
      using at(3) by (simp add: runCallback_def)
    show ?thesis
      using runtime_step.runtime_callback[OF pc'] callback_purges(1)[OF at(1,2) pc']
      by (intro exI[of _ "s1\<lparr>sy_cache := pc', sy_floor := new_floor env s1 pc'\<rparr>"]) simp
  qed
  have pending: "purgeCooldownTimer (remoteChanges (sy_cache s)) \<noteq> None" using assms(2) by (simp add: purge_due_def)
  show ?thesis
  proof (cases "i \<in> set (startedCallbacks (timers (sy_cache s)))")
    case True
    from run[OF assms(1) pending True] obtain s' where "runtime_step env s s'" "purged env (sy_cache s')"
      "sy_clock s' = sy_clock s" by blast
    then show ?thesis by (intro exI[of _ s']) auto
  next
    case False
    then obtain d where d: "armedTimers (timers (sy_cache s)) i = Some d" "d \<le> deadline"
      using assms(2) by (auto simp: purge_due_def)
    let ?s1 = "s\<lparr>sy_clock := max (sy_clock s) d\<rparr>"
    have st1: "runtime_step env s ?s1" by (rule runtime_step.runtime_time) simp
    obtain pc2 where fire: "fireTimer (sy_clock ?s1) i (sy_cache ?s1) = Some pc2"
      and pc2: "i \<in> set (startedCallbacks (timers pc2))" "remoteChanges pc2 = remoteChanges (sy_cache s)"
        "cache_inv env wfr wfl pc2"
      using d(1) assms(1) by (simp add: fireTimer_def)
    have st2: "runtime_step env ?s1 (?s1\<lparr>sy_cache := pc2\<rparr>)" by (rule runtime_step.runtime_fire[OF fire])
    obtain s' where "runtime_step env (?s1\<lparr>sy_cache := pc2\<rparr>) s'" "purged env (sy_cache s')"
      "sy_clock s' = sy_clock (?s1\<lparr>sy_cache := pc2\<rparr>)"
      using run[of "?s1\<lparr>sy_cache := pc2\<rparr>"] pc2 pending by auto
    with st1 st2 d(2) show ?thesis
      by (intro exI[of _ s']) (auto intro: converse_rtranclp_into_rtranclp)
  qed
qed

lemma timer_inv_due:
  assumes "timer_inv now pc" "purgeCooldownTimer (remoteChanges pc) = Some i"
  shows "purge_due i (now + sint (purgeCooldownWindow (remoteChanges pc))) pc"
  using assms by (auto simp: timer_inv_def purge_due_def)

end

text \<open>Errors after the first one leave the timer and its deadline alone.\<close>

lemma purgeAfterCooldown_waits:
  assumes "purgeCooldownTimer (remoteChanges pc) = Some i" "purgeCooldownWindow (remoteChanges pc) \<noteq> 0"
  shows "purgeAfterCooldown env now pc = pc"
  using assms by (simp add: purgeAfterCooldown_def)

section \<open>The first state\<close>

text \<open>A project's cache as \<open>NewProjectAuthzCache\<close> leaves it, at a time \<open>now\<close>.\<close>

definition first_system :: "gotime \<Rightarrow> backend \<Rightarrow> ('rc, 'lc, 'p) projectAuthzCache \<Rightarrow>
    ('rc, 'lc, 'p) cache_system" where
  "first_system now b pc = \<lparr>sy_cache = pc, sy_clock = now, sy_backend = b, sy_log = [], sy_inflight = [],
     sy_floor = now\<rparr>"

lemma first_system_inv:
  assumes "NewProjectAuthzCache new src now projectID = Inr pc" "constructors_ok env wfr wfl new"
  shows "system_inv env wfr wfl (first_system now b pc)"
    and "timer_inv (sy_clock (first_system now b pc)) (sy_cache (first_system now b pc))"
proof -
  note p = NewProjectAuthzCache_inv[OF assms] and f = NewProjectAuthzCache_fields[OF assms(1)]
  show "system_inv env wfr wfl (first_system now b pc)"
    using p(1) by (simp add: system_inv_def first_system_def coherent_no_grants p(2,3) schema_agrees_def f)
  show "timer_inv (sy_clock (first_system now b pc)) (sy_cache (first_system now b pc))"
    by (simp add: timer_inv_def first_system_def f no_timers_def)
qed

end
