(* ===== verification/Examples.thy ===== *)
theory Examples
  imports ServiceLookups Cooldown
begin

text \<open>
  Concrete data for the witnesses: a CEL library whose programs read one boolean parameter, the
  cache a default configuration creates, relations, checks and a schema, and a backend that
  agrees with them.
\<close>

section \<open>CEL\<close>

text \<open>A program is the name of the parameter whose value it returns.\<close>

definition example_cel :: "string cel_ops" where
  "example_cel = \<lparr>cel_NewEnv = None, proto_Unmarshal = (\<lambda>b. None),
     cel_Program = (\<lambda>b. Inr ''office''),
     CoerceContextValue = (\<lambda>ty v. case v of AnyBool b \<Rightarrow> Some v | _ \<Rightarrow> None),
     cel_ContextEval = (\<lambda>p timeout vars. case vars p of
        Some (AnyBool b) \<Rightarrow> Inr (AnyBool b) | _ \<Rightarrow> Inl (PlainError ''no such variable''))\<rparr>"

type_synonym example_cache_type =
  "((cache_key, cachedGrant) lru_list, (cache_key, addr) lru_list, string) projectAuthzCache"

definition example_env :: "((cache_key, cachedGrant) lru_list, (cache_key, addr) lru_list, string) cache_env" where
  "example_env = reference_env example_cel"

lemma example_contract: "cache_contract example_env lru_list_wf lru_list_wf"
  unfolding example_env_def by (rule reference_env.cache_contract_axioms)

section \<open>A project's cache\<close>

text \<open>Small caches: each holds two entries, and the cooldown is one minute.\<close>

definition example_config :: config_source where
  "example_config = \<lparr>
     GetIntOrProvidedLocal = (\<lambda>k d.
        if k = ''AUTHZCACHE_DIRECT_RELATION_CACHE_SIZE_PER_PROJECT'' then 2
        else if k = ''AUTHZCACHE_PURGE_COOLDOWN_WINDOW_IN_MINUTES'' then 1 else d),
     GetBoolOrProvidedLocal = (\<lambda>k d. d),
     ConfigKeyHTTPWriteTimeout = ''HTTP_GATEWAY_WRITE_TIMEOUT''\<rparr>"

definition example_cache :: example_cache_type where
  "example_cache = \<lparr>schemaCache = None, directRelationCache = (2, []),
     directResourcesIndex = Map.empty, directTargetsIndex = Map.empty, directKeyComponents = Map.empty,
     indirectRelationCache = (1000000, []), compiledConditions = Map.empty, loadedSchemaVersion = '''',
     celEvalTimeout = 1000000000, lookupCache = Some (10000, []), lookupCacheEnabled = True,
     lookupCacheTTL = 60000000000, lookupCacheMaxResult = 1000,
     remoteChanges = \<lparr>lastPollTime = 0, remotePollingInterval = 15000000000,
       purgeCooldownWindow = 60000000000, purgeCooldownTimer = None\<rparr>,
     entryHeap = Map.empty, nextEntry = 0, timers = no_timers\<rparr>"

lemma example_new_cache:
  "NewProjectAuthzCache lru_list_constructors example_config 0 ''P'' = Inr example_cache"
  by (simp add: NewProjectAuthzCache_def lru_list_constructors_def example_config_def lru_list_new_def
      go_less_def go_max_def in_millis_def in_seconds_def in_minutes_def example_cache_def
      GetIndirectRelationCacheSizePerProject_def GetDirectRelationCacheSizePerProject_def
      GetLookupCacheEnabled_def GetLookupCacheSizePerProject_def GetCELEvalTimeoutInMillis_def
      GetLookupCacheTTLInSeconds_def GetLookupCacheMaxResultSize_def GetRemotePollingIntervalInMillis_def
      GetPurgeCooldownWindowInMinutes_def)

lemma example_interval: "sint (GetRemotePollingIntervalInMillis example_config) = 15000"
  using sint_word_of_int_range[of 15000]
  by (simp add: GetRemotePollingIntervalInMillis_def example_config_def sint_go_max)

lemma example_constructors: "constructors_ok example_env lru_list_wf lru_list_wf lru_list_constructors"
  unfolding example_env_def by (rule lru_list_constructors_ok)

lemma example_cache_inv: "cache_inv example_env lru_list_wf lru_list_wf example_cache"
  by (rule NewProjectAuthzCache_inv[OF example_new_cache example_constructors])

section \<open>Relations and checks\<close>

definition doc_alice :: FGARelation where
  "doc_alice = \<lparr>Resource = ''doc'', ResourceType = ''file'', Relation = ''owner'', Target = ''alice'',
     TargetType = ''*''\<rparr>"

definition doc_bob :: FGARelation where
  "doc_bob = \<lparr>Resource = ''doc'', ResourceType = ''file'', Relation = ''viewer'', Target = ''bob'',
     TargetType = ''*''\<rparr>"

definition pic_bob :: FGARelation where
  "pic_bob = \<lparr>Resource = ''pic'', ResourceType = ''file'', Relation = ''viewer'', Target = ''bob'',
     TargetType = ''*''\<rparr>"

definition bob_views_doc :: AuthzRelation where
  "bob_views_doc = \<lparr>AR_Resource = ''doc'', AR_RelationDefinition = ''viewer'', AR_Namespace = ''file'',
     AR_Target = ''bob'', AR_TargetSetResource = '''', AR_TargetSetRelationDefinition = '''',
     AR_TargetSetRelationDefinitionNamespace = ''''\<rparr>"

text \<open>Alice owns the document by a direct relation, Bob views it in the office (a condition).\<close>

definition direct_check :: FGACheck where
  "direct_check = \<lparr>Allowed = True, CheckRelation = doc_alice, Info = zero_FGACheckInfo\<lparr>Direct := True\<rparr>\<rparr>"

definition conditional_answer :: FGACheck where
  "conditional_answer = \<lparr>Allowed = True, CheckRelation = doc_bob,
     Info = zero_FGACheckInfo\<lparr>Conditional := True, SchemaVersion := ''v1'', TrueConditions := [7]\<rparr>\<rparr>"

definition example_schema :: FGASchema where
  "example_schema = \<lparr>Schema = ''model'', Version = ''v1'',
     Conditions = [\<lparr>CondName = ''inOffice'', CondID = 7,
       CondParams = [\<lparr>ParamName = ''office'', ParamType = ''bool''\<rparr>], CheckedExpr = [1]\<rparr>]\<rparr>"

definition warm_cache :: example_cache_type where
  "warm_cache = UpdateCacheWithChecks example_env [direct_check, conditional_answer]
     (EnsureSchemaLoaded example_env (Some example_schema) example_cache)"

text \<open>The facts that evaluate the operations on these data.\<close>

lemmas example_simps = example_env_def reference_env_def lru_list_ops_def lru_list_get_def
  lru_list_add_def example_cel_def example_cache_def example_schema_def doc_alice_def doc_bob_def
  pic_bob_def key_def direct_check_def conditional_answer_def zero_FGACheckInfo_def

lemma warm_cache_eq:
  "warm_cache = example_cache\<lparr>schemaCache := Some example_schema,
     directRelationCache := (2, [(''doc:alice:owner'', \<lparr>allowed = True, cond = None\<rparr>)]),
     directResourcesIndex := [''doc'' \<mapsto> [(''alice'', [''doc:alice:owner''])]],
     directTargetsIndex := [''alice'' \<mapsto> [(''doc'', [''doc:alice:owner''])]],
     directKeyComponents := [''doc:alice:owner'' \<mapsto> \<lparr>kc_r = ''doc'', kc_t = ''alice''\<rparr>],
     indirectRelationCache := (1000000, [(''doc:bob:viewer'',
        \<lparr>allowed = True, cond = Some \<lparr>trueConds = [7], falseConds = []\<rparr>\<rparr>)]),
     compiledConditions := [7 \<mapsto> \<lparr>cc_name = ''inOffice'', cc_program = ''office'',
        cc_params = [\<lparr>ParamName = ''office'', ParamType = ''bool''\<rparr>]\<rparr>],
     loadedSchemaVersion := ''v1''\<rparr>"
  by (simp add: warm_cache_def EnsureSchemaLoaded_def setSchema_def Let_def Compile_def example_simps
      UpdateCacheWithChecks_def cacheCheck_def cacheable_grant_def addDirectRelation_def
      addIndirectRelation_def runEvictions_def addKeyToDirectResourceIndex_def addKeyToDirectTargetIndex_def)

lemma warm_cache_grants:
  "direct_grants example_env warm_cache = [''doc:alice:owner'' \<mapsto> \<lparr>allowed = True, cond = None\<rparr>]"
  "indirect_grants example_env warm_cache =
     [''doc:bob:viewer'' \<mapsto> \<lparr>allowed = True, cond = Some \<lparr>trueConds = [7], falseConds = []\<rparr>\<rparr>]"
  by (simp_all add: warm_cache_eq direct_grants_def indirect_grants_def example_env_def reference_env_def
      lru_list_content fun_eq_iff)

section \<open>The backend\<close>

definition example_backend :: backend where
  "example_backend = \<lparr>universe = {doc_alice, doc_bob, pic_bob},
     truth = (\<lambda>r ctx. if r = doc_alice then True
                      else if r = doc_bob then ctx ''office'' = Some (AnyBool True) else False),
     reported_direct = (\<lambda>r. r = doc_alice),
     cond_value = (\<lambda>ver cid ctx. case ctx ''office'' of Some (AnyBool b) \<Rightarrow> Some b | _ \<Rightarrow> None)\<rparr>"

lemma example_keys: "keys_identify example_backend"
  by (simp add: keys_identify_def example_backend_def example_simps)

lemma example_edge: "edge_agrees example_cel example_backend example_schema"
  by (auto simp: edge_agrees_def example_schema_def Compile_def example_cel_def example_backend_def Eval_def
      split: option.splits gany.splits)

lemma example_fresh: "fresh_check example_backend [] direct_check" "fresh_check example_backend [] conditional_answer"
  by (simp_all add: fresh_check_def versioned_check_def certified_def fresh_grant_def grant_true_def
      cert_holds_def direct_check_def conditional_answer_def zero_FGACheckInfo_def example_backend_def
      doc_alice_def doc_bob_def split: option.splits gany.splits)

lemma example_unchanged: "modifies m example_backend example_backend"
  by (simp add: modifies_def)

lemma example_cache_ok: "cache_ok example_env lru_list_wf lru_list_wf example_backend example_cache"
  using cache_contract.cache_ok_new[OF example_contract example_new_cache example_constructors] .

lemma example_cel_env [simp]: "cel example_env = example_cel"
  by (simp add: example_env_def reference_env_def)

lemma warm_cache_ok: "cache_ok example_env lru_list_wf lru_list_wf example_backend warm_cache"
  unfolding warm_cache_def
  using cache_contract.cache_ok_load[OF example_contract example_cache_ok, of example_schema]
    example_edge example_fresh
  by (intro cache_contract.cache_ok_checks[OF example_contract]) auto

lemma warm_cache_inv: "cache_inv example_env lru_list_wf lru_list_wf warm_cache"
  "coherent example_env example_backend [] warm_cache"
  using warm_cache_ok by (simp_all add: cache_ok_def)

section \<open>The system\<close>

text \<open>A run: the schema is loaded, the backend answers two checks, the cache stores them, and a
  minute later the backend deletes the picture's relations.\<close>

definition example_first :: "((cache_key, cachedGrant) lru_list, (cache_key, addr) lru_list, string) cache_system" where
  "example_first = first_system 0 example_backend example_cache"

definition example_warm :: "((cache_key, cachedGrant) lru_list, (cache_key, addr) lru_list, string) cache_system" where
  "example_warm = example_first\<lparr>sy_cache := warm_cache,
     sy_inflight := [(0, 0, [direct_check, conditional_answer])]\<rparr>"

definition pic_modified :: AuthzModified where
  "pic_modified = \<lparr>ModResources = [''pic''], ModTargets = [], SchemaChanged = False\<rparr>"

definition example_late :: "((cache_key, cachedGrant) lru_list, (cache_key, addr) lru_list, string) cache_system" where
  "example_late = example_warm\<lparr>sy_log := [(0, pic_modified)]\<rparr>"

text \<open>No error of the examples is classified by the SDK as one of a code.\<close>

definition no_code :: "goerror \<Rightarrow> string \<Rightarrow> bool" where
  "no_code err code = False"

text \<open>The tick at which the backend has nothing to report.\<close>

definition quiet_tick :: "gotime \<Rightarrow> (gotime \<Rightarrow> goerror + AuthzModified) \<times> gotime \<times> gotime" where
  "quiet_tick t = (\<lambda>since. Inr \<lparr>ModResources = [], ModTargets = [], SchemaChanged = False\<rparr>, t, t)"

lemma example_warm_reachable: "(system_step example_env no_code)\<^sup>*\<^sup>* example_first example_warm"
proof -
  let ?s0 = example_first
  let ?pc1 = "EnsureSchemaLoaded example_env (Some example_schema) example_cache"
  let ?s1 = "?s0\<lparr>sy_cache := ?pc1\<rparr>"
  let ?s2 = "?s1\<lparr>sy_inflight := [(0, 0, [direct_check, conditional_answer])]\<rparr>"
  have f: "sy_cache ?s0 = example_cache" "sy_backend ?s0 = example_backend" "sy_clock ?s0 = 0"
    "sy_log ?s0 = []" "sy_inflight ?s0 = []"
    by (simp_all add: example_first_def first_system_def)
  have "system_step example_env no_code ?s0 ?s1"
    using system_step.load_schema[of "Some example_schema" example_env ?s0 no_code] example_edge
    by (simp add: f)
  moreover have "system_step example_env no_code ?s1 ?s2"
  proof -
    have fresh: "fresh_check (sy_backend ?s1) [] c" if "c \<in> set [direct_check, conditional_answer]" for c
      using that example_fresh by (auto simp: f)
    have "?s1\<lparr>sy_inflight := sy_inflight ?s1 @ [(length (sy_log ?s1), sy_clock ?s1,
        [direct_check, conditional_answer])]\<rparr> = ?s2"
      by (simp add: f)
    then show ?thesis
      using system_step.answer[where s = ?s1 and env = example_env and IsError = no_code, OF fresh] by metis
  qed
  moreover have "system_step example_env no_code ?s2 example_warm"
    using system_step.store[of 0 0 "[direct_check, conditional_answer]" ?s2 example_env no_code]
    by (simp add: example_warm_def warm_cache_def example_first_def first_system_def)
  ultimately show ?thesis by (meson rtranclp.rtrancl_refl rtranclp.rtrancl_into_rtrancl)
qed

lemma example_late_reachable: "(system_step example_env no_code)\<^sup>*\<^sup>* example_first example_late"
proof -
  have f: "sy_clock example_warm = 0" "sy_backend example_warm = example_backend" "sy_log example_warm = []"
    by (simp_all add: example_warm_def example_first_def first_system_def)
  have "backend_step (sy_clock example_warm, sy_backend example_warm, sy_log example_warm)
      (0, example_backend, [(0, pic_modified)])"
    using backend_step.backend_changes[OF example_unchanged, of 0 "[]" pic_modified] by (simp add: f)
  from system_step.backend[OF this, of example_env no_code]
  have "system_step example_env no_code example_warm
      (example_warm\<lparr>sy_clock := 0, sy_backend := example_backend, sy_log := [(0, pic_modified)]\<rparr>)" .
  moreover have "example_warm\<lparr>sy_clock := 0, sy_backend := example_backend, sy_log := [(0, pic_modified)]\<rparr> = example_late"
    by (simp add: example_late_def example_warm_def example_first_def first_system_def)
  ultimately show ?thesis using example_warm_reachable by (metis rtranclp.rtrancl_into_rtrancl)
qed

lemma example_late_untold: "untold example_late = [pic_modified]"
  by (simp add: untold_def example_late_def example_warm_def pending_def example_first_def first_system_def)

text \<open>The next poll fails, which starts the cooldown.\<close>

definition example_failing :: "((cache_key, cachedGrant) lru_list, (cache_key, addr) lru_list, string) cache_system" where
  "example_failing = (let pc = updateCacheWithRemotePolling example_env no_code
        (\<lambda>since. Inl (PlainError ''timeout'')) 0 0 warm_cache
     in example_warm\<lparr>sy_cache := pc, sy_floor := new_floor example_env example_warm pc\<rparr>)"

lemma example_failing_reachable: "(system_step example_env no_code)\<^sup>*\<^sup>* example_first example_failing"
proof -
  have f: "sy_clock example_warm = 0" "sy_backend example_warm = example_backend" "sy_log example_warm = []"
    "sy_cache example_warm = warm_cache"
    by (simp_all add: example_warm_def example_first_def first_system_def)
  let ?pc = "updateCacheWithRemotePolling example_env no_code (\<lambda>since. Inl (PlainError ''timeout'')) 0 0 warm_cache"
  let ?s = "example_warm\<lparr>sy_clock := 0, sy_backend := example_backend, sy_log := [],
        sy_cache := ?pc, sy_floor := new_floor example_env example_warm ?pc\<rparr>"
  have "system_step example_env no_code example_warm ?s"
    by (rule system_step.poll) (simp_all add: f)
  moreover have "?s = example_failing"
    by (simp add: example_failing_def Let_def example_warm_def example_first_def first_system_def)
  ultimately show ?thesis using example_warm_reachable by (metis rtranclp.rtrancl_into_rtrancl)
qed

lemma example_failing_timer: "purgeCooldownTimer (remoteChanges (sy_cache example_failing)) = Some 0"
proof -
  have n: "\<not> noRelations example_env warm_cache"
    by (simp add: noRelations_def warm_cache_eq example_env_def reference_env_def lru_list_ops_def)
  have "sy_cache example_failing = purgeAfterCooldown example_env 0 warm_cache"
    using cache_contract.poll_failure[OF example_contract n, where
        GetModified = "\<lambda>since. Inl (PlainError ''timeout'')" and IsError = no_code]
    by (simp add: example_failing_def Let_def no_code_def)
  then show ?thesis
    by (simp add: purgeAfterCooldown_def AfterFunc_def Let_def warm_cache_eq example_cache_def no_timers_def)
qed

section \<open>Metrics\<close>

text \<open>A \<open>Check\<close> answered from the cache, and one that sent five relations to the SDK.\<close>

definition example_hit :: CallMetrics where
  "example_hit = \<lparr>CacheHit = True, CandidatesCount = 0, FilteredCount = 0, ResultSize = 1, DurationMs = 2\<rparr>"

definition example_miss :: CallMetrics where
  "example_miss = \<lparr>CacheHit = False, CandidatesCount = 5, FilteredCount = 0, ResultSize = 5, DurationMs = 9\<rparr>"

section \<open>The service\<close>

text \<open>The world is the clock. The SDK answers from \<open>example_backend\<close>.\<close>

definition example_answer :: "reqcontext \<Rightarrow> FGARelation \<Rightarrow> FGACheck" where
  "example_answer ctx r =
    (if r = doc_alice then direct_check
     else if r = doc_bob then
       (case ctx ''office'' of
          Some (AnyBool True) \<Rightarrow> conditional_answer
        | Some (AnyBool False) \<Rightarrow> \<lparr>Allowed = False, CheckRelation = doc_bob,
            Info = zero_FGACheckInfo\<lparr>Conditional := True, SchemaVersion := ''v1'', FalseConditions := [7]\<rparr>\<rparr>
        | _ \<Rightarrow> \<lparr>Allowed = False, CheckRelation = doc_bob,
            Info = zero_FGACheckInfo\<lparr>Conditional := True, SchemaVersion := ''v1'', MissingContext := [''office'']\<rparr>\<rparr>)
     else \<lparr>Allowed = False, CheckRelation = r, Info = zero_FGACheckInfo\<rparr>)"

definition example_sdk :: "gotime sdk_ops" where
  "example_sdk = \<lparr>NewManagement = (\<lambda>pid w. (None, w)),
     SaveSchema = (\<lambda>pid s w. (None, w)), LoadSchema = (\<lambda>pid w. (Inr example_schema, w)),
     CreateRelations = (\<lambda>pid rels w. (None, w)), DeleteRelations = (\<lambda>pid rels w. (None, w)),
     CheckWithContext = (\<lambda>pid rs ctx w. (Inr (map (example_answer ctx) rs), w)),
     SDK_WhoCanAccess = (\<lambda>pid r d n w. (Inr [''alice''], w)),
     SDK_WhatCanTargetAccess = (\<lambda>pid t w. (Inr [], w)), Now = (\<lambda>w. w)\<rparr>"

definition example_service :: "((cache_key, cachedGrant) lru_list, (cache_key, addr) lru_list, string, gotime) service_env" where
  "example_service = \<lparr>cenv = example_env, lrus = lru_list_constructors, settings = example_config, sdk = example_sdk\<rparr>"

lemma example_answer_ok:
  "CheckRelation (example_answer ctx r) = r"
  "r \<in> universe example_backend \<Longrightarrow> fresh_check example_backend [] (example_answer ctx r) \<and>
     Allowed (example_answer ctx r) = truth example_backend r ctx"
proof -
  show "CheckRelation (example_answer ctx r) = r"
    by (auto simp: example_answer_def direct_check_def conditional_answer_def split: option.splits gany.splits bool.splits)
  show "r \<in> universe example_backend \<Longrightarrow> fresh_check example_backend [] (example_answer ctx r) \<and>
     Allowed (example_answer ctx r) = truth example_backend r ctx"
    by (auto simp: example_answer_def fresh_check_def versioned_check_def certified_def fresh_grant_def
        grant_true_def cert_holds_def direct_check_def conditional_answer_def zero_FGACheckInfo_def
        example_backend_def split: option.splits gany.splits bool.splits)
qed

lemma example_sdk_ok: "sdk_ok example_service (\<lambda>w pid. example_backend)"
  using example_answer_ok example_edge
  by (auto simp: sdk_ok_def example_service_def example_sdk_def list_all2_conv_all_nth writes_def
      example_unchanged)

definition example_start :: "((cache_key, cachedGrant) lru_list, (cache_key, addr) lru_list, string) authzCache" where
  "example_start = NewAuthzCache (Some NewCollector)"

definition example_running :: "((cache_key, cachedGrant) lru_list, (cache_key, addr) lru_list, string) authzCache" where
  "example_running = put_cache ''P'' warm_cache (NewAuthzCache (Some NewCollector))"

lemma example_service_fields [simp]:
  "cenv example_service = example_env" "lrus example_service = lru_list_constructors"
  by (simp_all add: example_service_def)

lemma example_service_ok:
  "service_ok example_service lru_list_wf lru_list_wf (\<lambda>w pid. example_backend) example_start w"
  "service_ok example_service lru_list_wf lru_list_wf (\<lambda>w pid. example_backend) example_running w"
  using warm_cache_ok
  by (auto simp: service_ok_def example_start_def example_running_def NewAuthzCache_def split: if_splits)


text \<open>Alice's ownership is answered from the cache.\<close>

lemma example_cached_check:
  "\<exists>cs a'. Check example_service ''P'' [doc_alice] Map.empty example_running w = (Inr cs, a', w)"
proof -
  obtain res a' w' where run: "Check example_service ''P'' [doc_alice] Map.empty example_running w = (res, a', w')"
    by (metis prod_cases3)
  have p: "projects example_running ''P'' = Some warm_cache" by (simp add: example_running_def)
  have "filter (\<lambda>r. served example_env warm_cache Map.empty r = None) [doc_alice] = []"
    by (simp add: served_def cached_grant_def warm_cache_grants key_def doc_alice_def)
  from cache_contract.Check_calls(1)[OF example_contract example_service_fields(1) p
      cache_invD(1)[OF warm_cache_inv(1)] run this] run show ?thesis by auto
qed

section \<open>Cached lookups\<close>

text \<open>The cache after the SDK has been asked who can view the document and what Bob can access.\<close>

definition looked_cache :: example_cache_type where
  "looked_cache = SetWhatCanTargetAccessCached example_env 0 ''bob'' [bob_views_doc]
     (SetWhoCanAccessCached example_env 0 ''doc'' ''viewer'' ''file'' [''bob''] warm_cache)"

definition bob_entry :: LookupCacheEntry where
  "bob_entry = \<lparr>Results = [''bob''], CachedAt = 0, ExpiresAt = 60000000000\<rparr>"

definition doc_entry :: LookupCacheEntry where
  "doc_entry = \<lparr>Results = [''doc|viewer|file''], CachedAt = 0, ExpiresAt = 60000000000\<rparr>"

lemma example_lookup_size: "\<not> go_less (1000 :: go_int) (go_len [x])"
  using sint_go_len[of "[x]"] sint_word_of_int_range[of 1000] by (simp add: go_less_def)

lemma looked_cache_eq:
  "looked_cache = warm_cache\<lparr>lookupCache := Some (10000,
       [(whatCanTargetAccessKey ''bob'', 1), (whoCanAccessKey ''doc'' ''viewer'' ''file'', 0)]),
     entryHeap := [0 \<mapsto> bob_entry, 1 \<mapsto> doc_entry], nextEntry := 2\<rparr>"
proof -
  have w: "lookupCache warm_cache = Some (10000, [])" "lookupCacheEnabled warm_cache" "entryHeap warm_cache = Map.empty"
    "nextEntry warm_cache = 0" "lookupCacheTTL warm_cache = 60000000000" "lookupCacheMaxResult warm_cache = 1000"
    by (simp_all add: warm_cache_eq example_cache_def)
  have "SetWhoCanAccessCached example_env 0 ''doc'' ''viewer'' ''file'' [''bob''] warm_cache =
      warm_cache\<lparr>lookupCache := Some (10000, [(whoCanAccessKey ''doc'' ''viewer'' ''file'', 0)]),
        entryHeap := [0 \<mapsto> bob_entry], nextEntry := 1\<rparr>"
    using example_lookup_size[of "''bob''"]
    by (simp add: SetWhoCanAccessCached_def store_entry_def lookup_disabled_def w example_env_def reference_env_def
        lru_list_ops_def lru_list_add_def bob_entry_def)
  then show ?thesis
    using example_lookup_size[of bob_views_doc] lookup_keys_differ
    by (simp add: looked_cache_def SetWhatCanTargetAccessCached_def store_entry_def lookup_disabled_def w
        example_env_def reference_env_def lru_list_ops_def lru_list_add_def doc_entry_def bob_views_doc_def
        encode_relation_def)
qed

lemma looked_cache_entries:
  "lookup_entries example_env looked_cache (whoCanAccessKey ''doc'' ''viewer'' ''file'') = Some bob_entry"
  "lookup_entries example_env looked_cache (whatCanTargetAccessKey ''bob'') = Some doc_entry"
  "\<not> lookup_disabled looked_cache"
  using lookup_keys_differ
  by (simp_all add: lookup_entries_def looked_cache_eq example_env_def reference_env_def lru_list_content
      lookup_disabled_def warm_cache_eq example_cache_def)

lemma looked_cache_ok: "cache_ok example_env lru_list_wf lru_list_wf example_backend looked_cache"
proof -
  have li: "lookup_inv example_env lru_list_wf warm_cache" using warm_cache_inv(1) by (rule cache_invD)
  note who = cache_contract.SetWhoCanAccessCached_spec[OF example_contract li]
  note what = cache_contract.SetWhatCanTargetAccessCached_spec[OF example_contract who(1)]
  show ?thesis
    unfolding looked_cache_def
    by (rule cache_contract.cache_ok_lookup[OF example_contract
          cache_contract.cache_ok_lookup[OF example_contract warm_cache_ok who(2,1)] what(2,1)])
qed

definition example_looked :: "((cache_key, cachedGrant) lru_list, (cache_key, addr) lru_list, string) authzCache" where
  "example_looked = put_cache ''P'' looked_cache (NewAuthzCache (Some NewCollector))"

lemma example_looked_ok:
  "service_ok example_service lru_list_wf lru_list_wf (\<lambda>w pid. example_backend) example_looked w"
  "projects example_looked ''P'' = Some looked_cache"
  using looked_cache_ok by (auto simp: service_ok_def example_looked_def NewAuthzCache_def split: if_splits)

text \<open>The context in which Bob is at home.\<close>

definition at_home :: reqcontext where
  "at_home = [''office'' \<mapsto> AnyBool False]"

lemma example_setup: "cache_contract (cenv example_service) lru_list_wf lru_list_wf"
  "constructors_ok (cenv example_service) lru_list_wf lru_list_wf (lrus example_service)"
  using example_contract example_constructors by simp_all

lemma example_universe: "universe example_backend = {doc_alice, doc_bob, pic_bob}"
  by (simp add: example_backend_def)

text \<open>What the cached lookups hold is Bob's access, which he has not at home; the SDK answers every call.\<close>

lemma example_bob:
  "who_relation ''doc'' ''viewer'' ''file'' ''bob'' = doc_bob"
  "decode_relations ''bob'' (Results doc_entry) = [bob_views_doc]" "what_relation ''bob'' bob_views_doc = doc_bob"
  "\<not> truth example_backend doc_bob at_home" "ExpiresAt doc_entry = 60000000000"
  by (simp_all add: who_relation_def doc_bob_def what_relation_def bob_views_doc_def example_backend_def doc_alice_def
      at_home_def doc_entry_def eval_nat_numeral)

lemma example_now: "Now (sdk example_service) w = w"
  by (simp add: example_service_def example_sdk_def)

lemma example_sdk_answers:
  assumes "projects a ''P'' = Some pc"
  shows "fst (getOrCreateProjectCache example_service ''P'' a w) = Inr pc"
    "fst (SDK_WhoCanAccess (sdk example_service) pid r d n w1) \<noteq> Inl err"
    "fst (SDK_WhatCanTargetAccess (sdk example_service) pid t w1) \<noteq> Inl err"
    "fst (CheckWithContext (sdk example_service) pid rs ctx w1) \<noteq> Inl err"
  using assms by (simp_all add: getOrCreateProjectCache_def example_service_def example_sdk_def)

end
