(* ===== verification/CacheProperties.thy ===== *)
theory CacheProperties
  imports Examples
begin

text \<open>
  The properties of a project's cache: reading, storing and invalidating grants, schemas and
  conditions, polling, and the lookup cache. Each holds for every environment that meets
  \<open>cache_contract\<close>; its witness applies it to the caches of \<open>Examples\<close>.
\<close>

section \<open>Reading\<close>

text \<open>\<open>CheckRelations\<close> splits a request exactly: the checks are the answers of the relations
  that have one, in order; the unchecked relations are the others, in order; the index holds each
  answer at its relation's position; and nothing that decides an answer changes.\<close>

theorem check_relations_partition:
  assumes "cache_contract env wfr wfl" "cache_inv env wfr wfl pc"
    "CheckRelations env pc rs ctx = ((checks, pending_rs, idx), pc')"
  shows "checks = List.map_filter (served env pc ctx) rs \<and>
    pending_rs = filter (\<lambda>r. served env pc ctx r = None) rs \<and>
    idx = (\<lambda>i. if i < length rs then served env pc ctx (rs ! i) else None) \<and>
    (\<forall>ctx' r. served env pc' ctx' r = served env pc ctx' r) \<and> cache_inv env wfr wfl pc'"
proof -
  note wf = cache_invD(1)[OF assms(2)]
  note spec = cache_contract.CheckRelations_spec[OF assms(1) wf assms(3)]
  show ?thesis
    using spec(1-3) reads_alike_served[OF spec(5)]
      cache_contract.CheckRelations_inv(1)[OF assms(1,2,3)] by blast
qed

theorem check_relations_partition_witness:
  "\<exists>pc'. CheckRelations example_env warm_cache [doc_alice, pic_bob] Map.empty =
      (([unconditional_check \<lparr>allowed = True, cond = None\<rparr> True doc_alice], [pic_bob],
        [0 \<mapsto> unconditional_check \<lparr>allowed = True, cond = None\<rparr> True doc_alice]), pc')"
proof -
  obtain checks pending_rs idx pc' where run:
    "CheckRelations example_env warm_cache [doc_alice, pic_bob] Map.empty = ((checks, pending_rs, idx), pc')"
    by (cases "CheckRelations example_env warm_cache [doc_alice, pic_bob] Map.empty") (metis prod_cases3)
  note p = check_relations_partition[OF example_contract warm_cache_inv(1) run]
  have s: "served example_env warm_cache Map.empty doc_alice =
      Some (unconditional_check \<lparr>allowed = True, cond = None\<rparr> True doc_alice)"
    "served example_env warm_cache Map.empty pic_bob = None"
    by (simp_all add: served_def cached_grant_def warm_cache_grants key_def doc_alice_def pic_bob_def)
  show ?thesis
    using p run by (auto simp: map_filter_simps s fun_eq_iff less_Suc_eq)
qed

text \<open>C19. When a read serves a cached grant. At the position of a relation with a cached grant (the
  direct one if there is one, else the indirect one) the index of \<open>CheckRelations\<close> holds the grant's
  answer, for an unconditional grant whatever the context is, and for a conditional one exactly when its
  certificate names some condition and the request's context makes every recorded condition, as
  compiled from the schema held, evaluate to the value it had when the grant was stored. A
  relation without an answer at its position is one the SDK is asked about, and no other is.\<close>

theorem conditional_served_iff:
  assumes "cache_contract env wfr wfl" "cache_inv env wfr wfl pc"
    "CheckRelations env pc rs ctx = ((checks, us, idx), pc')" "i < length rs"
    "(if direct then direct_grants env pc (key (rs ! i)) = Some g
      else direct_grants env pc (key (rs ! i)) = None \<and> indirect_grants env pc (key (rs ! i)) = Some g)"
  shows "idx i = (case cond g of
      None \<Rightarrow> Some (unconditional_check g direct (rs ! i))
    | Some cert \<Rightarrow>
        if (trueConds cert \<noteq> [] \<or> falseConds cert \<noteq> []) \<and>
           (\<forall>cid\<in>set (trueConds cert). \<exists>cc. compiledConditions pc cid = Some cc \<and>
              Eval (cel env) cc ctx (celEvalTimeout pc) = (True, True)) \<and>
           (\<forall>cid\<in>set (falseConds cert). \<exists>cc. compiledConditions pc cid = Some cc \<and>
              Eval (cel env) cc ctx (celEvalTimeout pc) = (False, True))
        then Some (conditional_check g (rs ! i)) else None)
    \<and> (rs ! i \<in> set us \<longleftrightarrow> idx i = None) \<and> (\<forall>c. idx i = Some c \<longrightarrow> c \<in> set checks)"
proof -
  note spec = cache_contract.CheckRelations_spec[OF assms(1) cache_invD(1)[OF assms(2)] assms(3)]
  have idx: "idx i = served env pc ctx (rs ! i)" using spec(3) assms(4) by simp
  have grant: "cached_grant env pc (key (rs ! i)) = Some (g, direct)"
    using assms(5) by (simp add: cached_grant_def split: if_splits)
  have "c \<in> set checks" if "served env pc ctx (rs ! i) = Some c" for c
    using that nth_mem[OF assms(4)] by (force simp: spec(1) List.map_filter_def image_iff)
  then show ?thesis
    using nth_mem[OF assms(4)] unfolding idx spec(2)
    by (simp add: served_def grant certMatches_iff conditionsEvalTo_iff split: option.splits)
qed

theorem conditional_served_iff_witness:
  "\<exists>checks us idx pc'. CheckRelations example_env warm_cache [doc_bob] at_home = ((checks, us, idx), pc') \<and>
     idx 0 = None \<and> doc_bob \<in> set us"
proof -
  let ?g = "\<lparr>allowed = True, cond = Some \<lparr>trueConds = [7], falseConds = []\<rparr>\<rparr>"
  have g: "if False then direct_grants example_env warm_cache (key ([doc_bob] ! 0)) = Some ?g
      else direct_grants example_env warm_cache (key ([doc_bob] ! 0)) = None \<and>
        indirect_grants example_env warm_cache (key ([doc_bob] ! 0)) = Some ?g"
    by (simp add: warm_cache_grants key_def doc_bob_def)
  obtain checks us idx pc' where run: "CheckRelations example_env warm_cache [doc_bob] at_home = ((checks, us, idx), pc')"
    by (cases "CheckRelations example_env warm_cache [doc_bob] at_home") (metis prod_cases3)
  have "idx 0 = None \<and> doc_bob \<in> set us"
    using conditional_served_iff[OF example_contract warm_cache_inv(1) run _ g]
    by (simp add: warm_cache_eq Eval_def example_cel_def at_home_def)
  then show ?thesis using run by blast
qed

section \<open>Storing\<close>

text \<open>C20. A grant found after \<open>UpdateCacheWithChecks\<close> that was not there before comes from one of
  the fetched checks: one that used no facts, with its answer, and, when it is conditional, one
  evaluated under the loaded schema version, without missing context or error, whose certificate
  is not empty and names compiled conditions only.\<close>

theorem only_certified_checks_stored:
  assumes "cache_contract env wfr wfl" "cache_inv env wfr wfl pc" "\<forall>c\<in>set cs. versioned_check c"
    "holds_grant env (UpdateCacheWithChecks env cs pc) k g"
  shows "holds_grant env pc k g \<or> (\<exists>c\<in>set cs. k = key (CheckRelation c) \<and> allowed g = Allowed c \<and>
    \<not> FactUsed (Info c) \<and> (cond g = None \<longleftrightarrow> \<not> Conditional (Info c)) \<and>
    (\<forall>cert. cond g = Some cert \<longrightarrow> SchemaVersion (Info c) = loadedSchemaVersion pc \<and>
       MissingContext (Info c) = [] \<and> ConditionalErr (Info c) = '''' \<and>
       trueConds cert = TrueConditions (Info c) \<and> falseConds cert = FalseConditions (Info c) \<and>
       (trueConds cert \<noteq> [] \<or> falseConds cert \<noteq> []) \<and>
       set (trueConds cert) \<union> set (falseConds cert) \<subseteq> dom (compiledConditions pc)))"
proof -
  have "holds_grant env pc k g \<or> (\<exists>c\<in>set cs. k = key (CheckRelation c) \<and> cacheable_grant pc c = Some g)"
    using cache_contract.UpdateCacheWithChecks_inv(2)[OF assms(1,2) _ assms(4)] assms(3) by blast
  then show ?thesis
  proof (elim disjE bexE conjE)
    fix c assume c: "c \<in> set cs" "k = key (CheckRelation c)" "cacheable_grant pc c = Some g"
    show ?thesis
      using c(3) by (intro disjI2 bexI[OF _ c(1)]) (auto simp: cacheable_grant_Some_iff c(2) split: if_splits)
  qed simp
qed

theorem only_certified_checks_stored_witness:
  "\<exists>g. holds_grant example_env warm_cache ''doc:bob:viewer'' g \<and>
     (\<exists>c\<in>{direct_check, conditional_answer}. key (CheckRelation c) = ''doc:bob:viewer'' \<and>
        allowed g = Allowed c \<and> \<not> FactUsed (Info c))"
proof -
  let ?pc = "EnsureSchemaLoaded example_env (Some example_schema) example_cache"
  let ?g = "\<lparr>allowed = True, cond = Some \<lparr>trueConds = [7], falseConds = []\<rparr>\<rparr>"
  have inv: "cache_inv example_env lru_list_wf lru_list_wf ?pc"
    by (rule cache_contract.EnsureSchemaLoaded_inv(1)[OF example_contract example_cache_inv])
  have v: "\<forall>c\<in>set [direct_check, conditional_answer]. versioned_check c"
    by (simp add: versioned_check_def direct_check_def conditional_answer_def zero_FGACheckInfo_def)
  have h: "holds_grant example_env warm_cache ''doc:bob:viewer'' ?g"
    by (simp add: holds_grant_def warm_cache_grants)
  have no: "\<not> holds_grant example_env ?pc k g" for k g
    using NewProjectAuthzCache_inv(2,3)[OF example_new_cache example_constructors]
    by (simp add: holds_grant_def EnsureSchemaLoaded_def)
  show ?thesis
    using only_certified_checks_stored[OF example_contract inv v h[unfolded warm_cache_def]] no h by auto
qed

text \<open>C21. Adding a direct relation stores its grant under its key, at the price of the entries the
  LRU cache evicts and no other; whatever is stored stays listed in both indexes.\<close>

theorem add_direct_relation_exact:
  assumes "cache_contract env wfr wfl" "cache_inv env wfr wfl pc"
  shows "direct_grants env (addDirectRelation env r g pc) =
      ((direct_grants env pc)(key r \<mapsto> g)) |` (- lru_evicted (rel_lru env) (directRelationCache pc) (key r) g)
    \<and> direct_grants env (addDirectRelation env r g pc) (key r) = Some g
    \<and> direct_indexed env (addDirectRelation env r g pc)
    \<and> indirect_grants env (addDirectRelation env r g pc) = indirect_grants env pc"
proof -
  note inv = cache_invD[OF assms(2)]
  note a = cache_contract.addDirectRelation_grants[OF assms(1) inv(1), of r g]
  show ?thesis
    using a cache_contract.addDirectRelation_stored[OF assms(1) inv(1), of r g]
      cache_contract.addDirectRelation_indexed[OF assms(1) inv(1,2)] by (simp add: restrict_map_def)
qed

theorem add_direct_relation_exact_witness:
  "direct_grants example_env (addDirectRelation example_env pic_bob \<lparr>allowed = False, cond = None\<rparr> warm_cache)
     ''pic:bob:viewer'' = Some \<lparr>allowed = False, cond = None\<rparr>"
proof -
  have k: "''pic:bob:viewer'' = key pic_bob" by (simp add: key_def pic_bob_def)
  show ?thesis
    unfolding k using add_direct_relation_exact[OF example_contract warm_cache_inv(1)] by blast
qed

section \<open>Invalidating\<close>

text \<open>Invalidating a resource removes exactly the direct grants listed under it, among them
  every grant of a relation with that resource, and leaves the indirect grants alone.\<close>

theorem remove_by_resource_exact:
  assumes "cache_contract env wfr wfl" "cache_inv env wfr wfl pc"
  shows "direct_grants env (removeDirectRelationsByResource env r pc) =
      direct_grants env pc |` (- {k. \<exists>t. k \<in> set (resource_keys pc r t)})
    \<and> (\<forall>k c. directKeyComponents pc k = Some c \<and> kc_r c = r \<longrightarrow>
         direct_grants env (removeDirectRelationsByResource env r pc) k = None)
    \<and> indirect_grants env (removeDirectRelationsByResource env r pc) = indirect_grants env pc
    \<and> cache_inv env wfr wfl (removeDirectRelationsByResource env r pc)"
proof -
  note inv = cache_invD[OF assms(2)]
  have wf: "wfr (directRelationCache pc)" using inv(1) by (simp add: caches_wf_def)
  have "direct_grants env (removeDirectRelationsByResource env r pc) k = None"
    if "directKeyComponents pc k = Some c" "kc_r c = r" for k c
  proof (rule ccontr)
    assume "\<not> ?thesis"
    then obtain g where "direct_grants env (removeDirectRelationsByResource env r pc) k = Some g" by auto
    from cache_contract.removeByResource_indexed(2)[OF assms(1) inv(1,2) this] that show False by auto
  qed
  moreover have "indirect_grants env (removeDirectRelationsByResource env r pc) = indirect_grants env pc"
    by (rule indirect_grants_cong) simp
  ultimately show ?thesis
    using cache_contract.removeByResource_cache(2)[OF assms(1) wf, of r]
      cache_contract.remove_inv[OF assms(1,2), of "removeDirectRelationsByResource env r pc" r] by auto
qed

theorem remove_by_resource_exact_witness:
  "direct_grants example_env (removeDirectRelationsByResource example_env ''doc'' warm_cache)
     ''doc:alice:owner'' = None"
  using remove_by_resource_exact[OF example_contract warm_cache_inv(1), of "''doc''"]
  by (auto simp: warm_cache_eq)

text \<open>\<open>purgeAllCaches\<close> leaves no grant, no lookup entry, no schema, no compiled condition and no
  index, and moves the poll time to the present.\<close>

theorem purge_all_empties:
  assumes "cache_contract env wfr wfl" "cache_inv env wfr wfl pc"
  shows "direct_grants env (purgeAllCaches env now pc) = Map.empty
    \<and> indirect_grants env (purgeAllCaches env now pc) = Map.empty
    \<and> lookup_entries env (purgeAllCaches env now pc) = Map.empty
    \<and> schemaCache (purgeAllCaches env now pc) = None
    \<and> compiledConditions (purgeAllCaches env now pc) = Map.empty
    \<and> directResourcesIndex (purgeAllCaches env now pc) = Map.empty
    \<and> directTargetsIndex (purgeAllCaches env now pc) = Map.empty
    \<and> directKeyComponents (purgeAllCaches env now pc) = Map.empty
    \<and> lastPollTime (remoteChanges (purgeAllCaches env now pc)) = now
    \<and> cache_inv env wfr wfl (purgeAllCaches env now pc)"
  using cache_contract.purgeAllCaches_spec[OF assms] cache_contract.purgeAllCaches_inv[OF assms] by simp

theorem purge_all_empties_witness:
  "direct_grants example_env (purgeAllCaches example_env 9 warm_cache) = Map.empty \<and>
   lastPollTime (remoteChanges (purgeAllCaches example_env 9 warm_cache)) = 9"
  using purge_all_empties[OF example_contract warm_cache_inv(1), of 9] by simp


section \<open>Schemas\<close>

text \<open>C23. Saving a schema empties the relation and lookup caches and compiles exactly the conditions
  that can be compiled, so that every identifier that has a compiled condition belongs to a
  condition of the schema.\<close>

theorem schema_replaces_everything:
  assumes "cache_contract env wfr wfl" "cache_inv env wfr wfl pc"
    "pc' = UpdateCacheWithSchema env (Some s) pc"
  shows "GetSchema pc' = Some s \<and> loadedSchemaVersion pc' = Version s
    \<and> dom (compiledConditions pc') = {CondID c | c cc. c \<in> set (Conditions s) \<and> Compile (cel env) c = Inr cc}
    \<and> direct_grants env pc' = Map.empty \<and> indirect_grants env pc' = Map.empty
    \<and> lookup_entries env pc' = Map.empty \<and> cache_inv env wfr wfl pc'"
proof -
  have "caches_wf wfr wfl (setSchema env (Some s) pc)" "lookup_inv env wfl (setSchema env (Some s) pc)"
    using cache_invD[OF assms(2)] by (simp_all add: setSchema_inv_parts)
  note p = cache_contract.purgeRelationCaches_spec[OF assms(1) this]
  show ?thesis
    using p(1-3,9-11) cache_contract.UpdateCacheWithSchema_inv[OF assms(1,2), of "Some s"]
    by (simp add: assms(3) UpdateCacheWithSchema_def GetSchema_def setSchema_def compile_conditions_dom)
qed

theorem schema_replaces_everything_witness:
  "GetSchema (UpdateCacheWithSchema example_env (Some example_schema) warm_cache) = Some example_schema \<and>
   direct_grants example_env (UpdateCacheWithSchema example_env (Some example_schema) warm_cache) = Map.empty"
  using schema_replaces_everything[OF example_contract warm_cache_inv(1) refl, of example_schema] by simp

text \<open>Loading a schema on demand changes no grant; it is ignored once a schema with a version is
  held, so it never changes the schema under which a conditional grant was stored.\<close>

theorem load_keeps_grants:
  assumes "cache_contract env wfr wfl" "cache_inv env wfr wfl pc"
    "pc' = EnsureSchemaLoaded env schema pc"
  shows "direct_grants env pc' = direct_grants env pc \<and> indirect_grants env pc' = indirect_grants env pc
    \<and> (loadedSchemaVersion pc \<noteq> '''' \<longrightarrow> pc' = pc)
    \<and> (loadedSchemaVersion pc = '''' \<longrightarrow> pc' = setSchema env schema pc)
    \<and> (\<forall>k g. holds_grant env pc k g \<and> cond g \<noteq> None \<longrightarrow> pc' = pc)
    \<and> cache_inv env wfr wfl pc'"
proof -
  note e = cache_contract.EnsureSchemaLoaded_inv[OF assms(1,2), where s = schema]
  have "loadedSchemaVersion pc \<noteq> '''' \<Longrightarrow> schemaCache pc \<noteq> None"
    using cache_invD(4)[OF assms(2)] by (auto simp: schema_sync_def split: option.splits)
  then show ?thesis
    using e(1-3) e(4) unfolding assms(3) by (auto simp: EnsureSchemaLoaded_def)
qed

theorem load_keeps_grants_witness:
  "EnsureSchemaLoaded example_env None warm_cache = warm_cache"
  using load_keeps_grants[OF example_contract warm_cache_inv(1) refl, of None] by (simp add: warm_cache_eq)

section \<open>Polling\<close>

text \<open>C24. A poll that reports changed resources and targets, and no schema change, drops every
  indirect grant and every direct grant of a changed resource or target; it adds none, keeps the
  schema, moves the poll time to the moment before the request and cancels a pending purge.\<close>

theorem poll_invalidates_reported:
  assumes "cache_contract env wfr wfl" "cache_inv env wfr wfl pc" "\<not> noRelations env pc"
    "GetModified (lastPollTime (remoteChanges pc)) = Inr m" "\<not> SchemaChanged m"
    "ModResources m \<noteq> [] \<or> ModTargets m \<noteq> []"
    "pc' = updateCacheWithRemotePolling env IsError GetModified t0 t1 pc"
  shows "indirect_grants env pc' = Map.empty
    \<and> (\<forall>k g. direct_grants env pc' k = Some g \<longrightarrow> direct_grants env pc k = Some g \<and>
         (\<exists>c. directKeyComponents pc k = Some c \<and> kc_r c \<notin> set (ModResources m) \<and>
            kc_t c \<notin> set (ModTargets m)))
    \<and> schemaCache pc' = schemaCache pc \<and> lastPollTime (remoteChanges pc') = t0
    \<and> purgeCooldownTimer (remoteChanges pc') = None \<and> cache_inv env wfr wfl pc'"
proof -
  let ?q = "cancelPurgeCooldown (setLastPollTime t0 pc)"
  have q: "same_outside_polling pc ?q"
    using same_outside_polling_trans[OF same_outside_polling_simps(3) same_outside_cancel] .
  note qD = same_outside_pollingD[OF q]
  have inv: "cache_inv env wfr wfl ?q" using assms(2) qD(1) by simp
  have pc': "pc' = applyRemoteChanges env m ?q"
    using assms(5,6) by (auto simp: assms(7) cache_contract.poll_success[where GetModified = GetModified, OF assms(1,3,4)] Let_def)
  note sw = cache_contract.applyRemoteChanges_sweeps[OF assms(1) inv, of m, folded pc']
  show ?thesis
    using sweepingD(1-3,7)[OF sw] sweepingD(9,10)[OF sw] qD by auto
qed

theorem poll_invalidates_reported_witness:
  "direct_grants example_env
     (updateCacheWithRemotePolling example_env no_code
        (\<lambda>since. Inr \<lparr>ModResources = [], ModTargets = [''alice''], SchemaChanged = False\<rparr>) 5 6 warm_cache)
     ''doc:alice:owner'' = None"
proof -
  let ?m = "\<lparr>ModResources = [], ModTargets = [''alice''], SchemaChanged = False\<rparr>"
  have "\<not> noRelations example_env warm_cache"
    by (simp add: noRelations_def warm_cache_eq example_env_def reference_env_def lru_list_ops_def)
  note p = poll_invalidates_reported[OF example_contract warm_cache_inv(1) this, where m = ?m
      and GetModified = "\<lambda>_. Inr ?m" and IsError = no_code and ?t0.0 = 5 and ?t1.0 = 6, OF _ _ _ refl]
  have p2: "\<forall>k g. direct_grants example_env
      (updateCacheWithRemotePolling example_env no_code (\<lambda>_. Inr ?m) 5 6 warm_cache) k = Some g \<longrightarrow>
      direct_grants example_env warm_cache k = Some g \<and> (\<exists>c. directKeyComponents warm_cache k = Some c \<and>
        kc_r c \<notin> set (ModResources ?m) \<and> kc_t c \<notin> set (ModTargets ?m))"
    by (rule p[THEN conjunct2, THEN conjunct1]) simp_all
  have kc: "directKeyComponents warm_cache ''doc:alice:owner'' = Some \<lparr>kc_r = ''doc'', kc_t = ''alice''\<rparr>"
    by (simp add: warm_cache_eq)
  show ?thesis
  proof (rule ccontr)
    assume "\<not> ?thesis"
    with p2 obtain c where "directKeyComponents warm_cache ''doc:alice:owner'' = Some c"
      "kc_t c \<notin> set (ModTargets ?m)" by blast
    with kc show False by simp
  qed
qed

text \<open>C25. A poll that fails never loses a change silently: the error of too many modifications
  purges at once and cancels a pending purge; any other error purges at once when there is no
  cooldown, and otherwise keeps the grants and the poll time and makes sure that a purge is
  pending, at the end of one window from the first such error.\<close>

theorem poll_failure_effect:
  assumes "cache_contract env wfr wfl" "cache_inv env wfr wfl pc" "\<not> noRelations env pc"
    "GetModified (lastPollTime (remoteChanges pc)) = Inl err"
    "pc' = updateCacheWithRemotePolling env IsError GetModified t0 t1 pc"
  shows "if IsError err ''E173012'' \<or> purgeCooldownWindow (remoteChanges pc) = 0
    then direct_grants env pc' = Map.empty \<and> indirect_grants env pc' = Map.empty \<and>
      lookup_entries env pc' = Map.empty \<and> schemaCache pc' = None \<and> lastPollTime (remoteChanges pc') = t1 \<and>
      (IsError err ''E173012'' \<longrightarrow> purgeCooldownTimer (remoteChanges pc') = None)
    else direct_grants env pc' = direct_grants env pc \<and> indirect_grants env pc' = indirect_grants env pc \<and>
      lastPollTime (remoteChanges pc') = lastPollTime (remoteChanges pc) \<and>
      (case purgeCooldownTimer (remoteChanges pc) of
         Some i \<Rightarrow> pc' = pc
       | None \<Rightarrow> \<exists>i. purgeCooldownTimer (remoteChanges pc') = Some i \<and>
           armedTimers (timers pc') i = Some (t1 + sint (purgeCooldownWindow (remoteChanges pc))))"
proof -
  have c: "cache_inv env wfr wfl (cancelPurgeCooldown pc)" using assms(2) cache_contract.cancel_inv[OF assms(1)] by simp
  note p = cache_contract.purgeAllCaches_spec[OF assms(1) c, of t1]
    cache_contract.purgeAllCaches_spec[OF assms(1,2), of t1]
  note f = cache_contract.poll_failure[where GetModified = GetModified and IsError = IsError and ?t0.0 = t0 and ?t1.0 = t1,
      OF assms(1,3,4), folded assms(5)]
  consider "IsError err ''E173012''" | "\<not> IsError err ''E173012''" "purgeCooldownWindow (remoteChanges pc) = 0"
    | "\<not> IsError err ''E173012''" "purgeCooldownWindow (remoteChanges pc) \<noteq> 0" by blast
  then show ?thesis
  proof cases
    case 1
    then show ?thesis using p by (simp add: f getModifiedLimitReachedErrorCode_def)
  next
    case 2
    then show ?thesis using p by (simp add: f getModifiedLimitReachedErrorCode_def purgeAfterCooldown_def)
  next
    case 3
    note k = same_outside_pollingD[OF cache_contract.purgeAfterCooldown_keeps[OF assms(1) 3(2), of t1]]
    have eq: "pc' = purgeAfterCooldown env t1 pc"
      using 3(1) by (simp add: f getModifiedLimitReachedErrorCode_def)
    show ?thesis
      unfolding eq k(2,3) using 3
      by (simp add: purgeAfterCooldown_def AfterFunc_def Let_def split: option.splits)
  qed
qed

theorem poll_failure_effect_witness:
  "purgeCooldownTimer (remoteChanges (updateCacheWithRemotePolling example_env no_code
     (\<lambda>since. Inl (PlainError ''timeout'')) 5 6 warm_cache)) \<noteq> None"
proof -
  have n: "\<not> noRelations example_env warm_cache"
    by (simp add: noRelations_def warm_cache_eq example_env_def reference_env_def lru_list_ops_def)
  have w: "purgeCooldownTimer (remoteChanges warm_cache) = None"
    "purgeCooldownWindow (remoteChanges warm_cache) = 60000000000"
    by (simp_all add: warm_cache_eq example_cache_def)
  have "(60000000000 :: duration) \<noteq> 0" using sint_minutes_unit by (metis sint_0 zero_neq_numeral)
  then show ?thesis
    using poll_failure_effect[OF example_contract warm_cache_inv(1) n _ refl, where GetModified = "\<lambda>_. Inl (PlainError ''timeout'')"
        and IsError = no_code and ?t0.0 = 5 and ?t1.0 = 6]
    by (auto simp: no_code_def w)
qed


section \<open>The lookup cache\<close>

text \<open>A stored \<open>WhoCanAccess\<close> result is returned, in order, until its time to live has passed
  and not after; a result longer than the maximum is not stored.\<close>

theorem who_can_access_round_trip:
  assumes "cache_contract env wfr wfl" "cache_inv env wfr wfl pc" "\<not> lookup_disabled pc"
    "pc' = SetWhoCanAccessCached env now r d n targets pc"
  shows "(if go_less (lookupCacheMaxResult pc) (go_len targets) then pc' = pc
    else fst (GetWhoCanAccessCached env now' r d n pc') =
      (if now + sint (lookupCacheTTL pc) < now' then ([], False) else (targets, True)))
    \<and> cache_inv env wfr wfl pc'"
proof -
  have inv: "lookup_inv env wfl pc" using cache_invD(3)[OF assms(2)] .
  note s = cache_contract.SetWhoCanAccessCached_spec[OF assms(1) inv,
      where targets = targets and now = now and resource = r and relationDefinition = d and namespace = n,
      folded assms(4)]
  obtain res pc'' where g: "GetWhoCanAccessCached env now' r d n pc' = (res, pc'')" by fastforce
  note gs = cache_contract.GetWhoCanAccessCached_spec(1)[OF assms(1) s(1) g]
  have "\<not> go_less (lookupCacheMaxResult pc) (go_len targets) \<Longrightarrow> res =
      (if now + sint (lookupCacheTTL pc) < now' then ([], False) else (targets, True))"
    using gs s(3)[OF assms(3)] same_outside_lookupD(15)[OF s(2)] assms(3) by simp
  moreover have "go_less (lookupCacheMaxResult pc) (go_len targets) \<Longrightarrow> pc' = pc"
    by (simp add: assms(4) SetWhoCanAccessCached_def)
  ultimately show ?thesis
    using cache_inv_lookup[OF assms(2) s(2,1)] g by simp
qed

theorem who_can_access_round_trip_witness:
  "fst (GetWhoCanAccessCached example_env 60000000000 ''doc'' ''owner'' ''file''
     (SetWhoCanAccessCached example_env 0 ''doc'' ''owner'' ''file'' [''alice''] warm_cache)) =
     ([''alice''], True)"
proof -
  have f: "\<not> lookup_disabled warm_cache" "lookupCacheTTL warm_cache = 60000000000"
    "lookupCacheMaxResult warm_cache = 1000"
    by (simp_all add: lookup_disabled_def warm_cache_eq example_cache_def)
  have "\<not> go_less (1000 :: go_int) (go_len [''alice''])"
    using sint_go_len[of "[''alice'']"] sint_word_of_int_range[of 1000] by (simp add: go_less_def)
  then show ?thesis
    using who_can_access_round_trip[OF example_contract warm_cache_inv(1) f(1) refl,
        where now = 0 and targets = "[''alice'']" and r = "''doc''" and d = "''owner''" and n = "''file''"
          and now' = 60000000000]
    by (simp add: f(2,3))
qed

text \<open>C26. A stored \<open>WhatCanTargetAccess\<close> result whose resources and relation names hold no \<open>|\<close> comes
  back with every resource, relation name and namespace, in order, until its time to live has
  passed; the target is the one asked about and the target-set fields are lost. An empty result is
  never served.\<close>

theorem what_can_target_access_round_trip:
  assumes "cache_contract env wfr wfl" "cache_inv env wfr wfl pc" "\<not> lookup_disabled pc"
    "\<not> go_less (lookupCacheMaxResult pc) (go_len rels)"
    "\<forall>r\<in>set rels. CHR ''|'' \<notin> set (AR_Resource r) \<and> CHR ''|'' \<notin> set (AR_RelationDefinition r)"
    "pc' = SetWhatCanTargetAccessCached env now t rels pc"
  shows "fst (GetWhatCanTargetAccessCached env now' t pc') =
      (if now + sint (lookupCacheTTL pc) < now' \<or> rels = [] then ([], False)
       else (map (\<lambda>r. \<lparr>AR_Resource = AR_Resource r, AR_RelationDefinition = AR_RelationDefinition r,
                     AR_Namespace = AR_Namespace r, AR_Target = t, AR_TargetSetResource = '''',
                     AR_TargetSetRelationDefinition = '''',
                     AR_TargetSetRelationDefinitionNamespace = ''''\<rparr>) rels, True))
    \<and> cache_inv env wfr wfl pc'"
proof -
  have inv: "lookup_inv env wfl pc" using cache_invD(3)[OF assms(2)] .
  note s = cache_contract.SetWhatCanTargetAccessCached_spec[OF assms(1) inv,
      where relations = rels and now = now and target = t, folded assms(6)]
  obtain res pc'' where g: "GetWhatCanTargetAccessCached env now' t pc' = (res, pc'')" by fastforce
  note gs = cache_contract.GetWhatCanTargetAccessCached_spec(1)[OF assms(1) s(1) g]
  have "res = (if now + sint (lookupCacheTTL pc) < now' \<or> rels = [] then ([], False)
       else (map (\<lambda>r. \<lparr>AR_Resource = AR_Resource r, AR_RelationDefinition = AR_RelationDefinition r,
                     AR_Namespace = AR_Namespace r, AR_Target = t, AR_TargetSetResource = '''',
                     AR_TargetSetRelationDefinition = '''',
                     AR_TargetSetRelationDefinitionNamespace = ''''\<rparr>) rels, True))"
    using gs s(3)[OF assms(3,4)] same_outside_lookupD(15)[OF s(2)] assms(3)
    by (simp add: decode_encode_all[OF assms(5)])
  then show ?thesis
    using cache_inv_lookup[OF assms(2) s(2,1)] g by simp
qed

theorem what_can_target_access_round_trip_witness:
  "snd (fst (GetWhatCanTargetAccessCached example_env 7 ''bob''
     (SetWhatCanTargetAccessCached example_env 5 ''bob'' [bob_views_doc] warm_cache)))"
proof -
  have f: "\<not> lookup_disabled warm_cache" "lookupCacheTTL warm_cache = 60000000000"
    "lookupCacheMaxResult warm_cache = 1000"
    by (simp_all add: lookup_disabled_def warm_cache_eq example_cache_def)
  have m: "\<not> go_less (lookupCacheMaxResult warm_cache) (go_len [bob_views_doc])"
    using sint_go_len[of "[bob_views_doc]"] sint_word_of_int_range[of 1000]
    by (simp add: go_less_def f(3))
  have p: "\<forall>r\<in>set [bob_views_doc].
      CHR ''|'' \<notin> set (AR_Resource r) \<and> CHR ''|'' \<notin> set (AR_RelationDefinition r)"
    by (simp add: bob_views_doc_def)
  show ?thesis
    using what_can_target_access_round_trip[OF example_contract warm_cache_inv(1) f(1) m p refl,
        where now = 5 and t = "''bob''" and now' = 7]
    by (simp add: f(2))
qed

text \<open>Adding a written relation to the lookup cache only extends entries that exist: the live
  entry of its resource gains the target, the live entry of its target gains the relation, each at
  the end and at most once, with the expiry unchanged; expired and other entries, and everything
  outside the lookup cache, stay as they are.\<close>

theorem add_to_lookup_extends:
  assumes "cache_contract env wfr wfl" "cache_inv env wfr wfl pc" "\<not> lookup_disabled pc"
    "pc' = addToLookupCache env now r pc"
    "m = lookup_entries env pc" "m' = lookup_entries env pc'"
    "wca = whoCanAccessKey (Resource r) (Relation r) (ResourceType r)"
    "wcta = whatCanTargetAccessKey (Target r)"
  shows "m' wca = map_option (extend_entry now (Target r)) (m wca)
    \<and> m' wcta = map_option (extend_entry now (encode_relation (Resource r) (Relation r) (ResourceType r))) (m wcta)
    \<and> (\<forall>k. k \<noteq> wca \<and> k \<noteq> wcta \<longrightarrow> m' k = m k)
    \<and> same_outside_lookup pc pc' \<and> cache_inv env wfr wfl pc'"
proof -
  note a = cache_contract.addToLookupCache_spec[OF assms(1) cache_invD(3)[OF assms(2)], of now r, folded assms(4)]
  have d: "wca \<noteq> wcta" using lookup_keys_differ by (simp add: assms(7,8))
  have "m' = append_spec now wcta (encode_relation (Resource r) (Relation r) (ResourceType r))
      (append_spec now wca (Target r) m)"
    using a(1) assms(3) by (simp add: assms(5-8))
  then show ?thesis
    using a(3) cache_inv_lookup[OF assms(2) a(3,2)] d
    by (simp add: append_spec_same append_spec_other)
qed

theorem add_to_lookup_extends_witness:
  "\<exists>e. lookup_entries example_env (addToLookupCache example_env 1 doc_alice
     (SetWhoCanAccessCached example_env 0 ''doc'' ''owner'' ''file'' [''carol''] warm_cache))
     ''wca:doc:owner:file'' = Some e \<and> Results e = [''carol'', ''alice'']"
proof -
  let ?pc = "SetWhoCanAccessCached example_env 0 ''doc'' ''owner'' ''file'' [''carol''] warm_cache"
  have f: "\<not> lookup_disabled warm_cache" "lookupCacheTTL warm_cache = 60000000000"
    "lookupCacheMaxResult warm_cache = 1000"
    by (simp_all add: lookup_disabled_def warm_cache_eq example_cache_def)
  have m: "\<not> go_less (lookupCacheMaxResult warm_cache) (go_len [''carol''])"
    using sint_go_len[of "[''carol'']"] sint_word_of_int_range[of 1000] by (simp add: go_less_def f(3))
  note inv = cache_invD(3)[OF warm_cache_inv(1)]
  note s = cache_contract.SetWhoCanAccessCached_spec[OF example_contract inv,
      where targets = "[''carol'']" and now = 0 and resource = "''doc''" and relationDefinition = "''owner''"
        and namespace = "''file''"]
  have pc: "cache_inv example_env lru_list_wf lru_list_wf ?pc" "\<not> lookup_disabled ?pc"
    using cache_inv_lookup[OF warm_cache_inv(1) s(2,1)]
      same_outside_lookupD(15)[OF s(2)] f(1) by simp_all
  show ?thesis
    using add_to_lookup_extends[OF example_contract pc refl refl refl refl refl, of 1 doc_alice] s(3)[OF f(1) m]
    by (simp add: doc_alice_def whoCanAccessKey_def extend_entry_def f(2))
qed


section \<open>Conditions\<close>

text \<open>A condition evaluates to a value exactly when every parameter of it is in the request's
  context and coerces to its type, and the program, run on those coerced values and nothing else,
  returns that boolean; it reports false whenever it does not evaluate.\<close>

theorem condition_evaluates_iff:
  assumes "distinct (map ParamName (cc_params cc))"
  shows "(Eval ops cc ctx timeout = (b, True) \<longleftrightarrow>
      (\<exists>vars. dom vars = ParamName ` set (cc_params cc) \<and>
        (\<forall>p\<in>set (cc_params cc). \<exists>raw v. ctx (ParamName p) = Some raw \<and>
           CoerceContextValue ops (ParamType p) raw = Some v \<and> vars (ParamName p) = Some v) \<and>
        cel_ContextEval ops (cc_program cc) timeout vars = Inr (AnyBool b)))
    \<and> (\<not> snd (Eval ops cc ctx timeout) \<longrightarrow> \<not> fst (Eval ops cc ctx timeout))"
  using Eval_value_iff[OF assms] Eval_not_ok by blast

theorem condition_evaluates_iff_witness:
  "Eval example_cel \<lparr>cc_name = ''inOffice'', cc_program = ''office'',
      cc_params = [\<lparr>ParamName = ''office'', ParamType = ''bool''\<rparr>]\<rparr>
     [''office'' \<mapsto> AnyBool False, ''hour'' \<mapsto> AnyInt 3] 1000 = (False, True)"
proof -
  let ?cc = "\<lparr>cc_name = ''inOffice'', cc_program = ''office'',
      cc_params = [\<lparr>ParamName = ''office'', ParamType = ''bool''\<rparr>]\<rparr>"
  have "distinct (map ParamName (cc_params ?cc))" by simp
  note p = condition_evaluates_iff[OF this, of example_cel "[''office'' \<mapsto> AnyBool False, ''hour'' \<mapsto> AnyInt 3]" 1000 False,
      THEN conjunct1, THEN iffD2]
  show ?thesis
    by (rule p, rule exI[of _ "[''office'' \<mapsto> AnyBool False]"]) (simp add: example_cel_def)
qed

section \<open>The indexes over time\<close>

text \<open>C29. The indexes leak. Removing a grant by its resource leaves its key listed under its target, and
  caching the grant again lists it once more: after \<open>n\<close> rounds of writing to a document and checking
  the same relation again, one cached grant is listed \<open>n + 1\<close> times.\<close>

theorem index_leaks:
  "\<forall>n. target_keys
     (((\<lambda>pc. addDirectRelation example_env doc_alice \<lparr>allowed = True, cond = None\<rparr>
          (removeDirectRelationsByResource example_env ''doc'' pc)) ^^ n)
       (addDirectRelation example_env doc_alice \<lparr>allowed = True, cond = None\<rparr> example_cache))
     ''doc'' ''alice'' = replicate (Suc n) ''doc:alice:owner''"
proof -
  let ?g = "\<lparr>allowed = True, cond = None\<rparr>" and ?k = "''doc:alice:owner''"
  let ?round = "\<lambda>pc. addDirectRelation example_env doc_alice ?g
      (removeDirectRelationsByResource example_env ''doc'' pc)"
  let ?state = "\<lambda>n. example_cache\<lparr>directRelationCache := (2, [(?k, ?g)]),
      directResourcesIndex := [''doc'' \<mapsto> [(''alice'', [?k])]],
      directTargetsIndex := [''alice'' \<mapsto> [(''doc'', replicate (Suc n) ?k)]],
      directKeyComponents := [?k \<mapsto> \<lparr>kc_r = ''doc'', kc_t = ''alice''\<rparr>]\<rparr>"
  have first: "addDirectRelation example_env doc_alice ?g example_cache = ?state 0"
    by (simp add: addDirectRelation_def Let_def runEvictions_def addKeyToDirectResourceIndex_def
        addKeyToDirectTargetIndex_def example_simps)
  have again: "?round (?state n) = ?state (Suc n)" for n
    by (simp add: addDirectRelation_def removeDirectRelationsByResource_def Let_def runEvictions_def
        addKeyToDirectResourceIndex_def addKeyToDirectTargetIndex_def lookup_list_def
        replicate_app_Cons_same example_simps)
  have "(?round ^^ n) (?state 0) = ?state n" for n
    by (induction n) (simp_all only: funpow.simps comp_def id_apply again)
  then show ?thesis by (simp add: first target_keys_def lookup_list_def)
qed

section \<open>Keys\<close>

text \<open>The key of a relation identifies its resource, target and relation name when the resource
  and the target hold no colon; two relations that differ only in their types share a key.\<close>

theorem key_identifies_colon_free:
  assumes "colon_free r" "colon_free r'"
  shows "key r = key r' \<longleftrightarrow> Resource r = Resource r' \<and> Target r = Target r' \<and> Relation r = Relation r'"
  using key_inj_colon_free[OF assms] by (auto simp: key_def)

theorem key_identifies_colon_free_witness: "key doc_alice \<noteq> key doc_bob"
  using key_identifies_colon_free[of doc_alice doc_bob] by (simp add: colon_free_def doc_alice_def doc_bob_def)

text \<open>C30. Keys of different relations can be equal when identifiers hold colons: a grant stored for the
  target \<open>u\<close> of the resource \<open>a:b\<close> is served for the target \<open>b:u\<close> of the resource \<open>a\<close>: a read of the
  latter finds an answer and leaves nothing to ask the SDK.\<close>

theorem key_collision_served:
  "\<exists>r r' c. r = doc_alice\<lparr>Resource := ''a:b'', Target := ''u''\<rparr> \<and>
     r' = doc_alice\<lparr>Resource := ''a'', Target := ''b:u''\<rparr> \<and>
     served example_env (UpdateCacheWithChecks example_env [direct_check\<lparr>CheckRelation := r\<rparr>] example_cache)
       Map.empty r' = Some c \<and> Allowed c \<and>
     (\<exists>pc'. CheckRelations example_env
        (UpdateCacheWithChecks example_env [direct_check\<lparr>CheckRelation := r\<rparr>] example_cache) [r'] Map.empty =
          (([c], [], [0 \<mapsto> c]), pc'))"
proof -
  let ?r = "doc_alice\<lparr>Resource := ''a:b'', Target := ''u''\<rparr>"
    and ?r' = "doc_alice\<lparr>Resource := ''a'', Target := ''b:u''\<rparr>" and ?g = "\<lparr>allowed = True, cond = None\<rparr>"
  let ?pc = "UpdateCacheWithChecks example_env [direct_check\<lparr>CheckRelation := ?r\<rparr>] example_cache"
  have pc: "?pc = addDirectRelation example_env ?r ?g example_cache"
    by (simp add: UpdateCacheWithChecks_def cacheCheck_def cacheable_grant_def direct_check_def
        zero_FGACheckInfo_def)
  have "direct_grants example_env ?pc (key ?r) = Some ?g"
    unfolding pc by (rule cache_contract.addDirectRelation_stored[OF example_contract
        cache_invD(1)[OF example_cache_inv]])
  moreover have "key ?r' = key ?r" by (simp add: key_def)
  ultimately have served: "served example_env ?pc Map.empty ?r' = Some (unconditional_check ?g True ?r')"
    by (simp add: served_def cached_grant_def)
  have wf: "caches_wf lru_list_wf lru_list_wf ?pc"
    unfolding pc by (rule cache_contract.addDirectRelation_grants(3)[OF example_contract cache_invD(1)[OF example_cache_inv]])
  obtain checks us idx pc' where run: "CheckRelations example_env ?pc [?r'] Map.empty = ((checks, us, idx), pc')"
    by (cases "CheckRelations example_env ?pc [?r'] Map.empty") (metis prod_cases3)
  have "checks = [unconditional_check ?g True ?r']" "us = []" "idx = [0 \<mapsto> unconditional_check ?g True ?r']"
    using cache_contract.CheckRelations_spec(1-3)[OF example_contract wf run] served
    by (auto simp: map_filter_simps fun_eq_iff)
  then show ?thesis using served run by (simp add: unconditional_check_def)
qed

section \<open>Orders of events\<close>

text \<open>Polls that report nothing keep every grant and the schema, however many there are.\<close>

theorem quiet_polls_keep_grants:
  assumes "cache_contract env wfr wfl" "cache_inv env wfr wfl pc" "\<not> noRelations env pc"
    "\<forall>(GetModified, t0, t1)\<in>set ticks. \<forall>since. \<exists>m. GetModified since = Inr m \<and>
       ModResources m = [] \<and> ModTargets m = [] \<and> \<not> SchemaChanged m"
    "pc' = polling_loop env IsError ticks pc"
  shows "direct_grants env pc' = direct_grants env pc \<and> indirect_grants env pc' = indirect_grants env pc
    \<and> schemaCache pc' = schemaCache pc \<and> (\<forall>ctx r. served env pc' ctx r = served env pc ctx r)
    \<and> cache_inv env wfr wfl pc'"
proof -
  note q = cache_contract.quiet_polls[OF assms(1-4), where IsError = IsError, folded assms(5)]
  show ?thesis
    using q(2) by (simp add: same_outside_pollingD(2,3,7)[OF q(1)] same_outside_polling_served[OF q(1)])
qed

text \<open>The tick of a backend that has nothing to report.\<close>

theorem quiet_polls_keep_grants_witness:
  "served example_env (polling_loop example_env no_code (replicate 100 (quiet_tick 3)) warm_cache) Map.empty doc_alice \<noteq> None"
proof -
  have n: "\<not> noRelations example_env warm_cache"
    by (simp add: noRelations_def warm_cache_eq example_env_def reference_env_def lru_list_ops_def)
  show ?thesis
    using quiet_polls_keep_grants[OF example_contract warm_cache_inv(1) n, where
        ticks = "replicate 100 (quiet_tick 3)" and IsError = no_code, OF _ refl]
    by (auto simp: quiet_tick_def served_def cached_grant_def warm_cache_grants key_def doc_alice_def)
qed


text \<open>C31. An answer computed before a modification and stored after the poll that reported it is
  served for ever: the ownership of the document is revoked, the poll reports it, the answer that was
  under way is stored, and no number of further polls removes it.\<close>

theorem late_answer_served_for_ever:
  "\<forall>n. \<exists>c. served example_env
     (polling_loop example_env no_code (replicate n (quiet_tick 7))
       (UpdateCacheWithChecks example_env [direct_check]
         (updateCacheWithRemotePolling example_env no_code
           (\<lambda>since. Inr \<lparr>ModResources = [''doc''], ModTargets = [''alice''], SchemaChanged = False\<rparr>) 5 6 warm_cache)))
     Map.empty doc_alice = Some c \<and> Allowed c"
proof -
  let ?pc1 = "updateCacheWithRemotePolling example_env no_code
      (\<lambda>since. Inr \<lparr>ModResources = [''doc''], ModTargets = [''alice''], SchemaChanged = False\<rparr>) 5 6 warm_cache"
  let ?pc2 = "UpdateCacheWithChecks example_env [direct_check] ?pc1" and ?g = "\<lparr>allowed = True, cond = None\<rparr>"
  have inv1: "cache_inv example_env lru_list_wf lru_list_wf ?pc1"
    by (rule cache_contract.updateCacheWithRemotePolling_inv[OF example_contract warm_cache_inv(1)])
  have inv2: "cache_inv example_env lru_list_wf lru_list_wf ?pc2"
    by (rule cache_contract.UpdateCacheWithChecks_inv(1)[OF example_contract inv1])
       (simp add: versioned_check_def direct_check_def zero_FGACheckInfo_def)
  have "?pc2 = addDirectRelation example_env doc_alice ?g ?pc1"
    by (simp add: UpdateCacheWithChecks_def cacheCheck_def cacheable_grant_def direct_check_def zero_FGACheckInfo_def)
  then have g: "direct_grants example_env ?pc2 (key doc_alice) = Some ?g"
    using cache_contract.addDirectRelation_stored[OF example_contract cache_invD(1)[OF inv1]] by metis
  have n: "\<not> noRelations example_env ?pc2"
    using g by (auto simp: cache_contract.noRelations_iff[OF example_contract cache_invD(1)[OF inv2]])
  have "served example_env (polling_loop example_env no_code (replicate n (quiet_tick 7)) ?pc2) Map.empty doc_alice =
      Some (unconditional_check ?g True doc_alice)" for n
    using same_outside_polling_served[OF cache_contract.quiet_polls(1)[OF example_contract inv2 n,
        where ticks = "replicate n (quiet_tick 7)"]]
    by (simp add: quiet_tick_def served_def cached_grant_def g)
  then show ?thesis by (auto simp: unconditional_check_def)
qed

text \<open>C32. A cooldown can end early. The callback of a cancelled cooldown that had already started
  only checks that some cooldown is pending: when a new error starts another one before the callback
  gets the mutex, it purges at once, a whole window before the deadline of the new timer.\<close>

theorem stale_callback_purges_early:
  assumes "cache_contract env wfr wfl" "cache_inv env wfr wfl pc" "\<not> noRelations env pc"
    "purgeCooldownTimer (remoteChanges pc) = None" "purgeCooldownWindow (remoteChanges pc) \<noteq> 0"
    "i \<in> set (startedCallbacks (timers pc))" "\<not> IsError err ''E173012''"
    "pc' = updateCacheWithRemotePolling env IsError (\<lambda>since. Inl err) t0 t1 pc"
  shows "\<exists>j pc''. purgeCooldownTimer (remoteChanges pc') = Some j \<and>
    armedTimers (timers pc') j = Some (t1 + sint (purgeCooldownWindow (remoteChanges pc))) \<and>
    runCallback env t1 i pc' = Some pc'' \<and> direct_grants env pc'' = Map.empty \<and>
    indirect_grants env pc'' = Map.empty \<and> schemaCache pc'' = None"
proof -
  have eq: "pc' = purgeAfterCooldown env t1 pc"
    using cache_contract.poll_failure[where GetModified = "\<lambda>since. Inl err", OF assms(1,3) refl] assms(7)
    by (simp add: assms(8) getModifiedLimitReachedErrorCode_def)
  have inv: "cache_inv env wfr wfl pc'"
    unfolding eq by (rule cache_contract.purgeAfterCooldown_inv[OF assms(1,2)])
  have armed: "purgeCooldownTimer (remoteChanges pc') = Some (nextTimer (timers pc))"
    "armedTimers (timers pc') (nextTimer (timers pc)) = Some (t1 + sint (purgeCooldownWindow (remoteChanges pc)))"
    "startedCallbacks (timers pc') = startedCallbacks (timers pc)"
    using assms(4,5) by (simp_all add: eq purgeAfterCooldown_def AfterFunc_def Let_def)
  obtain pc'' where run: "runCallback env t1 i pc' = Some pc''"
    using armed(3) assms(6) by (simp add: runCallback_def)
  have "purged env pc''"
    by (rule cache_contract.callback_purges(1)[OF assms(1) inv _ run]) (simp add: armed(1))
  then show ?thesis using run armed(1,2) by (auto simp: purged_def)
qed

theorem stale_callback_purges_early_witness:
  "\<exists>pc''. runCallback example_env 70 0 (updateCacheWithRemotePolling example_env no_code
     (\<lambda>since. Inl (PlainError ''timeout'')) 69 70
     (warm_cache\<lparr>timers := \<lparr>armedTimers = Map.empty, startedCallbacks = [0], nextTimer = 1\<rparr>\<rparr>)) = Some pc'' \<and>
     direct_grants example_env pc'' = Map.empty"
proof -
  let ?pc = "warm_cache\<lparr>timers := \<lparr>armedTimers = Map.empty, startedCallbacks = [0], nextTimer = 1\<rparr>\<rparr>"
  have inv: "cache_inv example_env lru_list_wf lru_list_wf ?pc" using warm_cache_inv(1) by simp
  have n: "\<not> noRelations example_env ?pc"
    by (simp add: noRelations_def warm_cache_eq example_env_def reference_env_def lru_list_ops_def)
  have t: "purgeCooldownTimer (remoteChanges ?pc) = None"
    by (simp add: warm_cache_eq example_cache_def)
  have w: "purgeCooldownWindow (remoteChanges ?pc) \<noteq> 0"
    using sint_minutes_unit by (simp add: warm_cache_eq example_cache_def)
  show ?thesis
    using stale_callback_purges_early[OF example_contract inv n t w _ _ refl,
        where i = 0 and IsError = no_code and err = "PlainError ''timeout''" and ?t0.0 = 69 and ?t1.0 = 70]
    by (auto simp: no_code_def)
qed

section \<open>A new cache\<close>

text \<open>A new project cache meets the invariant and answers nothing; its time to live, timeout,
  poll period and cooldown are the configured ones, the lookup cache is on exactly when configured,
  and changes are polled for from the moment of creation.\<close>

theorem new_cache_empty:
  assumes "NewProjectAuthzCache new src now projectID = Inr pc" "constructors_ok env wfr wfl new"
  shows "cache_inv env wfr wfl pc \<and> served env pc ctx r = None \<and> lookup_entries env pc = Map.empty
    \<and> GetSchema pc = None \<and> lastPollTime (remoteChanges pc) = now
    \<and> purgeCooldownTimer (remoteChanges pc) = None
    \<and> lookupCacheTTL pc = in_seconds (GetLookupCacheTTLInSeconds src)
    \<and> celEvalTimeout pc = in_millis (GetCELEvalTimeoutInMillis src)
    \<and> remotePollingInterval (remoteChanges pc) = in_millis (GetRemotePollingIntervalInMillis src)
    \<and> purgeCooldownWindow (remoteChanges pc) = in_minutes (GetPurgeCooldownWindowInMinutes src)
    \<and> (lookup_disabled pc \<longleftrightarrow> \<not> GetLookupCacheEnabled src)"
  using NewProjectAuthzCache_inv[OF assms] NewProjectAuthzCache_fields[OF assms(1)]
  by (simp add: served_def cached_grant_def GetSchema_def)

theorem new_cache_empty_witness:
  "served example_env example_cache Map.empty doc_alice = None \<and> \<not> lookup_disabled example_cache"
  using new_cache_empty[OF example_new_cache example_constructors, of Map.empty doc_alice]
  by (simp add: GetLookupCacheEnabled_def example_config_def)

text \<open>Up to the largest interval whose nanoseconds fit in 64 bits, the ticker of a new cache
  starts, with the configured period and never below 15 seconds.\<close>

theorem polling_starts:
  assumes "NewProjectAuthzCache new src now projectID = Inr pc"
    "sint (GetRemotePollingIntervalInMillis src) \<le> 9223372036854"
  shows "\<exists>d. StartRemoteChangesPolling pc = Inr d \<and>
    sint d = 1000000 * sint (GetRemotePollingIntervalInMillis src) \<and> 15000000000 \<le> sint d"
  by (rule StartRemoteChangesPolling_ok[OF assms])

theorem polling_starts_witness:
  "\<exists>d. StartRemoteChangesPolling example_cache = Inr d \<and> sint d = 15000000000"
  using polling_starts[OF example_new_cache] example_interval by auto

text \<open>C33. One millisecond more, and the product wraps to a negative period: the cache is created and
  starting its ticker panics.\<close>

theorem polling_interval_overflow_panics:
  "\<exists>pc :: example_cache_type. NewProjectAuthzCache lru_list_constructors
     (default_config\<lparr>GetIntOrProvidedLocal := (\<lambda>k d.
        if k = ''AUTHZCACHE_REMOTE_POLLING_INTERVAL_IN_MILLIS'' then 9223372036855 else d)\<rparr>) 0 ''P'' = Inr pc \<and>
     StartRemoteChangesPolling pc = Inl (GoPanic ''non-positive interval for NewTicker'')"
proof -
  let ?src = "default_config\<lparr>GetIntOrProvidedLocal := (\<lambda>k d.
      if k = ''AUTHZCACHE_REMOTE_POLLING_INTERVAL_IN_MILLIS'' then 9223372036855 else d)\<rparr>"
  have lits: "sint (9223372036855 :: go_int) = 9223372036855" "sint (15000 :: go_int) = 15000"
    using sint_word_of_int_range[of 9223372036855] sint_word_of_int_range[of 15000] by simp_all
  have i: "GetRemotePollingIntervalInMillis ?src = 9223372036855"
    by (simp add: GetRemotePollingIntervalInMillis_def go_max_def go_less_def lits)
  obtain pc :: example_cache_type where pc: "NewProjectAuthzCache lru_list_constructors ?src 0 ''P'' = Inr pc"
    by (simp add: NewProjectAuthzCache_def lru_list_constructors_def default_config_def lru_list_new_def
        go_less_def GetIndirectRelationCacheSizePerProject_def GetDirectRelationCacheSizePerProject_def
        GetLookupCacheEnabled_def GetLookupCacheSizePerProject_def sint_word_of_int_range)
  have "sint (word_of_int (9223372036855000000 - 2 ^ 64) :: go_int) = 9223372036855000000 - 2 ^ 64"
    by (rule sint_word_of_int_range) simp_all
  moreover have "(word_of_int (9223372036855000000 - 2 ^ 64) :: go_int) = in_millis 9223372036855"
    by (simp add: in_millis_def)
  ultimately have "StartRemoteChangesPolling pc = Inl (GoPanic ''non-positive interval for NewTicker'')"
    by (simp add: StartRemoteChangesPolling_def NewProjectAuthzCache_fields[OF pc] i go_less_def)
  with pc show ?thesis by blast
qed

end
