(* ===== verification/Errors.thy ===== *)
theory Errors
  imports GoStrings
begin

text \<open>
  \<open>src/pkg/authzcache/errors/errortypes.go\<close>: turning an SDK error into the service's gRPC error.
  The error builder is the common package's, outside the repository: a service error is
  represented by the builder call that makes it. \<open>setRetryAfter\<close> sets a header of the response's
  metadata; it is returned as the pair it sets, or \<open>None\<close> when gRPC refuses it, which the program only
  logs. \<open>grpc.SetHeader\<close> and \<open>err.Error()\<close> are parameters.
\<close>

datatype error_class = BadRequestError | AuthError | ForbiddenError | NotFoundError
  | TooManyRequestsError | InternalErrorType

text \<open>An exported error has its class, code and description, then the cause and the message given
  to \<open>NewErrorWithLogLevelWarn\<close>.\<close>

datatype service_error =
    ExportedError error_class string string descope_error string
  | InternalError "goerror option" string

text \<open>The keys of \<open>descope.Error.Info\<close>, constants of the SDK, and what \<open>grpc.SetHeader\<close> returns for a pair
  in the context of the request.\<close>

record error_env =
  HTTPResponseStatusCode :: string
  RateLimitExceededRetryAfter :: string
  SetHeader :: "string \<times> string \<Rightarrow> goerror option"

definition RetryAfterHeader :: string where
  "RetryAfterHeader = ''Retry-After''"

definition setRetryAfter :: "error_env \<Rightarrow> descope_error \<Rightarrow> (string \<times> string) option" where
  "setRetryAfter keys de =
    (case ErrInfo de (RateLimitExceededRetryAfter keys) of
       Some (AnyInt seconds) \<Rightarrow>
         if \<not> go_less 0 seconds then None
         else (case SetHeader keys (RetryAfterHeader, Itoa seconds) of
                 Some err \<Rightarrow> None
               | None \<Rightarrow> Some (RetryAfterHeader, Itoa seconds))
     | _ \<Rightarrow> None)"

text \<open>The value of \<open>de.Info[key]\<close>: nil for an absent key.\<close>

definition info_value :: "descope_error \<Rightarrow> string \<Rightarrow> gany" where
  "info_value de k = (case ErrInfo de k of None \<Rightarrow> AnyNil | Some v \<Rightarrow> v)"

definition ServiceErrorFromSdkError :: "error_env \<Rightarrow> (goerror \<Rightarrow> string) \<Rightarrow> goerror option \<Rightarrow>
    service_error \<times> (string \<times> string) option" where
  "ServiceErrorFromSdkError keys ErrorText err =
    (case err of
       Some (SdkError de) \<Rightarrow>
         if 4 \<le> length (Code de) then
           (let code = drop (length (Code de) - 4) (Code de);
                statusCode = info_value de (HTTPResponseStatusCode keys);
                build = (\<lambda>cls. ExportedError cls code (Description de) de (Message de))
            in if statusCode = AnyInt 400 then (build BadRequestError, None)
               else if statusCode = AnyInt 401 then (build AuthError, None)
               else if statusCode = AnyInt 403 then (build ForbiddenError, None)
               else if statusCode = AnyInt 404 then (build NotFoundError, None)
               else if statusCode = AnyInt 429 then (build TooManyRequestsError, setRetryAfter keys de)
               else (build InternalErrorType, None))
         else (InternalError (Some (SdkError de)) (ErrorText (SdkError de)), None)
     | None \<Rightarrow> (InternalError None ''nil error'', None)
     | Some e \<Rightarrow> (InternalError (Some e) (ErrorText e), None))"

section \<open>Properties\<close>

lemma Retry_After_iff:
  "snd (ServiceErrorFromSdkError keys errText err) = Some (h, v) \<longleftrightarrow>
    (\<exists>de seconds. err = Some (SdkError de) \<and> 4 \<le> length (Code de) \<and>
       ErrInfo de (HTTPResponseStatusCode keys) = Some (AnyInt 429) \<and>
       ErrInfo de (RateLimitExceededRetryAfter keys) = Some (AnyInt seconds) \<and>
       0 < sint seconds \<and> SetHeader keys (RetryAfterHeader, Itoa seconds) = None \<and>
       h = RetryAfterHeader \<and> v = Itoa seconds)"
  by (auto simp: ServiceErrorFromSdkError_def setRetryAfter_def info_value_def Let_def go_less_def
      split: option.splits goerror.splits gany.splits if_splits)

lemma exported_iff:
  "fst (ServiceErrorFromSdkError keys errText err) = ExportedError cls code desc de msg \<longleftrightarrow>
    err = Some (SdkError de) \<and> 4 \<le> length (Code de) \<and> code = drop (length (Code de) - 4) (Code de) \<and>
    desc = Description de \<and> msg = Message de \<and>
    cls = (case info_value de (HTTPResponseStatusCode keys) of
             AnyInt n \<Rightarrow> if n = 400 then BadRequestError else if n = 401 then AuthError
                        else if n = 403 then ForbiddenError else if n = 404 then NotFoundError
                        else if n = 429 then TooManyRequestsError else InternalErrorType
           | _ \<Rightarrow> InternalErrorType)"
  by (auto simp: ServiceErrorFromSdkError_def Let_def
      split: option.splits goerror.splits gany.splits if_splits)

text \<open>The class and contents of the service's error.\<close>

lemma service_error_class:
  assumes "ServiceErrorFromSdkError keys errText (Some err) = (e, header)"
  shows "case err of SdkError de \<Rightarrow>
      if 4 \<le> length (Code de) then
        \<exists>cls. e = ExportedError cls (drop (length (Code de) - 4) (Code de)) (Description de) de (Message de) \<and>
          (cls = TooManyRequestsError \<longleftrightarrow> info_value de (HTTPResponseStatusCode keys) = AnyInt 429) \<and>
          (cls = NotFoundError \<longleftrightarrow> info_value de (HTTPResponseStatusCode keys) = AnyInt 404) \<and>
          (cls = ForbiddenError \<longleftrightarrow> info_value de (HTTPResponseStatusCode keys) = AnyInt 403) \<and>
          (cls = AuthError \<longleftrightarrow> info_value de (HTTPResponseStatusCode keys) = AnyInt 401) \<and>
          (cls = BadRequestError \<longleftrightarrow> info_value de (HTTPResponseStatusCode keys) = AnyInt 400)
      else e = InternalError (Some err) (errText err)
    | _ \<Rightarrow> e = InternalError (Some err) (errText err)"
  using assms by (cases err) (auto simp: ServiceErrorFromSdkError_def Let_def split: if_splits)

lemma exported_code_length:
  "fst (ServiceErrorFromSdkError keys errText err) = ExportedError cls code desc de msg \<Longrightarrow> length code = 4"
  by (auto simp: exported_iff)

end
