(* ===== verification/Gateway.thy ===== *)
theory Gateway
  imports Config Errors
begin

text \<open>
  The edges of the process: \<open>errorHandlerWithRetryAfter\<close> and \<open>setGatewayWriteTimeout\<close> of
  \<open>src/cmd/authzcache/main.go\<close>, \<open>ProjectIDParser\<close> of
  \<open>src/internal/middlewares/projectidparser.go\<close>, the SDK client of
  \<open>src/internal/services/remote/remote.go\<close> and the client package. What they call (the gateway's error handler, the
  parser of the authorization header, the SDK's constructor, the environment) are parameters. HTTP headers are maps with
  the canonical key; gRPC metadata yields the values of a key.
\<close>

type_synonym http_headers = "string \<rightharpoonup> string list"

text \<open>\<open>Header.Set\<close> replaces the values of a key.\<close>

definition header_set :: "string \<Rightarrow> string \<Rightarrow> http_headers \<Rightarrow> http_headers" where
  "header_set k v h = h(k \<mapsto> [v])"

text \<open>The headers when the common error handler is called: \<open>HeaderMD.Get\<close> is the metadata in the
  context, if there is any.\<close>

definition errorHandlerWithRetryAfter :: "(string \<Rightarrow> string list) option \<Rightarrow> http_headers \<Rightarrow> http_headers" where
  "errorHandlerWithRetryAfter md h = (case md of
     None \<Rightarrow> h
   | Some get \<Rightarrow>
      (let values = get RetryAfterHeader
       in if 0 < length values then header_set RetryAfterHeader (values ! 0) h else h))"

text \<open>The gRPC metadata that \<open>grpc.SetHeader\<close> leaves in the response.\<close>

definition header_metadata :: "(string \<times> string) option \<Rightarrow> string \<Rightarrow> string list" where
  "header_metadata p k = (case p of None \<Rightarrow> [] | Some (k', v) \<Rightarrow> if k' = k then [v] else [])"

definition setGatewayWriteTimeout :: "config_source \<Rightarrow> duration" where
  "setGatewayWriteTimeout src = in_seconds (GetGatewayWriteTimeoutInSeconds src)"

text \<open>The request the next handler sees. The header a client sent under that name is overwritten.\<close>

definition ProjectIDParser :: "(http_headers \<Rightarrow> string \<times> string \<times> goerror option) \<Rightarrow> string \<Rightarrow>
    http_headers \<Rightarrow> http_headers" where
  "ProjectIDParser ParseAuthorizationHeader mdProjectHeader h =
    (case ParseAuthorizationHeader h of (pid, key, err) \<Rightarrow> header_set mdProjectHeader pid h)"

section \<open>The SDK client\<close>

datatype log_level = LogDebugLevel | LogInfoLevel

definition getLogLevel :: "config_source \<Rightarrow> log_level" where
  "getLogLevel src = (if GetSDKDebugLog src then LogDebugLevel else LogInfoLevel)"

text \<open>\<open>strings.Trim(s, "\"")\<close>\<close>

definition trim_quotes :: "string \<Rightarrow> string" where
  "trim_quotes s = TrimRight (dropWhile (\<lambda>c. c = char_of (34 :: nat)) s) (char_of (34 :: nat))"

record client_config =
  CC_ProjectID :: string
  SessionJWTViaCookie :: bool
  DescopeBaseURL :: string
  LogLevel :: log_level
  CC_ManagementKey :: string
  CustomDefaultHeaders :: "(string \<times> string) list"

text \<open>The client, with its management service told to list conditions.\<close>

definition NewDescopeClientWithProjectID :: "config_source \<Rightarrow> (client_config \<Rightarrow> goerror + 'm) \<Rightarrow>
    ('m \<Rightarrow> bool \<Rightarrow> 'm) \<Rightarrow> goerror \<Rightarrow> string \<Rightarrow> string \<Rightarrow> string \<times> string \<Rightarrow> string \<Rightarrow> goerror + 'm" where
  "NewDescopeClientWithProjectID src NewWithConfig SetListConditions UnknownProject baseURL
       managementKeyVariable gitShaHeader projectID =
    (if projectID = '''' then Inl UnknownProject
     else case NewWithConfig \<lparr>CC_ProjectID = projectID, SessionJWTViaCookie = True,
               DescopeBaseURL = baseURL, LogLevel = getLogLevel src,
               CC_ManagementKey = trim_quotes managementKeyVariable,
               CustomDefaultHeaders = [gitShaHeader]\<rparr> of
            Inl err \<Rightarrow> Inl err
          | Inr m \<Rightarrow> Inr (SetListConditions m True))"

section \<open>The client package\<close>

text \<open>\<open>NewClient\<close> of \<open>src/pkg/authzcache/client/client.go\<close>: it fills the blank fields of the caller's
  configuration (a pointer, so the caller sees the change) and connects.\<close>

record grpc_client_config =
  ServiceAddress :: string
  ServicePort :: string
  HealthID :: string

definition NewClient :: "string \<Rightarrow> string \<Rightarrow> string \<Rightarrow> (grpc_client_config \<Rightarrow> goerror + 'conn) \<Rightarrow>
    ('conn \<Rightarrow> 'client) \<Rightarrow> grpc_client_config \<Rightarrow> (goerror + 'client) \<times> grpc_client_config" where
  "NewClient GetAuthzCacheGRPCHost GetAuthzCacheGRPCPort HealthAuthzCacheGRPC connect NewAuthzCacheClient cfg =
    (let cfg = (if ServiceAddress cfg = '''' then cfg\<lparr>ServiceAddress := GetAuthzCacheGRPCHost\<rparr> else cfg);
         cfg = (if ServicePort cfg = '''' then cfg\<lparr>ServicePort := GetAuthzCacheGRPCPort\<rparr> else cfg);
         cfg = cfg\<lparr>HealthID := HealthAuthzCacheGRPC\<rparr>
     in case connect cfg of
          Inl err \<Rightarrow> (Inl err, cfg)
        | Inr conn \<Rightarrow> (Inr (NewAuthzCacheClient conn), cfg))"

section \<open>Properties\<close>

text \<open>The header of the HTTP response, for every error.\<close>

lemma retry_after_header:
  assumes "ServiceErrorFromSdkError keys errText (Some err) = (e, header)"
  shows "\<forall>h. errorHandlerWithRetryAfter (Some (header_metadata header)) h RetryAfterHeader =
    (case err of SdkError de \<Rightarrow>
       (case (info_value de (HTTPResponseStatusCode keys), info_value de (RateLimitExceededRetryAfter keys)) of
          (AnyInt status, AnyInt seconds) \<Rightarrow>
            if 4 \<le> length (Code de) \<and> status = 429 \<and> 0 < sint seconds \<and>
               SetHeader keys (RetryAfterHeader, Itoa seconds) = None then Some [Itoa seconds]
            else h RetryAfterHeader
        | _ \<Rightarrow> h RetryAfterHeader)
     | _ \<Rightarrow> h RetryAfterHeader)"
  using assms by (cases err)
    (auto simp: ServiceErrorFromSdkError_def setRetryAfter_def info_value_def go_less_def Let_def
      errorHandlerWithRetryAfter_def header_metadata_def header_set_def
      split: if_splits option.splits gany.splits)

lemma write_timeout_positive:
  assumes "sint (GetGatewayWriteTimeoutInSeconds src) \<le> 9223372036"
  shows "1000000000 \<le> sint (setGatewayWriteTimeout src)"
proof -
  have "1 \<le> sint (GetGatewayWriteTimeoutInSeconds src)" by (rule config_lower_bounds)
  with assms sint_in_seconds[of "GetGatewayWriteTimeoutInSeconds src"] show ?thesis
    by (simp add: setGatewayWriteTimeout_def)
qed

end
