(* ===== verification/ReporterLoop.thy ===== *)
theory ReporterLoop
  imports MetricsReport "HOL-Library.Multiset"
begin

text \<open>
  The goroutine \<open>run\<close> of \<open>src/internal/services/metrics/reporter.go\<close>, together with the requests that
  record their calls while it waits: a sequence of recorded calls, ticks and at most one cancelled
  context. What it posts is, window by window, what was recorded in the window.
\<close>

section \<open>The loop\<close>

datatype reporter_event =
    Recorded string APIName CallMetrics
  | Ticked
  | Cancelled

fun recorded_calls :: "reporter_event list \<Rightarrow> recorded_call list" where
  "recorded_calls [] = []"
| "recorded_calls (Recorded p api m # es) = (p, api, m) # recorded_calls es"
| "recorded_calls (_ # es) = recorded_calls es"

text \<open>A call recorded while a report is posted belongs to the next window, as the snapshot has been
  taken. Once the context is cancelled nobody reads the collector any more.\<close>

fun run_reporter :: "'w reporter_ops \<Rightarrow> (string list \<Rightarrow> string list) \<Rightarrow> Reporter \<Rightarrow> reporter_event list \<Rightarrow>
    Collector \<Rightarrow> 'w \<Rightarrow> Collector \<times> 'w" where
  "run_reporter ops order r [] c w = (c, w)"
| "run_reporter ops order r (Recorded p api m # es) c w = run_reporter ops order r es (RecordCall p api m c) w"
| "run_reporter ops order r (Ticked # es) c w =
    (case report ops order r c w of (c', w') \<Rightarrow> run_reporter ops order r es c' w')"
| "run_reporter ops order r (Cancelled # es) c w = (RecordAll (recorded_calls es) c, w)"

section \<open>Windows\<close>

text \<open>The calls of each window that a tick ends, \<open>acc\<close> being those of the present one.\<close>

fun windows_of :: "recorded_call list \<Rightarrow> reporter_event list \<Rightarrow> recorded_call list list" where
  "windows_of acc [] = []"
| "windows_of acc (Recorded p api m # es) = windows_of (acc @ [(p, api, m)]) es"
| "windows_of acc (Ticked # es) = acc # windows_of [] es"
| "windows_of acc (Cancelled # es) = []"

text \<open>What is to be posted for a window: to each project that made a call in it, once, one payload for
  each API it called, over the calls it made to it.\<close>

definition window_report :: "recorded_call list \<Rightarrow> (string \<times> APIMetricsPayload list) list \<Rightarrow> bool" where
  "window_report calls posts \<longleftrightarrow> distinct (map fst posts) \<and>
     fst ` set posts = {p. \<exists>api. calls_of calls p api \<noteq> []} \<and>
     (\<forall>(p, payloads)\<in>set posts. distinct (map P_API payloads) \<and>
        set payloads = (\<lambda>api. buildPayload api (aggregate (calls_of calls p api))) ` {api. calls_of calls p api \<noteq> []})"

definition send_posts :: "'w reporter_ops \<Rightarrow> Reporter \<Rightarrow> (string \<times> APIMetricsPayload list) list \<Rightarrow> 'w \<Rightarrow> 'w" where
  "send_posts ops r posts w = fold (\<lambda>(p, payloads) w. snd (post ops r p payloads w)) posts w"

section \<open>One report\<close>

lemma P_API_buildPayload [simp]: "P_API (buildPayload api agg) = api"
  by (simp add: buildPayload_def Let_def)

lemma build_payloads_map:
  "build_payloads byAPI apis = map (\<lambda>api. buildPayload api (the (map_of byAPI api)))
     (filter (\<lambda>api. \<exists>agg. map_of byAPI api = Some agg \<and> TotalCalls agg \<noteq> 0) apis)"
  by (induction apis) (auto split: option.splits)

definition project_posts :: "(string list \<Rightarrow> string list) \<Rightarrow> Collector \<Rightarrow> string list \<Rightarrow>
    (string \<times> APIMetricsPayload list) list" where
  "project_posts order snapshot ps = filter (\<lambda>(p, payloads). payloads \<noteq> [])
     (map (\<lambda>p. (p, build_payloads (lookup_list snapshot p) (order (map fst (lookup_list snapshot p))))) ps)"

lemma report_projects_posts:
  "report_projects ops order r snapshot ps w = send_posts ops r (project_posts order snapshot ps) w"
proof (induction ps arbitrary: w)
  case Nil
  then show ?case by (simp add: project_posts_def send_posts_def)
next
  case (Cons p ps)
  have "build_payloads (lookup_list snapshot p) (order (map fst (lookup_list snapshot p))) = []"
    if "lookup_list snapshot p = []" using that by (simp add: build_payloads_map)
  with Cons show ?case by (simp add: project_posts_def send_posts_def Let_def)
qed

text \<open>A collector that holds the calls of a window and no others.\<close>

definition holds_window :: "recorded_call list \<Rightarrow> Collector \<Rightarrow> bool" where
  "holds_window calls c \<longleftrightarrow> distinct (map fst c) \<and> (\<forall>p. distinct (map fst (lookup_list c p))) \<and>
     (\<forall>p api. metrics_of c p api = metrics_for calls p api)"

lemma calls_of_snoc: "calls_of (calls @ [(p, api, m)]) p' api' =
    calls_of calls p' api' @ (if p' = p \<and> api' = api then [m] else [])"
  by (auto simp: calls_of_def)

lemma holds_window_record:
  assumes "holds_window calls c"
  shows "holds_window (calls @ [(p, api, m)]) (RecordCall p api m c)"
proof -
  have inner: "distinct (map fst (lookup_list (RecordCall p api m c) q))" for q
    using assms by (simp add: holds_window_def RecordCall_def getOrCreateProjectMetrics_def Let_def distinct_update
        split: option.splits)
  show ?thesis
    using assms distinct_RecordCall[of c p api m] inner
    by (auto simp: holds_window_def metrics_of_Record metrics_for_def calls_of_snoc aggregate_def)
qed

lemma holds_window_reset:
  assumes "holds_window calls c"
  shows "holds_window [] (snd (SnapshotAndReset c))"
proof -
  have d: "distinct (map fst c)" using assms by (simp add: holds_window_def)
  have "lookup_list (snd (SnapshotAndReset c)) p = []" for p
    unfolding SnapshotAndReset_snd by (induction c) (auto simp: lookup_list_def)
  then show ?thesis
    using distinct_reset[OF d] by (simp add: holds_window_def SnapshotAndReset_contents(2)[OF d] metrics_for_def calls_of_def)
qed

lemma TotalCalls_window:
  assumes "calls_of calls p api \<noteq> []" "length calls < 2 ^ 64"
  shows "TotalCalls (aggregate (calls_of calls p api)) \<noteq> 0"
proof -
  have len: "length (calls_of calls p api) < 2 ^ 64"
    unfolding calls_of_def length_map by (rule le_less_trans[OF length_filter_le assms(2)])
  have "\<not> 2 ^ 64 dvd length (calls_of calls p api)"
    using assms(1) len by (auto dest!: dvd_imp_le)
  then show ?thesis by (simp add: aggregate_def fold_record_call_sums word_of_nat_eq_0_iff)
qed

lemma report_window:
  assumes "holds_window calls c" "length calls < 2 ^ 64" "\<forall>ks. mset (order ks) = mset ks"
  shows "window_report calls (project_posts order (fst (SnapshotAndReset c)) (order (map fst (fst (SnapshotAndReset c)))))"
proof -
  let ?s = "fst (SnapshotAndReset c)" let ?ps = "order (map fst ?s)"
  let ?pay = "\<lambda>p. build_payloads (lookup_list ?s p) (order (map fst (lookup_list ?s p)))"
  have perm: "set (order ks) = set ks" "distinct (order ks) = distinct ks" for ks
    using assms(3) by (metis mset_eq_setD) (metis assms(3) mset_eq_imp_distinct_iff)
  have d: "distinct (map fst c)" and inner: "\<And>p. distinct (map fst (lookup_list c p))"
    and m: "\<And>p api. map_of (lookup_list c p) api = metrics_for calls p api"
    using assms(1) by (simp_all add: holds_window_def metrics_of_def)
  have s: "lookup_list ?s p = lookup_list c p" for p
    unfolding SnapshotAndReset_fst by (rule lookup_list_filter[OF d])
  have keys: "fst ` set (lookup_list c p) = {api. calls_of calls p api \<noteq> []}" for p
    using m[of p] by (auto simp: metrics_for_def dom_map_of_conv_image_fst[symmetric] dom_def)
  have pay: "?pay p = map (\<lambda>api. buildPayload api (aggregate (calls_of calls p api)))
      (order (map fst (lookup_list c p)))" for p
  proof -
    let ?apis = "order (map fst (lookup_list c p))"
    have called: "calls_of calls p api \<noteq> []" if "api \<in> set ?apis" for api
      using that keys[of p] by (auto simp: perm(1))
    have "filter (\<lambda>api. \<exists>agg. map_of (lookup_list c p) api = Some agg \<and> TotalCalls agg \<noteq> 0) ?apis = ?apis"
    proof (rule filter_True, rule ballI)
      fix api assume "api \<in> set ?apis"
      then show "\<exists>agg. map_of (lookup_list c p) api = Some agg \<and> TotalCalls agg \<noteq> 0"
        using called TotalCalls_window[OF _ assms(2)] by (simp add: m metrics_for_def)
    qed
    then show ?thesis unfolding build_payloads_map s using called by (simp add: m metrics_for_def)
  qed
  have ne: "?pay p \<noteq> [] \<longleftrightarrow> lookup_list c p \<noteq> []" for p
  proof -
    have "set (order (map fst (lookup_list c p))) = {} \<longleftrightarrow> lookup_list c p = []" unfolding perm(1) by simp
    then show ?thesis unfolding pay by simp
  qed
  have posts: "project_posts order ?s ?ps = map (\<lambda>p. (p, ?pay p)) (filter (\<lambda>p. lookup_list c p \<noteq> []) ?ps)"
    by (simp add: project_posts_def filter_map comp_def ne cong: filter_cong)
  have ps: "set ?ps = {p. lookup_list c p \<noteq> []} \<inter> fst ` set c" "distinct ?ps"
  proof -
    have "distinct (map fst ?s)" unfolding SnapshotAndReset_fst using d by (simp add: distinct_map_filter)
    then show "distinct ?ps" by (simp add: perm)
    have "lookup_list c p = b" if "(p, b) \<in> set c" for p b
      using that d by (simp add: lookup_list_def)
    then show "set ?ps = {p. lookup_list c p \<noteq> []} \<inter> fst ` set c"
      unfolding perm SnapshotAndReset_fst by force
  qed
  have sub: "{p. lookup_list c p \<noteq> []} \<subseteq> fst ` set c"
    by (auto simp: lookup_list_def dest!: map_of_SomeD split: option.splits intro: rev_image_eqI)
  have called: "lookup_list c p \<noteq> [] \<longleftrightarrow> (\<exists>api. calls_of calls p api \<noteq> [])" for p
  proof -
    have "fst ` set (lookup_list c p) = {} \<longleftrightarrow> lookup_list c p = []" by simp
    then show ?thesis unfolding keys by blast
  qed
  have "distinct (map P_API (?pay p))" for p
    unfolding pay by (simp add: comp_def perm inner)
  then show ?thesis
    unfolding window_report_def posts using ps sub called keys
    by (auto simp: comp_def pay perm distinct_map_filter image_image)
qed

section \<open>All reports\<close>

lemma run_reporter_windows:
  assumes "holds_window acc c" "\<forall>calls\<in>set (windows_of acc es). length calls < 2 ^ 64"
    "\<forall>ks. mset (order ks) = mset ks"
  shows "\<exists>posts. list_all2 window_report (windows_of acc es) posts \<and>
    snd (run_reporter ops order r es c w) = send_posts ops r (concat posts) w"
  using assms(1,2)
proof (induction acc es arbitrary: c w rule: windows_of.induct)
  case (1 acc)
  then show ?case by (simp add: send_posts_def)
next
  case (2 acc p api m es)
  then show ?case using holds_window_record[OF 2(2)] by simp
next
  case (3 acc es)
  let ?posts = "project_posts order (fst (SnapshotAndReset c)) (order (map fst (fst (SnapshotAndReset c))))"
  have rep: "report ops order r c w = (snd (SnapshotAndReset c), send_posts ops r ?posts w)"
    by (simp add: report_def report_projects_posts split_beta)
  have now: "window_report acc ?posts" using report_window[OF 3(2) _ assms(3)] 3(3) by simp
  obtain posts where "list_all2 window_report (windows_of [] es) posts"
    "snd (run_reporter ops order r es (snd (SnapshotAndReset c)) (send_posts ops r ?posts w)) =
      send_posts ops r (concat posts) (send_posts ops r ?posts w)"
    using 3(1)[OF holds_window_reset[OF 3(2)]] 3(3) by auto
  with now rep show ?case by (intro exI[of _ "?posts # posts"]) (simp add: send_posts_def)
next
  case (4 acc es)
  then show ?case by (simp add: send_posts_def)
qed

lemma holds_window_new: "holds_window [] NewCollector"
  by (simp add: holds_window_def NewCollector_def metrics_of_def metrics_for_def calls_of_def)

end
