(* ===== verification/ServiceCalls.thy ===== *)
theory ServiceCalls
  imports ServiceLookups
begin

text \<open>
  The service as its callers see it: one type of request for the interface \<open>AuthzCache\<close> of
  \<open>src/internal/services/authz.go\<close>, the dispatch to its six operations, and sequences of requests of
  several projects. A project sees nothing of the others: each operation, run on two states that agree
  on its project, ends alike and leaves the other projects' caches alone.
\<close>

section \<open>Requests\<close>

datatype api_call =
    CallCreateFGASchema string
  | CallCreateFGARelations "FGARelation list"
  | CallDeleteFGARelations "FGARelation list"
  | CallCheck "FGARelation list" reqcontext
  | CallWhoCanAccess string string string reqcontext
  | CallWhatCanTargetAccess string reqcontext

datatype api_answer =
    Written
  | Checked "FGACheck list"
  | Targets "string list"
  | Relations "AuthzRelation list"

definition answer_as :: "('x \<Rightarrow> api_answer) \<Rightarrow> (goerror + 'x) \<times> ('rc, 'lc, 'p) authzCache \<times> 'w \<Rightarrow>
    (goerror + api_answer) \<times> ('rc, 'lc, 'p) authzCache \<times> 'w" where
  "answer_as f r = (map_sum id f (fst r), snd r)"

fun call_service :: "('rc, 'lc, 'p, 'w) service_env \<Rightarrow> string \<Rightarrow> api_call \<Rightarrow>
    ('rc, 'lc, 'p) authzCache \<Rightarrow> 'w \<Rightarrow> (goerror + api_answer) \<times> ('rc, 'lc, 'p) authzCache \<times> 'w" where
  "call_service se pid (CallCreateFGASchema dsl) a w = answer_as (\<lambda>_. Written) (CreateFGASchema se pid dsl a w)"
| "call_service se pid (CallCreateFGARelations rels) a w =
     answer_as (\<lambda>_. Written) (CreateFGARelations se pid rels a w)"
| "call_service se pid (CallDeleteFGARelations rels) a w =
     answer_as (\<lambda>_. Written) (DeleteFGARelations se pid rels a w)"
| "call_service se pid (CallCheck rels ctx) a w = answer_as Checked (Check se pid rels ctx a w)"
| "call_service se pid (CallWhoCanAccess r d n ctx) a w =
     answer_as Targets (WhoCanAccess se pid r d n ctx a w)"
| "call_service se pid (CallWhatCanTargetAccess t ctx) a w =
     answer_as Relations (WhatCanTargetAccess se pid t ctx a w)"

text \<open>Requests of any projects, one after the other.\<close>

fun call_all :: "('rc, 'lc, 'p, 'w) service_env \<Rightarrow> (string \<times> api_call) list \<Rightarrow>
    ('rc, 'lc, 'p) authzCache \<Rightarrow> 'w \<Rightarrow> (goerror + api_answer) list \<times> ('rc, 'lc, 'p) authzCache \<times> 'w" where
  "call_all se [] a w = ([], a, w)"
| "call_all se ((pid, c) # calls) a w =
    (case call_service se pid c a w of
       (x, a1, w1) \<Rightarrow> (case call_all se calls a1 w1 of (xs, a2, w2) \<Rightarrow> (x # xs, a2, w2)))"

lemma answer_as_cases:
  assumes "answer_as f r = (x, a', w')"
  obtains (failed) err where "r = (Inl err, a', w')" "x = Inl err"
    | (answered) y where "r = (Inr y, a', w')" "x = Inr (f y)"
  using assms by (cases r; cases "fst r") (auto simp: answer_as_def)

section \<open>A project sees nothing of the others\<close>

text \<open>Two outcomes that a project cannot tell apart, up to the metrics, of a request that has left
  the caches of the other projects alone.\<close>

definition same_outcome :: "string \<Rightarrow> ('rc, 'lc, 'p) authzCache \<Rightarrow> ('rc, 'lc, 'p) authzCache \<Rightarrow>
    'x \<times> ('rc, 'lc, 'p) authzCache \<times> 'w \<Rightarrow> 'x \<times> ('rc, 'lc, 'p) authzCache \<times> 'w \<Rightarrow> bool" where
  "same_outcome pid a b r q \<longleftrightarrow> fst r = fst q \<and> snd (snd r) = snd (snd q) \<and>
     projects (fst (snd r)) pid = projects (fst (snd q)) pid \<and>
     (\<forall>p. p \<noteq> pid \<longrightarrow> projects (fst (snd r)) p = projects a p \<and> projects (fst (snd q)) p = projects b p)"

named_theorems isolated "the operations of the service, run on two states that agree on a project"

lemma same_outcome_answer [isolated]:
  "same_outcome pid a b r q \<Longrightarrow> same_outcome pid a b (answer_as f r) (answer_as f q)"
  by (simp add: same_outcome_def answer_as_def)

lemma getOrCreate_isolated [isolated]:
  "projects a pid = projects b pid \<Longrightarrow>
    same_outcome pid a b (getOrCreateProjectCache se pid a w) (getOrCreateProjectCache se pid b w)"
  by (auto simp: same_outcome_def getOrCreateProjectCache_def split: option.splits sum.splits prod.splits)

text \<open>Every operation starts with \<open>getOrCreateProjectCache\<close> and then writes the project's entry only.\<close>

lemma getOrCreate_cases:
  assumes "projects a pid = projects b pid"
  obtains (failed) err a1 b1 w1 where
      "getOrCreateProjectCache se pid a w = (Inl err, a1, w1)" "getOrCreateProjectCache se pid b w = (Inl err, b1, w1)"
      "projects a1 pid = projects b1 pid" "\<And>p. p \<noteq> pid \<Longrightarrow> projects a1 p = projects a p \<and> projects b1 p = projects b p"
    | (found) pc a1 b1 w1 where
      "getOrCreateProjectCache se pid a w = (Inr pc, a1, w1)" "getOrCreateProjectCache se pid b w = (Inr pc, b1, w1)"
      "projects a1 pid = projects b1 pid" "\<And>p. p \<noteq> pid \<Longrightarrow> projects a1 p = projects a p \<and> projects b1 p = projects b p"
  using getOrCreate_isolated[OF assms, of se w]
  by (cases "getOrCreateProjectCache se pid a w"; cases "getOrCreateProjectCache se pid b w";
      cases "fst (getOrCreateProjectCache se pid a w)") (auto simp: same_outcome_def)

lemma writes_isolated [isolated]:
  assumes "projects a pid = projects b pid"
  shows "same_outcome pid a b (CreateFGASchema se pid dsl a w) (CreateFGASchema se pid dsl b w)"
    and "same_outcome pid a b (CreateFGARelations se pid rels a w) (CreateFGARelations se pid rels b w)"
    and "same_outcome pid a b (DeleteFGARelations se pid rels a w) (DeleteFGARelations se pid rels b w)"
proof -
  show "same_outcome pid a b (CreateFGASchema se pid dsl a w) (CreateFGASchema se pid dsl b w)"
    by (cases rule: getOrCreate_cases[OF assms, of se w])
      (auto simp: assms same_outcome_def CreateFGASchema_def split: option.splits prod.splits)
  show "same_outcome pid a b (CreateFGARelations se pid rels a w) (CreateFGARelations se pid rels b w)"
    by (cases rule: getOrCreate_cases[OF assms, of se w])
      (auto simp: assms same_outcome_def CreateFGARelations_def split: option.splits prod.splits)
  show "same_outcome pid a b (DeleteFGARelations se pid rels a w) (DeleteFGARelations se pid rels b w)"
    by (cases rule: getOrCreate_cases[OF assms, of se w])
      (auto simp: assms same_outcome_def DeleteFGARelations_def split: option.splits prod.splits)
qed

lemma Check_isolated [isolated]:
  assumes "projects a pid = projects b pid"
  shows "same_outcome pid a b (Check se pid rels ctx a w) (Check se pid rels ctx b w)"
  by (cases rule: getOrCreate_cases[OF assms, of se w])
    (auto simp: same_outcome_def Check_def Let_def split: option.splits sum.splits prod.splits)

lemma filter_candidates_isolated [isolated]:
  assumes "projects a pid = projects b pid"
  shows "same_outcome pid a b (filter_candidates se pid f cands ctx a w) (filter_candidates se pid f cands ctx b w)"
  using Check_isolated[OF assms, of se "map f cands" ctx w]
  by (auto simp: same_outcome_def filter_candidates_def split: option.splits sum.splits prod.splits)

lemma WhoCanAccess_isolated [isolated]:
  assumes "projects a pid = projects b pid"
  shows "same_outcome pid a b (WhoCanAccess se pid r d n ctx a w) (WhoCanAccess se pid r d n ctx b w)"
  using assms
proof (cases rule: getOrCreate_cases[of a pid b se w])
  case (failed err a1 b1 w1)
  then show ?thesis by (simp add: same_outcome_def WhoCanAccess_def)
next
  case (found pc a1 b1 w1)
  obtain cands hit pc1 where read: "GetWhoCanAccessCached (cenv se) (Now (sdk se) w1) r d n pc = ((cands, hit), pc1)" by (metis surj_pair)
  show ?thesis
    using filter_candidates_isolated[of "put_cache pid pc1 a1" pid "put_cache pid pc1 b1" se "who_relation r d n" cands ctx w1]
      found(3,4)
    by (auto simp: same_outcome_def WhoCanAccess_def Let_def found(1,2) read filterWhoCanAccessCandidates_def
        split: option.splits sum.splits prod.splits)
qed

lemma WhatCanTargetAccess_isolated [isolated]:
  assumes "projects a pid = projects b pid"
  shows "same_outcome pid a b (WhatCanTargetAccess se pid t ctx a w) (WhatCanTargetAccess se pid t ctx b w)"
  using assms
proof (cases rule: getOrCreate_cases[of a pid b se w])
  case (failed err a1 b1 w1)
  then show ?thesis by (simp add: same_outcome_def WhatCanTargetAccess_def)
next
  case (found pc a1 b1 w1)
  obtain cands hit pc1 where read: "GetWhatCanTargetAccessCached (cenv se) (Now (sdk se) w1) t pc = ((cands, hit), pc1)" by (metis surj_pair)
  show ?thesis
    using filter_candidates_isolated[of "put_cache pid pc1 a1" pid "put_cache pid pc1 b1" se "what_relation t" cands ctx w1]
      found(3,4)
    by (auto simp: same_outcome_def WhatCanTargetAccess_def Let_def found(1,2) read filterWhatCanTargetAccessCandidates_def
        split: option.splits sum.splits prod.splits)
qed

lemma call_service_isolated:
  assumes "projects a pid = projects b pid"
  shows "same_outcome pid a b (call_service se pid c a w) (call_service se pid c b w)"
  by (cases c) (simp_all add: isolated assms)

lemma call_service_others: "p \<noteq> pid \<Longrightarrow> projects (fst (snd (call_service se pid c a w))) p = projects a p"
  using call_service_isolated[of a pid a se c w] by (simp add: same_outcome_def)

lemma call_all_others:
  assumes "call_all se calls a w = (xs, a', w')" "\<forall>(p, c)\<in>set calls. p \<noteq> pid"
  shows "projects a' pid = projects a pid"
  using assms
proof (induction calls arbitrary: a w xs a' w')
  case Nil
  then show ?case by simp
next
  case (Cons call calls)
  obtain p c where call: "call = (p, c)" by fastforce
  obtain x a1 w1 where one: "call_service se p c a w = (x, a1, w1)" by (metis prod_cases3)
  obtain ys a2 w2 where rest: "call_all se calls a1 w1 = (ys, a2, w2)" by (metis prod_cases3)
  have "a' = a2" using Cons.prems(1) by (simp add: call one rest)
  then show ?case
    using Cons.IH[OF rest] Cons.prems(2) call_service_others[of pid p se c a w] one by (auto simp: call)
qed

end
