(* ===== verification/ServiceBounds.thy ===== *)
theory ServiceBounds
  imports ServiceCalls
begin

text \<open>
  How often a request calls the SDK. The program has no retry and no loop around a call, so the number
  of calls has a bound that does not depend on the request's size; with calls that return, every
  request returns. A log of the calls then says which calls a \<open>Check\<close> makes, with which arguments.
\<close>

section \<open>A request makes few calls\<close>

text \<open>A world that counts: every operation of the SDK is one call.\<close>

definition counts_calls :: "('rc, 'lc, 'p, 'w) service_env \<Rightarrow> ('w \<Rightarrow> nat) \<Rightarrow> bool" where
  "counts_calls se calls \<longleftrightarrow>
     (\<forall>pid w. calls (snd (NewManagement (sdk se) pid w)) = Suc (calls w)) \<and>
     (\<forall>pid s w. calls (snd (SaveSchema (sdk se) pid s w)) = Suc (calls w)) \<and>
     (\<forall>pid w. calls (snd (LoadSchema (sdk se) pid w)) = Suc (calls w)) \<and>
     (\<forall>pid rels w. calls (snd (CreateRelations (sdk se) pid rels w)) = Suc (calls w)) \<and>
     (\<forall>pid rels w. calls (snd (DeleteRelations (sdk se) pid rels w)) = Suc (calls w)) \<and>
     (\<forall>pid rels ctx w. calls (snd (CheckWithContext (sdk se) pid rels ctx w)) = Suc (calls w)) \<and>
     (\<forall>pid r d n w. calls (snd (SDK_WhoCanAccess (sdk se) pid r d n w)) = Suc (calls w)) \<and>
     (\<forall>pid t w. calls (snd (SDK_WhatCanTargetAccess (sdk se) pid t w)) = Suc (calls w))"

lemma counts_callsD:
  assumes "counts_calls se calls"
  shows "NewManagement (sdk se) pid w = (e, w') \<Longrightarrow> calls w' = Suc (calls w)"
    "SaveSchema (sdk se) pid s w = (e, w') \<Longrightarrow> calls w' = Suc (calls w)"
    "LoadSchema (sdk se) pid w = (ls, w') \<Longrightarrow> calls w' = Suc (calls w)"
    "CreateRelations (sdk se) pid rels w = (e, w') \<Longrightarrow> calls w' = Suc (calls w)"
    "DeleteRelations (sdk se) pid rels w = (e, w') \<Longrightarrow> calls w' = Suc (calls w)"
    "CheckWithContext (sdk se) pid rels ctx w = (cs, w') \<Longrightarrow> calls w' = Suc (calls w)"
    "SDK_WhoCanAccess (sdk se) pid r d n w = (ts, w') \<Longrightarrow> calls w' = Suc (calls w)"
    "SDK_WhatCanTargetAccess (sdk se) pid t w = (rs, w') \<Longrightarrow> calls w' = Suc (calls w)"
  using assms unfolding counts_calls_def by (metis snd_conv)+

lemma getOrCreate_calls:
  assumes "counts_calls se calls" "getOrCreateProjectCache se pid a w = (res, a1, w1)"
  shows "calls w1 \<le> (if projects a pid = None then Suc (calls w) else calls w)"
    and "res = Inr pc \<Longrightarrow> projects a1 pid = Some pc"
  using assms(2) counts_callsD(1)[OF assms(1)]
  by (auto simp: getOrCreateProjectCache_def split: option.splits sum.splits prod.splits)

lemma ensureSchemaLoaded_calls:
  assumes "counts_calls se calls" "ensureSchemaLoaded se pid pc w = (pc', w')"
  shows "calls w' \<le> Suc (calls w)"
  using assms(2) counts_callsD(3)[OF assms(1), of pid w]
  by (auto simp: ensureSchemaLoaded_def split: if_splits sum.splits prod.splits)

text \<open>A \<open>Check\<close> of a known project calls at most twice, for the misses and for the schema.\<close>

lemma Check_few_calls:
  assumes "counts_calls se calls" "Check se pid rels ctx a w = (res, a', w')"
  shows "calls w' \<le> calls w + (if projects a pid = None then 3 else 2)"
proof -
  obtain gres a1 w1 where get: "getOrCreateProjectCache se pid a w = (gres, a1, w1)" by (metis prod_cases3)
  note g = getOrCreate_calls(1)[OF assms(1) get]
  have "calls w' \<le> calls w1 + 2"
  proof (cases gres)
    case (Inl err)
    then show ?thesis using assms(2) by (simp add: Check_def get Let_def)
  next
    case (Inr pc)
    obtain cs us idx pc1 where read: "CheckRelations (cenv se) pc rels ctx = ((cs, us, idx), pc1)"
      by (cases "CheckRelations (cenv se) pc rels ctx") (metis prod_cases3)
    obtain sres w2 where call: "CheckWithContext (sdk se) pid us ctx w1 = (sres, w2)" by fastforce
    have w2: "calls w2 = Suc (calls w1)" by (rule counts_callsD(6)[OF assms(1) call])
    have load: "calls w3 \<le> Suc (calls w2)" if "ensureSchemaLoaded se pid pc1 w2 = (pc2, w3)" for pc2 w3
      by (rule ensureSchemaLoaded_calls[OF assms(1) that])
    show ?thesis
      using assms(2) load w2 by (auto simp: Check_def get Inr Let_def read call split: if_splits sum.splits
          option.splits prod.splits dest!: load)
  qed
  then show ?thesis using g by (simp split: if_splits)
qed

lemma filter_candidates_calls:
  assumes "counts_calls se calls" "filter_candidates se pid f cands ctx a w = (res, a', w')" "projects a pid \<noteq> None"
  shows "calls w' \<le> calls w + 2"
proof -
  obtain cres a1 w1 where run: "Check se pid (map f cands) ctx a w = (cres, a1, w1)" by (metis prod_cases3)
  have "w' = w1" using assms(2) run by (auto simp: filter_candidates_def split: sum.splits option.splits)
  then show ?thesis using Check_few_calls[OF assms(1) run] assms(3) by simp
qed

lemma lookups_few_calls:
  assumes "counts_calls se calls"
  shows "WhoCanAccess se pid r d n ctx a w = (wres, a', w') \<Longrightarrow> calls w' \<le> calls w + 3"
    and "WhatCanTargetAccess se pid t ctx a w = (tres, a', w') \<Longrightarrow> calls w' \<le> calls w + 3"
proof -
  obtain gres a1 w1 where get: "getOrCreateProjectCache se pid a w = (gres, a1, w1)" by (metis prod_cases3)
  have w1: "calls w1 \<le> Suc (calls w)" using getOrCreate_calls(1)[OF assms get] by (simp split: if_splits)
  show "calls w' \<le> calls w + 3" if run: "WhoCanAccess se pid r d n ctx a w = (wres, a', w')"
  proof (cases gres)
    case (Inl err)
    then show ?thesis using run w1 by (simp add: WhoCanAccess_def get Let_def)
  next
    case (Inr pc)
    obtain cands hit pc1 where read: "GetWhoCanAccessCached (cenv se) (Now (sdk se) w1) r d n pc = ((cands, hit), pc1)"
      by (metis surj_pair)
    have flt: "calls w2 \<le> calls w1 + 2"
      if "filter_candidates se pid (who_relation r d n) cands ctx (put_cache pid pc1 a1) w1 = (res, a2, w2)" for res a2 w2
      by (rule filter_candidates_calls[OF assms that]) simp
    show ?thesis
      using run w1 counts_callsD(7)[OF assms, of pid r d n w1]
      by (auto simp: WhoCanAccess_def filterWhoCanAccessCandidates_def get Inr Let_def read
          split: if_splits sum.splits prod.splits dest!: flt)
  qed
  show "calls w' \<le> calls w + 3" if run: "WhatCanTargetAccess se pid t ctx a w = (tres, a', w')"
  proof (cases gres)
    case (Inl err)
    then show ?thesis using run w1 by (simp add: WhatCanTargetAccess_def get Let_def)
  next
    case (Inr pc)
    obtain cands hit pc1 where read: "GetWhatCanTargetAccessCached (cenv se) (Now (sdk se) w1) t pc = ((cands, hit), pc1)"
      by (metis surj_pair)
    have flt: "calls w2 \<le> calls w1 + 2"
      if "filter_candidates se pid (what_relation t) cands ctx (put_cache pid pc1 a1) w1 = (res, a2, w2)" for res a2 w2
      by (rule filter_candidates_calls[OF assms that]) simp
    show ?thesis
      using run w1 counts_callsD(8)[OF assms, of pid t w1]
      by (auto simp: WhatCanTargetAccess_def filterWhatCanTargetAccessCandidates_def get Inr Let_def read
          split: if_splits sum.splits prod.splits dest!: flt)
  qed
qed

lemma writes_few_calls:
  assumes "counts_calls se calls"
  shows "CreateFGASchema se pid dsl a w = (res, a', w') \<Longrightarrow> calls w' \<le> calls w + 2"
    and "CreateFGARelations se pid rels a w = (res, a', w') \<Longrightarrow> calls w' \<le> calls w + 2"
    and "DeleteFGARelations se pid rels a w = (res, a', w') \<Longrightarrow> calls w' \<le> calls w + 2"
proof -
  obtain gres a1 w1 where get: "getOrCreateProjectCache se pid a w = (gres, a1, w1)" by (metis prod_cases3)
  have w1: "calls w1 \<le> Suc (calls w)" using getOrCreate_calls(1)[OF assms get] by (simp split: if_splits)
  show "calls w' \<le> calls w + 2" if "CreateFGASchema se pid dsl a w = (res, a', w')"
    using that w1 counts_callsD(2)[OF assms]
    by (auto simp: CreateFGASchema_def get split: sum.splits option.splits prod.splits)
  show "calls w' \<le> calls w + 2" if "CreateFGARelations se pid rels a w = (res, a', w')"
    using that w1 counts_callsD(4)[OF assms, of pid rels w1]
    by (auto simp: CreateFGARelations_def get split: if_splits sum.splits option.splits prod.splits)
  show "calls w' \<le> calls w + 2" if "DeleteFGARelations se pid rels a w = (res, a', w')"
    using that w1 counts_callsD(5)[OF assms, of pid rels w1]
    by (auto simp: DeleteFGARelations_def get split: if_splits sum.splits option.splits prod.splits)
qed

lemma call_service_calls:
  assumes "counts_calls se calls" "call_service se pid c a w = (x, a', w')"
  shows "calls w' \<le> calls w + 3"
proof (cases c)
  case (CallCreateFGASchema dsl)
  then show ?thesis
    using assms(2) writes_few_calls(1)[OF assms(1), of pid dsl a w]
    by (cases "CreateFGASchema se pid dsl a w") (auto simp: answer_as_def)
next
  case (CallCreateFGARelations rels)
  then show ?thesis
    using assms(2) writes_few_calls(2)[OF assms(1), of pid rels a w]
    by (cases "CreateFGARelations se pid rels a w") (auto simp: answer_as_def)
next
  case (CallDeleteFGARelations rels)
  then show ?thesis
    using assms(2) writes_few_calls(3)[OF assms(1), of pid rels a w]
    by (cases "DeleteFGARelations se pid rels a w") (auto simp: answer_as_def)
next
  case (CallCheck rels ctx)
  then show ?thesis
    using assms(2) Check_few_calls[OF assms(1), of pid rels ctx a w]
    by (cases "Check se pid rels ctx a w") (auto simp: answer_as_def split: if_splits)
next
  case (CallWhoCanAccess r d n ctx)
  then show ?thesis
    using assms(2) lookups_few_calls(1)[OF assms(1), of pid r d n ctx a w]
    by (cases "WhoCanAccess se pid r d n ctx a w") (auto simp: answer_as_def)
next
  case (CallWhatCanTargetAccess t ctx)
  then show ?thesis
    using assms(2) lookups_few_calls(2)[OF assms(1), of pid t ctx a w]
    by (cases "WhatCanTargetAccess se pid t ctx a w") (auto simp: answer_as_def)
qed

section \<open>Which calls a check makes\<close>

text \<open>A world that keeps a log: every operation of the SDK appends its call to it.\<close>

datatype sdk_call =
    NewManagementCall string
  | SaveSchemaCall string FGASchema
  | LoadSchemaCall string
  | CreateRelationsCall string "FGARelation list"
  | DeleteRelationsCall string "FGARelation list"
  | CheckCall string "FGARelation list" reqcontext
  | WhoCanAccessCall string string string string
  | WhatCanTargetAccessCall string string

definition logs_calls :: "('rc, 'lc, 'p, 'w) service_env \<Rightarrow> ('w \<Rightarrow> sdk_call list) \<Rightarrow> bool" where
  "logs_calls se trace \<longleftrightarrow>
     (\<forall>pid w. trace (snd (NewManagement (sdk se) pid w)) = trace w @ [NewManagementCall pid]) \<and>
     (\<forall>pid s w. trace (snd (SaveSchema (sdk se) pid s w)) = trace w @ [SaveSchemaCall pid s]) \<and>
     (\<forall>pid w. trace (snd (LoadSchema (sdk se) pid w)) = trace w @ [LoadSchemaCall pid]) \<and>
     (\<forall>pid rels w. trace (snd (CreateRelations (sdk se) pid rels w)) = trace w @ [CreateRelationsCall pid rels]) \<and>
     (\<forall>pid rels w. trace (snd (DeleteRelations (sdk se) pid rels w)) = trace w @ [DeleteRelationsCall pid rels]) \<and>
     (\<forall>pid rels ctx w. trace (snd (CheckWithContext (sdk se) pid rels ctx w)) = trace w @ [CheckCall pid rels ctx]) \<and>
     (\<forall>pid r d n w. trace (snd (SDK_WhoCanAccess (sdk se) pid r d n w)) = trace w @ [WhoCanAccessCall pid r d n]) \<and>
     (\<forall>pid t w. trace (snd (SDK_WhatCanTargetAccess (sdk se) pid t w)) = trace w @ [WhatCanTargetAccessCall pid t])"

lemma logs_callsD:
  assumes "logs_calls se trace"
  shows "CheckWithContext (sdk se) pid rels ctx w = (cs, w') \<Longrightarrow> trace w' = trace w @ [CheckCall pid rels ctx]"
    "LoadSchema (sdk se) pid w = (ls, w') \<Longrightarrow> trace w' = trace w @ [LoadSchemaCall pid]"
  using assms unfolding logs_calls_def by (metis snd_conv)+

text \<open>Whether a schema with a version is held, so that none has to be loaded.\<close>

definition schema_held :: "('rc, 'lc, 'p) projectAuthzCache \<Rightarrow> bool" where
  "schema_held pc \<longleftrightarrow> (\<exists>schema. GetSchema pc = Some schema \<and> Version schema \<noteq> '''')"

lemma ensureSchemaLoaded_log:
  assumes "logs_calls se trace" "ensureSchemaLoaded se pid pc w = (pc', w')"
  shows "trace w' = trace w @ (if schema_held pc then [] else [LoadSchemaCall pid])"
  using assms(2) logs_callsD(2)[OF assms(1), of pid w]
  by (auto simp: ensureSchemaLoaded_def schema_held_def split: if_splits option.splits sum.splits prod.splits)

text \<open>What merging yields: at the position of a cached answer that answer, at the \<open>j\<close>-th position without
  one the \<open>j\<close>-th check of the SDK.\<close>

lemma merge_checks_nth:
  assumes "merge_checks idx i rs sdkChecks = Some result"
  shows "length result = length rs" "k < length rs \<Longrightarrow> result ! k = (case idx (i + k) of
      Some c \<Rightarrow> c | None \<Rightarrow> sdkChecks ! length (filter (\<lambda>j. idx j = None) [i ..< i + k]))"
proof -
  have "length result = length rs \<and> (\<forall>k<length rs. result ! k = (case idx (i + k) of
      Some c \<Rightarrow> c | None \<Rightarrow> sdkChecks ! length (filter (\<lambda>j. idx j = None) [i ..< i + k])))"
    using assms
  proof (induction rs arbitrary: i sdkChecks result)
    case Nil
    then show ?case by simp
  next
    case (Cons r rs)
    have up: "[i ..< Suc (i + k)] = i # [Suc i ..< Suc (i + k)]" for k by (rule upt_conv_Cons) simp
    show ?case
    proof (cases "idx i")
      case None
      then obtain c cs res where s: "sdkChecks = c # cs" "result = c # res"
        "merge_checks idx (Suc i) rs cs = Some res"
        using Cons.prems by (auto split: list.splits)
      show ?thesis
        using Cons.IH[OF s(3)] None by (auto simp: s(1,2) less_Suc_eq_0_disj up simp del: upt_Suc split: option.splits)
    next
      case (Some c)
      then obtain res where s: "result = c # res" "merge_checks idx (Suc i) rs sdkChecks = Some res"
        using Cons.prems by auto
      show ?thesis
        using Cons.IH[OF s(2)] Some by (auto simp: s(1) less_Suc_eq_0_disj up simp del: upt_Suc split: option.splits)
    qed
  qed
  then show "length result = length rs" "k < length rs \<Longrightarrow> result ! k = (case idx (i + k) of
      Some c \<Rightarrow> c | None \<Rightarrow> sdkChecks ! length (filter (\<lambda>j. idx j = None) [i ..< i + k]))" by blast+
qed

text \<open>A \<open>Check\<close> of a known project, call by call.\<close>

lemma Check_log:
  assumes "logs_calls se trace" "projects a pid = Some pc"
    "CheckRelations (cenv se) pc rs ctx = ((cs, us, idx), pc1)" "Check se pid rs ctx a w = (res, a', w')"
  shows "us = [] \<Longrightarrow> res = Inr cs \<and> w' = w"
    and "us \<noteq> [] \<Longrightarrow> CheckWithContext (sdk se) pid us ctx w = (Inl err, w2) \<Longrightarrow>
      res = Inl err \<and> w' = w2"
    and "us \<noteq> [] \<Longrightarrow> CheckWithContext (sdk se) pid us ctx w = (Inr sdkChecks, w2) \<Longrightarrow>
      res = (case merge_checks idx 0 rs sdkChecks of None \<Rightarrow> Inl (GoPanic ''index out of range'') | Some rs' \<Rightarrow> Inr rs') \<and>
      trace w' = trace w @ [CheckCall pid us ctx] @
        (if hasCacheableConditional sdkChecks \<and> \<not> schema_held pc1 then [LoadSchemaCall pid] else [])"
proof -
  have get: "getOrCreateProjectCache se pid a w = (Inr pc, a, w)"
    by (simp add: getOrCreateProjectCache_def assms(2))
  show "us = [] \<Longrightarrow> res = Inr cs \<and> w' = w"
    using assms(4) by (simp add: Check_def get Let_def assms(3))
  show "res = Inl err \<and> w' = w2"
    if "us \<noteq> []" "CheckWithContext (sdk se) pid us ctx w = (Inl err, w2)"
    using assms(4) that by (simp add: Check_def get Let_def assms(3))
  show "res = (case merge_checks idx 0 rs sdkChecks of None \<Rightarrow> Inl (GoPanic ''index out of range'') | Some rs' \<Rightarrow> Inr rs') \<and>
      trace w' = trace w @ [CheckCall pid us ctx] @
        (if hasCacheableConditional sdkChecks \<and> \<not> schema_held pc1 then [LoadSchemaCall pid] else [])"
    if "us \<noteq> []" "CheckWithContext (sdk se) pid us ctx w = (Inr sdkChecks, w2)"
  proof -
    obtain pc2 w3 where load: "(if hasCacheableConditional sdkChecks then ensureSchemaLoaded se pid pc1 w2 else (pc1, w2)) = (pc2, w3)"
      by fastforce
    have w3: "trace w3 = trace w2 @ (if hasCacheableConditional sdkChecks \<and> \<not> schema_held pc1 then [LoadSchemaCall pid] else [])"
      using load ensureSchemaLoaded_log[OF assms(1), of pid pc1 w2] by (auto split: if_splits)
    have "w' = w3" "res = (case merge_checks idx 0 rs sdkChecks of
        None \<Rightarrow> Inl (GoPanic ''index out of range'') | Some rs' \<Rightarrow> Inr rs')"
      using assms(4) that load by (simp_all add: Check_def get Let_def assms(3) split: option.splits)
    then show ?thesis using w3 logs_callsD(1)[OF assms(1) that(2)] by simp
  qed
qed

end
