(* ===== verification/EdgeProperties.thy ===== *)
theory EdgeProperties
  imports Examples Gateway ReporterLoop ServiceBounds
begin

text \<open>
  The properties of what surrounds the caches: which relations a \<open>Check\<close> sends to the SDK, how
  it merges the answers, the metrics from the single call to the reported payload, the reporter's
  URL, and the errors that leave the process.
\<close>

section \<open>Check and the SDK\<close>

text \<open>C34. What a \<open>Check\<close> of a known project asks the SDK. The relations it sends are those at the positions
  without a cached answer, in order. When there are none it makes no call and returns the cached
  answers. Otherwise it makes one check call, with exactly these relations, and, when that answered a
  cacheable conditional check and no schema with a version is held, one call that loads the schema,
  and no other: an error of the check call is the result, a short answer panics, and any other answer
  is merged with the cached ones, each check at the position of its relation.\<close>

theorem check_asks_only_misses:
  assumes "cache_contract (cenv se) wfr wfl" "logs_calls se trace" "projects a pid = Some pc"
    "cache_inv (cenv se) wfr wfl pc" "CheckRelations (cenv se) pc rs ctx = ((cs, us, idx), pc1)"
    "Check se pid rs ctx a w = (res, a', w')"
  shows "us = map ((!) rs) (filter (\<lambda>i. idx i = None) [0 ..< length rs]) \<and>
    (if us = [] then w' = w \<and> res = Inr (map (the \<circ> idx) [0 ..< length rs])
     else case CheckWithContext (sdk se) pid us ctx w of
        (Inl err, w2) \<Rightarrow> res = Inl err \<and> w' = w2 \<and> trace w' = trace w @ [CheckCall pid us ctx]
      | (Inr sdkChecks, w2) \<Rightarrow>
          trace w' = trace w @ [CheckCall pid us ctx] @
            (if hasCacheableConditional sdkChecks \<and> \<not> schema_held pc then [LoadSchemaCall pid] else []) \<and>
          (if length sdkChecks < length us then res = Inl (GoPanic ''index out of range'')
           else \<exists>result. res = Inr result \<and> length result = length rs \<and>
             (\<forall>i<length rs. result ! i = (case idx i of Some c \<Rightarrow> c
                | None \<Rightarrow> sdkChecks ! length (filter (\<lambda>j. idx j = None) [0 ..< i])))))"
proof -
  note wf = cache_invD(1)[OF assms(4)]
  note spec = cache_contract.CheckRelations_spec[OF assms(1) wf assms(5)]
  have us: "us = map ((!) rs) (filter (\<lambda>i. idx i = None) [0 ..< length rs])"
    using filter_map[of "\<lambda>r. served (cenv se) pc ctx r = None" "(!) rs" "[0 ..< length rs]"]
    by (auto simp: spec(2,3) map_nth comp_def intro!: arg_cong[where f = "map ((!) rs)"] filter_cong)
  have held: "schema_held pc1 = schema_held pc"
    by (simp add: schema_held_def GetSchema_def reads_alikeD(10)[OF spec(5)])
  note run = Check_log[OF assms(2,3,5,6)]
  show ?thesis
  proof (cases "us = []")
    case True
    have "\<forall>r\<in>set rs. served (cenv se) pc ctx r \<noteq> None"
      using True by (auto simp: spec(2) filter_empty_conv)
    then have "filter (\<lambda>r. served (cenv se) pc ctx r \<noteq> None) rs = rs" by (simp only: filter_True)
    then have "cs = map (the \<circ> idx) [0 ..< length rs]"
      by (intro nth_equalityI) (simp_all add: spec(1,3) List.map_filter_def)
    then show ?thesis using run(1)[OF True] True us by simp
  next
    case False
    obtain sres w2 where call: "CheckWithContext (sdk se) pid us ctx w = (sres, w2)" by fastforce
    show ?thesis
    proof (cases sres)
      case (Inl err)
      show ?thesis
        using False us call run(2)[OF False call[unfolded Inl]] logs_callsD(1)[OF assms(2) call] by (simp add: Inl)
    next
      case (Inr sdkChecks)
      note r = run(3)[OF False call[unfolded Inr]]
      have short: "merge_checks idx 0 rs sdkChecks = None \<longleftrightarrow> length sdkChecks < length us"
        by (simp add: merge_checks_None_iff us)
      show ?thesis
      proof (cases "merge_checks idx 0 rs sdkChecks")
        case None
        then show ?thesis using False us call r short by (simp add: Inr held)
      next
        case (Some result)
        note m = merge_checks_nth[OF Some]
        show ?thesis using False us call r short m(1) m(2)[unfolded add_0] by (simp add: Inr held Some)
      qed
    qed
  qed
qed

text \<open>The world of the witness is the log.\<close>

definition logging_service :: "((cache_key, cachedGrant) lru_list, (cache_key, addr) lru_list, string, sdk_call list) service_env" where
  "logging_service = \<lparr>cenv = example_env, lrus = lru_list_constructors, settings = example_config,
     sdk = \<lparr>NewManagement = (\<lambda>pid w. (None, w @ [NewManagementCall pid])),
       SaveSchema = (\<lambda>pid s w. (None, w @ [SaveSchemaCall pid s])),
       LoadSchema = (\<lambda>pid w. (Inr example_schema, w @ [LoadSchemaCall pid])),
       CreateRelations = (\<lambda>pid rels w. (None, w @ [CreateRelationsCall pid rels])),
       DeleteRelations = (\<lambda>pid rels w. (None, w @ [DeleteRelationsCall pid rels])),
       CheckWithContext = (\<lambda>pid rs ctx w. (Inr (map (example_answer ctx) rs), w @ [CheckCall pid rs ctx])),
       SDK_WhoCanAccess = (\<lambda>pid r d n w. (Inr [''alice''], w @ [WhoCanAccessCall pid r d n])),
       SDK_WhatCanTargetAccess = (\<lambda>pid t w. (Inr [], w @ [WhatCanTargetAccessCall pid t])), Now = (\<lambda>w. 5)\<rparr>\<rparr>"

text \<open>Alice's ownership is cached and Bob's access to the picture is not: one call, with the latter.\<close>

theorem check_asks_only_misses_witness:
  "\<exists>result a'. Check logging_service ''P'' [doc_alice, pic_bob] Map.empty example_running [] =
     (Inr result, a', [CheckCall ''P'' [pic_bob] Map.empty]) \<and> result ! 1 = example_answer Map.empty pic_bob"
proof -
  obtain res a' w' where run: "Check logging_service ''P'' [doc_alice, pic_bob] Map.empty example_running [] = (res, a', w')"
    by (metis prod_cases3)
  have c: "cache_contract (cenv logging_service) lru_list_wf lru_list_wf"
    "cache_inv (cenv logging_service) lru_list_wf lru_list_wf warm_cache"
    using example_contract warm_cache_inv(1) by (simp_all add: logging_service_def)
  have l: "logs_calls logging_service id" by (simp add: logs_calls_def logging_service_def)
  have p: "projects example_running ''P'' = Some warm_cache" by (simp add: example_running_def)
  obtain cs us idx pc1 where read: "CheckRelations (cenv logging_service) warm_cache [doc_alice, pic_bob] Map.empty = ((cs, us, idx), pc1)"
    by (cases "CheckRelations (cenv logging_service) warm_cache [doc_alice, pic_bob] Map.empty") (metis prod_cases3)
  have env: "cenv logging_service = example_env" by (simp add: logging_service_def)
  have s: "served example_env warm_cache Map.empty doc_alice \<noteq> None" "served example_env warm_cache Map.empty pic_bob = None"
    by (simp_all add: served_def cached_grant_def warm_cache_grants key_def doc_alice_def pic_bob_def)
  have idx: "idx 0 \<noteq> None" "idx 1 = None"
    using cache_contract.CheckRelations_spec(3)[OF c(1) cache_invD(1)[OF c(2)] read] s env by simp_all
  note t = check_asks_only_misses[OF c(1) l p c(2) read run]
  have us: "us = [pic_bob]" using conjunct1[OF t] idx by (simp add: upt_rec)
  have call: "CheckWithContext (sdk logging_service) ''P'' us Map.empty [] =
      (Inr [example_answer Map.empty pic_bob], [CheckCall ''P'' us Map.empty])"
    by (simp add: logging_service_def us)
  have plain: "\<not> hasCacheableConditional [example_answer Map.empty pic_bob]"
    by (simp add: example_answer_def pic_bob_def doc_alice_def doc_bob_def zero_FGACheckInfo_def)
  have "w' = [CheckCall ''P'' [pic_bob] Map.empty]" "\<exists>result. res = Inr result \<and> result ! 1 = example_answer Map.empty pic_bob"
    using conjunct2[OF t] us call plain idx by (auto simp: upt_rec)
  then show ?thesis using run by blast
qed

text \<open>The merge of cached and fetched checks fails, an index out of range, exactly when the SDK
  returned fewer checks than it was asked for; more checks than asked are ignored.\<close>

theorem merge_fails_iff_short:
  "merge_checks idx i rs sdkChecks = None \<longleftrightarrow>
    length sdkChecks < length (filter (\<lambda>j. idx j = None) [i ..< i + length rs])"
  by (rule merge_checks_None_iff)

section \<open>Metrics\<close>

text \<open>The accumulator of an API is the sum of its calls: counters, sums and extremes, hits and
  misses apart, with 64-bit arithmetic; the hits and the misses add up to the calls.\<close>

theorem metrics_are_sums:
  "TotalCalls (aggregate ms) = HitCount (aggregate ms) + MissCount (aggregate ms)
   \<and> HitCount (aggregate ms) = of_nat (length (hits ms)) \<and> MissCount (aggregate ms) = of_nat (length (misses ms))
   \<and> SumCandidates (aggregate ms) = sum_list (map CandidatesCount ms)
   \<and> SumFiltered (aggregate ms) = sum_list (map FilteredCount ms)
   \<and> SumResultSize (aggregate ms) = sum_list (map ResultSize ms)
   \<and> SumDurationHitsMs (aggregate ms) = sum_list (map DurationMs (hits ms))
   \<and> SumDurationMissesMs (aggregate ms) = sum_list (map DurationMs (misses ms))
   \<and> sint (MinDurationHitsMs (aggregate ms)) = fold min (map (\<lambda>m. sint (DurationMs m)) (hits ms)) (2 ^ 63 - 1)
   \<and> sint (MaxDurationHitsMs (aggregate ms)) = fold max (map (\<lambda>m. sint (DurationMs m)) (hits ms)) 0
   \<and> sint (MinDurationMissesMs (aggregate ms)) = fold min (map (\<lambda>m. sint (DurationMs m)) (misses ms)) (2 ^ 63 - 1)
   \<and> sint (MaxDurationMissesMs (aggregate ms)) = fold max (map (\<lambda>m. sint (DurationMs m)) (misses ms)) 0"
  by (simp add: aggregate_def fold_record_call_sums fold_record_call_extremes sint_MaxInt64
      length_hits_misses[of ms, symmetric])

text \<open>C35. No call is lost or counted twice across reports. However calls and ticks interleave, what the
  reporter posts is, for each window that a tick ends, one request to each project that made a call in
  it, with one payload for each API it called, built from exactly the calls of that window.\<close>

theorem reports_are_windows:
  assumes "\<forall>ks. mset (order ks) = mset ks" "\<forall>calls\<in>set (windows_of [] es). length calls < 2 ^ 64"
  shows "\<exists>posts. list_all2 window_report (windows_of [] es) posts \<and>
    snd (run_reporter ops order r es NewCollector w) = send_posts ops r (concat posts) w"
  by (rule run_reporter_windows[OF holds_window_new assms(2,1)])

text \<open>A reporter whose world is the requests it made.\<close>

definition logging_ops :: "http_request list reporter_ops" where
  "logging_ops = \<lparr>Marshal = (\<lambda>payloads. Inr (concat (map P_API payloads))), NewRequest = (\<lambda>req. None),
     Do = (\<lambda>req w. (Inr 200, w @ [req])), HeaderAuthzCacheGitSha = ''x-git-sha'', GetGitSha = ''sha''\<rparr>"

theorem reports_are_windows_witness:
  "map req_body (snd (run_reporter logging_ops id (NewReporter '''' ''key'' 60 True)
     [Recorded ''P'' APICheck example_hit, Ticked, Ticked, Recorded ''P'' APICheck example_miss, Cancelled]
     NewCollector [])) = [''Check'']"
proof -
  let ?es = "[Recorded ''P'' APICheck example_hit, Ticked, Ticked, Recorded ''P'' APICheck example_miss, Cancelled]"
  let ?r = "NewReporter '''' ''key'' 60 True"
  have calls: "calls_of [(''P'', APICheck, example_hit)] p api = (if p = ''P'' \<and> api = APICheck then [example_hit] else [])" for p api
    by (simp add: calls_of_def)
  have "\<exists>posts. list_all2 window_report (windows_of [] ?es) posts \<and>
    snd (run_reporter logging_ops id ?r ?es NewCollector []) = send_posts logging_ops ?r (concat posts) []"
    by (rule reports_are_windows) simp_all
  then obtain p1 p2 where w1: "window_report [(''P'', APICheck, example_hit)] p1" and w2: "window_report [] p2"
    and run: "snd (run_reporter logging_ops id ?r ?es NewCollector []) = send_posts logging_ops ?r (p1 @ p2) []"
    by (auto simp: list_all2_Cons1)
  have "p2 = []" using w2 by (simp add: window_report_def calls_of_def)
  have "fst ` set p1 = {''P''}" "distinct (map fst p1)"
    using w1 by (auto simp: window_report_def calls)
  then have "length p1 = 1" by (metis card_1_singleton_iff distinct_card length_map list.set_map is_singleton_def is_singleton_altdef)
  then obtain payloads where p1: "p1 = [(''P'', payloads)]"
    using \<open>fst ` set p1 = {''P''}\<close> by (cases p1) auto
  have "set (map P_API payloads) = {APICheck}" "distinct (map P_API payloads)"
    using w1 unfolding p1 by (auto simp: window_report_def calls)
  then have "map P_API payloads = [APICheck]"
    by (cases "map P_API payloads") (auto simp: subset_singleton_iff)
  then show ?thesis
    unfolding run \<open>p2 = []\<close> p1 by (simp add: send_posts_def post_def logging_ops_def Let_def APICheck_def)
qed

text \<open>C36. While the sum of the durations fits in 64 bits, the reported counters add up and the
  reported overall durations are ordered: minimum, average, maximum.\<close>

theorem payload_ordered:
  assumes "ms \<noteq> []" "length ms < 2 ^ 63" "\<forall>m\<in>set ms. 0 \<le> sint (DurationMs m)"
    "sum_list (map (\<lambda>m. sint (DurationMs m)) ms) < 2 ^ 63" "p = buildPayload api (aggregate ms)"
  shows "P_HitCount p + P_MissCount p = P_TotalCalls p \<and> sint (P_TotalCalls p) = int (length ms)
    \<and> sint (AvgDurationMs p) = sum_list (map (\<lambda>m. sint (DurationMs m)) ms) div int (length ms)
    \<and> sint (MinDurationMs p) \<le> sint (AvgDurationMs p) \<and> sint (AvgDurationMs p) \<le> sint (MaxDurationMs p)"
  using payload_totals[OF assms] payload_extremes[OF assms] by simp

theorem payload_ordered_witness:
  "sint (MinDurationMs (buildPayload APICheck (aggregate [example_hit, example_miss]))) \<le>
   sint (AvgDurationMs (buildPayload APICheck (aggregate [example_hit, example_miss])))"
  using payload_ordered[OF _ _ _ _ refl, of "[example_hit, example_miss]" APICheck]
  by (simp add: example_hit_def example_miss_def)

text \<open>C37. The averages reported for hits are not averages over the hits. Whenever there was a hit, the
  reported candidates per hit are the candidates of all calls, hits and misses, divided (in \<open>float64\<close>)
  by the hits, and so are the filtered candidates per hit. So a \<open>Check\<close>, whose hits have no candidates
  at all, reports the relations its misses sent.\<close>

theorem hit_average_counts_misses:
  assumes "hits ms \<noteq> []" "length (hits ms) < 2 ^ 63" "p = buildPayload api (aggregate ms)"
  shows "AvgHitCandidates p = float64_ratio
      (sum_list (map CandidatesCount (hits ms)) + sum_list (map CandidatesCount (misses ms))) (of_nat (length (hits ms)))
    \<and> AvgHitFiltered p = float64_ratio
      (sum_list (map FilteredCount (hits ms)) + sum_list (map FilteredCount (misses ms))) (of_nat (length (hits ms)))
    \<and> ((\<forall>m\<in>set (hits ms). CandidatesCount m = 0) \<longrightarrow>
        AvgHitCandidates p = float64_ratio (sum_list (map CandidatesCount (misses ms))) (of_nat (length (hits ms))))"
proof -
  have all: "sum_list (map f ms) = sum_list (map f (hits ms)) + sum_list (map f (misses ms))"
    for f :: "CallMetrics \<Rightarrow> go_int"
    by (induction ms) (auto simp: algebra_simps)
  have "go_less 0 (of_nat (length (hits ms)) :: go_int)"
    using sint_go_len[OF assms(2)] assms(1) by (simp add: go_len_def go_less_def)
  then have "AvgHitCandidates p = float64_ratio (sum_list (map CandidatesCount ms)) (of_nat (length (hits ms)))"
    "AvgHitFiltered p = float64_ratio (sum_list (map FilteredCount ms)) (of_nat (length (hits ms)))"
    by (simp_all add: assms(3) buildPayload_def Let_def aggregate_def fold_record_call_sums)
  moreover have "sum_list (map CandidatesCount (hits ms)) = 0" if "\<forall>m\<in>set (hits ms). CandidatesCount m = 0"
    using that by (metis (mono_tags, lifting) map_cong sum_list_0)
  ultimately show ?thesis by (simp add: all)
qed

text \<open>One hit, and one miss that sent five relations: five candidates per hit.\<close>

theorem hit_average_counts_misses_witness:
  "AvgHitCandidates (buildPayload APICheck (aggregate [example_hit, example_miss])) = 5"
proof -
  have s: "sint (5 :: go_int) = 5" using sint_word_of_int_range[of 5] by simp
  show ?thesis
    using hit_average_counts_misses[of "[example_hit, example_miss]", OF _ _ refl, of APICheck]
      float64_round_small_int[of 5] float64_round_small_int[of 1]
    by (simp add: float64_ratio_def example_hit_def example_miss_def s)
qed

section \<open>The reporter's URL\<close>

text \<open>The base URL never ends in a slash. A custom URL that is not blank decides it: it is that URL
  without surrounding space and trailing slashes. Otherwise the four characters after the first of a
  project identifier of at least 32 name the region, and a shorter identifier gets the default.\<close>

theorem base_url:
  "(\<nexists>s. baseURLForProject pid custom = s @ ''/'')
   \<and> (if TrimSpace custom \<noteq> [] then \<exists>n. TrimSpace custom = baseURLForProject pid custom @ replicate n (CHR ''/'')
      else baseURLForProject pid custom = (if 32 \<le> length pid
        then ''https://api.'' @ take 4 (drop 1 pid) @ ''.descope.com'' else ''https://api.descope.com''))"
proof -
  have url: "baseURLForProject pid custom = (if TrimSpace custom \<noteq> [] then TrimRight (TrimSpace custom) (CHR ''/'')
      else if 32 \<le> length pid then ''https://api.'' @ take 4 (drop 1 pid) @ ''.descope.com''
      else ''https://api.descope.com'')"
    by (simp add: baseURLForProject_def Let_def defaultBaseURL_def defaultAPIPrefix_def defaultDomainName_def)
  show ?thesis
  proof (cases "TrimSpace custom = []")
    case True
    then show ?thesis by (simp add: url)
  next
    case False
    then have b: "baseURLForProject pid custom = TrimRight (TrimSpace custom) (CHR ''/'')" by (simp add: url)
    show ?thesis
      using False TrimRight_no_suffix[of "TrimSpace custom" "CHR ''/''"]
        TrimRight_prefix[of "TrimSpace custom" "CHR ''/''"] by (auto simp: b)
  qed
qed

section \<open>Errors\<close>

text \<open>C38. An SDK error whose code has at least four characters keeps its description, its message and
  the last four characters of the code, in the class of its HTTP status. One with a shorter code, and
  every error that is not the SDK's, becomes an internal error that keeps its text only. The handler sets
  the \<open>Retry-After\<close> header of the HTTP response exactly for a rate-limited error of the first kind with a
  positive number of seconds, to that number, unless gRPC refuses the header.\<close>

theorem error_relayed:
  assumes "ServiceErrorFromSdkError keys errText (Some err) = (e, header)"
  shows "(case err of SdkError de \<Rightarrow>
      if 4 \<le> length (Code de) then
        \<exists>cls. e = ExportedError cls (drop (length (Code de) - 4) (Code de)) (Description de) de (Message de) \<and>
          (cls = TooManyRequestsError \<longleftrightarrow> info_value de (HTTPResponseStatusCode keys) = AnyInt 429) \<and>
          (cls = NotFoundError \<longleftrightarrow> info_value de (HTTPResponseStatusCode keys) = AnyInt 404) \<and>
          (cls = ForbiddenError \<longleftrightarrow> info_value de (HTTPResponseStatusCode keys) = AnyInt 403) \<and>
          (cls = AuthError \<longleftrightarrow> info_value de (HTTPResponseStatusCode keys) = AnyInt 401) \<and>
          (cls = BadRequestError \<longleftrightarrow> info_value de (HTTPResponseStatusCode keys) = AnyInt 400)
      else e = InternalError (Some err) (errText err)
    | _ \<Rightarrow> e = InternalError (Some err) (errText err))
   \<and> (\<forall>h. errorHandlerWithRetryAfter (Some (header_metadata header)) h RetryAfterHeader =
       (case err of SdkError de \<Rightarrow>
          (case (info_value de (HTTPResponseStatusCode keys), info_value de (RateLimitExceededRetryAfter keys)) of
             (AnyInt status, AnyInt seconds) \<Rightarrow>
               if 4 \<le> length (Code de) \<and> status = 429 \<and> 0 < sint seconds \<and>
                  SetHeader keys (RetryAfterHeader, Itoa seconds) = None then Some [Itoa seconds]
               else h RetryAfterHeader
           | _ \<Rightarrow> h RetryAfterHeader)
        | _ \<Rightarrow> h RetryAfterHeader))"
  using service_error_class[OF assms] retry_after_header[OF assms] by blast

theorem error_relayed_witness:
  "errorHandlerWithRetryAfter (Some (header_metadata (snd (ServiceErrorFromSdkError
      \<lparr>HTTPResponseStatusCode = ''status'', RateLimitExceededRetryAfter = ''retry'', SetHeader = (\<lambda>p. None)\<rparr> (\<lambda>e. ''error'')
      (Some (SdkError \<lparr>Code = ''E130429'', Description = ''limit'', Message = ''slow down'',
         ErrInfo = [''status'' \<mapsto> AnyInt 429, ''retry'' \<mapsto> AnyInt 7]\<rparr>))))))
     Map.empty RetryAfterHeader = Some [Itoa 7]"
proof -
  have s: "0 < sint (7 :: go_int)" using sint_word_of_int_range[of 7] by simp
  show ?thesis
    using error_relayed[OF prod.collapse[symmetric], of
        "\<lparr>HTTPResponseStatusCode = ''status'', RateLimitExceededRetryAfter = ''retry'', SetHeader = (\<lambda>p. None)\<rparr>" "\<lambda>e. ''error''"
        "SdkError \<lparr>Code = ''E130429'', Description = ''limit'', Message = ''slow down'',
           ErrInfo = [''status'' \<mapsto> AnyInt 429, ''retry'' \<mapsto> AnyInt 7]\<rparr>"]
    by (simp add: info_value_def s)
qed

end
