(* ===== verification/ServiceRace.thy ===== *)
theory ServiceRace
  imports Cooldown
begin

text \<open>
  The requests of one project that run at the same time. \<open>getOrCreateProjectCache\<close> of
  \<open>src/internal/services/authz.go\<close> looks the project up, creates a cache and its polling when it
  finds none, and stores it, without a lock from the first to the last: requests that miss
  together create a cache each, and the last to store wins. So the state holds every cache that
  was created, by the order of creation, the entry of \<open>a.projects\<close>, and the requests with the
  point each has reached. A cache comes with the answers in flight to it and its floor, and takes
  the steps of \<open>CacheSystem\<close>, with one backend, clock and log for all.
\<close>

section \<open>State and steps\<close>

text \<open>How far a request has come: its \<open>Load\<close> found nothing; it has created cache \<open>i\<close> and started its
  polling, but not stored it; it works on cache \<open>i\<close>; it has returned.\<close>

datatype request = Missed | Created nat | Holding nat | Returned

record ('rc, 'lc, 'p) project_state =
  pj_entry :: "nat option"
  pj_caches :: "(('rc, 'lc, 'p) projectAuthzCache \<times> (nat \<times> gotime \<times> FGACheck list) list \<times> gotime) list"
  pj_requests :: "request list"
  pj_clock :: gotime
  pj_backend :: backend
  pj_log :: modification_log

text \<open>Cache \<open>i\<close> as a system of its own, and the project after a step of that system.\<close>

definition cache_view :: "nat \<Rightarrow> ('rc, 'lc, 'p) project_state \<Rightarrow> ('rc, 'lc, 'p) cache_system" where
  "cache_view i s = \<lparr>sy_cache = fst (pj_caches s ! i), sy_clock = pj_clock s,
     sy_backend = pj_backend s, sy_log = pj_log s, sy_inflight = fst (snd (pj_caches s ! i)),
     sy_floor = snd (snd (pj_caches s ! i))\<rparr>"

definition put_view :: "nat \<Rightarrow> ('rc, 'lc, 'p) cache_system \<Rightarrow> ('rc, 'lc, 'p) project_state \<Rightarrow>
    ('rc, 'lc, 'p) project_state" where
  "put_view i t s = s\<lparr>pj_caches := (pj_caches s)[i := (sy_cache t, sy_inflight t, sy_floor t)],
     pj_clock := sy_clock t, pj_backend := sy_backend t, pj_log := sy_log t\<rparr>"

definition set_request :: "nat \<Rightarrow> request \<Rightarrow> ('rc, 'lc, 'p) project_state \<Rightarrow> ('rc, 'lc, 'p) project_state" where
  "set_request j r s = s\<lparr>pj_requests := (pj_requests s)[j := r]\<rparr>"

text \<open>What happens to a cache without a request: polls, timers, and the backend.\<close>

inductive background_step :: "('rc, 'lc, 'p) cache_env \<Rightarrow> (goerror \<Rightarrow> string \<Rightarrow> bool) \<Rightarrow>
    ('rc, 'lc, 'p) cache_system \<Rightarrow> ('rc, 'lc, 'p) cache_system \<Rightarrow> bool"
  for env :: "('rc, 'lc, 'p) cache_env" and IsError :: "goerror \<Rightarrow> string \<Rightarrow> bool" where
  bg_backend: "backend_step (sy_clock s, sy_backend s, sy_log s) (t, b, log) \<Longrightarrow>
    background_step env IsError s (s\<lparr>sy_clock := t, sy_backend := b, sy_log := log\<rparr>)"
| bg_poll: "backend_step\<^sup>*\<^sup>* (sy_clock s, sy_backend s, sy_log s) (t, b, log) \<Longrightarrow>
    (\<And>since m. GetModified since = Inr m \<Longrightarrow> reports m (pending (sy_log s) since)) \<Longrightarrow>
    pc = updateCacheWithRemotePolling env IsError GetModified (sy_clock s) t (sy_cache s) \<Longrightarrow>
    background_step env IsError s (s\<lparr>sy_clock := t, sy_backend := b, sy_log := log,
      sy_cache := pc, sy_floor := new_floor env s pc\<rparr>)"
| bg_fire: "fireTimer (sy_clock s) i (sy_cache s) = Some pc \<Longrightarrow>
    background_step env IsError s (s\<lparr>sy_cache := pc\<rparr>)"
| bg_callback: "runCallback env (sy_clock s) i (sy_cache s) = Some pc \<Longrightarrow>
    background_step env IsError s (s\<lparr>sy_cache := pc, sy_floor := new_floor env s pc\<rparr>)"

text \<open>The steps of the project. A request that misses may fail: the SDK client or an LRU cache
  cannot be made.\<close>

inductive race_step :: "('rc, 'lc, 'p) cache_env \<Rightarrow> (goerror \<Rightarrow> string \<Rightarrow> bool) \<Rightarrow>
    ('rc, 'lc) lru_constructors \<Rightarrow> config_source \<Rightarrow> string \<Rightarrow>
    ('rc, 'lc, 'p) project_state \<Rightarrow> ('rc, 'lc, 'p) project_state \<Rightarrow> bool"
  for env :: "('rc, 'lc, 'p) cache_env" and IsError :: "goerror \<Rightarrow> string \<Rightarrow> bool"
    and new :: "('rc, 'lc) lru_constructors" and src :: config_source and projectID :: string where
  hit: "pj_entry s = Some i \<Longrightarrow>
    race_step env IsError new src projectID s (s\<lparr>pj_requests := pj_requests s @ [Holding i]\<rparr>)"
| miss: "pj_entry s = None \<Longrightarrow>
    race_step env IsError new src projectID s (s\<lparr>pj_requests := pj_requests s @ [Missed]\<rparr>)"
| create: "j < length (pj_requests s) \<Longrightarrow> pj_requests s ! j = Missed \<Longrightarrow>
    NewProjectAuthzCache new src (pj_clock s) projectID = Inr pc \<Longrightarrow>
    StartRemoteChangesPolling pc = Inr period \<Longrightarrow>
    race_step env IsError new src projectID s
      (set_request j (Created (length (pj_caches s))) (s\<lparr>pj_caches := pj_caches s @ [(pc, [], pj_clock s)]\<rparr>))"
| create_fails: "j < length (pj_requests s) \<Longrightarrow> pj_requests s ! j = Missed \<Longrightarrow>
    race_step env IsError new src projectID s (set_request j Returned s)"
| store_entry: "j < length (pj_requests s) \<Longrightarrow> pj_requests s ! j = Created i \<Longrightarrow>
    race_step env IsError new src projectID s (set_request j (Holding i) (s\<lparr>pj_entry := Some i\<rparr>))"
| works: "j < length (pj_requests s) \<Longrightarrow> pj_requests s ! j = Holding i \<Longrightarrow>
    system_step env IsError (cache_view i s) t \<Longrightarrow>
    race_step env IsError new src projectID s (put_view i t s)"
| returns: "j < length (pj_requests s) \<Longrightarrow> pj_requests s ! j = Holding i \<Longrightarrow>
    race_step env IsError new src projectID s (set_request j Returned s)"
| runs: "i < length (pj_caches s) \<Longrightarrow> background_step env IsError (cache_view i s) t \<Longrightarrow>
    race_step env IsError new src projectID s (put_view i t s)"

text \<open>Before the first request.\<close>

definition first_project :: "gotime \<Rightarrow> backend \<Rightarrow> ('rc, 'lc, 'p) project_state" where
  "first_project now b = \<lparr>pj_entry = None, pj_caches = [], pj_requests = [], pj_clock = now,
     pj_backend = b, pj_log = []\<rparr>"

section \<open>Views\<close>

lemma cache_view_simps [simp]:
  "sy_cache (cache_view i s) = fst (pj_caches s ! i)" "sy_clock (cache_view i s) = pj_clock s"
  "sy_backend (cache_view i s) = pj_backend s" "sy_log (cache_view i s) = pj_log s"
  "sy_inflight (cache_view i s) = fst (snd (pj_caches s ! i))"
  "sy_floor (cache_view i s) = snd (snd (pj_caches s ! i))"
  by (simp_all add: cache_view_def)

lemma put_view_simps [simp]:
  "pj_entry (put_view i t s) = pj_entry s" "pj_requests (put_view i t s) = pj_requests s"
  "length (pj_caches (put_view i t s)) = length (pj_caches s)"
  "pj_clock (put_view i t s) = sy_clock t" "pj_backend (put_view i t s) = sy_backend t"
  "pj_log (put_view i t s) = sy_log t"
  by (simp_all add: put_view_def)

lemma set_request_simps [simp]:
  "pj_entry (set_request j r s) = pj_entry s" "pj_caches (set_request j r s) = pj_caches s"
  "pj_requests (set_request j r s) = (pj_requests s)[j := r]" "pj_clock (set_request j r s) = pj_clock s"
  "pj_backend (set_request j r s) = pj_backend s" "pj_log (set_request j r s) = pj_log s"
  by (simp_all add: set_request_def)

lemma view_put_same: "i < length (pj_caches s) \<Longrightarrow> cache_view i (put_view i t s) = t"
  by (simp add: cache_view_def put_view_def)

lemma view_put_other:
  "k \<noteq> i \<Longrightarrow> cache_view i (put_view k t s) =
     (cache_view i s)\<lparr>sy_clock := sy_clock t, sy_backend := sy_backend t, sy_log := sy_log t\<rparr>"
  by (simp add: cache_view_def put_view_def)

lemma view_set_request [simp]: "cache_view i (set_request j r s) = cache_view i s"
  by (simp add: cache_view_def)

section \<open>Each cache is a cache system\<close>

lemma background_is_system: "background_step env IsError s s' \<Longrightarrow> system_step env IsError s s'"
  by (induction rule: background_step.induct) (auto intro: system_step.intros)

text \<open>What a step of a cache does to the backend, the backend can do by itself.\<close>

lemma system_step_backend:
  "system_step env IsError s s' \<Longrightarrow>
     backend_step\<^sup>*\<^sup>* (sy_clock s, sy_backend s, sy_log s) (sy_clock s', sy_backend s', sy_log s')"
  by (induction rule: system_step.induct) auto

lemma backend_steps_system:
  assumes "backend_step\<^sup>*\<^sup>* (sy_clock s, sy_backend s, sy_log s) (t, b, log)"
  shows "(system_step env IsError)\<^sup>*\<^sup>* s (s\<lparr>sy_clock := t, sy_backend := b, sy_log := log\<rparr>)"
  using assms
proof (induction "(t, b, log)" arbitrary: t b log rule: rtranclp_induct)
  case base
  then show ?case by simp
next
  case (step y)
  obtain t1 b1 log1 where y: "y = (t1, b1, log1)" by (metis prod_cases3)
  let ?s1 = "s\<lparr>sy_clock := t1, sy_backend := b1, sy_log := log1\<rparr>"
  have "backend_step (sy_clock ?s1, sy_backend ?s1, sy_log ?s1) (t, b, log)" using step.hyps(2) y by simp
  from system_step.backend[OF this, of env IsError]
  have "system_step env IsError ?s1 (s\<lparr>sy_clock := t, sy_backend := b, sy_log := log\<rparr>)" by simp
  with step.hyps(3)[OF y] show ?case by (rule rtranclp.rtrancl_into_rtrancl)
qed

lemma view_step:
  assumes "system_step env IsError (cache_view k s) t" "i < length (pj_caches s)"
  shows "(system_step env IsError)\<^sup>*\<^sup>* (cache_view i s) (cache_view i (put_view k t s))"
proof (cases "k = i")
  case True
  then show ?thesis using assms by (simp add: view_put_same r_into_rtranclp)
next
  case False
  have "backend_step\<^sup>*\<^sup>* (sy_clock (cache_view i s), sy_backend (cache_view i s), sy_log (cache_view i s))
      (sy_clock t, sy_backend t, sy_log t)"
    using system_step_backend[OF assms(1)] by simp
  then show ?thesis unfolding view_put_other[OF False] by (rule backend_steps_system)
qed

text \<open>Whatever the project does, each cache that exists takes steps of its own system only.\<close>

lemma race_step_refines:
  assumes "race_step env IsError new src projectID s s'" "i < length (pj_caches s)"
  shows "(system_step env IsError)\<^sup>*\<^sup>* (cache_view i s) (cache_view i s')"
  using assms
proof (cases rule: race_step.cases)
  case (works j k t)
  then show ?thesis using view_step[OF works(4) assms(2)] by simp
next
  case (runs k t)
  then show ?thesis using view_step[OF background_is_system[OF runs(3)] assms(2)] by simp
next
  case (create j pc period)
  then show ?thesis using assms(2) by (simp add: cache_view_def nth_append)
qed (simp_all add: cache_view_def)

lemma race_step_caches:
  "race_step env IsError new src projectID s s' \<Longrightarrow> length (pj_caches s) \<le> length (pj_caches s')"
  by (induction rule: race_step.induct) simp_all

lemma race_refines:
  assumes "(race_step env IsError new src projectID)\<^sup>*\<^sup>* s s'" "i < length (pj_caches s)"
  shows "(system_step env IsError)\<^sup>*\<^sup>* (cache_view i s) (cache_view i s') \<and> i < length (pj_caches s')"
  using assms
proof (induction rule: rtranclp_induct)
  case base
  then show ?case by simp
next
  case (step y z)
  then show ?case
    using race_step_refines[OF step.hyps(2)] race_step_caches[OF step.hyps(2)]
    by (meson order.strict_trans2 rtranclp_trans)
qed

text \<open>A cache as its constructor leaves it, whatever the backend has done before.\<close>

definition created_system :: "('rc, 'lc) lru_constructors \<Rightarrow> config_source \<Rightarrow> string \<Rightarrow>
    ('rc, 'lc, 'p) cache_system \<Rightarrow> bool" where
  "created_system new src projectID s \<longleftrightarrow>
     NewProjectAuthzCache new src (sy_clock s) projectID = Inr (sy_cache s) \<and> sy_inflight s = [] \<and>
     sy_floor s = sy_clock s"

lemma created_system_inv:
  assumes "created_system new src projectID s" "constructors_ok env wfr wfl new"
  shows "system_inv env wfr wfl s" and "timer_inv (sy_clock s) (sy_cache s)"
proof -
  have n: "NewProjectAuthzCache new src (sy_clock s) projectID = Inr (sy_cache s)" "sy_inflight s = []"
    "sy_floor s = sy_clock s"
    using assms(1) by (simp_all add: created_system_def)
  note p = NewProjectAuthzCache_inv[OF n(1) assms(2)] and f = NewProjectAuthzCache_fields[OF n(1)]
  show "system_inv env wfr wfl s"
    using p(1) n(2,3) by (simp add: system_inv_def coherent_no_grants p(2,3) schema_agrees_def f)
  show "timer_inv (sy_clock s) (sy_cache s)" by (simp add: timer_inv_def f no_timers_def)
qed

lemma race_step_created:
  assumes "race_step env IsError new src projectID s s'" "i < length (pj_caches s')"
  shows "i < length (pj_caches s) \<or> created_system new src projectID (cache_view i s')"
  using assms
proof (cases rule: race_step.cases)
  case (create j pc period)
  then show ?thesis
    using assms(2) by (auto simp: created_system_def nth_append less_Suc_eq)
qed simp_all

theorem race_views:
  assumes "(race_step env IsError new src projectID)\<^sup>*\<^sup>* (first_project now b) s" "i < length (pj_caches s)"
  shows "\<exists>t. created_system new src projectID t \<and> (system_step env IsError)\<^sup>*\<^sup>* t (cache_view i s)"
  using assms
proof (induction arbitrary: i rule: rtranclp_induct)
  case base
  then show ?case by (simp add: first_project_def)
next
  case (step y z)
  from race_step_created[OF step.hyps(2) step.prems] show ?case
  proof
    assume old: "i < length (pj_caches y)"
    with step.IH[OF old] race_step_refines[OF step.hyps(2) old] show ?thesis by (meson rtranclp_trans)
  next
    assume "created_system new src projectID (cache_view i z)"
    then show ?thesis by blast
  qed
qed

section \<open>The race ends\<close>

text \<open>No request is creating a cache any more, and those at work use the one that is stored.\<close>

definition settled :: "nat \<Rightarrow> ('rc, 'lc, 'p) project_state \<Rightarrow> bool" where
  "settled i s \<longleftrightarrow> pj_entry s = Some i \<and> set (pj_requests s) \<subseteq> {Holding i, Returned}"

lemma settled_requestD:
  "settled i s \<Longrightarrow> j < length (pj_requests s) \<Longrightarrow> pj_requests s ! j = Holding i \<or> pj_requests s ! j = Returned"
  by (fastforce simp: settled_def dest: nth_mem)

lemma settled_update:
  "settled i s \<Longrightarrow> settled i (set_request j Returned s)"
  using set_update_subset_insert[of "pj_requests s" j Returned] by (auto simp: settled_def)

lemma settled_step:
  assumes "race_step env IsError new src projectID s s'" "settled i s"
  shows "settled i s'"
  using assms
proof (cases rule: race_step.cases)
  case (hit k)
  then show ?thesis using assms(2) by (simp add: settled_def)
next
  case miss
  then show ?thesis using assms(2) by (simp add: settled_def)
next
  case (create j pc period)
  then show ?thesis using settled_requestD[OF assms(2)] by force
next
  case (create_fails j)
  then show ?thesis using settled_requestD[OF assms(2)] by force
next
  case (store_entry j k)
  then show ?thesis using settled_requestD[OF assms(2)] by force
next
  case (returns j k)
  then show ?thesis using settled_update[OF assms(2)] by simp
qed (use assms(2) in \<open>simp_all add: settled_def\<close>)

lemma settled_steps:
  "(race_step env IsError new src projectID)\<^sup>*\<^sup>* s s' \<Longrightarrow> settled i s \<Longrightarrow> settled i s'"
  by (induction rule: rtranclp_induct) (auto intro: settled_step)

end
