(* ===== verification/RaceProperties.thy ===== *)
theory RaceProperties
  imports ServiceRace Examples
begin

text \<open>
  The properties of concurrent requests for one project, over \<open>ServiceRace\<close>: what every cache
  answers whatever the interleaving, when the race to create caches is over, and what it can do
  before.
\<close>

text \<open>The run of C16: two requests miss together, both create a cache, the second stores its own
  before the first does; the first request's checks then fill the first cache, and the second
  request, which still holds the second, deletes a relation.\<close>

type_synonym example_project = "((cache_key, cachedGrant) lru_list, (cache_key, addr) lru_list, string) project_state"

definition doc_modified :: AuthzModified where
  "doc_modified = \<lparr>ModResources = [''doc''], ModTargets = [''alice''], SchemaChanged = False\<rparr>"

definition revoked_backend :: backend where
  "revoked_backend = example_backend\<lparr>truth := (\<lambda>r ctx. r \<noteq> doc_alice \<and> truth example_backend r ctx)\<rparr>"

definition race_created :: example_project where
  "race_created = \<lparr>pj_entry = None, pj_caches = [(example_cache, [], 0), (example_cache, [], 0)],
     pj_requests = [Created 0, Created 1], pj_clock = 0, pj_backend = example_backend, pj_log = []\<rparr>"

definition race_warm :: example_project where
  "race_warm = \<lparr>pj_entry = Some 0,
     pj_caches = [(UpdateCacheWithChecks example_env [direct_check] example_cache, [(0, 0, [direct_check])], 0),
       (example_cache, [], 0)],
     pj_requests = [Holding 0, Holding 1], pj_clock = 0, pj_backend = example_backend, pj_log = []\<rparr>"

definition race_lost :: example_project where
  "race_lost = \<lparr>pj_entry = Some 0,
     pj_caches = [(UpdateCacheWithChecks example_env [direct_check] example_cache, [(0, 0, [direct_check])], 0),
       (UpdateCacheWithDeletedRelations example_env [doc_alice] example_cache, [], 0)],
     pj_requests = [Holding 0, Holding 1], pj_clock = 0, pj_backend = revoked_backend,
     pj_log = [(0, doc_modified)]\<rparr>"

lemma race_created_reachable:
  "(race_step example_env no_code lru_list_constructors example_config ''P'')\<^sup>*\<^sup>*
     (first_project 0 example_backend) race_created"
proof -
  let ?R = "race_step example_env no_code lru_list_constructors example_config ''P''"
  let ?s0 = "first_project 0 example_backend :: example_project"
  let ?s1 = "?s0\<lparr>pj_requests := [Missed]\<rparr>"
  let ?s2 = "?s0\<lparr>pj_requests := [Missed, Missed]\<rparr>"
  let ?s3 = "?s0\<lparr>pj_caches := [(example_cache, [], 0)], pj_requests := [Created 0, Missed]\<rparr>"
  obtain period where p: "StartRemoteChangesPolling example_cache = Inr period"
    using StartRemoteChangesPolling_ok[OF example_new_cache] example_interval by auto
  have "?R ?s0 ?s1" using race_step.miss[of ?s0] by (simp add: first_project_def)
  moreover have "?R ?s1 ?s2" using race_step.miss[of ?s1] by (simp add: first_project_def)
  moreover have "?R ?s2 ?s3"
    using race_step.create[of 0 ?s2, OF _ _ _ p] example_new_cache by (simp add: first_project_def set_request_def)
  moreover have "?R ?s3 race_created"
    using race_step.create[of 1 ?s3, OF _ _ _ p] example_new_cache
    by (simp add: first_project_def set_request_def race_created_def)
  ultimately show ?thesis by (meson rtranclp.rtrancl_refl rtranclp.rtrancl_into_rtrancl)
qed

lemma race_warm_reachable:
  "(race_step example_env no_code lru_list_constructors example_config ''P'')\<^sup>*\<^sup>*
     (first_project 0 example_backend) race_warm"
proof -
  let ?R = "race_step example_env no_code lru_list_constructors example_config ''P''"
  let ?f = "(0, 0, [direct_check])"
  let ?s4 = "race_created\<lparr>pj_entry := Some 1, pj_requests := [Created 0, Holding 1]\<rparr>"
  let ?s5 = "race_created\<lparr>pj_entry := Some 0, pj_requests := [Holding 0, Holding 1]\<rparr>"
  let ?s6 = "?s5\<lparr>pj_caches := [(example_cache, [?f], 0), (example_cache, [], 0)]\<rparr>"
  note d = race_created_def cache_view_def put_view_def set_request_def
  have "?R race_created ?s4" using race_step.store_entry[of 1 race_created 1] by (simp add: d)
  moreover have "?R ?s4 ?s5" using race_step.store_entry[of 0 ?s4 0] by (simp add: d)
  moreover have "?R ?s5 ?s6"
  proof -
    have "system_step example_env no_code (cache_view 0 ?s5)
        ((cache_view 0 ?s5)\<lparr>sy_inflight := sy_inflight (cache_view 0 ?s5) @
           [(length (sy_log (cache_view 0 ?s5)), sy_clock (cache_view 0 ?s5), [direct_check])]\<rparr>)"
      by (rule system_step.answer) (use example_fresh(1) in \<open>simp add: d\<close>)
    from race_step.works[of 0 ?s5 0, OF _ _ this] show ?thesis by (simp add: d)
  qed
  moreover have "?R ?s6 race_warm"
  proof -
    have "(0, 0, [direct_check]) \<in> set (sy_inflight (cache_view 0 ?s6))"
      by (simp add: d)
    from race_step.works[of 0 ?s6 0, OF _ _ system_step.store[OF this]] show ?thesis
      by (simp add: d race_warm_def)
  qed
  ultimately show ?thesis
    using race_created_reachable by (meson rtranclp.rtrancl_into_rtrancl)
qed

lemma race_lost_reachable:
  "(race_step example_env no_code lru_list_constructors example_config ''P'')\<^sup>*\<^sup>*
     (first_project 0 example_backend) race_lost"
proof -
  let ?R = "race_step example_env no_code lru_list_constructors example_config ''P''"
  let ?s8 = "race_warm\<lparr>pj_backend := revoked_backend, pj_log := [(0, doc_modified)]\<rparr>"
  note d = race_warm_def cache_view_def put_view_def set_request_def
  have "?R race_warm ?s8"
  proof -
    have "modifies doc_modified example_backend revoked_backend"
      by (auto simp: modifies_def doc_modified_def revoked_backend_def example_backend_def doc_alice_def
          components_of_def touched_def nothing_modified_def)
    from backend_step.backend_changes[OF this, of 0 "[]"]
    have "backend_step (sy_clock (cache_view 0 race_warm), sy_backend (cache_view 0 race_warm), sy_log (cache_view 0 race_warm))
        (0, revoked_backend, [(0, doc_modified)])"
      by (simp add: d)
    from race_step.runs[of 0 race_warm, OF _ background_step.bg_backend[OF this]] show ?thesis by (simp add: d)
  qed
  moreover have "?R ?s8 race_lost"
    using race_step.works[of 1 ?s8 1, OF _ _ system_step.deleted[of _ _ _ "[doc_alice]"]]
    by (simp add: d race_lost_def)
  ultimately show ?thesis
    using race_warm_reachable by (meson rtranclp.rtrancl_into_rtrancl)
qed

text \<open>What the first cache answers once it is filled.\<close>

lemma race_warm_wf: "caches_wf lru_list_wf lru_list_wf (fst (pj_caches race_warm ! 0))"
proof -
  have "cache_inv example_env lru_list_wf lru_list_wf (UpdateCacheWithChecks example_env [direct_check] example_cache)"
    by (rule cache_contract.UpdateCacheWithChecks_inv(1)[OF example_contract example_cache_inv])
       (simp add: versioned_check_def direct_check_def zero_FGACheckInfo_def)
  then show ?thesis by (simp add: race_warm_def cache_invD(1))
qed

lemma race_warm_served:
  "\<exists>c. served example_env (fst (pj_caches race_warm ! 0)) Map.empty doc_alice = Some c \<and> Allowed c"
proof -
  let ?g = "\<lparr>allowed = True, cond = None\<rparr>"
  have "fst (pj_caches race_warm ! 0) = addDirectRelation example_env doc_alice ?g example_cache"
    by (simp add: race_warm_def UpdateCacheWithChecks_def cacheCheck_def cacheable_grant_def direct_check_def
        zero_FGACheckInfo_def)
  then have "direct_grants example_env (fst (pj_caches race_warm ! 0)) (key doc_alice) = Some ?g"
    using cache_contract.addDirectRelation_stored[OF example_contract cache_invD(1)[OF example_cache_inv]] by metis
  then show ?thesis by (simp add: served_def cached_grant_def unconditional_check_def)
qed

text \<open>C5. Concurrent requests of one project. However requests, creations, polls, timers and backend
  changes interleave, also when several requests create the project's cache at once, each cached
  answer of each cache created is the backend's present answer, for every relation that no
  modification that cache may have missed (as in C1) can have affected.\<close>

theorem race_reads_true:
  assumes "cache_contract env wfr wfl" "constructors_ok env wfr wfl new"
    "(race_step env IsError new src projectID)\<^sup>*\<^sup>* (first_project now b0) s"
    "k < length (pj_caches s)" "keys_identify (pj_backend s)"
    "CheckRelations env (fst (pj_caches s ! k)) rs ctx = ((checks, us, idx), pc)"
    "i < length rs" "idx i = Some c" "rs ! i \<in> universe (pj_backend s)"
    "unaffected env (untold (cache_view k s)) (fst (pj_caches s ! k)) (rs ! i)"
  shows "Allowed c = truth (pj_backend s) (rs ! i) ctx \<and> CheckRelation c = rs ! i"
proof -
  obtain t where t: "created_system new src projectID t" "(system_step env IsError)\<^sup>*\<^sup>* t (cache_view k s)"
    using race_views[OF assms(3,4)] by blast
  have "system_inv env wfr wfl (cache_view k s)"
    by (rule cache_contract.reachable_system_inv[OF assms(1) t(2) created_system_inv(1)[OF t(1) assms(2)]])
  from cache_contract.system_read_true[OF assms(1) this, of rs ctx checks us idx pc i c] assms(5-10)
  show ?thesis by simp
qed

theorem race_reads_true_witness:
  "\<exists>checks us idx pc c. CheckRelations example_env (fst (pj_caches race_warm ! 0)) [doc_alice] Map.empty =
      ((checks, us, idx), pc) \<and> idx 0 = Some c \<and> Allowed c = truth example_backend doc_alice Map.empty"
proof -
  let ?pc = "fst (pj_caches race_warm ! 0)"
  obtain checks us idx pc where run: "CheckRelations example_env ?pc [doc_alice] Map.empty = ((checks, us, idx), pc)"
    by (cases "CheckRelations example_env ?pc [doc_alice] Map.empty") (metis prod_cases3)
  obtain c where "served example_env ?pc Map.empty doc_alice = Some c"
    using race_warm_served by blast
  then have idx: "idx 0 = Some c"
    using cache_contract.CheckRelations_spec(3)[OF example_contract _ run] race_warm_wf by simp
  have u: "unaffected example_env (untold (cache_view 0 race_warm)) ?pc ([doc_alice] ! 0)"
    by (simp add: untold_def pending_def race_warm_def unaffected_def schema_unchanged_def touched_def)
  have k: "keys_identify (pj_backend race_warm)" "[doc_alice] ! 0 \<in> universe (pj_backend race_warm)"
    "0 < length (pj_caches race_warm)" "pj_backend race_warm = example_backend"
    using example_keys by (simp_all add: race_warm_def example_backend_def)
  from race_reads_true[OF example_contract example_constructors race_warm_reachable k(3,1) run _ idx k(2) u]
  show ?thesis using run idx k(4) by auto
qed

text \<open>C15. The race ends. Once no request of the project is creating a cache and those at work hold
  the stored one, that holds for ever, whatever requests follow: from then on the project takes the
  steps of a single cache system.\<close>

theorem race_settles:
  assumes "settled i s" "i < length (pj_caches s)"
    "(race_step env IsError new src projectID)\<^sup>*\<^sup>* s s'"
  shows "settled i s' \<and> (system_step env IsError)\<^sup>*\<^sup>* (cache_view i s) (cache_view i s')"
  using settled_steps[OF assms(3,1)] race_refines[OF assms(3,2)] by blast

theorem race_settles_witness:
  "settled 0 (race_lost\<lparr>pj_requests := [Returned, Returned]\<rparr>) \<and>
   settled 0 (race_lost\<lparr>pj_requests := [Returned, Returned, Holding 0]\<rparr>)"
proof -
  let ?s = "race_lost\<lparr>pj_requests := [Returned, Returned]\<rparr>"
  have s: "settled 0 ?s" "0 < length (pj_caches ?s)" by (simp_all add: settled_def race_lost_def)
  have "(race_step example_env no_code lru_list_constructors example_config ''P'')\<^sup>*\<^sup>* ?s
      (?s\<lparr>pj_requests := pj_requests ?s @ [Holding 0]\<rparr>)"
    by (rule r_into_rtranclp, rule race_step.hit) (simp add: race_lost_def)
  from race_settles[OF s this] s(1) show ?thesis by (simp add: race_lost_def)
qed

text \<open>C16. Until it ends, a write can be lost. Two first requests of a project race: the cache that
  the second of them invalidates when it deletes a relation is no longer the stored one, and the
  stored one goes on answering that the relation holds.\<close>

theorem race_loses_invalidation:
  "\<exists>s. (race_step example_env no_code lru_list_constructors example_config ''P'')\<^sup>*\<^sup>*
       (first_project 0 example_backend) s \<and>
     pj_requests s ! 1 = Holding 1 \<and>
     fst (pj_caches s ! 1) = UpdateCacheWithDeletedRelations example_env [doc_alice] example_cache \<and>
     pj_entry s = Some 0 \<and> \<not> truth (pj_backend s) doc_alice Map.empty \<and>
     (\<exists>c. served example_env (fst (pj_caches s ! 0)) Map.empty doc_alice = Some c \<and> Allowed c)"
proof (intro exI[of _ race_lost] conjI race_lost_reachable)
  show "\<exists>c. served example_env (fst (pj_caches race_lost ! 0)) Map.empty doc_alice = Some c \<and> Allowed c"
    using race_warm_served by (simp add: race_warm_def race_lost_def)
qed (simp_all add: race_lost_def revoked_backend_def)

end
