(* ===== verification/Controller.thy ===== *)
theory Controller
  imports Service Errors
begin

text \<open>
  \<open>src/internal/controllers/controller.go\<close>: the gRPC handlers. Requests and responses are the
  protobuf messages as records; \<open>Context.AsMap()\<close> is the protobuf library's, so a request carries
  the map it would yield (\<open>None\<close> for an absent context). A failed call is the service error and
  the header \<open>setRetryAfter\<close> sets. A panic is passed on as it is.
\<close>

record Tuple =
  T_Resource :: string
  T_ResourceType :: string
  T_Relation :: string
  T_Target :: string
  T_TargetType :: string

record CheckResponseInfo =
  R_Direct :: bool
  R_Conditional :: bool
  R_MissingContext :: "string list"
  R_ConditionalErr :: string

record CheckResponseTuple =
  R_Tuple :: Tuple
  R_Allowed :: bool
  R_Info :: CheckResponseInfo

record CheckRequest =
  C_Tuples :: "Tuple list"
  C_Context :: "reqcontext option"

record WhoCanAccessRequest =
  W_Resource :: string
  W_RelationDefinition :: string
  W_Namespace :: string
  W_Context :: "reqcontext option"

record WhatCanTargetAccessRequest =
  WT_Target :: string
  WT_Context :: "reqcontext option"

record ProtoRelation =
  PR_Resource :: string
  PR_RelationDefinition :: string
  PR_Namespace :: string
  PR_Target :: string
  PR_TargetSetResource :: string
  PR_TargetSetRelationDefinition :: string
  PR_TargetSetRelationDefinitionNamespace :: string

text \<open>The outcome of a handler: a response, a service error with its header, or a panic.\<close>

datatype 'a rpc_result =
    Response 'a
  | Failure service_error "(string \<times> string) option"
  | Panicked string

definition fail_with :: "error_env \<Rightarrow> (goerror \<Rightarrow> string) \<Rightarrow> goerror \<Rightarrow> 'a rpc_result" where
  "fail_with keys errText err = (case err of
     GoPanic msg \<Rightarrow> Panicked msg
   | _ \<Rightarrow> (case ServiceErrorFromSdkError keys errText (Some err) of (e, header) \<Rightarrow> Failure e header))"

section \<open>Conversions\<close>

definition relationsFromTuples :: "Tuple list \<Rightarrow> FGARelation list" where
  "relationsFromTuples tuples = map (\<lambda>t. \<lparr>Resource = T_Resource t, ResourceType = T_ResourceType t,
     Relation = T_Relation t, Target = T_Target t, TargetType = T_TargetType t\<rparr>) tuples"

definition relationFromAuthzRelation :: "AuthzRelation \<Rightarrow> ProtoRelation" where
  "relationFromAuthzRelation r = \<lparr>PR_Resource = AR_Resource r,
     PR_RelationDefinition = AR_RelationDefinition r, PR_Namespace = AR_Namespace r,
     PR_Target = AR_Target r, PR_TargetSetResource = AR_TargetSetResource r,
     PR_TargetSetRelationDefinition = AR_TargetSetRelationDefinition r,
     PR_TargetSetRelationDefinitionNamespace = AR_TargetSetRelationDefinitionNamespace r\<rparr>"

text \<open>The body of the loop that builds the response of \<open>Check\<close>.\<close>

definition response_tuple :: "FGACheck \<Rightarrow> CheckResponseTuple" where
  "response_tuple check = \<lparr>
     R_Tuple = \<lparr>T_Resource = Resource (CheckRelation check), T_ResourceType = ResourceType (CheckRelation check),
                T_Relation = Relation (CheckRelation check), T_Target = Target (CheckRelation check),
                T_TargetType = TargetType (CheckRelation check)\<rparr>,
     R_Allowed = Allowed check,
     R_Info = \<lparr>R_Direct = Direct (Info check), R_Conditional = Conditional (Info check),
               R_MissingContext = MissingContext (Info check), R_ConditionalErr = ConditionalErr (Info check)\<rparr>\<rparr>"

definition extra_context :: "reqcontext option \<Rightarrow> reqcontext" where
  "extra_context c = (case c of None \<Rightarrow> Map.empty | Some m \<Rightarrow> m)"

section \<open>Handlers\<close>

definition handle_CreateFGASchema :: "('rc, 'lc, 'p, 'w) service_env \<Rightarrow> error_env \<Rightarrow>
    (goerror \<Rightarrow> string) \<Rightarrow> string \<Rightarrow> string \<Rightarrow> ('rc, 'lc, 'p) authzCache \<Rightarrow> 'w \<Rightarrow>
    unit rpc_result \<times> ('rc, 'lc, 'p) authzCache \<times> 'w" where
  "handle_CreateFGASchema se keys errText pid dsl a w =
    (case CreateFGASchema se pid dsl a w of
       (Inl err, a', w') \<Rightarrow> (fail_with keys errText err, a', w')
     | (Inr u, a', w') \<Rightarrow> (Response (), a', w'))"

definition handle_CreateFGARelations :: "('rc, 'lc, 'p, 'w) service_env \<Rightarrow> error_env \<Rightarrow>
    (goerror \<Rightarrow> string) \<Rightarrow> string \<Rightarrow> Tuple list \<Rightarrow> ('rc, 'lc, 'p) authzCache \<Rightarrow> 'w \<Rightarrow>
    unit rpc_result \<times> ('rc, 'lc, 'p) authzCache \<times> 'w" where
  "handle_CreateFGARelations se keys errText pid tuples a w =
    (case CreateFGARelations se pid (relationsFromTuples tuples) a w of
       (Inl err, a', w') \<Rightarrow> (fail_with keys errText err, a', w')
     | (Inr u, a', w') \<Rightarrow> (Response (), a', w'))"

definition handle_DeleteFGARelations :: "('rc, 'lc, 'p, 'w) service_env \<Rightarrow> error_env \<Rightarrow>
    (goerror \<Rightarrow> string) \<Rightarrow> string \<Rightarrow> Tuple list \<Rightarrow> ('rc, 'lc, 'p) authzCache \<Rightarrow> 'w \<Rightarrow>
    unit rpc_result \<times> ('rc, 'lc, 'p) authzCache \<times> 'w" where
  "handle_DeleteFGARelations se keys errText pid tuples a w =
    (case DeleteFGARelations se pid (relationsFromTuples tuples) a w of
       (Inl err, a', w') \<Rightarrow> (fail_with keys errText err, a', w')
     | (Inr u, a', w') \<Rightarrow> (Response (), a', w'))"

definition handle_Check :: "('rc, 'lc, 'p, 'w) service_env \<Rightarrow> error_env \<Rightarrow>
    (goerror \<Rightarrow> string) \<Rightarrow> string \<Rightarrow> CheckRequest \<Rightarrow> ('rc, 'lc, 'p) authzCache \<Rightarrow> 'w \<Rightarrow>
    CheckResponseTuple list rpc_result \<times> ('rc, 'lc, 'p) authzCache \<times> 'w" where
  "handle_Check se keys errText pid req a w =
    (case Check se pid (relationsFromTuples (C_Tuples req)) (extra_context (C_Context req)) a w of
       (Inl err, a', w') \<Rightarrow> (fail_with keys errText err, a', w')
     | (Inr checks, a', w') \<Rightarrow> (Response (map response_tuple checks), a', w'))"

definition handle_WhoCanAccess :: "('rc, 'lc, 'p, 'w) service_env \<Rightarrow> error_env \<Rightarrow>
    (goerror \<Rightarrow> string) \<Rightarrow> string \<Rightarrow> WhoCanAccessRequest \<Rightarrow> ('rc, 'lc, 'p) authzCache \<Rightarrow> 'w \<Rightarrow>
    string list rpc_result \<times> ('rc, 'lc, 'p) authzCache \<times> 'w" where
  "handle_WhoCanAccess se keys errText pid req a w =
    (case WhoCanAccess se pid (W_Resource req) (W_RelationDefinition req) (W_Namespace req)
            (extra_context (W_Context req)) a w of
       (Inl err, a', w') \<Rightarrow> (fail_with keys errText err, a', w')
     | (Inr targets, a', w') \<Rightarrow> (Response targets, a', w'))"

definition handle_WhatCanTargetAccess :: "('rc, 'lc, 'p, 'w) service_env \<Rightarrow> error_env \<Rightarrow>
    (goerror \<Rightarrow> string) \<Rightarrow> string \<Rightarrow> WhatCanTargetAccessRequest \<Rightarrow> ('rc, 'lc, 'p) authzCache \<Rightarrow> 'w \<Rightarrow>
    ProtoRelation list rpc_result \<times> ('rc, 'lc, 'p) authzCache \<times> 'w" where
  "handle_WhatCanTargetAccess se keys errText pid req a w =
    (case WhatCanTargetAccess se pid (WT_Target req) (extra_context (WT_Context req)) a w of
       (Inl err, a', w') \<Rightarrow> (fail_with keys errText err, a', w')
     | (Inr relations, a', w') \<Rightarrow> (Response (map relationFromAuthzRelation relations), a', w'))"

section \<open>Properties of the conversions\<close>

lemma relationsFromTuples_nth:
  "i < length ts \<Longrightarrow> relationsFromTuples ts ! i = \<lparr>Resource = T_Resource (ts ! i),
     ResourceType = T_ResourceType (ts ! i), Relation = T_Relation (ts ! i),
     Target = T_Target (ts ! i), TargetType = T_TargetType (ts ! i)\<rparr>"
  by (simp add: relationsFromTuples_def)

lemma length_relationsFromTuples [simp]: "length (relationsFromTuples ts) = length ts"
  by (simp add: relationsFromTuples_def)

text \<open>A check of the relation of a tuple responds with that tuple.\<close>

lemma response_tuple_of_relation:
  assumes "i < length ts" "CheckRelation c = relationsFromTuples ts ! i"
  shows "R_Tuple (response_tuple c) = ts ! i"
  using assms by (simp add: response_tuple_def relationsFromTuples_nth)

end
