(* ===== verification/HttpGateway.thy ===== *)
theory HttpGateway
  imports Controller Gateway
begin

text \<open>
  From an HTTP request to the controller and back: the reverse proxy of
  \<open>src/pkg/authzcache/proto/v1/authzcache.pb.gw.go\<close>, which \<open>main.go\<close> registers, in front of the
  handlers of \<open>Controller\<close>. The proxy decodes the body, calls the client's method of the same name,
  and forwards the message or hands the error to the mux's error handler, which \<open>main.go\<close> sets to
  \<open>errorHandlerWithRetryAfter\<close>. What it calls of the gateway's runtime (annotating the context,
  marshalling, the common error handler, writing a message, joining metadata) is a parameter.
  A call that makes the process panic has no response.
\<close>

section \<open>The runtime and the client\<close>

datatype gateway_error =
    AnnotationFailed goerror
  | InvalidArgument goerror
  | CallFailed service_error

type_synonym metadata = "string \<Rightarrow> string list"

record server_metadata =
  HeaderMD :: metadata
  TrailerMD :: metadata

definition no_server_metadata :: server_metadata where
  "no_server_metadata = \<lparr>HeaderMD = (\<lambda>_. []), TrailerMD = (\<lambda>_. [])\<rparr>"

text \<open>Of one method: what decoding a request's body leaves in the message, with the decoder's
  error, and the response \<open>ForwardResponseMessage\<close> writes.\<close>

record ('http, 'req, 'msg, 'resp) codec =
  DecodeBody :: "'http \<Rightarrow> goerror option \<times> 'req"
  ForwardResponse :: "'http \<Rightarrow> server_metadata \<Rightarrow> 'msg \<Rightarrow> http_headers \<Rightarrow> 'resp"

record ('ctx, 'http, 'resp) gateway_env =
  AnnotateContext :: "'http \<Rightarrow> string \<Rightarrow> string \<Rightarrow> goerror + 'ctx"
  AnnotateIncomingContext :: "'http \<Rightarrow> string \<Rightarrow> string \<Rightarrow> goerror + 'ctx"
  IsEOF :: "goerror \<Rightarrow> bool"
  HTTPErrorHandler :: "'http \<Rightarrow> gateway_error \<Rightarrow> http_headers \<Rightarrow> 'resp"
  JoinMetadata :: "metadata \<Rightarrow> metadata \<Rightarrow> metadata"
  codec_CreateFGASchema :: "('http, string, unit, 'resp) codec"
  codec_CreateFGARelations :: "('http, Tuple list, unit, 'resp) codec"
  codec_DeleteFGARelations :: "('http, Tuple list, unit, 'resp) codec"
  codec_Check :: "('http, CheckRequest, CheckResponseTuple list, 'resp) codec"
  codec_WhoCanAccess :: "('http, WhoCanAccessRequest, string list, 'resp) codec"
  codec_WhatCanTargetAccess :: "('http, WhatCanTargetAccessRequest, ProtoRelation list, 'resp) codec"

text \<open>A unary call over the state \<open>'s\<close> of the server: its result with the header and trailer
  metadata, or a panic.\<close>

type_synonym ('ctx, 'req, 'msg, 's) rpc_method =
  "'ctx \<Rightarrow> 'req \<Rightarrow> 's \<Rightarrow> ((gateway_error + 'msg) \<times> server_metadata) option \<times> 's"

text \<open>The methods of \<open>AuthzCacheClient\<close> and of \<open>AuthzCacheServer\<close>.\<close>

record ('ctx, 's) AuthzCacheClient =
  cl_CreateFGASchema :: "('ctx, string, unit, 's) rpc_method"
  cl_CreateFGARelations :: "('ctx, Tuple list, unit, 's) rpc_method"
  cl_DeleteFGARelations :: "('ctx, Tuple list, unit, 's) rpc_method"
  cl_Check :: "('ctx, CheckRequest, CheckResponseTuple list, 's) rpc_method"
  cl_WhoCanAccess :: "('ctx, WhoCanAccessRequest, string list, 's) rpc_method"
  cl_WhatCanTargetAccess :: "('ctx, WhatCanTargetAccessRequest, ProtoRelation list, 's) rpc_method"

section \<open>Requests\<close>

text \<open>What the six \<open>request_AuthzCache_*_0\<close> share. An end of file leaves the message as it is, so an
  empty body is an empty request.\<close>

definition request_AuthzCache :: "(goerror \<Rightarrow> bool) \<Rightarrow> ('http \<Rightarrow> goerror option \<times> 'req) \<Rightarrow>
    ('ctx, 'req, 'msg, 's) rpc_method \<Rightarrow> 'ctx \<Rightarrow> 'http \<Rightarrow> 's \<Rightarrow>
    ((gateway_error + 'msg) \<times> server_metadata) option \<times> 's" where
  "request_AuthzCache is_eof decode call ctx req s =
    (case decode req of
       (Some err, protoReq) \<Rightarrow>
         if \<not> is_eof err then (Some (Inl (InvalidArgument err), no_server_metadata), s)
         else call ctx protoReq s
     | (None, protoReq) \<Rightarrow> call ctx protoReq s)"

text \<open>The local ones call the server in the same process. They leave the metadata empty; what the
  server sets is in the transport stream of the context, the last component here.\<close>

definition local_request_AuthzCache :: "(goerror \<Rightarrow> bool) \<Rightarrow> ('http \<Rightarrow> goerror option \<times> 'req) \<Rightarrow>
    ('ctx, 'req, 'msg, 's) rpc_method \<Rightarrow> 'ctx \<Rightarrow> 'http \<Rightarrow> 's \<Rightarrow>
    ((gateway_error + 'msg) \<times> server_metadata \<times> server_metadata) option \<times> 's" where
  "local_request_AuthzCache is_eof decode call ctx req s =
    (let run = (\<lambda>protoReq. case call ctx protoReq s of
                 (None, s') \<Rightarrow> (None, s')
               | (Some (res, stream), s') \<Rightarrow> (Some (res, no_server_metadata, stream), s'))
     in case decode req of
       (Some err, protoReq) \<Rightarrow>
         if \<not> is_eof err then (Some (Inl (InvalidArgument err), no_server_metadata, no_server_metadata), s)
         else run protoReq
     | (None, protoReq) \<Rightarrow> run protoReq)"

definition request_AuthzCache_CreateFGASchema_0 :: "('ctx, 'http, 'resp) gateway_env \<Rightarrow>
    ('ctx, 's) AuthzCacheClient \<Rightarrow> 'ctx \<Rightarrow> 'http \<Rightarrow> 's \<Rightarrow>
    ((gateway_error + unit) \<times> server_metadata) option \<times> 's" where
  "request_AuthzCache_CreateFGASchema_0 ge client =
     request_AuthzCache (IsEOF ge) (DecodeBody (codec_CreateFGASchema ge)) (cl_CreateFGASchema client)"

definition local_request_AuthzCache_CreateFGASchema_0 :: "('ctx, 'http, 'resp) gateway_env \<Rightarrow>
    ('ctx, 's) AuthzCacheClient \<Rightarrow> 'ctx \<Rightarrow> 'http \<Rightarrow> 's \<Rightarrow>
    ((gateway_error + unit) \<times> server_metadata \<times> server_metadata) option \<times> 's" where
  "local_request_AuthzCache_CreateFGASchema_0 ge server =
     local_request_AuthzCache (IsEOF ge) (DecodeBody (codec_CreateFGASchema ge)) (cl_CreateFGASchema server)"

definition request_AuthzCache_CreateFGARelations_0 :: "('ctx, 'http, 'resp) gateway_env \<Rightarrow>
    ('ctx, 's) AuthzCacheClient \<Rightarrow> 'ctx \<Rightarrow> 'http \<Rightarrow> 's \<Rightarrow>
    ((gateway_error + unit) \<times> server_metadata) option \<times> 's" where
  "request_AuthzCache_CreateFGARelations_0 ge client =
     request_AuthzCache (IsEOF ge) (DecodeBody (codec_CreateFGARelations ge)) (cl_CreateFGARelations client)"

definition local_request_AuthzCache_CreateFGARelations_0 :: "('ctx, 'http, 'resp) gateway_env \<Rightarrow>
    ('ctx, 's) AuthzCacheClient \<Rightarrow> 'ctx \<Rightarrow> 'http \<Rightarrow> 's \<Rightarrow>
    ((gateway_error + unit) \<times> server_metadata \<times> server_metadata) option \<times> 's" where
  "local_request_AuthzCache_CreateFGARelations_0 ge server =
     local_request_AuthzCache (IsEOF ge) (DecodeBody (codec_CreateFGARelations ge)) (cl_CreateFGARelations server)"

definition request_AuthzCache_DeleteFGARelations_0 :: "('ctx, 'http, 'resp) gateway_env \<Rightarrow>
    ('ctx, 's) AuthzCacheClient \<Rightarrow> 'ctx \<Rightarrow> 'http \<Rightarrow> 's \<Rightarrow>
    ((gateway_error + unit) \<times> server_metadata) option \<times> 's" where
  "request_AuthzCache_DeleteFGARelations_0 ge client =
     request_AuthzCache (IsEOF ge) (DecodeBody (codec_DeleteFGARelations ge)) (cl_DeleteFGARelations client)"

definition local_request_AuthzCache_DeleteFGARelations_0 :: "('ctx, 'http, 'resp) gateway_env \<Rightarrow>
    ('ctx, 's) AuthzCacheClient \<Rightarrow> 'ctx \<Rightarrow> 'http \<Rightarrow> 's \<Rightarrow>
    ((gateway_error + unit) \<times> server_metadata \<times> server_metadata) option \<times> 's" where
  "local_request_AuthzCache_DeleteFGARelations_0 ge server =
     local_request_AuthzCache (IsEOF ge) (DecodeBody (codec_DeleteFGARelations ge)) (cl_DeleteFGARelations server)"

definition request_AuthzCache_Check_0 :: "('ctx, 'http, 'resp) gateway_env \<Rightarrow>
    ('ctx, 's) AuthzCacheClient \<Rightarrow> 'ctx \<Rightarrow> 'http \<Rightarrow> 's \<Rightarrow>
    ((gateway_error + CheckResponseTuple list) \<times> server_metadata) option \<times> 's" where
  "request_AuthzCache_Check_0 ge client =
     request_AuthzCache (IsEOF ge) (DecodeBody (codec_Check ge)) (cl_Check client)"

definition local_request_AuthzCache_Check_0 :: "('ctx, 'http, 'resp) gateway_env \<Rightarrow>
    ('ctx, 's) AuthzCacheClient \<Rightarrow> 'ctx \<Rightarrow> 'http \<Rightarrow> 's \<Rightarrow>
    ((gateway_error + CheckResponseTuple list) \<times> server_metadata \<times> server_metadata) option \<times> 's" where
  "local_request_AuthzCache_Check_0 ge server =
     local_request_AuthzCache (IsEOF ge) (DecodeBody (codec_Check ge)) (cl_Check server)"

definition request_AuthzCache_WhoCanAccess_0 :: "('ctx, 'http, 'resp) gateway_env \<Rightarrow>
    ('ctx, 's) AuthzCacheClient \<Rightarrow> 'ctx \<Rightarrow> 'http \<Rightarrow> 's \<Rightarrow>
    ((gateway_error + string list) \<times> server_metadata) option \<times> 's" where
  "request_AuthzCache_WhoCanAccess_0 ge client =
     request_AuthzCache (IsEOF ge) (DecodeBody (codec_WhoCanAccess ge)) (cl_WhoCanAccess client)"

definition local_request_AuthzCache_WhoCanAccess_0 :: "('ctx, 'http, 'resp) gateway_env \<Rightarrow>
    ('ctx, 's) AuthzCacheClient \<Rightarrow> 'ctx \<Rightarrow> 'http \<Rightarrow> 's \<Rightarrow>
    ((gateway_error + string list) \<times> server_metadata \<times> server_metadata) option \<times> 's" where
  "local_request_AuthzCache_WhoCanAccess_0 ge server =
     local_request_AuthzCache (IsEOF ge) (DecodeBody (codec_WhoCanAccess ge)) (cl_WhoCanAccess server)"

definition request_AuthzCache_WhatCanTargetAccess_0 :: "('ctx, 'http, 'resp) gateway_env \<Rightarrow>
    ('ctx, 's) AuthzCacheClient \<Rightarrow> 'ctx \<Rightarrow> 'http \<Rightarrow> 's \<Rightarrow>
    ((gateway_error + ProtoRelation list) \<times> server_metadata) option \<times> 's" where
  "request_AuthzCache_WhatCanTargetAccess_0 ge client =
     request_AuthzCache (IsEOF ge) (DecodeBody (codec_WhatCanTargetAccess ge)) (cl_WhatCanTargetAccess client)"

definition local_request_AuthzCache_WhatCanTargetAccess_0 :: "('ctx, 'http, 'resp) gateway_env \<Rightarrow>
    ('ctx, 's) AuthzCacheClient \<Rightarrow> 'ctx \<Rightarrow> 'http \<Rightarrow> 's \<Rightarrow>
    ((gateway_error + ProtoRelation list) \<times> server_metadata \<times> server_metadata) option \<times> 's" where
  "local_request_AuthzCache_WhatCanTargetAccess_0 ge server =
     local_request_AuthzCache (IsEOF ge) (DecodeBody (codec_WhatCanTargetAccess ge)) (cl_WhatCanTargetAccess server)"

section \<open>Handlers\<close>

text \<open>The error handler of the mux, with the server metadata in the context if there is any.\<close>

definition HTTPError :: "('ctx, 'http, 'resp) gateway_env \<Rightarrow> server_metadata option \<Rightarrow> http_headers \<Rightarrow>
    'http \<Rightarrow> gateway_error \<Rightarrow> 'resp" where
  "HTTPError ge md h req err =
     HTTPErrorHandler ge req err (errorHandlerWithRetryAfter (map_option HeaderMD md) h)"

text \<open>What the closures \<open>RegisterAuthzCacheHandlerClient\<close> gives the mux share. \<open>h\<close> are the headers of
  the response so far.\<close>

definition serve_request :: "('ctx, 'http, 'resp) gateway_env \<Rightarrow> string \<Rightarrow> string \<Rightarrow>
    ('ctx \<Rightarrow> 'http \<Rightarrow> 's \<Rightarrow> ((gateway_error + 'msg) \<times> server_metadata) option \<times> 's) \<Rightarrow>
    ('http \<Rightarrow> server_metadata \<Rightarrow> 'msg \<Rightarrow> http_headers \<Rightarrow> 'resp) \<Rightarrow>
    http_headers \<Rightarrow> 'http \<Rightarrow> 's \<Rightarrow> 'resp option \<times> 's" where
  "serve_request ge rpc path request forward h req s =
    (case AnnotateContext ge req rpc path of
       Inl err \<Rightarrow> (Some (HTTPError ge None h req (AnnotationFailed err)), s)
     | Inr annotatedContext \<Rightarrow>
        (case request annotatedContext req s of
           (None, s') \<Rightarrow> (None, s')
         | (Some (Inl err, md), s') \<Rightarrow> (Some (HTTPError ge (Some md) h req err), s')
         | (Some (Inr resp, md), s') \<Rightarrow> (Some (forward req md resp h), s')))"

text \<open>Those of \<open>RegisterAuthzCacheHandlerServer\<close> join the stream's metadata to the request's.\<close>

definition serve_local_request :: "('ctx, 'http, 'resp) gateway_env \<Rightarrow> string \<Rightarrow> string \<Rightarrow>
    ('ctx \<Rightarrow> 'http \<Rightarrow> 's \<Rightarrow> ((gateway_error + 'msg) \<times> server_metadata \<times> server_metadata) option \<times> 's) \<Rightarrow>
    ('http \<Rightarrow> server_metadata \<Rightarrow> 'msg \<Rightarrow> http_headers \<Rightarrow> 'resp) \<Rightarrow>
    http_headers \<Rightarrow> 'http \<Rightarrow> 's \<Rightarrow> 'resp option \<times> 's" where
  "serve_local_request ge rpc path request forward h req s =
    (let join = (\<lambda>md stream. \<lparr>HeaderMD = JoinMetadata ge (HeaderMD md) (HeaderMD stream),
                              TrailerMD = JoinMetadata ge (TrailerMD md) (TrailerMD stream)\<rparr>)
     in case AnnotateIncomingContext ge req rpc path of
       Inl err \<Rightarrow> (Some (HTTPError ge None h req (AnnotationFailed err)), s)
     | Inr annotatedContext \<Rightarrow>
        (case request annotatedContext req s of
           (None, s') \<Rightarrow> (None, s')
         | (Some (Inl err, md, stream), s') \<Rightarrow> (Some (HTTPError ge (Some (join md stream)) h req err), s')
         | (Some (Inr resp, md, stream), s') \<Rightarrow> (Some (forward req (join md stream) resp h), s')))"

definition serve_CreateFGASchema :: "('ctx, 'http, 'resp) gateway_env \<Rightarrow> ('ctx, 's) AuthzCacheClient \<Rightarrow>
    http_headers \<Rightarrow> 'http \<Rightarrow> 's \<Rightarrow> 'resp option \<times> 's" where
  "serve_CreateFGASchema ge client = serve_request ge
     ''/authzcv1.AuthzCache/CreateFGASchema'' ''/v1/mgmt/fga/schema''
     (request_AuthzCache_CreateFGASchema_0 ge client) (ForwardResponse (codec_CreateFGASchema ge))"

definition serve_local_CreateFGASchema :: "('ctx, 'http, 'resp) gateway_env \<Rightarrow> ('ctx, 's) AuthzCacheClient \<Rightarrow>
    http_headers \<Rightarrow> 'http \<Rightarrow> 's \<Rightarrow> 'resp option \<times> 's" where
  "serve_local_CreateFGASchema ge server = serve_local_request ge
     ''/authzcv1.AuthzCache/CreateFGASchema'' ''/v1/mgmt/fga/schema''
     (local_request_AuthzCache_CreateFGASchema_0 ge server) (ForwardResponse (codec_CreateFGASchema ge))"

definition serve_CreateFGARelations :: "('ctx, 'http, 'resp) gateway_env \<Rightarrow> ('ctx, 's) AuthzCacheClient \<Rightarrow>
    http_headers \<Rightarrow> 'http \<Rightarrow> 's \<Rightarrow> 'resp option \<times> 's" where
  "serve_CreateFGARelations ge client = serve_request ge
     ''/authzcv1.AuthzCache/CreateFGARelations'' ''/v1/mgmt/fga/relations''
     (request_AuthzCache_CreateFGARelations_0 ge client) (ForwardResponse (codec_CreateFGARelations ge))"

definition serve_local_CreateFGARelations :: "('ctx, 'http, 'resp) gateway_env \<Rightarrow> ('ctx, 's) AuthzCacheClient \<Rightarrow>
    http_headers \<Rightarrow> 'http \<Rightarrow> 's \<Rightarrow> 'resp option \<times> 's" where
  "serve_local_CreateFGARelations ge server = serve_local_request ge
     ''/authzcv1.AuthzCache/CreateFGARelations'' ''/v1/mgmt/fga/relations''
     (local_request_AuthzCache_CreateFGARelations_0 ge server) (ForwardResponse (codec_CreateFGARelations ge))"

definition serve_DeleteFGARelations :: "('ctx, 'http, 'resp) gateway_env \<Rightarrow> ('ctx, 's) AuthzCacheClient \<Rightarrow>
    http_headers \<Rightarrow> 'http \<Rightarrow> 's \<Rightarrow> 'resp option \<times> 's" where
  "serve_DeleteFGARelations ge client = serve_request ge
     ''/authzcv1.AuthzCache/DeleteFGARelations'' ''/v1/mgmt/fga/relations/delete''
     (request_AuthzCache_DeleteFGARelations_0 ge client) (ForwardResponse (codec_DeleteFGARelations ge))"

definition serve_local_DeleteFGARelations :: "('ctx, 'http, 'resp) gateway_env \<Rightarrow> ('ctx, 's) AuthzCacheClient \<Rightarrow>
    http_headers \<Rightarrow> 'http \<Rightarrow> 's \<Rightarrow> 'resp option \<times> 's" where
  "serve_local_DeleteFGARelations ge server = serve_local_request ge
     ''/authzcv1.AuthzCache/DeleteFGARelations'' ''/v1/mgmt/fga/relations/delete''
     (local_request_AuthzCache_DeleteFGARelations_0 ge server) (ForwardResponse (codec_DeleteFGARelations ge))"

definition serve_Check :: "('ctx, 'http, 'resp) gateway_env \<Rightarrow> ('ctx, 's) AuthzCacheClient \<Rightarrow>
    http_headers \<Rightarrow> 'http \<Rightarrow> 's \<Rightarrow> 'resp option \<times> 's" where
  "serve_Check ge client = serve_request ge
     ''/authzcv1.AuthzCache/Check'' ''/v1/mgmt/fga/check''
     (request_AuthzCache_Check_0 ge client) (ForwardResponse (codec_Check ge))"

definition serve_local_Check :: "('ctx, 'http, 'resp) gateway_env \<Rightarrow> ('ctx, 's) AuthzCacheClient \<Rightarrow>
    http_headers \<Rightarrow> 'http \<Rightarrow> 's \<Rightarrow> 'resp option \<times> 's" where
  "serve_local_Check ge server = serve_local_request ge
     ''/authzcv1.AuthzCache/Check'' ''/v1/mgmt/fga/check''
     (local_request_AuthzCache_Check_0 ge server) (ForwardResponse (codec_Check ge))"

definition serve_WhoCanAccess :: "('ctx, 'http, 'resp) gateway_env \<Rightarrow> ('ctx, 's) AuthzCacheClient \<Rightarrow>
    http_headers \<Rightarrow> 'http \<Rightarrow> 's \<Rightarrow> 'resp option \<times> 's" where
  "serve_WhoCanAccess ge client = serve_request ge
     ''/authzcv1.AuthzCache/WhoCanAccess'' ''/v1/mgmt/authz/re/who''
     (request_AuthzCache_WhoCanAccess_0 ge client) (ForwardResponse (codec_WhoCanAccess ge))"

definition serve_local_WhoCanAccess :: "('ctx, 'http, 'resp) gateway_env \<Rightarrow> ('ctx, 's) AuthzCacheClient \<Rightarrow>
    http_headers \<Rightarrow> 'http \<Rightarrow> 's \<Rightarrow> 'resp option \<times> 's" where
  "serve_local_WhoCanAccess ge server = serve_local_request ge
     ''/authzcv1.AuthzCache/WhoCanAccess'' ''/v1/mgmt/authz/re/who''
     (local_request_AuthzCache_WhoCanAccess_0 ge server) (ForwardResponse (codec_WhoCanAccess ge))"

definition serve_WhatCanTargetAccess :: "('ctx, 'http, 'resp) gateway_env \<Rightarrow> ('ctx, 's) AuthzCacheClient \<Rightarrow>
    http_headers \<Rightarrow> 'http \<Rightarrow> 's \<Rightarrow> 'resp option \<times> 's" where
  "serve_WhatCanTargetAccess ge client = serve_request ge
     ''/authzcv1.AuthzCache/WhatCanTargetAccess'' ''/v1/mgmt/authz/re/targetall''
     (request_AuthzCache_WhatCanTargetAccess_0 ge client) (ForwardResponse (codec_WhatCanTargetAccess ge))"

definition serve_local_WhatCanTargetAccess :: "('ctx, 'http, 'resp) gateway_env \<Rightarrow> ('ctx, 's) AuthzCacheClient \<Rightarrow>
    http_headers \<Rightarrow> 'http \<Rightarrow> 's \<Rightarrow> 'resp option \<times> 's" where
  "serve_local_WhatCanTargetAccess ge server = serve_local_request ge
     ''/authzcv1.AuthzCache/WhatCanTargetAccess'' ''/v1/mgmt/authz/re/targetall''
     (local_request_AuthzCache_WhatCanTargetAccess_0 ge server) (ForwardResponse (codec_WhatCanTargetAccess ge))"

section \<open>Routes\<close>

record ('http, 'resp, 's) route =
  r_method :: string
  r_pattern :: "int list \<times> string list"
  r_handler :: "http_headers \<Rightarrow> 'http \<Rightarrow> 's \<Rightarrow> 'resp option \<times> 's"

definition pattern_CreateFGASchema :: "int list \<times> string list" where
  "pattern_CreateFGASchema = ([2, 0, 2, 1, 2, 2, 2, 3], [''v1'', ''mgmt'', ''fga'', ''schema''])"

definition pattern_CreateFGARelations :: "int list \<times> string list" where
  "pattern_CreateFGARelations = ([2, 0, 2, 1, 2, 2, 2, 3], [''v1'', ''mgmt'', ''fga'', ''relations''])"

definition pattern_DeleteFGARelations :: "int list \<times> string list" where
  "pattern_DeleteFGARelations =
     ([2, 0, 2, 1, 2, 2, 2, 3, 2, 4], [''v1'', ''mgmt'', ''fga'', ''relations'', ''delete''])"

definition pattern_Check :: "int list \<times> string list" where
  "pattern_Check = ([2, 0, 2, 1, 2, 2, 2, 3], [''v1'', ''mgmt'', ''fga'', ''check''])"

definition pattern_WhoCanAccess :: "int list \<times> string list" where
  "pattern_WhoCanAccess = ([2, 0, 2, 1, 2, 2, 2, 3, 2, 4], [''v1'', ''mgmt'', ''authz'', ''re'', ''who''])"

definition pattern_WhatCanTargetAccess :: "int list \<times> string list" where
  "pattern_WhatCanTargetAccess =
     ([2, 0, 2, 1, 2, 2, 2, 3, 2, 4], [''v1'', ''mgmt'', ''authz'', ''re'', ''targetall''])"

definition RegisterAuthzCacheHandlerClient :: "('ctx, 'http, 'resp) gateway_env \<Rightarrow>
    ('ctx, 's) AuthzCacheClient \<Rightarrow> ('http, 'resp, 's) route list" where
  "RegisterAuthzCacheHandlerClient ge client =
    [\<lparr>r_method = ''POST'', r_pattern = pattern_CreateFGASchema, r_handler = serve_CreateFGASchema ge client\<rparr>,
     \<lparr>r_method = ''POST'', r_pattern = pattern_CreateFGARelations, r_handler = serve_CreateFGARelations ge client\<rparr>,
     \<lparr>r_method = ''POST'', r_pattern = pattern_DeleteFGARelations, r_handler = serve_DeleteFGARelations ge client\<rparr>,
     \<lparr>r_method = ''POST'', r_pattern = pattern_Check, r_handler = serve_Check ge client\<rparr>,
     \<lparr>r_method = ''POST'', r_pattern = pattern_WhoCanAccess, r_handler = serve_WhoCanAccess ge client\<rparr>,
     \<lparr>r_method = ''POST'', r_pattern = pattern_WhatCanTargetAccess, r_handler = serve_WhatCanTargetAccess ge client\<rparr>]"

definition RegisterAuthzCacheHandlerServer :: "('ctx, 'http, 'resp) gateway_env \<Rightarrow>
    ('ctx, 's) AuthzCacheClient \<Rightarrow> ('http, 'resp, 's) route list" where
  "RegisterAuthzCacheHandlerServer ge server =
    [\<lparr>r_method = ''POST'', r_pattern = pattern_CreateFGASchema, r_handler = serve_local_CreateFGASchema ge server\<rparr>,
     \<lparr>r_method = ''POST'', r_pattern = pattern_CreateFGARelations, r_handler = serve_local_CreateFGARelations ge server\<rparr>,
     \<lparr>r_method = ''POST'', r_pattern = pattern_DeleteFGARelations, r_handler = serve_local_DeleteFGARelations ge server\<rparr>,
     \<lparr>r_method = ''POST'', r_pattern = pattern_Check, r_handler = serve_local_Check ge server\<rparr>,
     \<lparr>r_method = ''POST'', r_pattern = pattern_WhoCanAccess, r_handler = serve_local_WhoCanAccess ge server\<rparr>,
     \<lparr>r_method = ''POST'', r_pattern = pattern_WhatCanTargetAccess, r_handler = serve_local_WhatCanTargetAccess ge server\<rparr>]"

section \<open>The server\<close>

text \<open>What a handler's outcome is to the caller: its header is part of the response's metadata also
  when it fails.\<close>

definition deliver :: "'msg rpc_result \<Rightarrow> ((gateway_error + 'msg) \<times> server_metadata) option" where
  "deliver r = (case r of
     Response msg \<Rightarrow> Some (Inr msg, no_server_metadata)
   | Failure e header \<Rightarrow> Some (Inl (CallFailed e), no_server_metadata\<lparr>HeaderMD := header_metadata header\<rparr>)
   | Panicked msg \<Rightarrow> None)"

text \<open>The controller as the server of the calls, and so, over a connection that delivers each call and
  its answer, as the client. \<open>pid\<close> reads the project of a context.\<close>

definition controller_server :: "('rc, 'lc, 'p, 'w) service_env \<Rightarrow> error_env \<Rightarrow>
    (goerror \<Rightarrow> string) \<Rightarrow> ('ctx \<Rightarrow> string) \<Rightarrow> ('ctx, ('rc, 'lc, 'p) authzCache \<times> 'w) AuthzCacheClient" where
  "controller_server se keys errText pid =
    \<lparr>cl_CreateFGASchema = (\<lambda>ctx dsl (a, w). case handle_CreateFGASchema se keys errText (pid ctx) dsl a w of
        (r, a', w') \<Rightarrow> (deliver r, a', w')),
     cl_CreateFGARelations = (\<lambda>ctx tuples (a, w). case handle_CreateFGARelations se keys errText (pid ctx) tuples a w of
        (r, a', w') \<Rightarrow> (deliver r, a', w')),
     cl_DeleteFGARelations = (\<lambda>ctx tuples (a, w). case handle_DeleteFGARelations se keys errText (pid ctx) tuples a w of
        (r, a', w') \<Rightarrow> (deliver r, a', w')),
     cl_Check = (\<lambda>ctx req (a, w). case handle_Check se keys errText (pid ctx) req a w of
        (r, a', w') \<Rightarrow> (deliver r, a', w')),
     cl_WhoCanAccess = (\<lambda>ctx req (a, w). case handle_WhoCanAccess se keys errText (pid ctx) req a w of
        (r, a', w') \<Rightarrow> (deliver r, a', w')),
     cl_WhatCanTargetAccess = (\<lambda>ctx req (a, w). case handle_WhatCanTargetAccess se keys errText (pid ctx) req a w of
        (r, a', w') \<Rightarrow> (deliver r, a', w'))\<rparr>"

section \<open>The process\<close>

text \<open>What \<open>serve\<close> of \<open>src/cmd/authzcache/main.go\<close> has the server package call first: the gRPC
  registration starts the reporter and makes the service, without projects, over the reporter's
  collector. The HTTP registration is in \<open>GrpcStubs\<close>, since its client is a gRPC one.\<close>

definition register_grpc :: "string \<Rightarrow> string \<Rightarrow> config_source \<Rightarrow>
    (goerror + duration) option \<times> ('rc, 'lc, 'p) authzCache" where
  "register_grpc baseURL mkey src =
     (StartReporter (serve_reporter baseURL mkey src), NewAuthzCache (Some NewCollector))"

section \<open>Properties\<close>

text \<open>The definitions of the six methods, for what holds of all.\<close>

lemmas serve_defs = serve_CreateFGASchema_def serve_CreateFGARelations_def
  serve_DeleteFGARelations_def serve_Check_def serve_WhoCanAccess_def serve_WhatCanTargetAccess_def

lemmas serve_local_defs = serve_local_CreateFGASchema_def serve_local_CreateFGARelations_def
  serve_local_DeleteFGARelations_def serve_local_Check_def serve_local_WhoCanAccess_def
  serve_local_WhatCanTargetAccess_def

lemmas request_defs = request_AuthzCache_CreateFGASchema_0_def
  request_AuthzCache_CreateFGARelations_0_def request_AuthzCache_DeleteFGARelations_0_def
  request_AuthzCache_Check_0_def request_AuthzCache_WhoCanAccess_0_def
  request_AuthzCache_WhatCanTargetAccess_0_def

lemmas local_request_defs = local_request_AuthzCache_CreateFGASchema_0_def
  local_request_AuthzCache_CreateFGARelations_0_def
  local_request_AuthzCache_DeleteFGARelations_0_def local_request_AuthzCache_Check_0_def
  local_request_AuthzCache_WhoCanAccess_0_def local_request_AuthzCache_WhatCanTargetAccess_0_def

lemma header_metadata_none [simp]: "header_metadata None = (\<lambda>_. [])"
  by (simp add: header_metadata_def fun_eq_iff)

lemma errorHandler_no_header [simp]:
  "errorHandlerWithRetryAfter None h = h" "errorHandlerWithRetryAfter (Some (\<lambda>_. [])) h = h"
  by (simp_all add: errorHandlerWithRetryAfter_def Let_def)

lemma no_server_metadata_simps [simp]:
  "HeaderMD no_server_metadata = (\<lambda>_. [])" "TrailerMD no_server_metadata = (\<lambda>_. [])"
  by (simp_all add: no_server_metadata_def)

text \<open>A body that cannot be decoded is answered without a call.\<close>

lemma serve_undecodable:
  assumes "AnnotateContext ge req rpc path = Inr ctx" "decode req = (Some err, m)" "\<not> IsEOF ge err"
  shows "serve_request ge rpc path (request_AuthzCache (IsEOF ge) decode call) forward h req s =
    (Some (HTTPErrorHandler ge req (InvalidArgument err) h), s)"
  using assms by (simp add: serve_request_def request_AuthzCache_def HTTPError_def)

text \<open>What is answered when the message is decoded, or the body is empty.\<close>

lemma serve_decoded:
  assumes "AnnotateContext ge req rpc path = Inr ctx"
    "decode req = (None, m) \<or> (\<exists>err. decode req = (Some err, m) \<and> IsEOF ge err)"
  shows "serve_request ge rpc path (request_AuthzCache (IsEOF ge) decode call) forward h req s =
    (case call ctx m s of
       (None, s') \<Rightarrow> (None, s')
     | (Some (Inl err, md), s') \<Rightarrow> (Some (HTTPError ge (Some md) h req err), s')
     | (Some (Inr resp, md), s') \<Rightarrow> (Some (forward req md resp h), s'))"
  using assms by (auto simp: serve_request_def request_AuthzCache_def)

text \<open>A gateway whose decoders report no end of file.\<close>

definition quiet_codec :: "(goerror \<Rightarrow> bool) \<Rightarrow> ('http, 'req, 'msg, 'resp) codec \<Rightarrow> ('http, 'req, 'msg, 'resp) codec" where
  "quiet_codec is_eof c = c\<lparr>DecodeBody := (\<lambda>req. case DecodeBody c req of
     (Some err, m) \<Rightarrow> (if is_eof err then None else Some err, m)
   | (None, m) \<Rightarrow> (None, m))\<rparr>"

definition drop_eof :: "('ctx, 'http, 'resp) gateway_env \<Rightarrow> ('ctx, 'http, 'resp) gateway_env" where
  "drop_eof ge = ge\<lparr>
     codec_CreateFGASchema := quiet_codec (IsEOF ge) (codec_CreateFGASchema ge),
     codec_CreateFGARelations := quiet_codec (IsEOF ge) (codec_CreateFGARelations ge),
     codec_DeleteFGARelations := quiet_codec (IsEOF ge) (codec_DeleteFGARelations ge),
     codec_Check := quiet_codec (IsEOF ge) (codec_Check ge),
     codec_WhoCanAccess := quiet_codec (IsEOF ge) (codec_WhoCanAccess ge),
     codec_WhatCanTargetAccess := quiet_codec (IsEOF ge) (codec_WhatCanTargetAccess ge)\<rparr>"

lemma request_quiet [simp]:
  "request_AuthzCache is_eof (DecodeBody (quiet_codec is_eof c)) call = request_AuthzCache is_eof (DecodeBody c) call"
  "ForwardResponse (quiet_codec is_eof c) = ForwardResponse c"
  by (auto simp: fun_eq_iff quiet_codec_def request_AuthzCache_def split: option.splits prod.splits)

lemma serve_drop_eof [simp]: "serve_request (drop_eof ge) = serve_request ge"
proof -
  have "AnnotateContext (drop_eof ge) = AnnotateContext ge" "HTTPError (drop_eof ge) = HTTPError ge"
    by (simp_all add: fun_eq_iff HTTPError_def drop_eof_def)
  then show ?thesis by (intro ext) (simp only: serve_request_def)
qed

text \<open>All six handlers take an end of file for no error.\<close>

lemma routes_drop_eof: "RegisterAuthzCacheHandlerClient (drop_eof ge) client = RegisterAuthzCacheHandlerClient ge client"
proof -
  have f: "IsEOF (drop_eof ge) = IsEOF ge"
    "codec_CreateFGASchema (drop_eof ge) = quiet_codec (IsEOF ge) (codec_CreateFGASchema ge)"
    "codec_CreateFGARelations (drop_eof ge) = quiet_codec (IsEOF ge) (codec_CreateFGARelations ge)"
    "codec_DeleteFGARelations (drop_eof ge) = quiet_codec (IsEOF ge) (codec_DeleteFGARelations ge)"
    "codec_Check (drop_eof ge) = quiet_codec (IsEOF ge) (codec_Check ge)"
    "codec_WhoCanAccess (drop_eof ge) = quiet_codec (IsEOF ge) (codec_WhoCanAccess ge)"
    "codec_WhatCanTargetAccess (drop_eof ge) = quiet_codec (IsEOF ge) (codec_WhatCanTargetAccess ge)"
    by (simp_all add: drop_eof_def)
  show ?thesis
    by (simp add: RegisterAuthzCacheHandlerClient_def serve_defs request_defs f)
qed

text \<open>The errors of decoding a request's body, by the method whose route it was sent to.\<close>

definition body_errors :: "('ctx, 'http, 'resp) gateway_env \<Rightarrow> 'http \<Rightarrow> goerror option list" where
  "body_errors ge req =
     [fst (DecodeBody (codec_CreateFGASchema ge) req), fst (DecodeBody (codec_CreateFGARelations ge) req),
      fst (DecodeBody (codec_DeleteFGARelations ge) req), fst (DecodeBody (codec_Check ge) req),
      fst (DecodeBody (codec_WhoCanAccess ge) req), fst (DecodeBody (codec_WhatCanTargetAccess ge) req)]"

lemma routes_undecodable:
  assumes "\<And>rpc path. \<exists>ctx. AnnotateContext ge req rpc path = Inr ctx" "i < 6"
    "body_errors ge req ! i = Some err" "\<not> IsEOF ge err"
  shows "r_handler (RegisterAuthzCacheHandlerClient ge client ! i) h req s =
    (Some (HTTPErrorHandler ge req (InvalidArgument err) h), s)"
proof -
  have bad: "serve_request ge rpc path (request_AuthzCache (IsEOF ge) decode call) forward h req s =
      (Some (HTTPErrorHandler ge req (InvalidArgument err) h), s)"
    if "fst (decode req) = Some err" for rpc path decode call forward
    using assms(1) serve_undecodable[OF _ _ assms(4)] that by (metis prod.collapse)
  have "i = 0 \<or> i = 1 \<or> i = 2 \<or> i = 3 \<or> i = 4 \<or> i = 5" using assms(2) by linarith
  then show ?thesis
    using assms(3)
    by (elim disjE) (simp_all add: RegisterAuthzCacheHandlerClient_def body_errors_def serve_defs request_defs bad)
qed

text \<open>A write of no relations, through either route.\<close>

lemma empty_writes:
  assumes "\<And>rpc path. \<exists>ctx. AnnotateContext ge req rpc path = Inr ctx"
  shows "DecodeBody (codec_CreateFGARelations ge) req = (None, []) \<or>
      (\<exists>err. DecodeBody (codec_CreateFGARelations ge) req = (Some err, []) \<and> IsEOF ge err) \<Longrightarrow>
    serve_CreateFGARelations ge (controller_server se keys errText pid) h req (a, w) =
      (Some (ForwardResponse (codec_CreateFGARelations ge) req no_server_metadata () h), a, w)"
    and "DecodeBody (codec_DeleteFGARelations ge) req = (None, []) \<or>
      (\<exists>err. DecodeBody (codec_DeleteFGARelations ge) req = (Some err, []) \<and> IsEOF ge err) \<Longrightarrow>
    serve_DeleteFGARelations ge (controller_server se keys errText pid) h req (a, w) =
      (Some (ForwardResponse (codec_DeleteFGARelations ge) req no_server_metadata () h), a, w)"
proof -
  show "serve_CreateFGARelations ge (controller_server se keys errText pid) h req (a, w) =
      (Some (ForwardResponse (codec_CreateFGARelations ge) req no_server_metadata () h), a, w)"
    if e: "DecodeBody (codec_CreateFGARelations ge) req = (None, []) \<or>
      (\<exists>err. DecodeBody (codec_CreateFGARelations ge) req = (Some err, []) \<and> IsEOF ge err)"
  proof -
    obtain ctx where "AnnotateContext ge req ''/authzcv1.AuthzCache/CreateFGARelations'' ''/v1/mgmt/fga/relations'' = Inr ctx"
      using assms by blast
    note d = serve_decoded[where decode = "DecodeBody (codec_CreateFGARelations ge)", OF this e]
    show ?thesis
      by (simp add: d serve_CreateFGARelations_def request_AuthzCache_CreateFGARelations_0_def controller_server_def
          handle_CreateFGARelations_def CreateFGARelations_def relationsFromTuples_def deliver_def)
  qed
  show "serve_DeleteFGARelations ge (controller_server se keys errText pid) h req (a, w) =
      (Some (ForwardResponse (codec_DeleteFGARelations ge) req no_server_metadata () h), a, w)"
    if e: "DecodeBody (codec_DeleteFGARelations ge) req = (None, []) \<or>
      (\<exists>err. DecodeBody (codec_DeleteFGARelations ge) req = (Some err, []) \<and> IsEOF ge err)"
  proof -
    obtain ctx where "AnnotateContext ge req ''/authzcv1.AuthzCache/DeleteFGARelations'' ''/v1/mgmt/fga/relations/delete'' = Inr ctx"
      using assms by blast
    note d = serve_decoded[where decode = "DecodeBody (codec_DeleteFGARelations ge)", OF this e]
    show ?thesis
      by (simp add: d serve_DeleteFGARelations_def request_AuthzCache_DeleteFGARelations_0_def controller_server_def
          handle_DeleteFGARelations_def DeleteFGARelations_def relationsFromTuples_def deliver_def)
  qed
qed

text \<open>The two registrations answer alike when the two annotations of a request carry the same project, one
  in the metadata of an outgoing call, the other in that of an incoming one, and both servers see no
  more of a context than its project: joining the stream's metadata to none gives the metadata of the
  call.\<close>

lemma serve_local_same:
  assumes "map_sum id p' (AnnotateIncomingContext ge req rpc path) = map_sum id p (AnnotateContext ge req rpc path)"
    "\<And>md. JoinMetadata ge (\<lambda>_. []) md = md" "\<And>ctx' ctx. p' ctx' = p ctx \<Longrightarrow> call' ctx' = call ctx"
  shows "serve_local_request ge rpc path (local_request_AuthzCache (IsEOF ge) decode call') forward h req s =
    serve_request ge rpc path (request_AuthzCache (IsEOF ge) decode call) forward h req s"
proof (cases "AnnotateContext ge req rpc path")
  case (Inl err)
  then have "AnnotateIncomingContext ge req rpc path = Inl err"
    using assms(1) by (cases "AnnotateIncomingContext ge req rpc path") simp_all
  then show ?thesis using Inl by (simp add: serve_local_request_def serve_request_def Let_def)
next
  case (Inr ctx)
  then obtain ctx' where ctx': "AnnotateIncomingContext ge req rpc path = Inr ctx'" "p' ctx' = p ctx"
    using assms(1) by (cases "AnnotateIncomingContext ge req rpc path") simp_all
  obtain e m where d: "decode req = (e, m)" by fastforce
  obtain r s' where c: "call ctx m s = (r, s')" by fastforce
  have j: "\<lparr>HeaderMD = HeaderMD md, TrailerMD = TrailerMD md\<rparr> = md" for md :: server_metadata by simp
  have n: "\<lparr>HeaderMD = \<lambda>_. [], TrailerMD = \<lambda>_. []\<rparr> = no_server_metadata" by (simp add: no_server_metadata_def)
  show ?thesis
    by (auto simp: serve_local_request_def serve_request_def local_request_AuthzCache_def
        request_AuthzCache_def Let_def assms(2) assms(3)[OF ctx'(2)] ctx'(1) Inr d c j n
        split: option.splits sum.splits)
qed

text \<open>The controller sees the project of a context and nothing else.\<close>

lemma controller_by_project:
  assumes "pid' ctx' = pid ctx"
  shows "cl_CreateFGASchema (controller_server se keys errText pid') ctx' = cl_CreateFGASchema (controller_server se keys errText pid) ctx"
    "cl_CreateFGARelations (controller_server se keys errText pid') ctx' = cl_CreateFGARelations (controller_server se keys errText pid) ctx"
    "cl_DeleteFGARelations (controller_server se keys errText pid') ctx' = cl_DeleteFGARelations (controller_server se keys errText pid) ctx"
    "cl_Check (controller_server se keys errText pid') ctx' = cl_Check (controller_server se keys errText pid) ctx"
    "cl_WhoCanAccess (controller_server se keys errText pid') ctx' = cl_WhoCanAccess (controller_server se keys errText pid) ctx"
    "cl_WhatCanTargetAccess (controller_server se keys errText pid') ctx' = cl_WhatCanTargetAccess (controller_server se keys errText pid) ctx"
  using assms by (simp_all add: controller_server_def)

lemma local_handlers_equivalent:
  assumes "\<And>req rpc path. map_sum id pid' (AnnotateIncomingContext ge req rpc path) =
      map_sum id pid (AnnotateContext ge req rpc path)"
    "\<And>md. JoinMetadata ge (\<lambda>_. []) md = md"
  shows "RegisterAuthzCacheHandlerServer ge (controller_server se keys errText pid') =
    RegisterAuthzCacheHandlerClient ge (controller_server se keys errText pid)"
proof -
  let ?local = "controller_server se keys errText pid'" and ?remote = "controller_server se keys errText pid"
  note same = serve_local_same[OF assms]
  have "serve_local_CreateFGASchema ge ?local = serve_CreateFGASchema ge ?remote"
    "serve_local_CreateFGARelations ge ?local = serve_CreateFGARelations ge ?remote"
    "serve_local_DeleteFGARelations ge ?local = serve_DeleteFGARelations ge ?remote"
    "serve_local_Check ge ?local = serve_Check ge ?remote"
    "serve_local_WhoCanAccess ge ?local = serve_WhoCanAccess ge ?remote"
    "serve_local_WhatCanTargetAccess ge ?local = serve_WhatCanTargetAccess ge ?remote"
    by (intro ext; simp only: serve_local_defs serve_defs request_defs local_request_defs;
        rule same; rule controller_by_project; assumption)+
  then show ?thesis
    by (simp only: RegisterAuthzCacheHandlerServer_def RegisterAuthzCacheHandlerClient_def)
qed

end
