(* ===== verification/GrpcStubs.thy ===== *)
theory GrpcStubs
  imports HttpGateway
begin

text \<open>
  The generated gRPC code, \<open>src/pkg/authzcache/proto/v1/authzcache_grpc.pb.go\<close>, and the table of methods
  of \<open>authzcache.pb.validate.go\<close>: the client stubs, which invoke a method by its full name, the
  handlers, which decode a request and call the server, and the description of the service, which
  pairs the names with the handlers. The gRPC library between them (the connection, the routing by
  name, the codec) is a parameter.
\<close>

section \<open>Messages\<close>

text \<open>What travels over a connection. A Go pointer to a message of one type is never one to another;
  the accessors give \<open>None\<close> where the codec or a type assertion would refuse.\<close>

datatype grpc_message =
    SaveDSLSchemaRequest string
  | CreateTuplesRequest "Tuple list"
  | DeleteTuplesRequest "Tuple list"
  | CheckRequestMessage CheckRequest
  | WhoCanAccessMessage WhoCanAccessRequest
  | WhatCanTargetAccessMessage WhatCanTargetAccessRequest
  | SaveDSLSchemaResponse
  | CreateTuplesResponse
  | DeleteTuplesResponse
  | CheckResponse "CheckResponseTuple list"
  | WhoCanAccessResponse "string list"
  | WhatCanTargetAccessResponse "ProtoRelation list"

fun as_SaveDSLSchemaRequest :: "grpc_message \<Rightarrow> (string) option" where
  "as_SaveDSLSchemaRequest (SaveDSLSchemaRequest m) = Some m" | "as_SaveDSLSchemaRequest _ = None"

fun as_CreateTuplesRequest :: "grpc_message \<Rightarrow> (Tuple list) option" where
  "as_CreateTuplesRequest (CreateTuplesRequest m) = Some m" | "as_CreateTuplesRequest _ = None"

fun as_DeleteTuplesRequest :: "grpc_message \<Rightarrow> (Tuple list) option" where
  "as_DeleteTuplesRequest (DeleteTuplesRequest m) = Some m" | "as_DeleteTuplesRequest _ = None"

fun as_CheckRequestMessage :: "grpc_message \<Rightarrow> (CheckRequest) option" where
  "as_CheckRequestMessage (CheckRequestMessage m) = Some m" | "as_CheckRequestMessage _ = None"

fun as_WhoCanAccessMessage :: "grpc_message \<Rightarrow> (WhoCanAccessRequest) option" where
  "as_WhoCanAccessMessage (WhoCanAccessMessage m) = Some m" | "as_WhoCanAccessMessage _ = None"

fun as_WhatCanTargetAccessMessage :: "grpc_message \<Rightarrow> (WhatCanTargetAccessRequest) option" where
  "as_WhatCanTargetAccessMessage (WhatCanTargetAccessMessage m) = Some m" | "as_WhatCanTargetAccessMessage _ = None"

fun as_SaveDSLSchemaResponse :: "grpc_message \<Rightarrow> (unit) option" where
  "as_SaveDSLSchemaResponse SaveDSLSchemaResponse = Some ()" | "as_SaveDSLSchemaResponse _ = None"

fun as_CreateTuplesResponse :: "grpc_message \<Rightarrow> (unit) option" where
  "as_CreateTuplesResponse CreateTuplesResponse = Some ()" | "as_CreateTuplesResponse _ = None"

fun as_DeleteTuplesResponse :: "grpc_message \<Rightarrow> (unit) option" where
  "as_DeleteTuplesResponse DeleteTuplesResponse = Some ()" | "as_DeleteTuplesResponse _ = None"

fun as_CheckResponse :: "grpc_message \<Rightarrow> (CheckResponseTuple list) option" where
  "as_CheckResponse (CheckResponse m) = Some m" | "as_CheckResponse _ = None"

fun as_WhoCanAccessResponse :: "grpc_message \<Rightarrow> (string list) option" where
  "as_WhoCanAccessResponse (WhoCanAccessResponse m) = Some m" | "as_WhoCanAccessResponse _ = None"

fun as_WhatCanTargetAccessResponse :: "grpc_message \<Rightarrow> (ProtoRelation list) option" where
  "as_WhatCanTargetAccessResponse (WhatCanTargetAccessResponse m) = Some m" | "as_WhatCanTargetAccessResponse _ = None"

section \<open>Names\<close>

definition AuthzCache_CreateFGASchema_FullMethodName :: string where
  "AuthzCache_CreateFGASchema_FullMethodName = ''/authzcv1.AuthzCache/CreateFGASchema''"

definition AuthzCache_CreateFGARelations_FullMethodName :: string where
  "AuthzCache_CreateFGARelations_FullMethodName = ''/authzcv1.AuthzCache/CreateFGARelations''"

definition AuthzCache_DeleteFGARelations_FullMethodName :: string where
  "AuthzCache_DeleteFGARelations_FullMethodName = ''/authzcv1.AuthzCache/DeleteFGARelations''"

definition AuthzCache_Check_FullMethodName :: string where
  "AuthzCache_Check_FullMethodName = ''/authzcv1.AuthzCache/Check''"

definition AuthzCache_WhoCanAccess_FullMethodName :: string where
  "AuthzCache_WhoCanAccess_FullMethodName = ''/authzcv1.AuthzCache/WhoCanAccess''"

definition AuthzCache_WhatCanTargetAccess_FullMethodName :: string where
  "AuthzCache_WhatCanTargetAccess_FullMethodName = ''/authzcv1.AuthzCache/WhatCanTargetAccess''"

section \<open>The client\<close>

text \<open>\<open>Invoke\<close> of a connection, with what it reports for an answer that is not of the type asked for.\<close>

record ('ctx, 's) grpc_conn =
  Invoke :: "'ctx \<Rightarrow> string \<Rightarrow> grpc_message \<Rightarrow> 's \<Rightarrow>
    ((gateway_error + grpc_message) \<times> server_metadata) option \<times> 's"
  WrongType :: gateway_error

text \<open>What the six stubs share: invoke, and return the message or the error.\<close>

definition invoke_stub :: "('ctx, 's) grpc_conn \<Rightarrow> string \<Rightarrow> ('req \<Rightarrow> grpc_message) \<Rightarrow>
    (grpc_message \<Rightarrow> 'msg option) \<Rightarrow> ('ctx, 'req, 'msg, 's) rpc_method" where
  "invoke_stub cc method wrap unwrap ctx req s =
    (case Invoke cc ctx method (wrap req) s of
       (None, s') \<Rightarrow> (None, s')
     | (Some (Inl err, md), s') \<Rightarrow> (Some (Inl err, md), s')
     | (Some (Inr out, md), s') \<Rightarrow> (Some (case unwrap out of Some m \<Rightarrow> Inr m | None \<Rightarrow> Inl (WrongType cc), md), s'))"

definition NewAuthzCacheClient :: "('ctx, 's) grpc_conn \<Rightarrow> ('ctx, 's) AuthzCacheClient" where
  "NewAuthzCacheClient cc = \<lparr>
     cl_CreateFGASchema = invoke_stub cc AuthzCache_CreateFGASchema_FullMethodName
       SaveDSLSchemaRequest as_SaveDSLSchemaResponse,
     cl_CreateFGARelations = invoke_stub cc AuthzCache_CreateFGARelations_FullMethodName
       CreateTuplesRequest as_CreateTuplesResponse,
     cl_DeleteFGARelations = invoke_stub cc AuthzCache_DeleteFGARelations_FullMethodName
       DeleteTuplesRequest as_DeleteTuplesResponse,
     cl_Check = invoke_stub cc AuthzCache_Check_FullMethodName
       CheckRequestMessage as_CheckResponse,
     cl_WhoCanAccess = invoke_stub cc AuthzCache_WhoCanAccess_FullMethodName
       WhoCanAccessMessage as_WhoCanAccessResponse,
     cl_WhatCanTargetAccess = invoke_stub cc AuthzCache_WhatCanTargetAccess_FullMethodName
       WhatCanTargetAccessMessage as_WhatCanTargetAccessResponse\<rparr>"

section \<open>The server\<close>

text \<open>What the six handlers share: decode the request, and call the server's method, through the
  interceptor when there is one. An interceptor gets the full name of the method and the rest of the
  handler. The error of \<open>dec\<close> is returned as it is.\<close>

type_synonym ('ctx, 's) unary_handler =
  "'ctx \<Rightarrow> grpc_message \<Rightarrow> 's \<Rightarrow> ((gateway_error + grpc_message) \<times> server_metadata) option \<times> 's"

type_synonym ('ctx, 's) interceptor =
  "'ctx \<Rightarrow> grpc_message \<Rightarrow> string \<Rightarrow> ('ctx, 's) unary_handler \<Rightarrow> 's \<Rightarrow>
     ((gateway_error + grpc_message) \<times> server_metadata) option \<times> 's"

definition serve_unary :: "('ctx, 'req, 'msg, 's) rpc_method \<Rightarrow> (grpc_message \<Rightarrow> 'req option) \<Rightarrow>
    ('msg \<Rightarrow> grpc_message) \<Rightarrow> ('ctx, 's) unary_handler" where
  "serve_unary call unwrap wrap ctx req s =
    (case unwrap req of
       None \<Rightarrow> (None, s)
     | Some m \<Rightarrow>
        (case call ctx m s of
           (None, s') \<Rightarrow> (None, s')
         | (Some (res, md), s') \<Rightarrow> (Some (map_sum id wrap res, md), s')))"

definition unary_method :: "string \<Rightarrow> ('ctx, 'req, 'msg, 's) rpc_method \<Rightarrow> (grpc_message \<Rightarrow> 'req option) \<Rightarrow>
    ('msg \<Rightarrow> grpc_message) \<Rightarrow> 'ctx \<Rightarrow> gateway_error + grpc_message \<Rightarrow> ('ctx, 's) interceptor option \<Rightarrow> 's \<Rightarrow>
    ((gateway_error + grpc_message) \<times> server_metadata) option \<times> 's" where
  "unary_method fullMethod call unwrap wrap ctx dec interceptor s =
    (case dec of
       Inl err \<Rightarrow> (Some (Inl err, no_server_metadata), s)
     | Inr in_ \<Rightarrow>
        (case interceptor of
           None \<Rightarrow> serve_unary call unwrap wrap ctx in_ s
         | Some ic \<Rightarrow> ic ctx in_ fullMethod (serve_unary call unwrap wrap) s))"

definition AuthzCache_CreateFGASchema_Handler :: "('ctx, 's) AuthzCacheClient \<Rightarrow> 'ctx \<Rightarrow> gateway_error + grpc_message \<Rightarrow>
    ('ctx, 's) interceptor option \<Rightarrow> 's \<Rightarrow> ((gateway_error + grpc_message) \<times> server_metadata) option \<times> 's" where
  "AuthzCache_CreateFGASchema_Handler srv = unary_method AuthzCache_CreateFGASchema_FullMethodName
     (cl_CreateFGASchema srv) as_SaveDSLSchemaRequest (\<lambda>_. SaveDSLSchemaResponse)"

definition AuthzCache_CreateFGARelations_Handler :: "('ctx, 's) AuthzCacheClient \<Rightarrow> 'ctx \<Rightarrow> gateway_error + grpc_message \<Rightarrow>
    ('ctx, 's) interceptor option \<Rightarrow> 's \<Rightarrow> ((gateway_error + grpc_message) \<times> server_metadata) option \<times> 's" where
  "AuthzCache_CreateFGARelations_Handler srv = unary_method AuthzCache_CreateFGARelations_FullMethodName
     (cl_CreateFGARelations srv) as_CreateTuplesRequest (\<lambda>_. CreateTuplesResponse)"

definition AuthzCache_DeleteFGARelations_Handler :: "('ctx, 's) AuthzCacheClient \<Rightarrow> 'ctx \<Rightarrow> gateway_error + grpc_message \<Rightarrow>
    ('ctx, 's) interceptor option \<Rightarrow> 's \<Rightarrow> ((gateway_error + grpc_message) \<times> server_metadata) option \<times> 's" where
  "AuthzCache_DeleteFGARelations_Handler srv = unary_method AuthzCache_DeleteFGARelations_FullMethodName
     (cl_DeleteFGARelations srv) as_DeleteTuplesRequest (\<lambda>_. DeleteTuplesResponse)"

definition AuthzCache_Check_Handler :: "('ctx, 's) AuthzCacheClient \<Rightarrow> 'ctx \<Rightarrow> gateway_error + grpc_message \<Rightarrow>
    ('ctx, 's) interceptor option \<Rightarrow> 's \<Rightarrow> ((gateway_error + grpc_message) \<times> server_metadata) option \<times> 's" where
  "AuthzCache_Check_Handler srv = unary_method AuthzCache_Check_FullMethodName
     (cl_Check srv) as_CheckRequestMessage CheckResponse"

definition AuthzCache_WhoCanAccess_Handler :: "('ctx, 's) AuthzCacheClient \<Rightarrow> 'ctx \<Rightarrow> gateway_error + grpc_message \<Rightarrow>
    ('ctx, 's) interceptor option \<Rightarrow> 's \<Rightarrow> ((gateway_error + grpc_message) \<times> server_metadata) option \<times> 's" where
  "AuthzCache_WhoCanAccess_Handler srv = unary_method AuthzCache_WhoCanAccess_FullMethodName
     (cl_WhoCanAccess srv) as_WhoCanAccessMessage WhoCanAccessResponse"

definition AuthzCache_WhatCanTargetAccess_Handler :: "('ctx, 's) AuthzCacheClient \<Rightarrow> 'ctx \<Rightarrow> gateway_error + grpc_message \<Rightarrow>
    ('ctx, 's) interceptor option \<Rightarrow> 's \<Rightarrow> ((gateway_error + grpc_message) \<times> server_metadata) option \<times> 's" where
  "AuthzCache_WhatCanTargetAccess_Handler srv = unary_method AuthzCache_WhatCanTargetAccess_FullMethodName
     (cl_WhatCanTargetAccess srv) as_WhatCanTargetAccessMessage WhatCanTargetAccessResponse"

record ('ctx, 's) MethodDesc =
  MethodName :: string
  Handler :: "('ctx, 's) AuthzCacheClient \<Rightarrow> 'ctx \<Rightarrow> gateway_error + grpc_message \<Rightarrow>
    ('ctx, 's) interceptor option \<Rightarrow> 's \<Rightarrow> ((gateway_error + grpc_message) \<times> server_metadata) option \<times> 's"

record ('ctx, 's) ServiceDesc =
  ServiceName :: string
  ServiceMethods :: "('ctx, 's) MethodDesc list"

definition AuthzCache_ServiceDesc :: "('ctx, 's) ServiceDesc" where
  "AuthzCache_ServiceDesc = \<lparr>ServiceName = ''authzcv1.AuthzCache'',
     ServiceMethods = [
       \<lparr>MethodName = ''CreateFGASchema'', Handler = AuthzCache_CreateFGASchema_Handler\<rparr>,
       \<lparr>MethodName = ''CreateFGARelations'', Handler = AuthzCache_CreateFGARelations_Handler\<rparr>,
       \<lparr>MethodName = ''DeleteFGARelations'', Handler = AuthzCache_DeleteFGARelations_Handler\<rparr>,
       \<lparr>MethodName = ''Check'', Handler = AuthzCache_Check_Handler\<rparr>,
       \<lparr>MethodName = ''WhoCanAccess'', Handler = AuthzCache_WhoCanAccess_Handler\<rparr>,
       \<lparr>MethodName = ''WhatCanTargetAccess'', Handler = AuthzCache_WhatCanTargetAccess_Handler\<rparr>]\<rparr>"

section \<open>The table of methods\<close>

record MethodMetadata =
  MM_Name :: string
  MM_Path :: string

definition AuthzCacheAllMethods :: "MethodMetadata list" where
  "AuthzCacheAllMethods = [
     \<lparr>MM_Name = ''CreateFGASchema'', MM_Path = ''/authzcv1.AuthzCache/CreateFGASchema''\<rparr>,
     \<lparr>MM_Name = ''CreateFGARelations'', MM_Path = ''/authzcv1.AuthzCache/CreateFGARelations''\<rparr>,
     \<lparr>MM_Name = ''DeleteFGARelations'', MM_Path = ''/authzcv1.AuthzCache/DeleteFGARelations''\<rparr>,
     \<lparr>MM_Name = ''Check'', MM_Path = ''/authzcv1.AuthzCache/Check''\<rparr>,
     \<lparr>MM_Name = ''WhoCanAccess'', MM_Path = ''/authzcv1.AuthzCache/WhoCanAccess''\<rparr>,
     \<lparr>MM_Name = ''WhatCanTargetAccess'', MM_Path = ''/authzcv1.AuthzCache/WhatCanTargetAccess''\<rparr>]"

record AuthzCacheMethods =
  am_CreateFGASchema :: MethodMetadata
  am_CreateFGARelations :: MethodMetadata
  am_DeleteFGARelations :: MethodMetadata
  am_Check :: MethodMetadata
  am_WhoCanAccess :: MethodMetadata
  am_WhatCanTargetAccess :: MethodMetadata

record AuthzCacheMetadata =
  AllMethods :: "MethodMetadata list"
  MetadataMethods :: AuthzCacheMethods

definition AuthzCacheMetadataTable :: AuthzCacheMetadata where
  "AuthzCacheMetadataTable = \<lparr>AllMethods = AuthzCacheAllMethods,
     MetadataMethods = \<lparr>am_CreateFGASchema = AuthzCacheAllMethods ! 0,
       am_CreateFGARelations = AuthzCacheAllMethods ! 1,
       am_DeleteFGARelations = AuthzCacheAllMethods ! 2,
       am_Check = AuthzCacheAllMethods ! 3,
       am_WhoCanAccess = AuthzCacheAllMethods ! 4,
       am_WhatCanTargetAccess = AuthzCacheAllMethods ! 5\<rparr>\<rparr>"

section \<open>The client over a connection to the server\<close>

text \<open>The full name of a method, as the gRPC protocol composes it.\<close>

definition full_method :: "string \<Rightarrow> string \<Rightarrow> string" where
  "full_method service name = ''/'' @ service @ ''/'' @ name"

text \<open>A connection to a server that has registered the service, with no interceptor: invoking the full
  name of a method of the description runs its handler on the message sent.\<close>

definition routes_to :: "('ctx, 's) grpc_conn \<Rightarrow> ('ctx, 's) ServiceDesc \<Rightarrow> ('ctx, 's) AuthzCacheClient \<Rightarrow> bool" where
  "routes_to cc desc srv \<longleftrightarrow> (\<forall>m\<in>set (ServiceMethods desc). \<forall>ctx msg s.
     Invoke cc ctx (full_method (ServiceName desc) (MethodName m)) msg s = Handler m srv ctx (Inr msg) None s)"

lemmas full_method_names = AuthzCache_CreateFGASchema_FullMethodName_def
  AuthzCache_CreateFGARelations_FullMethodName_def
  AuthzCache_DeleteFGARelations_FullMethodName_def
  AuthzCache_Check_FullMethodName_def
  AuthzCache_WhoCanAccess_FullMethodName_def
  AuthzCache_WhatCanTargetAccess_FullMethodName_def

lemmas handler_defs = AuthzCache_CreateFGASchema_Handler_def
  AuthzCache_CreateFGARelations_Handler_def
  AuthzCache_DeleteFGARelations_Handler_def
  AuthzCache_Check_Handler_def
  AuthzCache_WhoCanAccess_Handler_def
  AuthzCache_WhatCanTargetAccess_Handler_def

text \<open>A stub and a handler of one method, back to back, are the server's method.\<close>

lemma stub_of_handler:
  assumes "\<And>ctx msg s. Invoke cc ctx method msg s = unary_method method call unwrap wrap ctx (Inr msg) None s"
    "\<And>m. unwrap (wrap_req m) = Some m" "\<And>r. unwrap_resp (wrap r) = Some r"
  shows "invoke_stub cc method wrap_req unwrap_resp = call"
proof (intro ext)
  fix ctx req s
  obtain out s' where run: "call ctx req s = (out, s')" by fastforce
  show "invoke_stub cc method wrap_req unwrap_resp ctx req s = call ctx req s"
  proof (cases out)
    case None
    then show ?thesis by (simp add: invoke_stub_def assms unary_method_def serve_unary_def run)
  next
    case (Some p)
    obtain res md where p: "p = (res, md)" by fastforce
    show ?thesis
      by (cases res) (simp_all add: invoke_stub_def assms unary_method_def serve_unary_def run Some p)
  qed
qed

lemma routed:
  assumes "routes_to cc AuthzCache_ServiceDesc srv"
  shows "Invoke cc ctx AuthzCache_CreateFGASchema_FullMethodName msg s = AuthzCache_CreateFGASchema_Handler srv ctx (Inr msg) None s"
    "Invoke cc ctx AuthzCache_CreateFGARelations_FullMethodName msg s = AuthzCache_CreateFGARelations_Handler srv ctx (Inr msg) None s"
    "Invoke cc ctx AuthzCache_DeleteFGARelations_FullMethodName msg s = AuthzCache_DeleteFGARelations_Handler srv ctx (Inr msg) None s"
    "Invoke cc ctx AuthzCache_Check_FullMethodName msg s = AuthzCache_Check_Handler srv ctx (Inr msg) None s"
    "Invoke cc ctx AuthzCache_WhoCanAccess_FullMethodName msg s = AuthzCache_WhoCanAccess_Handler srv ctx (Inr msg) None s"
    "Invoke cc ctx AuthzCache_WhatCanTargetAccess_FullMethodName msg s = AuthzCache_WhatCanTargetAccess_Handler srv ctx (Inr msg) None s"
  using assms by (simp_all add: routes_to_def AuthzCache_ServiceDesc_def full_method_def full_method_names)

theorem client_is_server:
  assumes "routes_to cc AuthzCache_ServiceDesc srv"
  shows "NewAuthzCacheClient cc = srv"
proof -
  note r = routed[OF assms, unfolded handler_defs]
  have c1: "invoke_stub cc AuthzCache_CreateFGASchema_FullMethodName SaveDSLSchemaRequest as_SaveDSLSchemaResponse = cl_CreateFGASchema srv"
    by (rule stub_of_handler[OF r(1)]) simp_all
  have c2: "invoke_stub cc AuthzCache_CreateFGARelations_FullMethodName CreateTuplesRequest as_CreateTuplesResponse = cl_CreateFGARelations srv"
    by (rule stub_of_handler[OF r(2)]) simp_all
  have c3: "invoke_stub cc AuthzCache_DeleteFGARelations_FullMethodName DeleteTuplesRequest as_DeleteTuplesResponse = cl_DeleteFGARelations srv"
    by (rule stub_of_handler[OF r(3)]) simp_all
  have c4: "invoke_stub cc AuthzCache_Check_FullMethodName CheckRequestMessage as_CheckResponse = cl_Check srv"
    by (rule stub_of_handler[OF r(4)]) simp_all
  have c5: "invoke_stub cc AuthzCache_WhoCanAccess_FullMethodName WhoCanAccessMessage as_WhoCanAccessResponse = cl_WhoCanAccess srv"
    by (rule stub_of_handler[OF r(5)]) simp_all
  have c6: "invoke_stub cc AuthzCache_WhatCanTargetAccess_FullMethodName WhatCanTargetAccessMessage as_WhatCanTargetAccessResponse = cl_WhatCanTargetAccess srv"
    by (rule stub_of_handler[OF r(6)]) simp_all
  show ?thesis by (simp add: NewAuthzCacheClient_def c1 c2 c3 c4 c5 c6)
qed

text \<open>The three tables name the same methods.\<close>

lemma names_agree:
  "map MM_Path (AllMethods AuthzCacheMetadataTable) =
     map (\<lambda>m. full_method (ServiceName AuthzCache_ServiceDesc) (MethodName m)) (ServiceMethods AuthzCache_ServiceDesc)"
  "map MM_Path (AllMethods AuthzCacheMetadataTable) =
     [AuthzCache_CreateFGASchema_FullMethodName, AuthzCache_CreateFGARelations_FullMethodName,
      AuthzCache_DeleteFGARelations_FullMethodName, AuthzCache_Check_FullMethodName,
      AuthzCache_WhoCanAccess_FullMethodName, AuthzCache_WhatCanTargetAccess_FullMethodName]"
  by (simp_all add: AuthzCacheMetadataTable_def AuthzCacheAllMethods_def AuthzCache_ServiceDesc_def
      full_method_def full_method_names)

section \<open>The registration\<close>

text \<open>\<open>RegisterAuthzCacheHandler\<close>, and what \<open>serve\<close> of \<open>src/cmd/authzcache/main.go\<close> has the server
  package call second, with the connection to its gRPC server: it sets the timeout of the gateway's
  server and registers the handlers. The middleware \<open>ProjectIDParser\<close> has overwritten the project
  header of the requests the handlers see.\<close>

definition RegisterAuthzCacheHandler :: "('ctx, 'http, 'resp) gateway_env \<Rightarrow> ('ctx, 's) grpc_conn \<Rightarrow>
    ('http, 'resp, 's) route list" where
  "RegisterAuthzCacheHandler ge conn = RegisterAuthzCacheHandlerClient ge (NewAuthzCacheClient conn)"

text \<open>\<open>RegisterAuthzCacheHandlerFromEndpoint\<close>, which dials first. The registration never fails, so the
  deferred function never closes the connection at once: it leaves it to a goroutine that waits for the
  context, here the second component of the result.\<close>

definition RegisterAuthzCacheHandlerFromEndpoint :: "('ctx, 'http, 'resp) gateway_env \<Rightarrow>
    (string \<Rightarrow> goerror + ('ctx, 's) grpc_conn) \<Rightarrow> string \<Rightarrow>
    goerror + ('http, 'resp, 's) route list \<times> ('ctx, 's) grpc_conn" where
  "RegisterAuthzCacheHandlerFromEndpoint ge NewClientConn endpoint =
    (case NewClientConn endpoint of
       Inl err \<Rightarrow> Inl err
     | Inr conn \<Rightarrow> Inr (RegisterAuthzCacheHandler ge conn, conn))"

definition register_http :: "config_source \<Rightarrow> ('ctx, 'http, 'resp) gateway_env \<Rightarrow>
    ('ctx, 's) grpc_conn \<Rightarrow> duration \<times> ('http, 'resp, 's) route list" where
  "register_http src ge conn = (setGatewayWriteTimeout src, RegisterAuthzCacheHandler ge conn)"

end
