(* ===== verification/Process.thy ===== *)
theory Process
  imports GrpcStubs ServiceCalls
begin

text \<open>
  What \<open>serve\<close> of \<open>src/cmd/authzcache/main.go\<close> gives the server package to run: the gRPC registration, the
  HTTP registration, the middlewares and the gateway's error handler (which \<open>HTTPError\<close> of
  \<open>HttpGateway\<close> runs), and what a request passes through on its way to a project's cache.
\<close>

section \<open>The process\<close>

text \<open>A request is its headers and the rest, which the gateway reads.\<close>

record 'b http_message =
  MessageHeader :: http_headers
  MessageBody :: 'b

text \<open>The handler that \<open>ProjectIDParser\<close> wraps around the gateway's. \<open>parse\<close> is the parser of the
  authorization header, \<open>mdHeader\<close> the name of the project header in gRPC metadata.\<close>

definition with_project :: "(http_headers \<Rightarrow> string \<times> string \<times> goerror option) \<Rightarrow> string \<Rightarrow>
    (http_headers \<Rightarrow> 'b http_message \<Rightarrow> 's \<Rightarrow> 'resp option \<times> 's) \<Rightarrow>
    http_headers \<Rightarrow> 'b http_message \<Rightarrow> 's \<Rightarrow> 'resp option \<times> 's" where
  "with_project parse mdHeader handler h req =
     handler h (req\<lparr>MessageHeader := ProjectIDParser parse mdHeader (MessageHeader req)\<rparr>)"

record ('http, 'resp, 's, 'rc, 'lc, 'p) server_process =
  ReporterTicker :: "(goerror + duration) option"
  InitialService :: "('rc, 'lc, 'p) authzCache"
  WriteTimeout :: duration
  Routes :: "('http, 'resp, 's) route list"

definition serve :: "string \<Rightarrow> string \<Rightarrow> config_source \<Rightarrow> ('ctx, 'b http_message, 'resp) gateway_env \<Rightarrow>
    (http_headers \<Rightarrow> string \<times> string \<times> goerror option) \<Rightarrow> string \<Rightarrow> ('ctx, 's) grpc_conn \<Rightarrow>
    ('b http_message, 'resp, 's, 'rc, 'lc, 'p) server_process" where
  "serve baseURL mkey src ge parse mdHeader conn =
    (case (register_grpc baseURL mkey src, register_http src ge conn) of
       ((ticker, service), (timeout, routes)) \<Rightarrow>
         \<lparr>ReporterTicker = ticker, InitialService = service, WriteTimeout = timeout,
          Routes = map (\<lambda>r. r\<lparr>r_handler := with_project parse mdHeader (r_handler r)\<rparr>) routes\<rparr>)"

lemma header_overwritten:
  assumes "\<forall>hs x. parse (hs(mdHeader := x)) = parse hs"
  shows "with_project parse mdHeader handler h (req\<lparr>MessageHeader := (MessageHeader req)(mdHeader := x)\<rparr>) =
    with_project parse mdHeader handler h req"
  using assms by (simp add: with_project_def ProjectIDParser_def header_set_def fun_eq_iff)

section \<open>What a route can change\<close>

text \<open>A call that leaves the caches of all projects but one alone.\<close>

definition keeps_others :: "string \<Rightarrow> (('rc, 'lc, 'p) authzCache \<times> 'w \<Rightarrow> 'x \<times> ('rc, 'lc, 'p) authzCache \<times> 'w) \<Rightarrow> bool" where
  "keeps_others p f \<longleftrightarrow> (\<forall>s q. q \<noteq> p \<longrightarrow> projects (fst (snd (f s))) q = projects (fst s) q)"

lemma handlers_state:
  "snd (handle_CreateFGASchema se keys errText p dsl a w) = snd (call_service se p (CallCreateFGASchema dsl) a w)"
  "snd (handle_CreateFGARelations se keys errText p tuples a w) =
     snd (call_service se p (CallCreateFGARelations (relationsFromTuples tuples)) a w)"
  "snd (handle_DeleteFGARelations se keys errText p tuples a w) =
     snd (call_service se p (CallDeleteFGARelations (relationsFromTuples tuples)) a w)"
  "snd (handle_Check se keys errText p cr a w) =
     snd (call_service se p (CallCheck (relationsFromTuples (C_Tuples cr)) (extra_context (C_Context cr))) a w)"
  "snd (handle_WhoCanAccess se keys errText p wr a w) = snd (call_service se p
     (CallWhoCanAccess (W_Resource wr) (W_RelationDefinition wr) (W_Namespace wr) (extra_context (W_Context wr))) a w)"
  "snd (handle_WhatCanTargetAccess se keys errText p tr a w) =
     snd (call_service se p (CallWhatCanTargetAccess (WT_Target tr) (extra_context (WT_Context tr))) a w)"
  by (simp_all add: answer_as_def handle_CreateFGASchema_def handle_CreateFGARelations_def handle_DeleteFGARelations_def
      handle_Check_def handle_WhoCanAccess_def handle_WhatCanTargetAccess_def split: prod.splits sum.splits)

lemma delivered_keeps_others:
  assumes "\<And>a w. snd (g a w) = snd (call_service se p c a w)"
  shows "keeps_others p (\<lambda>(a, w). case g a w of (r, a', w') \<Rightarrow> (deliver r, a', w'))"
proof -
  have "projects (fst (snd (g a w))) q = projects a q" if "q \<noteq> p" for a w q
    using call_service_others[OF that] assms by metis
  then show ?thesis by (simp add: keeps_others_def split_beta)
qed

lemma controller_keeps_others:
  "keeps_others (pid ctx) (cl_CreateFGASchema (controller_server se keys errText pid) ctx dsl)"
  "keeps_others (pid ctx) (cl_CreateFGARelations (controller_server se keys errText pid) ctx tuples)"
  "keeps_others (pid ctx) (cl_DeleteFGARelations (controller_server se keys errText pid) ctx tuples)"
  "keeps_others (pid ctx) (cl_Check (controller_server se keys errText pid) ctx cr)"
  "keeps_others (pid ctx) (cl_WhoCanAccess (controller_server se keys errText pid) ctx wr)"
  "keeps_others (pid ctx) (cl_WhatCanTargetAccess (controller_server se keys errText pid) ctx tr)"
  by (simp_all only: controller_server_def AuthzCacheClient.select_convs)
    (rule delivered_keeps_others[OF handlers_state(1)] delivered_keeps_others[OF handlers_state(2)]
      delivered_keeps_others[OF handlers_state(3)] delivered_keeps_others[OF handlers_state(4)]
      delivered_keeps_others[OF handlers_state(5)] delivered_keeps_others[OF handlers_state(6)])+

lemma serve_request_keeps_others:
  assumes "\<And>ctx m. AnnotateContext ge req rpc path = Inr ctx \<Longrightarrow> keeps_others p (call ctx m)"
  shows "keeps_others p (serve_request ge rpc path (request_AuthzCache is_eof decode call) forward h req)"
proof (cases "AnnotateContext ge req rpc path")
  case (Inl err)
  then show ?thesis by (simp add: keeps_others_def serve_request_def)
next
  case (Inr ctx)
  show ?thesis
    using assms[OF Inr] by (auto simp: keeps_others_def serve_request_def request_AuthzCache_def Inr
        split: prod.splits option.splits sum.splits) (metis fst_conv snd_conv)+
qed

lemma routes_keep_others:
  assumes "r \<in> set (RegisterAuthzCacheHandlerClient ge (controller_server se keys errText pid))"
    "\<And>rpc path ctx. AnnotateContext ge req rpc path = Inr ctx \<Longrightarrow> pid ctx = p"
  shows "keeps_others p (r_handler r h req)"
proof -
  note calls = controller_keeps_others[where pid = pid and se = se and keys = keys and errText = errText]
  show ?thesis
    using assms(1) unfolding RegisterAuthzCacheHandlerClient_def
    by (auto simp: serve_defs request_AuthzCache_CreateFGASchema_0_def request_AuthzCache_CreateFGARelations_0_def
        request_AuthzCache_DeleteFGARelations_0_def request_AuthzCache_Check_0_def request_AuthzCache_WhoCanAccess_0_def
        request_AuthzCache_WhatCanTargetAccess_0_def
        intro!: serve_request_keeps_others dest!: assms(2)) (simp_all add: calls)
qed

end
