(* ===== verification/HttpProperties.thy ===== *)
theory HttpProperties
  imports Examples Process
begin

text \<open>
  The properties of a request over HTTP, from its body to the response that is written, and an
  example gateway whose bodies are the messages themselves.
\<close>

section \<open>Checks\<close>



section \<open>An example gateway\<close>

text \<open>A request carries its message, or nothing; the response lists the answers. Every context is
  that of the project \<open>P\<close>.\<close>

datatype example_response = Answers "bool list" | Done http_headers | Refused gateway_error http_headers

definition example_decode :: "'req \<Rightarrow> 'req option \<Rightarrow> goerror option \<times> 'req" where
  "example_decode zero body = (case body of None \<Rightarrow> (Some (PlainError ''EOF''), zero) | Some m \<Rightarrow> (None, m))"

definition example_gateway :: "(unit, CheckRequest option, example_response) gateway_env" where
  "example_gateway = \<lparr>AnnotateContext = (\<lambda>req rpc path. Inr ()), AnnotateIncomingContext = (\<lambda>req rpc path. Inr ()),
     IsEOF = (\<lambda>e. e = PlainError ''EOF''), HTTPErrorHandler = (\<lambda>req e h. Refused e h),
     JoinMetadata = (\<lambda>m m' k. m k @ m' k),
     codec_CreateFGASchema = \<lparr>DecodeBody = (\<lambda>req. (None, '''')), ForwardResponse = (\<lambda>req md m h. Done h)\<rparr>,
     codec_CreateFGARelations = \<lparr>DecodeBody = (\<lambda>req. (Some (PlainError ''syntax''), [])), ForwardResponse = (\<lambda>req md m h. Done h)\<rparr>,
     codec_DeleteFGARelations = \<lparr>DecodeBody = (\<lambda>req. (Some (PlainError ''EOF''), [])), ForwardResponse = (\<lambda>req md m h. Done h)\<rparr>,
     codec_Check = \<lparr>DecodeBody = example_decode \<lparr>C_Tuples = [], C_Context = None\<rparr>,
       ForwardResponse = (\<lambda>req md ts h. Answers (map R_Allowed ts))\<rparr>,
     codec_WhoCanAccess = \<lparr>DecodeBody = (\<lambda>req. (None, \<lparr>W_Resource = '''', W_RelationDefinition = '''', W_Namespace = '''', W_Context = None\<rparr>)),
       ForwardResponse = (\<lambda>req md m h. Done h)\<rparr>,
     codec_WhatCanTargetAccess = \<lparr>DecodeBody = (\<lambda>req. (None, \<lparr>WT_Target = '''', WT_Context = None\<rparr>)),
       ForwardResponse = (\<lambda>req md m h. Done h)\<rparr>\<rparr>"

definition example_keys_of_errors :: error_env where
  "example_keys_of_errors = \<lparr>HTTPResponseStatusCode = ''status'', RateLimitExceededRetryAfter = ''retry'',
     SetHeader = (\<lambda>p. None)\<rparr>"

definition example_tuple :: Tuple where
  "example_tuple = \<lparr>T_Resource = ''doc'', T_ResourceType = ''file'', T_Relation = ''owner'',
     T_Target = ''alice'', T_TargetType = ''*''\<rparr>"


text \<open>A connection that hands each call to a server in the same process.\<close>

definition loopback :: "goerror \<Rightarrow> ('ctx, 's) AuthzCacheClient \<Rightarrow> ('ctx, 's) grpc_conn" where
  "loopback unimplemented srv = \<lparr>Invoke = (\<lambda>ctx method msg s.
       case (let desc = AuthzCache_ServiceDesc
             in find (\<lambda>m. full_method (ServiceName desc) (MethodName m) = method) (ServiceMethods desc)) of
         None \<Rightarrow> (Some (Inl (AnnotationFailed unimplemented), no_server_metadata), s)
       | Some m \<Rightarrow> Handler m srv ctx (Inr msg) None s),
     WrongType = AnnotationFailed unimplemented\<rparr>"

lemma loopback_routes: "routes_to (loopback unimplemented srv) AuthzCache_ServiceDesc srv"
  by (simp add: routes_to_def loopback_def AuthzCache_ServiceDesc_def full_method_def)


section \<open>Projects\<close>

text \<open>C11. The project of a request is that of its authorization header. Whatever project header a client
  sends, the routes that \<open>serve\<close> registers answer as if it had sent none, and they change the cache of no
  project but the one in the authorization header. The parser does not look at the project header, and
  the gateway passes that header on to the context of the call.\<close>

theorem http_projects_apart:
  assumes "\<forall>hs x. parse (hs(mdHeader := x)) = parse hs"
    "\<forall>req' rpc path ctx p'. MessageHeader req' mdHeader = Some [p'] \<and> AnnotateContext ge req' rpc path = Inr ctx \<longrightarrow> pid ctx = p'"
    "routes_to conn AuthzCache_ServiceDesc (controller_server se keys errText pid)"
    "r \<in> set (Routes (serve baseURL mkey src ge parse mdHeader conn))"
    "parse (MessageHeader req) = (p, mk, err)" "r_handler r h req (a, w) = (resp, a', w')"
  shows "(\<forall>q. q \<noteq> p \<longrightarrow> projects a' q = projects a q) \<and>
    (\<forall>x. r_handler r h (req\<lparr>MessageHeader := (MessageHeader req)(mdHeader := x)\<rparr>) (a, w) = (resp, a', w'))"
proof -
  let ?req = "req\<lparr>MessageHeader := ProjectIDParser parse mdHeader (MessageHeader req)\<rparr>"
  obtain r0 where r0: "r0 \<in> set (RegisterAuthzCacheHandlerClient ge (controller_server se keys errText pid))"
    and r: "r = r0\<lparr>r_handler := with_project parse mdHeader (r_handler r0)\<rparr>"
    using assms(4) by (auto simp: serve_def register_http_def register_grpc_def RegisterAuthzCacheHandler_def
        client_is_server[OF assms(3)])
  have "MessageHeader ?req mdHeader = Some [p]" by (simp add: ProjectIDParser_def assms(5) header_set_def)
  then have "keeps_others p (r_handler r0 h ?req)"
    using assms(2) by (intro routes_keep_others[OF r0]) blast
  moreover have "r_handler r0 h ?req (a, w) = (resp, a', w')" using assms(6) by (simp add: r with_project_def)
  ultimately have "\<forall>q. q \<noteq> p \<longrightarrow> projects a' q = projects a q" by (metis keeps_others_def fst_conv snd_conv)
  then show ?thesis using assms(6) by (simp add: r header_overwritten[OF assms(1)])
qed

text \<open>A gateway whose contexts are the projects, and a parser of a header that holds the project only.\<close>

definition bearer :: "http_headers \<Rightarrow> string \<times> string \<times> goerror option" where
  "bearer h = (case h ''Authorization'' of Some [p] \<Rightarrow> (p, '''', None) | _ \<Rightarrow> ('''', '''', Some (PlainError ''unauthorized'')))"

definition project_gateway :: "(string, unit http_message, example_response) gateway_env" where
  "project_gateway = \<lparr>AnnotateContext = (\<lambda>req rpc path. case MessageHeader req ''project'' of
        Some [p] \<Rightarrow> Inr p | _ \<Rightarrow> Inl (PlainError ''no project'')),
     AnnotateIncomingContext = (\<lambda>req rpc path. Inl (PlainError ''unused'')),
     IsEOF = (\<lambda>e. False), HTTPErrorHandler = (\<lambda>req e h. Refused e h), JoinMetadata = (\<lambda>m m' k. m k @ m' k),
     codec_CreateFGASchema = \<lparr>DecodeBody = (\<lambda>req. (None, ''model'')), ForwardResponse = (\<lambda>req md m h. Done h)\<rparr>,
     codec_CreateFGARelations = \<lparr>DecodeBody = (\<lambda>req. (None, [example_tuple])), ForwardResponse = (\<lambda>req md m h. Done h)\<rparr>,
     codec_DeleteFGARelations = \<lparr>DecodeBody = (\<lambda>req. (None, [example_tuple])), ForwardResponse = (\<lambda>req md m h. Done h)\<rparr>,
     codec_Check = \<lparr>DecodeBody = (\<lambda>req. (None, \<lparr>C_Tuples = [example_tuple], C_Context = None\<rparr>)),
       ForwardResponse = (\<lambda>req md ts h. Answers (map R_Allowed ts))\<rparr>,
     codec_WhoCanAccess = \<lparr>DecodeBody = (\<lambda>req. (None, \<lparr>W_Resource = '''', W_RelationDefinition = '''', W_Namespace = '''', W_Context = None\<rparr>)),
       ForwardResponse = (\<lambda>req md m h. Done h)\<rparr>,
     codec_WhatCanTargetAccess = \<lparr>DecodeBody = (\<lambda>req. (None, \<lparr>WT_Target = '''', WT_Context = None\<rparr>)),
       ForwardResponse = (\<lambda>req md m h. Done h)\<rparr>\<rparr>"

text \<open>A client of \<open>Q\<close> that claims to be \<open>P\<close> saves a schema: the cache of \<open>P\<close> stays as it is.\<close>

theorem http_projects_apart_witness:
  "projects (fst (snd (with_project bearer ''project'' (serve_CreateFGASchema project_gateway
       (controller_server example_service example_keys_of_errors (\<lambda>e. ''error'') (\<lambda>ctx. ctx))) Map.empty
     \<lparr>MessageHeader = [''Authorization'' \<mapsto> [''Q''], ''project'' \<mapsto> [''P'']], MessageBody = ()\<rparr> (example_running, 5)))) ''P'' =
   Some warm_cache"
proof -
  let ?server = "controller_server example_service example_keys_of_errors (\<lambda>e. ''error'') (\<lambda>ctx. ctx)"
  let ?conn = "loopback (PlainError ''unimplemented'') ?server"
  let ?req = "\<lparr>MessageHeader = [''Authorization'' \<mapsto> [''Q''], ''project'' \<mapsto> [''P'']], MessageBody = ()\<rparr>"
  let ?r = "\<lparr>r_method = ''POST'', r_pattern = pattern_CreateFGASchema,
      r_handler = with_project bearer ''project'' (serve_CreateFGASchema project_gateway ?server)\<rparr>"
  obtain resp a' w' where run: "r_handler ?r Map.empty ?req (example_running, 5) = (resp, a', w')"
    by (metis prod_cases3)
  have parse: "\<forall>hs x. bearer (hs(''project'' := x)) = bearer hs" by (simp add: bearer_def)
  have passed: "\<forall>req' rpc path ctx p'. MessageHeader req' ''project'' = Some [p'] \<and>
      AnnotateContext project_gateway req' rpc path = Inr ctx \<longrightarrow> ctx = p'"
    by (auto simp: project_gateway_def)
  have route: "?r \<in> set (Routes (serve '''' '''' example_config project_gateway bearer ''project'' ?conn))"
    by (simp add: serve_def register_grpc_def register_http_def RegisterAuthzCacheHandler_def
        RegisterAuthzCacheHandlerClient_def client_is_server[OF loopback_routes])
  have auth: "bearer (MessageHeader ?req) = (''Q'', '''', None)" by (simp add: bearer_def)
  have "projects a' ''P'' = projects example_running ''P''"
    using http_projects_apart[OF parse passed loopback_routes route auth run] by simp
  then show ?thesis using run by (simp add: example_running_def)
qed

section \<open>Bodies\<close>

text \<open>C39. What the routes do with bodies, once the context of the request is annotated. On each of the six
  routes, in the order of their registration, a body whose decoding fails is answered with
  \<open>InvalidArgument\<close> and nothing is called. The end of file that an empty body yields is no such failure:
  the routes are those of a decoder that reports none, so the request is what is decoded by then, the empty
  one. And a write of no relations, created or deleted, from an empty body or not, succeeds without a call
  of the SDK and without a cache being created.\<close>

theorem http_bodies:
  assumes "\<And>rpc path. \<exists>ctx. AnnotateContext ge req rpc path = Inr ctx"
  shows "(\<forall>i<6. \<forall>err. body_errors ge req ! i = Some err \<and> \<not> IsEOF ge err \<longrightarrow>
      r_handler (RegisterAuthzCacheHandlerClient ge client ! i) h req s =
        (Some (HTTPErrorHandler ge req (InvalidArgument err) h), s)) \<and>
    RegisterAuthzCacheHandlerClient ge client = RegisterAuthzCacheHandlerClient (drop_eof ge) client \<and>
    (DecodeBody (codec_CreateFGARelations ge) req = (None, []) \<or>
     (\<exists>eof. DecodeBody (codec_CreateFGARelations ge) req = (Some eof, []) \<and> IsEOF ge eof) \<longrightarrow>
      serve_CreateFGARelations ge (controller_server se keys errText pid) h req (a, w) =
        (Some (ForwardResponse (codec_CreateFGARelations ge) req no_server_metadata () h), a, w)) \<and>
    (DecodeBody (codec_DeleteFGARelations ge) req = (None, []) \<or>
     (\<exists>eof. DecodeBody (codec_DeleteFGARelations ge) req = (Some eof, []) \<and> IsEOF ge eof) \<longrightarrow>
      serve_DeleteFGARelations ge (controller_server se keys errText pid) h req (a, w) =
        (Some (ForwardResponse (codec_DeleteFGARelations ge) req no_server_metadata () h), a, w))"
proof (intro conjI allI impI)
  fix i err assume "i < 6" "body_errors ge req ! i = Some err \<and> \<not> IsEOF ge err"
  then show "r_handler (RegisterAuthzCacheHandlerClient ge client ! i) h req s =
      (Some (HTTPErrorHandler ge req (InvalidArgument err) h), s)"
    using assms by (intro routes_undecodable) simp_all
qed (simp_all only: routes_drop_eof empty_writes[OF assms])

text \<open>In the example the body of \<open>CreateFGARelations\<close> does not parse and that of \<open>DeleteFGARelations\<close> is
  empty.\<close>

theorem http_bodies_witness:
  "serve_CreateFGARelations example_gateway (controller_server example_service example_keys_of_errors
     (\<lambda>e. ''error'') (\<lambda>ctx. ''P'')) Map.empty None (example_start, 5) =
     (Some (Refused (InvalidArgument (PlainError ''syntax'')) Map.empty), example_start, 5) \<and>
   serve_DeleteFGARelations example_gateway (controller_server example_service example_keys_of_errors
     (\<lambda>e. ''error'') (\<lambda>ctx. ''P'')) Map.empty None (example_start, 5) = (Some (Done Map.empty), example_start, 5)"
proof -
  let ?server = "controller_server example_service example_keys_of_errors (\<lambda>e. ''error'') (\<lambda>ctx. ''P'')"
  have g: "\<exists>ctx. AnnotateContext example_gateway None rpc path = Inr ctx" for rpc path
    by (simp add: example_gateway_def)
  have bad: "body_errors example_gateway None ! 1 = Some (PlainError ''syntax'')"
      "\<not> IsEOF example_gateway (PlainError ''syntax'')"
    and empty: "DecodeBody (codec_DeleteFGARelations example_gateway) None = (Some (PlainError ''EOF''), [])"
      "IsEOF example_gateway (PlainError ''EOF'')"
    by (simp_all add: example_gateway_def body_errors_def)
  have out: "HTTPErrorHandler example_gateway req e h = Refused e h"
    "ForwardResponse (codec_DeleteFGARelations example_gateway) req md m h = Done h" for req e h md m
    by (simp_all add: example_gateway_def)
  have route: "r_handler (RegisterAuthzCacheHandlerClient example_gateway ?server ! 1) =
      serve_CreateFGARelations example_gateway ?server"
    by (simp add: RegisterAuthzCacheHandlerClient_def)
  note p = http_bodies[OF g, where client = ?server and h = Map.empty and s = "(example_start, 5)"
      and se = example_service and keys = example_keys_of_errors and errText = "\<lambda>e. ''error''"
      and pid = "\<lambda>ctx. ''P''" and a = example_start and w = 5]
  have "serve_CreateFGARelations example_gateway ?server Map.empty None (example_start, 5) =
      (Some (Refused (InvalidArgument (PlainError ''syntax'')) Map.empty), example_start, 5)"
    using conjunct1[OF p, rule_format, of 1, OF _ conjI[OF bad]] by (simp only: route out)
  moreover have "serve_DeleteFGARelations example_gateway ?server Map.empty None (example_start, 5) =
      (Some (Done Map.empty), example_start, 5)"
    using p empty unfolding out by blast
  ultimately show ?thesis by blast
qed

section \<open>The two registrations\<close>

text \<open>C40. The handlers that \<open>main\<close> registers go over a gRPC connection to the server of the process.
  They answer every request as the handlers that call the server in the process do
  (\<open>RegisterAuthzCacheHandlerServer\<close>). The two annotate a request differently, with the metadata of an
  outgoing call and with that of an incoming one: they are equivalent when both kinds of context carry the
  same project, which is all the controller reads of one. The connection runs no interceptor, which the
  generated comment names as the difference of the two; joining no metadata to some gives the latter. So
  the stubs, the names of the methods and the handlers of the generated code fit together, and the client
  over the connection is the server.\<close>

theorem grpc_handlers_equivalent:
  assumes "routes_to cc AuthzCache_ServiceDesc (controller_server se keys errText pid)"
    "\<And>req rpc path. map_sum id pid' (AnnotateIncomingContext ge req rpc path) =
      map_sum id pid (AnnotateContext ge req rpc path)"
    "\<And>md. JoinMetadata ge (\<lambda>_. []) md = md"
  shows "NewAuthzCacheClient cc = controller_server se keys errText pid \<and>
    RegisterAuthzCacheHandler ge cc = RegisterAuthzCacheHandlerServer ge (controller_server se keys errText pid')"
  by (simp add: RegisterAuthzCacheHandler_def client_is_server[OF assms(1)] local_handlers_equivalent[OF assms(2,3)])

text \<open>A gateway whose contexts say which kind they are, and the project in each.\<close>

datatype example_context = Outgoing string | Incoming string

definition outgoing_project :: "example_context \<Rightarrow> string" where
  "outgoing_project ctx = (case ctx of Outgoing p \<Rightarrow> p | Incoming p \<Rightarrow> '''')"

definition incoming_project :: "example_context \<Rightarrow> string" where
  "incoming_project ctx = (case ctx of Incoming p \<Rightarrow> p | Outgoing p \<Rightarrow> '''')"

definition two_way_gateway :: "(example_context, unit http_message, example_response) gateway_env" where
  "two_way_gateway = \<lparr>AnnotateContext = (\<lambda>req rpc path. map_sum id Outgoing (AnnotateContext project_gateway req rpc path)),
     AnnotateIncomingContext = (\<lambda>req rpc path. map_sum id Incoming (AnnotateContext project_gateway req rpc path)),
     IsEOF = IsEOF project_gateway, HTTPErrorHandler = HTTPErrorHandler project_gateway,
     JoinMetadata = JoinMetadata project_gateway, codec_CreateFGASchema = codec_CreateFGASchema project_gateway,
     codec_CreateFGARelations = codec_CreateFGARelations project_gateway,
     codec_DeleteFGARelations = codec_DeleteFGARelations project_gateway, codec_Check = codec_Check project_gateway,
     codec_WhoCanAccess = codec_WhoCanAccess project_gateway,
     codec_WhatCanTargetAccess = codec_WhatCanTargetAccess project_gateway\<rparr>"

theorem grpc_handlers_equivalent_witness:
  "RegisterAuthzCacheHandler two_way_gateway (loopback (PlainError ''unimplemented'')
     (controller_server example_service example_keys_of_errors (\<lambda>e. ''error'') outgoing_project)) =
   RegisterAuthzCacheHandlerServer two_way_gateway (controller_server example_service example_keys_of_errors
     (\<lambda>e. ''error'') incoming_project)"
proof -
  have same: "map_sum id incoming_project (AnnotateIncomingContext two_way_gateway req rpc path) =
      map_sum id outgoing_project (AnnotateContext two_way_gateway req rpc path)" for req rpc path
    by (cases "AnnotateContext project_gateway req rpc path")
      (simp_all add: two_way_gateway_def incoming_project_def outgoing_project_def)
  have join: "JoinMetadata two_way_gateway (\<lambda>_. []) md = md" for md
    by (simp add: two_way_gateway_def project_gateway_def)
  show ?thesis by (rule conjunct2[OF grpc_handlers_equivalent[OF loopback_routes same join]])
qed

end
