(* ===== verification/ServiceRefines.thy ===== *)
theory ServiceRefines
  imports ServiceCalls
begin

text \<open>
  The service refines the backend: a specification whose state is the backend of each project and
  nothing else. Any sequence of requests, of any projects, gets from the service answers that the
  specification allows, and leaves the backends as the specification says, so the caches do not show.
\<close>

section \<open>The backend as the specification\<close>

text \<open>The errors a request can end with: those of creating the project's cache (its client, the
  constructors of its LRU caches, its ticker) and those of the SDK's operations.\<close>

definition outside_error :: "('rc, 'lc, 'p, 'w) service_env \<Rightarrow> string \<Rightarrow> goerror \<Rightarrow> bool" where
  "outside_error se pid err \<longleftrightarrow>
     creation_error se pid err \<or>
     (\<exists>s w. fst (SaveSchema (sdk se) pid s w) = Some err) \<or>
     (\<exists>rels w. fst (CreateRelations (sdk se) pid rels w) = Some err) \<or>
     (\<exists>rels w. fst (DeleteRelations (sdk se) pid rels w) = Some err) \<or>
     (\<exists>rels ctx w. fst (CheckWithContext (sdk se) pid rels ctx w) = Inl err) \<or>
     (\<exists>r d n w. fst (SDK_WhoCanAccess (sdk se) pid r d n w) = Inl err) \<or>
     (\<exists>t w. fst (SDK_WhatCanTargetAccess (sdk se) pid t w) = Inl err)"

text \<open>A step of the specification: what a request may answer when the backends of the projects are
  \<open>bs\<close>, and what it leaves. There is no cache in it. A request that fails changes nothing.\<close>

fun spec_answer :: "('rc, 'lc, 'p, 'w) service_env \<Rightarrow> (string \<Rightarrow> backend) \<Rightarrow> string \<Rightarrow> api_call \<Rightarrow>
    api_answer \<Rightarrow> (string \<Rightarrow> backend) \<Rightarrow> bool" where
  "spec_answer se bs pid (CallCheck rels ctx) y bs' \<longleftrightarrow> bs' = bs \<and>
     (\<exists>cs. y = Checked cs \<and> list_all2 (\<lambda>r c. CheckRelation c = r \<and> Allowed c = truth (bs pid) r ctx) rels cs)"
| "spec_answer se bs pid (CallWhoCanAccess r d n ctx) y bs' \<longleftrightarrow> bs' = bs \<and>
     (\<exists>ts. y = Targets ts \<and> ((\<exists>w. fst (SDK_WhoCanAccess (sdk se) pid r d n w) = Inr ts) \<or>
        (\<forall>t\<in>set ts. truth (bs pid) (who_relation r d n t) ctx)))"
| "spec_answer se bs pid (CallWhatCanTargetAccess t ctx) y bs' \<longleftrightarrow> bs' = bs \<and>
     (\<exists>rs. y = Relations rs \<and> ((\<exists>w. fst (SDK_WhatCanTargetAccess (sdk se) pid t w) = Inr rs) \<or>
        (\<forall>r\<in>set rs. truth (bs pid) (what_relation t r) ctx)))"
| "spec_answer se bs pid (CallCreateFGARelations rels) y bs' \<longleftrightarrow> y = Written \<and>
     (if rels = [] then bs' = bs else writes rels (bs pid) (bs' pid) \<and> (\<forall>p. p \<noteq> pid \<longrightarrow> bs' p = bs p))"
| "spec_answer se bs pid (CallDeleteFGARelations rels) y bs' \<longleftrightarrow> y = Written \<and>
     (if rels = [] then bs' = bs else writes rels (bs pid) (bs' pid) \<and> (\<forall>p. p \<noteq> pid \<longrightarrow> bs' p = bs p))"
| "spec_answer se bs pid (CallCreateFGASchema dsl) y bs' \<longleftrightarrow> y = Written \<and> (\<forall>p. p \<noteq> pid \<longrightarrow> bs' p = bs p)"

definition spec_step :: "('rc, 'lc, 'p, 'w) service_env \<Rightarrow> (string \<Rightarrow> backend) \<Rightarrow> string \<Rightarrow> api_call \<Rightarrow>
    goerror + api_answer \<Rightarrow> (string \<Rightarrow> backend) \<Rightarrow> bool" where
  "spec_step se bs pid c x bs' \<longleftrightarrow> (case x of
     Inl err \<Rightarrow> outside_error se pid err \<and> bs' = bs
   | Inr y \<Rightarrow> spec_answer se bs pid c y bs')"

fun spec_run :: "('rc, 'lc, 'p, 'w) service_env \<Rightarrow> (string \<Rightarrow> backend) \<Rightarrow> (string \<times> api_call) list \<Rightarrow>
    (goerror + api_answer) list \<Rightarrow> (string \<Rightarrow> backend) \<Rightarrow> bool" where
  "spec_run se bs [] xs bs' \<longleftrightarrow> xs = [] \<and> bs' = bs"
| "spec_run se bs ((pid, c) # calls) xs bs' \<longleftrightarrow>
     (\<exists>x ys bs1. xs = x # ys \<and> spec_step se bs pid c x bs1 \<and> spec_run se bs1 calls ys bs')"

text \<open>What a request relies on: the relations it asks about are in use, and a write that fails has
  changed nothing.\<close>

fun call_in_use :: "('rc, 'lc, 'p, 'w) service_env \<Rightarrow> ('w \<Rightarrow> string \<Rightarrow> backend) \<Rightarrow> string \<Rightarrow> api_call \<Rightarrow>
    ('rc, 'lc, 'p) authzCache \<Rightarrow> 'w \<Rightarrow> bool" where
  "call_in_use se bk pid (CallCheck rels ctx) a w \<longleftrightarrow>
     keys_identify (bk w pid) \<and> set rels \<subseteq> universe (bk w pid)"
| "call_in_use se bk pid (CallWhoCanAccess r d n ctx) a w \<longleftrightarrow> keys_identify (bk w pid) \<and>
     (\<forall>pc e. projects a pid = Some pc \<and> lookup_entries (cenv se) pc (whoCanAccessKey r d n) = Some e \<longrightarrow>
        who_relation r d n ` set (Results e) \<subseteq> universe (bk w pid))"
| "call_in_use se bk pid (CallWhatCanTargetAccess t ctx) a w \<longleftrightarrow> keys_identify (bk w pid) \<and>
     (\<forall>pc e. projects a pid = Some pc \<and> lookup_entries (cenv se) pc (whatCanTargetAccessKey t) = Some e \<longrightarrow>
        what_relation t ` set (decode_relations t (Results e)) \<subseteq> universe (bk w pid))"
| "call_in_use se bk pid c a w \<longleftrightarrow>
     (case call_service se pid c a w of (x, a', w') \<Rightarrow> isl x \<longrightarrow> bk w' = bk w)"

fun run_in_use :: "('rc, 'lc, 'p, 'w) service_env \<Rightarrow> ('w \<Rightarrow> string \<Rightarrow> backend) \<Rightarrow> (string \<times> api_call) list \<Rightarrow>
    ('rc, 'lc, 'p) authzCache \<Rightarrow> 'w \<Rightarrow> bool" where
  "run_in_use se bk [] a w = True"
| "run_in_use se bk ((pid, c) # calls) a w \<longleftrightarrow> call_in_use se bk pid c a w \<and>
     (case call_service se pid c a w of (x, a', w') \<Rightarrow> run_in_use se bk calls a' w')"

lemma run_in_useI:
  assumes "\<And>pid c a w. (pid, c) \<in> set calls \<Longrightarrow> call_in_use se bk pid c a w"
  shows "run_in_use se bk calls a w"
  using assms
proof (induction calls arbitrary: a w)
  case Nil
  then show ?case by simp
next
  case (Cons call calls a w)
  obtain pid c where call: "call = (pid, c)" by fastforce
  obtain x a1 w1 where run: "call_service se pid c a w = (x, a1, w1)" by (metis prod_cases3)
  show ?case using Cons.IH[of a1 w1] Cons.prems by (simp add: call run)
qed

section \<open>The service refines the backend\<close>

text \<open>The errors the correctness lemmas name are errors from outside.\<close>

lemma outside_errorI:
  "fst (getOrCreateProjectCache se pid a w) = Inl err \<or> (\<exists>us w1. fst (CheckWithContext (sdk se) pid us ctx w1) = Inl err) \<Longrightarrow>
     outside_error se pid err"
  "fst (getOrCreateProjectCache se pid a w) = Inl err \<or> (\<exists>w1. fst (SDK_WhoCanAccess (sdk se) pid r d n w1) = Inl err) \<or>
     (\<exists>us w1. fst (CheckWithContext (sdk se) pid us ctx w1) = Inl err) \<Longrightarrow> outside_error se pid err"
  "fst (getOrCreateProjectCache se pid a w) = Inl err \<or> (\<exists>w1. fst (SDK_WhatCanTargetAccess (sdk se) pid t w1) = Inl err) \<or>
     (\<exists>us w1. fst (CheckWithContext (sdk se) pid us ctx w1) = Inl err) \<Longrightarrow> outside_error se pid err"
  "fst (getOrCreateProjectCache se pid a w) = Inl err \<or> (\<exists>w1. fst (CreateRelations (sdk se) pid rels w1) = Some err) \<or>
     (\<exists>w1. fst (DeleteRelations (sdk se) pid rels w1) = Some err) \<or>
     (\<exists>s w1. fst (SaveSchema (sdk se) pid s w1) = Some err) \<Longrightarrow> outside_error se pid err"
  using getOrCreate_error[of se pid a w err] by (auto simp: outside_error_def)

lemma getOrCreate_backend:
  assumes "sdk_ok se bk" "getOrCreateProjectCache se pid a w = (res, a1, w1)"
  shows "bk w1 = bk w"
  using assms(2) sdk_okD(1)[OF assms(1)]
  by (auto simp: getOrCreateProjectCache_def split: option.splits sum.splits prod.splits)

text \<open>What a successful write does to the backends.\<close>

lemma writes_backend:
  assumes "sdk_ok se bk"
  shows "CreateFGARelations se pid rels a w = (Inr u, a', w') \<Longrightarrow>
      spec_answer se (bk w) pid (CallCreateFGARelations rels) Written (bk w')"
    and "DeleteFGARelations se pid rels a w = (Inr u, a', w') \<Longrightarrow>
      spec_answer se (bk w) pid (CallDeleteFGARelations rels) Written (bk w')"
    and "CreateFGASchema se pid dsl a w = (Inr u, a', w') \<Longrightarrow>
      spec_answer se (bk w) pid (CallCreateFGASchema dsl) Written (bk w')"
proof -
  obtain gres a1 w1 where get: "getOrCreateProjectCache se pid a w = (gres, a1, w1)" by (metis prod_cases3)
  note same = getOrCreate_backend[OF assms get]
  show "spec_answer se (bk w) pid (CallCreateFGARelations rels) Written (bk w')"
    if "CreateFGARelations se pid rels a w = (Inr u, a', w')"
    using that get same sdk_okD(7,8)[OF assms, of pid rels w1 w']
    by (auto simp: CreateFGARelations_def split: if_splits sum.splits option.splits prod.splits)
  show "spec_answer se (bk w) pid (CallDeleteFGARelations rels) Written (bk w')"
    if "DeleteFGARelations se pid rels a w = (Inr u, a', w')"
    using that get same sdk_okD(9,10)[OF assms, of pid rels w1 w']
    by (auto simp: DeleteFGARelations_def split: if_splits sum.splits option.splits prod.splits)
  show "spec_answer se (bk w) pid (CallCreateFGASchema dsl) Written (bk w')"
    if "CreateFGASchema se pid dsl a w = (Inr u, a', w')"
    using that get same sdk_okD(6)[OF assms]
    by (auto simp: CreateFGASchema_def split: if_splits sum.splits option.splits prod.splits)
qed

context cache_contract
begin

lemma write_failure:
  assumes "service_ok se wfr wfl bk a w" "sdk_ok se bk" "cenv se = env" "constructors_ok env wfr wfl (lrus se)"
    "CreateFGARelations se pid rels a w = (Inl err, a', w') \<or> DeleteFGARelations se pid rels a w = (Inl err, a', w') \<or>
     CreateFGASchema se pid dsl a w = (Inl err, a', w')" "bk w' = bk w"
  shows "service_ok se wfr wfl bk a' w' \<and> spec_step se (bk w) pid c (Inl err) (bk w')"
proof -
  obtain gres a1 w1 where get: "getOrCreateProjectCache se pid a w = (gres, a1, w1)" by (metis prod_cases3)
  note g = getOrCreate_ok[OF assms(1-4) get]
  have "a' = a1"
    using assms(5) get by (elim disjE; auto simp: CreateFGARelations_def DeleteFGARelations_def CreateFGASchema_def
        split: if_splits sum.splits option.splits prod.splits)
  then have "service_ok se wfr wfl bk a' w'" using service_ok_world[OF g(1)] g(2) assms(6) by simp
  then show ?thesis using outside_errorI(4)[OF writes_fail(1)[OF assms(5)]] assms(6) by (simp add: spec_step_def)
qed

lemma call_service_refines:
  assumes "service_ok se wfr wfl bk a w" "sdk_ok se bk" "cenv se = env" "constructors_ok env wfr wfl (lrus se)"
    "call_in_use se bk pid c a w" "call_service se pid c a w = (x, a', w')"
  shows "service_ok se wfr wfl bk a' w' \<and> spec_step se (bk w) pid c x (bk w')"
proof (cases c)
  case (CallCheck rels ctx)
  have u: "keys_identify (bk w pid)" "set rels \<subseteq> universe (bk w pid)" using assms(5) CallCheck by simp_all
  have "answer_as Checked (Check se pid rels ctx a w) = (x, a', w')" using assms(6) CallCheck by simp
  then show ?thesis
  proof (cases rule: answer_as_cases)
    case (failed err)
    show ?thesis
      using Check_true(1,2)[OF assms(1-4) u failed(1)] outside_errorI(1)[OF Check_error[OF assms(1-4) failed(1)]]
      by (simp add: failed(2) spec_step_def)
  next
    case (answered cs)
    show ?thesis
      using Check_true[OF assms(1-4) u answered(1)] by (simp add: CallCheck answered(2) spec_step_def)
  qed
next
  case (CallWhoCanAccess r d n ctx)
  have u: "keys_identify (bk w pid)"
    "\<forall>pc e. projects a pid = Some pc \<and> lookup_entries env pc (whoCanAccessKey r d n) = Some e \<longrightarrow>
       who_relation r d n ` set (Results e) \<subseteq> universe (bk w pid)"
    using assms(3,5) CallWhoCanAccess by auto
  have "answer_as Targets (WhoCanAccess se pid r d n ctx a w) = (x, a', w')" using assms(6) CallWhoCanAccess by simp
  then show ?thesis
  proof (cases rule: answer_as_cases)
    case (failed err)
    show ?thesis
      using WhoCanAccess_true[OF assms(1-4) u failed(1)] outside_errorI(2)[of se pid a w err r d n ctx]
      unfolding failed(2) spec_step_def sum.case by blast
  next
    case (answered ts)
    show ?thesis
      using WhoCanAccess_true[OF assms(1-4) u answered(1)]
      by (fastforce simp: CallWhoCanAccess answered(2) spec_step_def)
  qed
next
  case (CallWhatCanTargetAccess t ctx)
  have u: "keys_identify (bk w pid)"
    "\<forall>pc e. projects a pid = Some pc \<and> lookup_entries env pc (whatCanTargetAccessKey t) = Some e \<longrightarrow>
       what_relation t ` set (decode_relations t (Results e)) \<subseteq> universe (bk w pid)"
    using assms(3,5) CallWhatCanTargetAccess by auto
  have "answer_as Relations (WhatCanTargetAccess se pid t ctx a w) = (x, a', w')"
    using assms(6) CallWhatCanTargetAccess by simp
  then show ?thesis
  proof (cases rule: answer_as_cases)
    case (failed err)
    show ?thesis
      using WhatCanTargetAccess_true[OF assms(1-4) u failed(1)] outside_errorI(3)[of se pid a w err t ctx]
      unfolding failed(2) spec_step_def sum.case by blast
  next
    case (answered rs)
    show ?thesis
      using WhatCanTargetAccess_true[OF assms(1-4) u answered(1)]
      by (fastforce simp: CallWhatCanTargetAccess answered(2) spec_step_def)
  qed
next
  case (CallCreateFGARelations rels)
  then have "answer_as (\<lambda>_. Written) (CreateFGARelations se pid rels a w) = (x, a', w')" using assms(6) by simp
  then show ?thesis
  proof (cases rule: answer_as_cases)
    case (failed err)
    have "bk w' = bk w" using assms(5,6) CallCreateFGARelations failed(2) by simp
    then show ?thesis unfolding failed(2) by (rule write_failure[OF assms(1-4) disjI1[OF failed(1)]])
  next
    case (answered u)
    show ?thesis
      using writes_ok(1)[OF assms(1-4)] writes_backend(1)[OF assms(2)] answered(1)
      by (simp add: CallCreateFGARelations answered(2) spec_step_def)
  qed
next
  case (CallDeleteFGARelations rels)
  then have "answer_as (\<lambda>_. Written) (DeleteFGARelations se pid rels a w) = (x, a', w')" using assms(6) by simp
  then show ?thesis
  proof (cases rule: answer_as_cases)
    case (failed err)
    have "bk w' = bk w" using assms(5,6) CallDeleteFGARelations failed(2) by simp
    then show ?thesis unfolding failed(2) by (rule write_failure[OF assms(1-4) disjI2[OF disjI1[OF failed(1)]]])
  next
    case (answered u)
    show ?thesis
      using writes_ok(2)[OF assms(1-4)] writes_backend(2)[OF assms(2)] answered(1)
      by (simp add: CallDeleteFGARelations answered(2) spec_step_def)
  qed
next
  case (CallCreateFGASchema dsl)
  then have "answer_as (\<lambda>_. Written) (CreateFGASchema se pid dsl a w) = (x, a', w')" using assms(6) by simp
  then show ?thesis
  proof (cases rule: answer_as_cases)
    case (failed err)
    have "bk w' = bk w" using assms(5,6) CallCreateFGASchema failed(2) by simp
    then show ?thesis unfolding failed(2) by (rule write_failure[OF assms(1-4) disjI2[OF disjI2[OF failed(1)]]])
  next
    case (answered u)
    show ?thesis
      using writes_ok(3)[OF assms(1-4)] writes_backend(3)[OF assms(2)] answered(1)
      by (simp add: CallCreateFGASchema answered(2) spec_step_def)
  qed
qed

lemma call_all_refines:
  assumes "service_ok se wfr wfl bk a w" "sdk_ok se bk" "cenv se = env" "constructors_ok env wfr wfl (lrus se)"
    "run_in_use se bk calls a w" "call_all se calls a w = (xs, a', w')"
  shows "service_ok se wfr wfl bk a' w' \<and> spec_run se (bk w) calls xs (bk w')"
  using assms(1,5,6)
proof (induction calls arbitrary: a w xs a' w')
  case Nil
  then show ?case by simp
next
  case (Cons call calls)
  obtain pid c where call: "call = (pid, c)" by fastforce
  obtain x a1 w1 where one: "call_service se pid c a w = (x, a1, w1)" by (metis prod_cases3)
  obtain ys a2 w2 where rest: "call_all se calls a1 w1 = (ys, a2, w2)" by (metis prod_cases3)
  have q: "xs = x # ys" "a' = a2" "w' = w2" using Cons.prems(3) by (simp_all add: call one rest)
  have use: "call_in_use se bk pid c a w" "run_in_use se bk calls a1 w1"
    using Cons.prems(2) by (simp_all add: call one)
  note r = call_service_refines[OF Cons.prems(1) assms(2-4) use(1) one]
  show ?case using Cons.IH[OF conjunct1[OF r] use(2) rest] r by (auto simp: call q)
qed

end

end
