(* ===== verification/ServiceRepeat.thy ===== *)
theory ServiceRepeat
  imports ServiceLookups
begin

text \<open>
  Asking again. What the SDK answered for a relation is what the next read of the cache serves, unless
  an older direct grant hides it, because \<open>getCachedGrant\<close> prefers the direct cache whatever its
  grant's conditions evaluate to. So a \<open>Check\<close> that was answered without conditions is answered
  locally the second time. A lookup that misses ignores the request's context.
\<close>

section \<open>The cache\<close>

definition serve_grant :: "('rc, 'lc, 'p) cache_env \<Rightarrow> ('rc, 'lc, 'p) projectAuthzCache \<Rightarrow> reqcontext \<Rightarrow>
    FGARelation \<Rightarrow> cachedGrant \<Rightarrow> bool \<Rightarrow> FGACheck option" where
  "serve_grant env pc ctx r g direct = (case cond g of
     None \<Rightarrow> Some (unconditional_check g direct r)
   | Some cert \<Rightarrow> if certMatches env pc cert ctx then Some (conditional_check g r) else None)"

lemma served_grant:
  "served env pc ctx r = Option.bind (cached_grant env pc (key r)) (\<lambda>(g, d). serve_grant env pc ctx r g d)"
  by (simp add: served_def serve_grant_def split: option.splits bind_splits)

lemma served_unconditional:
  "served env pc ctx r = Some c \<Longrightarrow> \<not> Conditional (Info c) \<Longrightarrow> served env pc ctx' r = Some c"
  by (auto simp: served_def conditional_check_def split: option.splits if_splits)

context cache_contract
begin

lemma store_one:
  assumes "caches_wf wfr wfl pc" "cacheable_grant pc c = Some g" "CheckRelation c = r"
    "pc' = UpdateCacheWithChecks env [c] pc"
  shows "cached_grant env pc' (key r) =
      (if Direct (Info c) then Some (g, True)
       else case direct_grants env pc (key r) of Some g' \<Rightarrow> Some (g', True) | None \<Rightarrow> Some (g, False))"
    and "certMatches env pc' cert ctx = certMatches env pc cert ctx" and "caches_wf wfr wfl pc'"
proof -
  have pc': "pc' = (if Direct (Info c) then addDirectRelation env r g pc else addIndirectRelation env r g pc)"
    using assms(2) by (simp add: assms(3,4) UpdateCacheWithChecks_def cacheCheck_def)
  have wf: "wfr (indirectRelationCache pc)" using assms(1) by (simp add: caches_wf_def)
  have "indirect_grants env (addIndirectRelation env r g pc) (key r) = Some g"
    using rel.add_not_evicted[OF wf] by (simp add: addIndirectRelation_grants(2)[OF assms(1)] restrict_map_def)
  then show "cached_grant env pc' (key r) =
      (if Direct (Info c) then Some (g, True)
       else case direct_grants env pc (key r) of Some g' \<Rightarrow> Some (g', True) | None \<Rightarrow> Some (g, False))"
    using addDirectRelation_stored[OF assms(1), of r g] addIndirectRelation_grants(1)[OF assms(1), of r g]
    by (simp add: pc' cached_grant_def split: option.splits)
  have "same_outside_relations pc pc'" using pc' same_outside_addDirect same_outside_addIndirect by simp
  then show "certMatches env pc' cert ctx = certMatches env pc cert ctx"
    by (intro certMatches_cong) (simp_all add: same_outside_relationsD)
  show "caches_wf wfr wfl pc'"
    using addDirectRelation_grants(3)[OF assms(1)] addIndirectRelation_grants(3)[OF assms(1)] by (simp add: pc')
qed

text \<open>What a read serves for a relation right after a check of it was stored.\<close>

lemma store_one_served:
  assumes "caches_wf wfr wfl pc" "cacheable_grant pc c = Some g" "CheckRelation c = r"
  shows "served env (UpdateCacheWithChecks env [c] pc) ctx r =
    (if Direct (Info c) then serve_grant env pc ctx r g True
     else case direct_grants env pc (key r) of
       Some g' \<Rightarrow> serve_grant env pc ctx r g' True
     | None \<Rightarrow> serve_grant env pc ctx r g False)"
  using store_one[OF assms refl] by (simp add: served_grant serve_grant_def split: option.splits)

section \<open>The service\<close>

text \<open>A request for one relation that the cache can answer is answered without the SDK.\<close>

lemma Check_local:
  assumes "cenv se = env" "projects a pid = Some pc" "caches_wf wfr wfl pc" "served env pc ctx r = Some c"
  shows "\<exists>a'. Check se pid [r] ctx a w = (Inr [c], a', w)"
proof -
  obtain res a' w' where run: "Check se pid [r] ctx a w = (res, a', w')" by (metis prod_cases3)
  have "filter (\<lambda>r. served env pc ctx r = None) [r] = []" by (simp add: assms(4))
  from Check_calls(1)[OF assms(1-3) run this] show ?thesis using run assms(4) by (auto simp: list_all2_Cons1)
qed

lemma Check_again:
  assumes "service_ok se wfr wfl bk a w" "sdk_ok se bk" "cenv se = env" "constructors_ok env wfr wfl (lrus se)"
    "Check se pid [r] ctx a w = (Inr [c], a', w')" "r \<in> universe (bk w pid)"
    "\<not> FactUsed (Info c)" "\<not> Conditional (Info c)"
    "Direct (Info c) \<or> (\<forall>pc. projects a pid = Some pc \<longrightarrow> direct_grants env pc (key r) = None)"
  shows "\<exists>c' a''. Check se pid [r] ctx' a' w'' = (Inr [c'], a'', w'') \<and> CheckRelation c' = r \<and> Allowed c' = Allowed c"
proof -
  obtain gres a1 w1 where get: "getOrCreateProjectCache se pid a w = (gres, a1, w1)" by (metis prod_cases3)
  note g = getOrCreate_ok[OF assms(1-4) get]
  obtain pc where pc: "gres = Inr pc" using assms(5) get by (cases gres) (auto simp: Check_def Let_def)
  have ok: "cache_ok env wfr wfl (bk w pid) pc" using g(3)[OF pc] g(2) by simp
  have wf: "caches_wf wfr wfl pc" using ok by (simp add: cache_ok_def cache_inv_def)
  have fresh: "direct_grants env pc (key r) = None"
    if "\<forall>pc. projects a pid = Some pc \<longrightarrow> direct_grants env pc (key r) = None"
  proof (cases "projects a pid")
    case None
    then obtain now where "NewProjectAuthzCache (lrus se) (settings se) now pid = Inr pc"
      using get pc by (auto simp: getOrCreateProjectCache_def split: option.splits sum.splits prod.splits)
    then show ?thesis using NewProjectAuthzCache_inv(2)[OF _ assms(4)] by auto
  next
    case (Some pc')
    then show ?thesis using get pc that by (simp add: getOrCreateProjectCache_def)
  qed
  have "\<exists>pc' c'. projects a' pid = Some pc' \<and> caches_wf wfr wfl pc' \<and> served env pc' ctx' r = Some c' \<and>
      CheckRelation c' = r \<and> Allowed c' = Allowed c"
    using assms(3) get[unfolded pc] wf assms(5)
  proof (cases rule: Check_cases)
    case (cached cs pc1)
    then obtain idx where read: "CheckRelations env pc [r] ctx = ((cs, [], idx), pc1)" by blast
    have c: "served env pc ctx r = Some c" using cached by (auto simp: list_all2_Cons1)
    have "served env pc ctx' r = Some c" by (rule served_unconditional[OF c assms(8)])
    then show ?thesis
      using cached(4) cache_ok_read[OF ok read] served_relation[OF c]
        reads_alike_served[OF CheckRelations_inv(2)[OF _ read]] ok
      by (auto simp: cache_ok_def cache_inv_def)
  next
    case (failed err pc1)
    then show ?thesis by simp
  next
    case (fetched sdkChecks w2 pc1 pc2)
    from fetched(2) obtain cres where read: "CheckRelations env pc [r] ctx = (cres, pc1)" by blast
    have pc1: "cache_ok env wfr wfl (bk w pid) pc1" by (rule cache_ok_read[OF ok read])
    have inv: "cache_inv env wfr wfl pc" using ok by (simp add: cache_ok_def)
    note like = reads_alikeD[OF CheckRelations_inv(2)[OF inv read]]
    note sdk = sdk_okD(3)[OF assms(2) fetched(1)]
    show ?thesis
    proof (cases "served env pc ctx r")
      case None
      obtain z where z: "sdkChecks = [z]" "CheckRelation z = r" "fresh_check (bk w pid) [] z"
        using sdk None assms(6) g(2) by (auto simp: list_all2_Cons1)
      have "list_all2 (\<lambda>r x. x = z) (filter (\<lambda>r. served env pc ctx r = None) [r]) sdkChecks"
        by (simp add: z(1) None)
      from fetched(5)[OF this] have one: "sdkChecks = [c] \<and> CheckRelation c = r"
        using z None by (auto simp: list_all2_Cons1)
      have pc2: "pc2 = pc1" using fetched(3) one assms(8) by simp
      have grant: "cacheable_grant pc1 c = Some \<lparr>allowed = Allowed c, cond = None\<rparr>"
        using assms(7,8) by (simp add: cacheable_grant_def Let_def)
      have wf1: "caches_wf wfr wfl pc1" using pc1 by (simp add: cache_ok_def cache_inv_def)
      have "served env (UpdateCacheWithChecks env [c] pc1) ctx' r =
          Some (unconditional_check \<lparr>allowed = Allowed c, cond = None\<rparr> (Direct (Info c)) r)"
        using store_one_served[OF wf1 grant, of r] one assms(9) fresh like(1) by (auto simp: serve_grant_def)
      moreover have "cache_inv env wfr wfl pc1" using pc1 by (simp add: cache_ok_def)
      then have "caches_wf wfr wfl (UpdateCacheWithChecks env [c] pc1)"
        using UpdateCacheWithChecks_inv(1)[of pc1 "[c]"] z one by (simp add: fresh_check_def cache_inv_def)
      ultimately show ?thesis using fetched(4) one pc2 by (simp add: unconditional_check_def)
    next
      case (Some c')
      have none: "sdkChecks = []" using sdk Some by simp
      then have "pc2 = pc1" "projects a' pid = Some pc1"
        using fetched(3,4) by (simp_all add: UpdateCacheWithChecks_def)
      moreover have "served env pc ctx r = Some c"
        using fetched(5)[OF sdk] Some by (auto simp: list_all2_Cons1)
      then have "served env pc ctx' r = Some c \<and> CheckRelation c = r"
        using served_unconditional[OF _ assms(8)] served_relation by blast
      ultimately show ?thesis
        using pc1 reads_alike_served[OF CheckRelations_inv(2)[OF inv read]]
        by (auto simp: cache_ok_def cache_inv_def)
    qed
  qed
  then show ?thesis using Check_local[OF assms(3)] by metis
qed

section \<open>A lookup that misses\<close>

text \<open>The answer of a lookup that the cache cannot serve, and all it does, is the same for every context.\<close>

lemma WhoCanAccess_miss:
  assumes "service_ok se wfr wfl bk a w" "sdk_ok se bk" "cenv se = env" "constructors_ok env wfr wfl (lrus se)"
    "\<forall>pc e. projects a pid = Some pc \<and> lookup_entries env pc (whoCanAccessKey r d n) = Some e \<longrightarrow>
       lookup_disabled pc \<or> ExpiresAt e < Now (sdk se) w \<or> Results e = []"
  shows "WhoCanAccess se pid r d n ctx a w = WhoCanAccess se pid r d n ctx' a w"
proof -
  obtain gres a1 w1 where get: "getOrCreateProjectCache se pid a w = (gres, a1, w1)" by (metis prod_cases3)
  note g = getOrCreate_ok[OF assms(1-4) get]
  show ?thesis
  proof (cases gres)
    case (Inl err)
    then show ?thesis by (simp add: WhoCanAccess_def get)
  next
    case (Inr pc)
    have li: "lookup_inv env wfl pc" using g(3)[OF Inr] by (simp add: cache_ok_def cache_inv_def)
    obtain cands hit pc1 where cached: "GetWhoCanAccessCached env (Now (sdk se) w1) r d n pc = ((cands, hit), pc1)"
      by (metis surj_pair)
    note q = GetWhoCanAccessCached_spec(1)[OF li cached]
    have "\<not> (hit \<and> cands \<noteq> [])"
    proof (cases "lookup_entries env pc (whoCanAccessKey r d n)")
      case None
      then show ?thesis using q by (simp split: if_splits)
    next
      case (Some e)
      have here: "projects a pid = Some pc"
        by (rule lookup_entries_after_get[OF get[unfolded Inr] assms(3,4) Some])
      then have "w1 = w" using get by (simp add: getOrCreateProjectCache_def)
      then show ?thesis using q here Some assms(5) by (auto split: if_splits)
    qed
    then show ?thesis by (simp only: WhoCanAccess_def get Inr Let_def prod.case sum.case assms(3) cached if_False)
  qed
qed

end

end
