(* ===== verification/Staleness.thy ===== *)
theory Staleness
  imports CacheSystem
begin

text \<open>
  How stale the cache can be. The poll time only moves forward, and the modifications the cache may
  have missed are those since the poll time, as long as no answer is stored that a poll has overtaken
  (\<open>late_store\<close>). So in a run without late stores, whatever the backend changed before the last
  answered poll has no effect on what the cache answers.
\<close>

section \<open>Late stores\<close>

text \<open>The step stores an answer that was computed before the poll time.\<close>

definition late_store :: "('rc, 'lc, 'p) cache_env \<Rightarrow> ('rc, 'lc, 'p) cache_system \<Rightarrow>
    ('rc, 'lc, 'p) cache_system \<Rightarrow> bool" where
  "late_store env s s' \<longleftrightarrow> (\<exists>n t cs. (n, t, cs) \<in> set (sy_inflight s) \<and>
     t < lastPollTime (remoteChanges (sy_cache s)) \<and>
     s' = s\<lparr>sy_cache := UpdateCacheWithChecks env cs (sy_cache s), sy_floor := min (sy_floor s) t\<rparr>)"

definition punctual_step :: "('rc, 'lc, 'p) cache_env \<Rightarrow> (goerror \<Rightarrow> string \<Rightarrow> bool) \<Rightarrow>
    ('rc, 'lc, 'p) cache_system \<Rightarrow> ('rc, 'lc, 'p) cache_system \<Rightarrow> bool" where
  "punctual_step env IsError s s' \<longleftrightarrow> system_step env IsError s s' \<and> \<not> late_store env s s'"

text \<open>A poll that the backend answers, whatever it reports.\<close>

definition answered_poll :: "('rc, 'lc, 'p) cache_env \<Rightarrow> (goerror \<Rightarrow> string \<Rightarrow> bool) \<Rightarrow>
    ('rc, 'lc, 'p) cache_system \<Rightarrow> ('rc, 'lc, 'p) cache_system \<Rightarrow> bool" where
  "answered_poll env IsError s s' \<longleftrightarrow> (\<exists>GetModified t b log pc.
     backend_step\<^sup>*\<^sup>* (sy_clock s, sy_backend s, sy_log s) (t, b, log) \<and>
     (\<forall>since. \<exists>m. GetModified since = Inr m \<and> reports m (pending (sy_log s) since)) \<and>
     pc = updateCacheWithRemotePolling env IsError GetModified (sy_clock s) t (sy_cache s) \<and>
     s' = s\<lparr>sy_clock := t, sy_backend := b, sy_log := log, sy_cache := pc, sy_floor := new_floor env s pc\<rparr>)"

lemma answered_poll_step: "answered_poll env IsError s s' \<Longrightarrow> system_step env IsError s s'"
  unfolding answered_poll_def by (metis Inr_inject system_step.poll)

context cache_contract
begin

section \<open>The poll time\<close>

text \<open>Only polls and purges move the poll time.\<close>

definition keeps_poll_time :: "('rc, 'lc, 'p) cache_system \<Rightarrow> ('rc, 'lc, 'p) cache_system \<Rightarrow> bool" where
  "keeps_poll_time s s' \<longleftrightarrow> lastPollTime (remoteChanges (sy_cache s')) = lastPollTime (remoteChanges (sy_cache s)) \<and>
     (sy_floor s' = sy_floor s \<or> (\<exists>n t cs. (n, t, cs) \<in> set (sy_inflight s) \<and>
        s' = s\<lparr>sy_cache := UpdateCacheWithChecks env cs (sy_cache s), sy_floor := min (sy_floor s) t\<rparr>))"

lemma poll_moves_forward:
  assumes "system_inv env wfr wfl s" "backend_step\<^sup>*\<^sup>* (sy_clock s, sy_backend s, sy_log s) (t, b, log)"
    "pc = updateCacheWithRemotePolling env IsError GetModified (sy_clock s) t (sy_cache s)"
  shows "lastPollTime (remoteChanges (sy_cache s)) \<le> lastPollTime (remoteChanges pc)"
    and "(\<forall>since. \<exists>m. GetModified since = Inr m) \<Longrightarrow> sy_clock s \<le> lastPollTime (remoteChanges pc)"
proof -
  have inv: "cache_inv env wfr wfl (sy_cache s)" "lastPollTime (remoteChanges (sy_cache s)) \<le> sy_clock s"
    using assms(1) by (simp_all add: system_inv_def)
  have t: "sy_clock s \<le> t" using backend_steps_ran[OF assms(2)] by (auto simp: backend_ran_def)
  have "lastPollTime (remoteChanges (sy_cache s)) \<le> lastPollTime (remoteChanges pc) \<and>
    ((\<forall>since. \<exists>m. GetModified since = Inr m) \<longrightarrow> sy_clock s \<le> lastPollTime (remoteChanges pc))"
  proof (cases "noRelations env (sy_cache s)")
    case True
    then show ?thesis using inv(2) by (simp add: assms(3) poll_idle)
  next
    case False
    show ?thesis
    proof (cases "GetModified (lastPollTime (remoteChanges (sy_cache s)))")
      case (Inl err)
      then have "\<not> (\<forall>since. \<exists>m. GetModified since = Inr m)" by (metis sum.distinct(1))
      then show ?thesis
        using poll_failed[where GetModified = GetModified, OF inv(1) False Inl assms(3)] inv(2) t by auto
    next
      case (Inr m)
      show ?thesis
        using poll_answered_lp(2)[where GetModified = GetModified, OF inv(1) False Inr assms(3)] inv(2) t by auto
    qed
  qed
  then show "lastPollTime (remoteChanges (sy_cache s)) \<le> lastPollTime (remoteChanges pc)"
    "(\<forall>since. \<exists>m. GetModified since = Inr m) \<Longrightarrow> sy_clock s \<le> lastPollTime (remoteChanges pc)" by blast+
qed

lemma callback_moves_forward:
  assumes "system_inv env wfr wfl s" "runCallback env (sy_clock s) i (sy_cache s) = Some pc"
  shows "lastPollTime (remoteChanges (sy_cache s)) \<le> lastPollTime (remoteChanges pc)"
proof -
  let ?q = "(sy_cache s)\<lparr>timers := (timers (sy_cache s))\<lparr>startedCallbacks :=
      remove1 i (startedCallbacks (timers (sy_cache s)))\<rparr>\<rparr>"
  have pc: "pc = cooldownCallback env (sy_clock s) ?q" using assms(2) by (simp add: runCallback_def split: if_splits)
  have inv: "cache_inv env wfr wfl ?q" "lastPollTime (remoteChanges (sy_cache s)) \<le> sy_clock s"
    using assms(1) by (simp_all add: system_inv_def)
  show ?thesis
    using purgeAllCaches_spec[OF inv(1), of "sy_clock s"] inv(2) by (simp add: pc cooldownCallback_def split: option.splits)
qed

lemma poll_time_moves:
  assumes "system_step env IsError s s'" "system_inv env wfr wfl s"
  shows "keeps_poll_time s s' \<or>
    sy_floor s' = new_floor env s (sy_cache s') \<and>
      lastPollTime (remoteChanges (sy_cache s)) \<le> lastPollTime (remoteChanges (sy_cache s'))"
  using assms(1)
proof (cases rule: system_step.cases)
  case poll
  then show ?thesis using poll_moves_forward(1)[OF assms(2) poll(2,4)] by simp
next
  case (callback i pc)
  then show ?thesis using callback_moves_forward[OF assms(2) callback(2)] by simp
next
  case (fire i pc)
  then show ?thesis by (auto simp: keeps_poll_time_def fireTimer_def split: option.splits if_splits)
next
  case (read rs ctx res pc)
  then show ?thesis
    using CheckRelations_inv(2)[OF _ read(2)] assms(2) by (simp add: keeps_poll_time_def) (simp add: system_inv_def reads_alikeD)
next
  case (store n t cs)
  have "inflight_ok (sy_backend s) (sy_log s) (n, t, cs)" using assms(2) store(2) by (auto simp: system_inv_def)
  then have "versioned_check c" if "c \<in> set cs" for c
    using that by (auto simp: inflight_ok_def fresh_check_def)
  then have "same_outside_relations (sy_cache s) (UpdateCacheWithChecks env cs (sy_cache s))"
    using assms(2) by (intro UpdateCacheWithChecks_inv(3)) (auto simp: system_inv_def)
  then show ?thesis using store by (auto simp: keeps_poll_time_def same_outside_relationsD)
next
  case (save_schema schema)
  have "cache_inv env wfr wfl (sy_cache s)" using assms(2) by (simp add: system_inv_def)
  then have "caches_wf wfr wfl (setSchema env schema (sy_cache s))"
    "lookup_inv env wfl (setSchema env schema (sy_cache s))"
    using cache_invD by (simp_all add: setSchema_inv_parts)
  then show ?thesis by (simp add: keeps_poll_time_def save_schema(1) UpdateCacheWithSchema_def purgeRelationCaches_spec)
next
  case (added rels)
  have "cache_inv env wfr wfl (sy_cache s)" using assms(2) by (simp add: system_inv_def)
  from sweepingD[OF UpdateCacheWithAddedRelations_sweeps[OF this, of rels "sy_clock s"]] show ?thesis
    by (cases "rels = []") (simp_all add: keeps_poll_time_def added UpdateCacheWithAddedRelations_def)
next
  case (deleted rels)
  have "cache_inv env wfr wfl (sy_cache s)" using assms(2) by (simp add: system_inv_def)
  from sweepingD[OF UpdateCacheWithDeletedRelations_sweeps[OF this, of rels]] show ?thesis
    by (cases "rels = []") (simp_all add: keeps_poll_time_def deleted UpdateCacheWithDeletedRelations_def)
next
  case (get_wca r d n res pc)
  then show ?thesis by (simp add: keeps_poll_time_def same_outside_lookupD[OF GetWhoCanAccessCached_spec(4)[OF system_inv_lookup[OF assms(2)] get_wca(2)]])
next
  case (set_wca r d n targets)
  then show ?thesis by (simp add: keeps_poll_time_def same_outside_lookupD[OF SetWhoCanAccessCached_spec(2)[OF system_inv_lookup[OF assms(2)]]])
next
  case (get_wcta tgt res pc)
  then show ?thesis by (simp add: keeps_poll_time_def same_outside_lookupD[OF GetWhatCanTargetAccessCached_spec(4)[OF system_inv_lookup[OF assms(2)] get_wcta(2)]])
next
  case (set_wcta tgt ars)
  then show ?thesis by (simp add: keeps_poll_time_def same_outside_lookupD[OF SetWhatCanTargetAccessCached_spec(2)[OF system_inv_lookup[OF assms(2)]]])
next
  case invalidate
  then show ?thesis by (simp add: keeps_poll_time_def same_outside_lookupD[OF InvalidateLookupCache_spec(2)[OF system_inv_lookup[OF assms(2)]]])
qed (simp_all add: keeps_poll_time_def)

text \<open>Without late stores, what the cache may have missed is what it has yet to poll for.\<close>

lemma floor_on_time:
  assumes "punctual_step env IsError s s'" "system_inv env wfr wfl s"
    "sy_floor s = lastPollTime (remoteChanges (sy_cache s))"
  shows "sy_floor s' = lastPollTime (remoteChanges (sy_cache s'))"
    and "lastPollTime (remoteChanges (sy_cache s)) \<le> lastPollTime (remoteChanges (sy_cache s'))"
proof -
  have step: "system_step env IsError s s'" and late: "\<not> late_store env s s'"
    using assms(1) by (simp_all add: punctual_step_def)
  have "sy_floor s' = lastPollTime (remoteChanges (sy_cache s')) \<and>
    lastPollTime (remoteChanges (sy_cache s)) \<le> lastPollTime (remoteChanges (sy_cache s'))"
    using poll_time_moves[OF step assms(2)]
  proof
    assume keeps: "keeps_poll_time s s'"
    have "sy_floor s' = sy_floor s"
    proof (rule ccontr)
      assume moved: "sy_floor s' \<noteq> sy_floor s"
      then obtain n t cs where st: "(n, t, cs) \<in> set (sy_inflight s)"
        "s' = s\<lparr>sy_cache := UpdateCacheWithChecks env cs (sy_cache s), sy_floor := min (sy_floor s) t\<rparr>"
        using keeps by (auto simp: keeps_poll_time_def)
      then have "t < lastPollTime (remoteChanges (sy_cache s))" using moved assms(3) by (auto simp: min_def split: if_splits)
      then show False using late st by (auto simp: late_store_def)
    qed
    then show ?thesis using keeps assms(3) by (simp add: keeps_poll_time_def)
  qed (simp add: new_floor_def assms(3))
  then show "sy_floor s' = lastPollTime (remoteChanges (sy_cache s'))"
    "lastPollTime (remoteChanges (sy_cache s)) \<le> lastPollTime (remoteChanges (sy_cache s'))" by blast+
qed

lemma punctual_run:
  assumes "(punctual_step env IsError)\<^sup>*\<^sup>* s s'" "system_inv env wfr wfl s"
    "sy_floor s = lastPollTime (remoteChanges (sy_cache s))"
  shows "system_inv env wfr wfl s' \<and> sy_floor s' = lastPollTime (remoteChanges (sy_cache s')) \<and>
    lastPollTime (remoteChanges (sy_cache s)) \<le> lastPollTime (remoteChanges (sy_cache s'))"
  using assms
proof (induction rule: rtranclp_induct)
  case base
  then show ?case by simp
next
  case (step y z)
  then have y: "system_inv env wfr wfl y" "sy_floor y = lastPollTime (remoteChanges (sy_cache y))"
    "lastPollTime (remoteChanges (sy_cache s)) \<le> lastPollTime (remoteChanges (sy_cache y))" by blast+
  have "system_step env IsError y z" using step.hyps(2) by (simp add: punctual_step_def)
  from system_step_inv[OF this y(1)] floor_on_time[OF step.hyps(2) y(1,2)] y(3) show ?case by simp
qed

text \<open>An answered poll accounts for all that was changed before it started.\<close>

lemma answered_poll_time:
  assumes "answered_poll env IsError s s'" "system_inv env wfr wfl s"
    "sy_floor s = lastPollTime (remoteChanges (sy_cache s))"
  shows "system_inv env wfr wfl s'" "sy_floor s' = lastPollTime (remoteChanges (sy_cache s'))"
    "sy_clock s \<le> lastPollTime (remoteChanges (sy_cache s'))"
proof -
  show "system_inv env wfr wfl s'" by (rule system_step_inv[OF answered_poll_step[OF assms(1)] assms(2)])
  obtain GetModified t b log pc where p:
    "backend_step\<^sup>*\<^sup>* (sy_clock s, sy_backend s, sy_log s) (t, b, log)"
    "\<forall>since. \<exists>m. GetModified since = Inr m \<and> reports m (pending (sy_log s) since)"
    "pc = updateCacheWithRemotePolling env IsError GetModified (sy_clock s) t (sy_cache s)"
    "s' = s\<lparr>sy_clock := t, sy_backend := b, sy_log := log, sy_cache := pc, sy_floor := new_floor env s pc\<rparr>"
    using assms(1) unfolding answered_poll_def by (elim exE conjE) (rule that)
  then have answers: "\<forall>since. \<exists>m. GetModified since = Inr m" by blast
  show "sy_floor s' = lastPollTime (remoteChanges (sy_cache s'))" by (simp add: p(4) new_floor_def assms(3))
  show "sy_clock s \<le> lastPollTime (remoteChanges (sy_cache s'))"
    using poll_moves_forward(2)[OF assms(2) p(1,3) answers] by (simp add: p(4))
qed

text \<open>So an answer is the truth for each relation unaffected by what was changed since the start of
  the last answered poll.\<close>

lemma unaffected_antimono:
  assumes "unaffected env ms pc r" "set ms' \<subseteq> set ms"
  shows "unaffected env ms' pc r"
  using assms unfolding unaffected_def schema_unchanged_def nothing_modified_def touched_def by blast

theorem fresh_after_poll:
  assumes "system_inv env wfr wfl s0" "sy_floor s0 = lastPollTime (remoteChanges (sy_cache s0))"
    "answered_poll env IsError s0 s1" "(punctual_step env IsError)\<^sup>*\<^sup>* s1 s" "keys_identify (sy_backend s)"
    "CheckRelations env (sy_cache s) rs ctx = ((checks, unchecked, idx), pc)"
    "i < length rs" "idx i = Some c" "rs ! i \<in> universe (sy_backend s)"
    "unaffected env (pending (sy_log s) (sy_clock s0)) (sy_cache s) (rs ! i)"
  shows "Allowed c = truth (sy_backend s) (rs ! i) ctx \<and> CheckRelation c = rs ! i"
proof -
  note p = answered_poll_time[OF assms(3,1,2)]
  note r = punctual_run[OF assms(4) p(1,2)]
  have "set (untold s) \<subseteq> set (pending (sy_log s) (sy_clock s0))"
    using r p(3) pending_subset by (simp add: untold_def)
  from system_read_true[OF conjunct1[OF r] assms(5-9) unaffected_antimono[OF assms(10) this]] show ?thesis .
qed

end

end
