(* ===== verification/LookupGrowth.thy ===== *)
theory LookupGrowth
  imports CacheSteps
begin

text \<open>
  The lookup cache across writes: \<open>UpdateCacheWithAddedRelations\<close> appends the target of each created
  relation to the live \<open>WhoCanAccess\<close> entry of its resource. The limit on the size of a cached result,
  which \<open>SetWhoCanAccessCached\<close> checks, is not checked here, so an entry grows with each write.
\<close>

text \<open>The targets the relations of a write add to the entry of a key.\<close>

definition added_targets :: "cache_key \<Rightarrow> FGARelation list \<Rightarrow> string list" where
  "added_targets k rels = map Target (filter (\<lambda>q. whoCanAccessKey (Resource q) (Relation q) (ResourceType q) = k) rels)"

lemma added_targets_simps [simp]:
  "added_targets k [] = []"
  "added_targets k (q # rels) = (if whoCanAccessKey (Resource q) (Relation q) (ResourceType q) = k
     then Target q # added_targets k rels else added_targets k rels)"
  by (simp_all add: added_targets_def)

lemma extend_entry_live:
  "now < ExpiresAt e \<Longrightarrow> x \<notin> set (Results e) \<Longrightarrow> extend_entry now x e = e\<lparr>Results := Results e @ [x]\<rparr>"
  by (simp add: extend_entry_def)

lemma fold_extend_entry:
  assumes "now < ExpiresAt e" "distinct ts" "set ts \<inter> set (Results e) = {}"
  shows "fold (extend_entry now) ts e = e\<lparr>Results := Results e @ ts\<rparr>"
  using assms by (induction ts arbitrary: e) (simp_all add: extend_entry_live)

context cache_contract
begin

text \<open>One relation of a write.\<close>

lemma added_one_entries:
  assumes "cache_inv env wfr wfl pc" "\<not> lookup_disabled pc" "k = whoCanAccessKey r d n"
    "pc' = addToLookupCache env now q (removeDirectRelationsByResourceAndTarget env q pc)"
  shows "lookup_entries env pc' k =
      (if whoCanAccessKey (Resource q) (Relation q) (ResourceType q) = k
       then map_option (extend_entry now (Target q)) (lookup_entries env pc k) else lookup_entries env pc k)"
    and "cache_inv env wfr wfl pc'" and "\<not> lookup_disabled pc'"
proof -
  let ?q = "removeDirectRelationsByResourceAndTarget env q pc"
  have inv: "cache_inv env wfr wfl ?q" by (rule removeBoth_inv[OF assms(1)])
  note o = same_outside_relationsD[OF same_outside_removeBoth[of pc env q]]
  have same: "lookup_entries env ?q = lookup_entries env pc" "\<not> lookup_disabled ?q"
    using assms(2) lookup_entries_cong[OF o(5,10)] by (simp_all add: lookup_disabled_def o)
  note a = addToLookupCache_spec[OF cache_invD(3)[OF inv], of now q, folded assms(4)]
  have other: "k \<noteq> whatCanTargetAccessKey t" for t using lookup_keys_differ by (simp add: assms(3))
  show "lookup_entries env pc' k =
      (if whoCanAccessKey (Resource q) (Relation q) (ResourceType q) = k
       then map_option (extend_entry now (Target q)) (lookup_entries env pc k) else lookup_entries env pc k)"
    using a(1) same other by (auto simp: append_spec_same append_spec_other)
  show "cache_inv env wfr wfl pc'" by (rule cache_inv_lookup[OF inv a(3,2)])
  show "\<not> lookup_disabled pc'" using same(2) by (simp add: same_outside_lookupD[OF a(3)])
qed

lemma added_entries:
  assumes "cache_inv env wfr wfl pc" "\<not> lookup_disabled pc" "k = whoCanAccessKey r d n"
  shows "lookup_entries env (UpdateCacheWithAddedRelations env now rels pc) k =
    map_option (fold (extend_entry now) (added_targets k rels)) (lookup_entries env pc k)"
proof (cases "rels = []")
  case True
  then show ?thesis by (simp add: UpdateCacheWithAddedRelations_def option.map_id)
next
  case False
  let ?f = "\<lambda>q pc. addToLookupCache env now q (removeDirectRelationsByResourceAndTarget env q pc)"
  have "lookup_entries env (fold ?f rels pc) k =
      map_option (fold (extend_entry now) (added_targets k rels)) (lookup_entries env pc k)"
    if "cache_inv env wfr wfl pc" "\<not> lookup_disabled pc" for pc
    using that
  proof (induction rels arbitrary: pc)
    case Nil
    then show ?case by (simp add: option.map_ident)
  next
    case (Cons q rels)
    note one = added_one_entries[OF Cons.prems assms(3) refl, of now q]
    show ?case using Cons.IH[OF one(2,3)] one(1) by (simp add: option.map_comp o_def)
  qed
  moreover note p = purgeIndirect_spec[OF assms(1)]
  have o: "lookup_entries env (purgeIndirect env pc) = lookup_entries env pc"
    "lookup_disabled (purgeIndirect env pc) = lookup_disabled pc"
    using lookup_entries_cong[OF same_outside_relationsD(5,10)[OF p(5)]]
    by (simp_all add: lookup_disabled_def same_outside_relationsD[OF p(5)])
  ultimately show ?thesis
    using False assms(2) p(1) by (simp add: UpdateCacheWithAddedRelations_def o)
qed

end

end
