(* ===== verification/ServiceProperties.thy ===== *)
theory ServiceProperties
  imports Examples ServiceRefines ServiceBounds ServiceRepeat Staleness LookupGrowth
begin

text \<open>
  Properties of sequences of requests: isolation of projects, refinement of the backend, how stale an
  answer can be, what a repeated request costs, and where the cache and the lookups fall short.
\<close>

section \<open>Sequences of requests\<close>



text \<open>C10. Projects are isolated. After any requests of other projects, a request of a project ends with
  the result, the world and the project's cache it would have had on the caches as they were
  before, and it changes no other project's cache, whatever the SDK does.\<close>

theorem projects_isolated:
  assumes "\<forall>(p, c)\<in>set calls. p \<noteq> pid" "call_all se calls a w = (answers, a1, w1)"
    "call_service se pid call a w1 = (res, a2, w2)"
  shows "projects a1 pid = projects a pid \<and>
    (\<exists>a3. call_service se pid call a1 w1 = (res, a3, w2) \<and> projects a3 pid = projects a2 pid \<and>
      (\<forall>q. q \<noteq> pid \<longrightarrow> projects a3 q = projects a1 q))"
proof -
  have same: "projects a1 pid = projects a pid" by (rule call_all_others[OF assms(2,1)])
  obtain x a3 w3 where run: "call_service se pid call a1 w1 = (x, a3, w3)" by (metis prod_cases3)
  show ?thesis
    using call_service_isolated[OF same, of se call w1] assms(3) run same by (simp add: same_outcome_def)
qed

theorem projects_isolated_witness:
  "projects (fst (snd (call_all example_service [(''Q'', CallCreateFGARelations [doc_alice]),
     (''R'', CallCreateFGASchema ''model'')] example_running 5))) ''P'' = Some warm_cache"
proof -
  let ?calls = "[(''Q'', CallCreateFGARelations [doc_alice]), (''R'', CallCreateFGASchema ''model'')]"
  obtain answers a1 w1 where run: "call_all example_service ?calls example_running 5 = (answers, a1, w1)"
    by (metis prod_cases3)
  obtain res a2 w2 where one: "call_service example_service ''P'' (CallCheck [doc_alice] Map.empty) example_running w1 = (res, a2, w2)"
    by (metis prod_cases3)
  have others: "\<forall>(p, c)\<in>set ?calls. p \<noteq> ''P''" by simp
  have "projects a1 ''P'' = Some warm_cache"
    using projects_isolated[OF others run one] by (simp add: example_running_def)
  then show ?thesis by (simp only: run fst_conv snd_conv)
qed

section \<open>Staleness\<close>

text \<open>C12. Answers are at most one answered poll old. In a run in which no answer is stored that a poll
  has overtaken, whatever the backend changed before the start of the last answered poll has no
  effect on what the cache answers: each cached answer is the backend's present answer, for every
  relation unaffected by what was modified since that poll started.\<close>

theorem staleness_bounded:
  assumes "cache_contract env wfr wfl"
    "NewProjectAuthzCache new src now projectID = Inr pc0" "constructors_ok env wfr wfl new"
    "(punctual_step env IsError)\<^sup>*\<^sup>* (first_system now b0 pc0) s0" "answered_poll env IsError s0 s1"
    "(punctual_step env IsError)\<^sup>*\<^sup>* s1 s" "keys_identify (sy_backend s)"
    "CheckRelations env (sy_cache s) rs ctx = ((checks, us, idx), pc)"
    "i < length rs" "idx i = Some c" "rs ! i \<in> universe (sy_backend s)"
    "unaffected env (pending (sy_log s) (sy_clock s0)) (sy_cache s) (rs ! i)"
  shows "Allowed c = truth (sy_backend s) (rs ! i) ctx \<and> CheckRelation c = rs ! i"
proof -
  have first: "sy_floor (first_system now b0 pc0) = lastPollTime (remoteChanges (sy_cache (first_system now b0 pc0)))"
    by (simp add: first_system_def NewProjectAuthzCache_fields[OF assms(2)])
  note s0 = cache_contract.punctual_run[OF assms(1,4) first_system_inv(1)[OF assms(2,3)] first]
  show ?thesis
    by (rule cache_contract.fresh_after_poll[OF assms(1) conjunct1[OF s0] conjunct1[OF conjunct2[OF s0]] assms(5-12)])
qed

text \<open>The run of the examples stores its answers in time.\<close>

lemma example_warm_punctual: "(punctual_step example_env no_code)\<^sup>*\<^sup>* example_first example_warm"
proof -
  let ?s0 = example_first
  let ?pc1 = "EnsureSchemaLoaded example_env (Some example_schema) example_cache"
  let ?s1 = "?s0\<lparr>sy_cache := ?pc1\<rparr>"
  let ?s2 = "?s1\<lparr>sy_inflight := [(0, 0, [direct_check, conditional_answer])]\<rparr>"
  have f: "sy_cache ?s0 = example_cache" "sy_backend ?s0 = example_backend" "sy_clock ?s0 = 0"
    "sy_log ?s0 = []" "sy_inflight ?s0 = []" "sy_floor ?s0 = 0"
    by (simp_all add: example_first_def first_system_def example_cache_def)
  have lp: "lastPollTime (remoteChanges example_cache) = 0" "lastPollTime (remoteChanges ?pc1) = 0"
    by (simp_all add: example_cache_def EnsureSchemaLoaded_def)
  have "system_step example_env no_code ?s0 ?s1"
    using system_step.load_schema[of "Some example_schema" example_env ?s0 no_code] example_edge by (simp add: f)
  then have p1: "punctual_step example_env no_code ?s0 ?s1"
    by (simp add: punctual_step_def late_store_def f)
  have fresh: "fresh_check (sy_backend ?s1) [] c" if "c \<in> set [direct_check, conditional_answer]" for c
    using that example_fresh by (auto simp: f)
  have "?s1\<lparr>sy_inflight := sy_inflight ?s1 @ [(length (sy_log ?s1), sy_clock ?s1,
      [direct_check, conditional_answer])]\<rparr> = ?s2"
    by (simp add: f)
  then have "system_step example_env no_code ?s1 ?s2"
    using system_step.answer[where s = ?s1 and env = example_env and IsError = no_code, OF fresh] by metis
  then have p2: "punctual_step example_env no_code ?s1 ?s2"
    by (simp add: punctual_step_def late_store_def f)
  have "system_step example_env no_code ?s2 example_warm"
    using system_step.store[of 0 0 "[direct_check, conditional_answer]" ?s2 example_env no_code]
    by (simp add: example_warm_def warm_cache_def example_first_def first_system_def)
  then have p3: "punctual_step example_env no_code ?s2 example_warm"
    by (simp add: punctual_step_def late_store_def f lp)
  show ?thesis using p1 p2 p3 by (meson rtranclp.rtrancl_refl rtranclp.rtrancl_into_rtrancl)
qed

theorem staleness_bounded_witness:
  "\<exists>s checks us idx pc c. answered_poll example_env no_code example_warm s \<and>
     CheckRelations example_env (sy_cache s) [doc_alice] Map.empty = ((checks, us, idx), pc) \<and>
     idx 0 = Some c \<and> Allowed c = truth (sy_backend s) doc_alice Map.empty"
proof -
  let ?quiet = "\<lambda>since :: gotime. (Inr \<lparr>ModResources = [], ModTargets = [], SchemaChanged = False\<rparr> :: goerror + AuthzModified)"
  let ?pc = "updateCacheWithRemotePolling example_env no_code ?quiet 0 0 warm_cache"
  let ?s = "example_warm\<lparr>sy_clock := 0, sy_backend := example_backend, sy_log := [],
      sy_cache := ?pc, sy_floor := new_floor example_env example_warm ?pc\<rparr>"
  have f: "sy_clock example_warm = 0" "sy_backend example_warm = example_backend" "sy_log example_warm = []"
    "sy_cache example_warm = warm_cache"
    by (simp_all add: example_warm_def example_first_def first_system_def)
  have poll: "answered_poll example_env no_code example_warm ?s"
    unfolding answered_poll_def
    by (intro exI[of _ ?quiet] exI[of _ 0] exI[of _ example_backend] exI[of _ "[]"] exI[of _ ?pc])
      (simp add: f reports_def pending_def)
  have n: "\<not> noRelations example_env warm_cache"
    by (simp add: noRelations_def warm_cache_eq example_env_def reference_env_def lru_list_ops_def)
  have pc: "?pc = cancelPurgeCooldown (setLastPollTime 0 warm_cache)"
    using cache_contract.poll_success[where GetModified = ?quiet, OF example_contract n refl] by (simp add: Let_def)
  have same: "same_outside_polling warm_cache ?pc"
    unfolding pc by (rule same_outside_polling_trans[OF same_outside_polling_simps(3) same_outside_cancel])
  obtain checks us idx pc where run: "CheckRelations example_env ?pc [doc_alice] Map.empty = ((checks, us, idx), pc)"
    by (cases "CheckRelations example_env ?pc [doc_alice] Map.empty") (metis prod_cases3)
  have served: "served example_env ?pc Map.empty doc_alice = Some (unconditional_check \<lparr>allowed = True, cond = None\<rparr> True doc_alice)"
    unfolding same_outside_polling_served[OF same]
    by (simp add: served_def cached_grant_def warm_cache_grants key_def doc_alice_def)
  have "cache_inv example_env lru_list_wf lru_list_wf ?pc"
    using same_outside_pollingD(1)[OF same] warm_cache_inv(1) by simp
  then have idx: "idx 0 = Some (unconditional_check \<lparr>allowed = True, cond = None\<rparr> True doc_alice)"
    using cache_contract.CheckRelations_spec(3)[OF example_contract cache_invD(1) run] served by simp
  have first: "(punctual_step example_env no_code)\<^sup>*\<^sup>* (first_system 0 example_backend example_cache) example_warm"
    using example_warm_punctual by (simp add: example_first_def)
  obtain s where s: "s = ?s" by blast
  have f': "sy_backend s = example_backend" "sy_cache s = ?pc" "sy_log s = []" by (simp_all add: s)
  have run': "CheckRelations example_env (sy_cache s) [doc_alice] Map.empty = ((checks, us, idx), pc)"
    by (simp only: f' run)
  have keys: "keys_identify (sy_backend s)" and u: "[doc_alice] ! 0 \<in> universe (sy_backend s)"
    and un: "unaffected example_env (pending (sy_log s) (sy_clock example_warm)) (sy_cache s) ([doc_alice] ! 0)"
    and len: "0 < length [doc_alice]"
    by (simp_all add: f' example_keys example_universe pending_def)
  note fresh = staleness_bounded[OF example_contract example_new_cache example_constructors first
      poll[folded s] rtranclp.rtrancl_refl keys run' len idx u un]
  show ?thesis
    using fresh poll[folded s] run' idx by (metis nth_Cons_0)
qed

section \<open>Few calls\<close>

text \<open>C17. A request ends: whatever it asks for and whatever the SDK answers, it makes at most three
  calls of the SDK (for the project's client, the misses or the lookup, and the schema), none of them
  in a loop or retried.\<close>

theorem request_ends:
  assumes "counts_calls se calls" "call_service se pid c a w = (x, a', w')"
  shows "calls w' \<le> calls w + 3"
  by (rule call_service_calls[OF assms])

text \<open>The world of the witness is the number of calls.\<close>

definition counting_service :: "((cache_key, cachedGrant) lru_list, (cache_key, addr) lru_list, string, nat) service_env" where
  "counting_service = \<lparr>cenv = example_env, lrus = lru_list_constructors, settings = example_config,
     sdk = \<lparr>NewManagement = (\<lambda>pid w. (None, Suc w)), SaveSchema = (\<lambda>pid s w. (None, Suc w)),
       LoadSchema = (\<lambda>pid w. (Inr example_schema, Suc w)), CreateRelations = (\<lambda>pid rels w. (None, Suc w)),
       DeleteRelations = (\<lambda>pid rels w. (None, Suc w)),
       CheckWithContext = (\<lambda>pid rs ctx w. (Inr (map (example_answer ctx) rs), Suc w)),
       SDK_WhoCanAccess = (\<lambda>pid r d n w. (Inr [''alice''], Suc w)),
       SDK_WhatCanTargetAccess = (\<lambda>pid t w. (Inr [], Suc w)), Now = int\<rparr>\<rparr>"

theorem request_ends_witness:
  "snd (snd (call_service counting_service ''P'' (CallCheck [doc_alice, doc_bob] at_home) example_start 0)) \<le> 3"
proof -
  have c: "counts_calls counting_service id" by (simp add: counts_calls_def counting_service_def)
  obtain x a' w' where run: "call_service counting_service ''P'' (CallCheck [doc_alice, doc_bob] at_home) example_start 0 = (x, a', w')"
    by (metis prod_cases3)
  from request_ends[OF c run] run show ?thesis by simp
qed

section \<open>Asking again\<close>

text \<open>C18. A check is paid for once. When a \<open>Check\<close> of one relation was answered without conditions and
  without facts, the same question, under any context and at once, gets the same verdict without a
  call of the SDK. For an answer that is not direct, no direct grant was cached for the relation.\<close>

theorem second_check_is_local:
  assumes "cache_contract (cenv se) wfr wfl" "constructors_ok (cenv se) wfr wfl (lrus se)"
    "service_ok se wfr wfl bk a w" "sdk_ok se bk" "Check se pid [r] ctx a w = (Inr [c], a', w')"
    "r \<in> universe (bk w pid)" "\<not> FactUsed (Info c)" "\<not> Conditional (Info c)"
    "Direct (Info c) \<or> (\<forall>pc. projects a pid = Some pc \<longrightarrow> direct_grants (cenv se) pc (key r) = None)"
  shows "\<exists>c' a''. Check se pid [r] ctx' a' w'' = (Inr [c'], a'', w'') \<and> CheckRelation c' = r \<and> Allowed c' = Allowed c"
  by (rule cache_contract.Check_again[OF assms(1,3,4) refl assms(2,5-9)])

definition example_cold :: "((cache_key, cachedGrant) lru_list, (cache_key, addr) lru_list, string) authzCache" where
  "example_cold = put_cache ''P'' example_cache (NewAuthzCache (Some NewCollector))"

lemma example_cold_ok:
  "service_ok example_service lru_list_wf lru_list_wf (\<lambda>w pid. example_backend) example_cold w"
  using example_cache_ok by (auto simp: service_ok_def example_cold_def NewAuthzCache_def split: if_splits)

lemma example_cold_check:
  "\<exists>a'. Check example_service ''P'' [doc_alice] Map.empty example_cold 5 = (Inr [direct_check], a', 5)"
proof -
  have get: "getOrCreateProjectCache example_service ''P'' example_cold 5 = (Inr example_cache, example_cold, 5)"
    by (simp add: getOrCreateProjectCache_def example_cold_def)
  have read: "CheckRelations example_env example_cache [doc_alice] Map.empty = (([], [doc_alice], Map.empty), example_cache)"
    by (simp add: CheckRelations_def getCachedGrant_def Let_def example_env_def reference_env_def lru_list_ops_def
        lru_list_get_def example_cache_def)
  have call: "CheckWithContext (sdk example_service) ''P'' [doc_alice] Map.empty 5 = (Inr [direct_check], 5)"
    by (simp add: example_service_def example_sdk_def example_answer_def)
  have plain: "\<not> hasCacheableConditional [direct_check]" by (simp add: direct_check_def zero_FGACheckInfo_def)
  show ?thesis by (simp add: Check_def get read call plain Let_def del: hasCacheableConditional.simps)
qed

theorem second_check_is_local_witness:
  "\<exists>a' c a''. Check example_service ''P'' [doc_alice] Map.empty example_cold 5 = (Inr [direct_check], a', 5) \<and>
     Check example_service ''P'' [doc_alice] at_home a' 9 = (Inr [c], a'', 9) \<and> Allowed c"
proof -
  obtain a' where run: "Check example_service ''P'' [doc_alice] Map.empty example_cold 5 = (Inr [direct_check], a', 5)"
    using example_cold_check by blast
  have c: "doc_alice \<in> universe example_backend" "\<not> FactUsed (Info direct_check)" "\<not> Conditional (Info direct_check)"
    "Direct (Info direct_check)" "Allowed direct_check"
    by (simp_all add: example_universe direct_check_def zero_FGACheckInfo_def)
  show ?thesis
    using second_check_is_local[OF example_setup example_cold_ok example_sdk_ok run c(1-3) disjI1[OF c(4)], of at_home 9]
      run c(5) by auto
qed

text \<open>C22. What a stored check makes the cache serve, wherever \<open>CheckRelations\<close> is asked about its
  relation. A direct answer is what the next read serves (when it is conditional, if its conditions evaluate to the recorded values). An
  indirect one is served only if no direct grant is cached for the relation: an older conditional
  direct grant hides it, also where its own conditions do not hold, so under that context every
  request goes to the backend again and stores an answer that is never served.\<close>

theorem stored_check_served:
  assumes "cache_contract env wfr wfl" "cache_inv env wfr wfl pc"
    "cacheable_grant pc c = Some g" "CheckRelation c = r"
  shows "served env (UpdateCacheWithChecks env [c] pc) ctx r =
      (if Direct (Info c) then serve_grant env pc ctx r g True
       else case direct_grants env pc (key r) of
         Some g' \<Rightarrow> serve_grant env pc ctx r g' True
       | None \<Rightarrow> serve_grant env pc ctx r g False) \<and>
    (\<not> Direct (Info c) \<and> direct_grants env pc (key r) = Some g' \<and> serve_grant env pc ctx r g' True = None \<longrightarrow>
      served env (UpdateCacheWithChecks env [c] pc) ctx r = None) \<and>
    (\<forall>rs i checks us idx pc'.
      CheckRelations env (UpdateCacheWithChecks env [c] pc) rs ctx = ((checks, us, idx), pc') \<and>
      i < length rs \<and> rs ! i = r \<longrightarrow> idx i = served env (UpdateCacheWithChecks env [c] pc) ctx r)"
proof -
  note wf = cache_invD(1)[OF assms(2)]
  have "idx i = served env (UpdateCacheWithChecks env [c] pc) ctx r"
    if "CheckRelations env (UpdateCacheWithChecks env [c] pc) rs ctx = ((checks, us, idx), pc')"
      "i < length rs" "rs ! i = r" for rs i checks us idx pc'
    using cache_contract.CheckRelations_spec(3)[OF assms(1)
        cache_contract.store_one(3)[OF assms(1) wf assms(3,4) refl] that(1)] that(2,3) by simp
  then have reads: "\<forall>rs i checks us idx pc'.
      CheckRelations env (UpdateCacheWithChecks env [c] pc) rs ctx = ((checks, us, idx), pc') \<and>
      i < length rs \<and> rs ! i = r \<longrightarrow> idx i = served env (UpdateCacheWithChecks env [c] pc) ctx r"
    by blast
  show ?thesis
    by (intro conjI reads) (simp_all add: cache_contract.store_one_served[OF assms(1) wf assms(3,4)])
qed

text \<open>Bob's access is a direct relation with a condition; at home, where it does not hold, the answer
  is a conditional refusal.\<close>

definition bob_direct :: FGACheck where
  "bob_direct = conditional_answer\<lparr>Info := (Info conditional_answer)\<lparr>Direct := True\<rparr>\<rparr>"

definition bob_refused :: FGACheck where
  "bob_refused = \<lparr>Allowed = False, CheckRelation = doc_bob,
     Info = zero_FGACheckInfo\<lparr>Conditional := True, SchemaVersion := ''v1'', FalseConditions := [7]\<rparr>\<rparr>"

definition shadow_cache :: example_cache_type where
  "shadow_cache = UpdateCacheWithChecks example_env [bob_direct] warm_cache"

theorem stored_check_served_witness:
  "served example_env (UpdateCacheWithChecks example_env [bob_refused] shadow_cache) at_home doc_bob = None"
proof -
  let ?g = "\<lparr>allowed = True, cond = Some \<lparr>trueConds = [7], falseConds = []\<rparr>\<rparr>"
  have v: "versioned_check bob_direct"
    by (simp add: versioned_check_def certified_def bob_direct_def conditional_answer_def zero_FGACheckInfo_def)
  note inv = cache_contract.UpdateCacheWithChecks_inv[OF example_contract warm_cache_inv(1), of "[bob_direct]", folded shadow_cache_def]
  have i: "cache_inv example_env lru_list_wf lru_list_wf shadow_cache" using inv(1) v by simp
  have same: "same_outside_relations warm_cache shadow_cache" using inv(3) v by simp
  have w: "compiledConditions warm_cache 7 = Some \<lparr>cc_name = ''inOffice'', cc_program = ''office'',
      cc_params = [\<lparr>ParamName = ''office'', ParamType = ''bool''\<rparr>]\<rparr>" "loadedSchemaVersion warm_cache = ''v1''"
    by (simp_all add: warm_cache_eq)
  have "cacheable_grant warm_cache bob_direct = Some ?g"
    by (simp add: cacheable_grant_def Let_def bob_direct_def conditional_answer_def zero_FGACheckInfo_def w)
  then have "shadow_cache = addDirectRelation example_env doc_bob ?g warm_cache"
    by (simp add: shadow_cache_def UpdateCacheWithChecks_def cacheCheck_def bob_direct_def conditional_answer_def
        zero_FGACheckInfo_def)
  then have d: "direct_grants example_env shadow_cache (key doc_bob) = Some ?g"
    using cache_contract.addDirectRelation_stored[OF example_contract cache_invD(1)[OF warm_cache_inv(1)],
        of doc_bob ?g] by (simp only:)
  have g: "cacheable_grant shadow_cache bob_refused = Some \<lparr>allowed = False, cond = Some \<lparr>trueConds = [], falseConds = [7]\<rparr>\<rparr>"
    by (simp add: cacheable_grant_def Let_def bob_refused_def zero_FGACheckInfo_def same_outside_relationsD[OF same] w)
  have n: "serve_grant example_env shadow_cache at_home doc_bob ?g True = None"
    by (simp add: serve_grant_def certMatches_def same_outside_relationsD[OF same] w Eval_def at_home_def
        example_cel_def)
  have r: "CheckRelation bob_refused = doc_bob" "\<not> Direct (Info bob_refused)"
    by (simp_all add: bob_refused_def zero_FGACheckInfo_def)
  show ?thesis using stored_check_served[OF example_contract i g r(1), of at_home ?g] d n r(2) by simp
qed

section \<open>Lookups\<close>

text \<open>C27. A lookup that misses ignores the context. When the cache has no usable entry, \<open>WhoCanAccess\<close>
  answers the SDK's targets, whatever the context of the request, while a hit is filtered under it. So
  for a target whose access depends on the context the same answer is given where it has access and
  where it has not, and one of the two is wrong.\<close>

theorem lookup_miss_ignores_context:
  assumes "cache_contract (cenv se) wfr wfl" "constructors_ok (cenv se) wfr wfl (lrus se)"
    "service_ok se wfr wfl bk a w" "sdk_ok se bk"
    "\<forall>pc e. projects a pid = Some pc \<and> lookup_entries (cenv se) pc (whoCanAccessKey r d n) = Some e \<longrightarrow>
       lookup_disabled pc \<or> ExpiresAt e < Now (sdk se) w \<or> Results e = []"
    "WhoCanAccess se pid r d n ctx a w = (Inr targets, a', w')"
    "truth (bk w pid) (who_relation r d n t) ctx \<noteq> truth (bk w pid) (who_relation r d n t) ctx'"
  shows "WhoCanAccess se pid r d n ctx' a w = (Inr targets, a', w') \<and>
    ((t \<in> set targets) \<noteq> truth (bk w pid) (who_relation r d n t) ctx \<or>
     (t \<in> set targets) \<noteq> truth (bk w pid) (who_relation r d n t) ctx')"
  using cache_contract.WhoCanAccess_miss[OF assms(1,3,4) refl assms(2,5), of ctx ctx'] assms(6,7) by auto

theorem lookup_miss_ignores_context_witness:
  "fst (WhoCanAccess example_service ''P'' ''doc'' ''viewer'' ''file'' at_home example_running 5) =
     fst (WhoCanAccess example_service ''P'' ''doc'' ''viewer'' ''file'' [''office'' \<mapsto> AnyBool True] example_running 5) \<and>
   truth example_backend doc_bob at_home \<noteq> truth example_backend doc_bob [''office'' \<mapsto> AnyBool True]"
proof -
  have miss: "lookup_entries example_env warm_cache k = None" for k
    by (simp add: lookup_entries_def warm_cache_eq example_cache_def example_env_def reference_env_def lru_list_content)
  have p: "projects example_running ''P'' = Some warm_cache" by (simp add: example_running_def)
  have rel: "who_relation ''doc'' ''viewer'' ''file'' ''bob'' = doc_bob" by (simp add: who_relation_def doc_bob_def)
  have t: "truth example_backend doc_bob at_home \<noteq> truth example_backend doc_bob [''office'' \<mapsto> AnyBool True]"
    by (simp add: example_backend_def at_home_def doc_alice_def doc_bob_def)
  have li: "lookup_inv example_env lru_list_wf warm_cache" using warm_cache_inv(1) by (simp add: cache_inv_def)
  obtain res pc1 where cached: "GetWhoCanAccessCached example_env (Now (sdk example_service) 5) ''doc'' ''viewer'' ''file'' warm_cache = (res, pc1)"
    by (metis surj_pair)
  have res: "res = ([], False)"
    using cache_contract.GetWhoCanAccessCached_spec(1)[OF example_contract li cached] by (simp add: miss)
  have call: "SDK_WhoCanAccess (sdk example_service) ''P'' ''doc'' ''viewer'' ''file'' 5 = (Inr [''alice''], 5)"
    by (simp add: example_service_def example_sdk_def)
  obtain a' w' where run:
    "WhoCanAccess example_service ''P'' ''doc'' ''viewer'' ''file'' at_home example_running 5 = (Inr [''alice''], a', w')"
    by (simp add: WhoCanAccess_def getOrCreateProjectCache_def p cached[unfolded res] call Let_def)
  have none: "\<forall>pc e. projects example_running ''P'' = Some pc \<and>
      lookup_entries (cenv example_service) pc (whoCanAccessKey ''doc'' ''viewer'' ''file'') = Some e \<longrightarrow>
      lookup_disabled pc \<or> ExpiresAt e < Now (sdk example_service) 5 \<or> Results e = []"
    by (simp add: p miss)
  show ?thesis
    using lookup_miss_ignores_context[OF example_setup example_service_ok(2) example_sdk_ok none run,
        of "''bob''" "[''office'' \<mapsto> AnyBool True]"] run t by (simp add: rel)
qed

text \<open>C28. The limit on cached results does not bound them. \<open>UpdateCacheWithAddedRelations\<close> appends the
  target of every created relation to the live entry of its resource, and nothing else changes in it:
  after relations with new targets have been created the entry holds the old results and all of
  the targets, whatever \<open>lookupCacheMaxResult\<close> is.\<close>

theorem lookup_outgrows_limit:
  assumes "cache_contract env wfr wfl" "cache_inv env wfr wfl pc" "\<not> lookup_disabled pc"
    "lookup_entries env pc (whoCanAccessKey r d n) = Some e" "now < ExpiresAt e"
    "distinct targets" "set targets \<inter> set (Results e) = {}"
  shows "lookup_entries env (UpdateCacheWithAddedRelations env now (map (who_relation r d n) targets) pc)
      (whoCanAccessKey r d n) = Some (e\<lparr>Results := Results e @ targets\<rparr>)"
proof -
  have "added_targets (whoCanAccessKey r d n) (map (who_relation r d n) targets) = targets"
    by (induction targets) (simp_all add: who_relation_def)
  then show ?thesis
    using cache_contract.added_entries[OF assms(1-3) refl] assms(4) fold_extend_entry[OF assms(5-7)] by simp
qed

theorem lookup_outgrows_limit_witness:
  "\<exists>rels e. lookup_entries example_env (UpdateCacheWithAddedRelations example_env 1 rels looked_cache)
       (whoCanAccessKey ''doc'' ''viewer'' ''file'') = Some e \<and>
     lookupCacheMaxResult looked_cache = 1000 \<and> length (Results e) = 1001"
proof -
  let ?ts = "map (\<lambda>i. replicate i (CHR ''x'')) [1 ..< 1001]"
  have d: "distinct ?ts" by (auto simp: distinct_map inj_on_def dest: arg_cong[where f = length])
  have bob: "''bob'' \<noteq> replicate i (CHR ''x'')" for i
    by (cases i) (auto simp: replicate_eq_replicate)
  then have disj: "set ?ts \<inter> set (Results bob_entry) = {}" by (auto simp: bob_entry_def)
  have inv: "cache_inv example_env lru_list_wf lru_list_wf looked_cache" using looked_cache_ok by (simp add: cache_ok_def)
  have now: "1 < ExpiresAt bob_entry" by (simp add: bob_entry_def)
  have m: "lookupCacheMaxResult looked_cache = 1000" by (simp add: looked_cache_eq warm_cache_eq example_cache_def)
  from lookup_outgrows_limit[OF example_contract inv looked_cache_entries(3,1) now d disj] m
  show ?thesis by (intro exI conjI) (assumption | simp add: bob_entry_def)+
qed

end
