(* ===== verification/Mocks.thy ===== *)
theory Mocks
  imports ServiceCalls
begin

text \<open>
  The test doubles of \<open>src/internal/services/authz_mock.go\<close> and
  \<open>src/internal/services/caches/projectauthzcache_mock.go\<close>: structs of functions that stand in for the
  service and for a project's cache. A field is \<open>None\<close> when it is nil. Some methods have a default for a
  nil function, the others panic. The functions run on a state \<open>'s\<close>, what a test's closures capture.
\<close>

section \<open>Calls of a field\<close>

definition nil_func :: goerror where
  "nil_func = GoPanic ''runtime error: invalid memory address or nil pointer dereference''"

definition must_call :: "'f option \<Rightarrow> ('f \<Rightarrow> 's \<Rightarrow> 'x \<times> 's) \<Rightarrow> 's \<Rightarrow> (goerror + 'x) \<times> 's" where
  "must_call field run s =
    (case field of None \<Rightarrow> (Inl nil_func, s) | Some f \<Rightarrow> (case run f s of (x, s') \<Rightarrow> (Inr x, s')))"

definition may_call :: "'f option \<Rightarrow> 'x \<Rightarrow> ('f \<Rightarrow> 's \<Rightarrow> 'x \<times> 's) \<Rightarrow> 's \<Rightarrow> 'x \<times> 's" where
  "may_call field otherwise run s = (case field of None \<Rightarrow> (otherwise, s) | Some f \<Rightarrow> run f s)"

section \<open>A project's cache\<close>

record 's ProjectAuthzCacheMock =
  GetSchemaFunc :: "('s \<Rightarrow> FGASchema option \<times> 's) option"
  CheckRelationFunc :: "(FGARelation \<Rightarrow> 's \<Rightarrow> (bool \<times> bool \<times> bool) \<times> 's) option"
  CheckRelationsFunc :: "(FGARelation list \<Rightarrow> reqcontext \<Rightarrow> 's \<Rightarrow>
    (FGACheck list \<times> FGARelation list \<times> (nat \<rightharpoonup> FGACheck)) \<times> 's) option"
  UpdateCacheWithSchemaFunc :: "(FGASchema \<Rightarrow> 's \<Rightarrow> unit \<times> 's) option"
  UpdateCacheWithAddedRelationsFunc :: "(FGARelation list \<Rightarrow> 's \<Rightarrow> unit \<times> 's) option"
  UpdateCacheWithDeletedRelationsFunc :: "(FGARelation list \<Rightarrow> 's \<Rightarrow> unit \<times> 's) option"
  UpdateCacheWithChecksFunc :: "(FGACheck list \<Rightarrow> 's \<Rightarrow> unit \<times> 's) option"
  StartRemoteChangesPollingFunc :: "('s \<Rightarrow> unit \<times> 's) option"
  GetWhoCanAccessCachedFunc :: "(string \<Rightarrow> string \<Rightarrow> string \<Rightarrow> 's \<Rightarrow> (string list \<times> bool) \<times> 's) option"
  SetWhoCanAccessCachedFunc :: "(string \<Rightarrow> string \<Rightarrow> string \<Rightarrow> string list \<Rightarrow> 's \<Rightarrow> unit \<times> 's) option"
  GetWhatCanTargetAccessCachedFunc :: "(string \<Rightarrow> 's \<Rightarrow> (AuthzRelation list \<times> bool) \<times> 's) option"
  SetWhatCanTargetAccessCachedFunc :: "(string \<Rightarrow> AuthzRelation list \<Rightarrow> 's \<Rightarrow> unit \<times> 's) option"
  InvalidateLookupCacheFunc :: "('s \<Rightarrow> unit \<times> 's) option"

definition mock_GetSchema :: "'s ProjectAuthzCacheMock \<Rightarrow> 's \<Rightarrow> FGASchema option \<times> 's" where
  "mock_GetSchema m = may_call (GetSchemaFunc m) None (\<lambda>f. f)"

text \<open>The default of \<open>CheckRelations\<close>: one call of \<open>CheckRelationFunc\<close> per relation.\<close>

definition mock_check :: "bool \<Rightarrow> bool \<Rightarrow> FGARelation \<Rightarrow> FGACheck" where
  "mock_check isAllowed direct r =
     \<lparr>Allowed = isAllowed, CheckRelation = r, Info = zero_FGACheckInfo\<lparr>Direct := direct\<rparr>\<rparr>"

fun default_checks :: "(FGARelation \<Rightarrow> 's \<Rightarrow> (bool \<times> bool \<times> bool) \<times> 's) \<Rightarrow> nat \<Rightarrow> FGARelation list \<Rightarrow>
    FGACheck list \<Rightarrow> FGARelation list \<Rightarrow> (nat \<rightharpoonup> FGACheck) \<Rightarrow> 's \<Rightarrow>
    (FGACheck list \<times> FGARelation list \<times> (nat \<rightharpoonup> FGACheck)) \<times> 's" where
  "default_checks f i [] checks unchecked indexToCheck s = ((checks, unchecked, indexToCheck), s)"
| "default_checks f i (r # rs) checks unchecked indexToCheck s =
    (case f r s of ((isAllowed, direct, ok), s') \<Rightarrow>
       if ok then
         (let check = mock_check isAllowed direct r
          in default_checks f (Suc i) rs (checks @ [check]) unchecked (indexToCheck(i \<mapsto> check)) s')
       else default_checks f (Suc i) rs checks (unchecked @ [r]) indexToCheck s')"

definition mock_CheckRelations :: "'s ProjectAuthzCacheMock \<Rightarrow> FGARelation list \<Rightarrow> reqcontext \<Rightarrow> 's \<Rightarrow>
    (goerror + FGACheck list \<times> FGARelation list \<times> (nat \<rightharpoonup> FGACheck)) \<times> 's" where
  "mock_CheckRelations m relations extraContext s =
    (case CheckRelationsFunc m of
       Some f \<Rightarrow> (case f relations extraContext s of (x, s') \<Rightarrow> (Inr x, s'))
     | None \<Rightarrow>
        if relations = [] then (Inr ([], [], Map.empty), s)
        else must_call (CheckRelationFunc m) (\<lambda>f. default_checks f 0 relations [] [] Map.empty) s)"

definition mock_UpdateCacheWithSchema :: "'s ProjectAuthzCacheMock \<Rightarrow> FGASchema \<Rightarrow> 's \<Rightarrow> (goerror + unit) \<times> 's" where
  "mock_UpdateCacheWithSchema m schema = must_call (UpdateCacheWithSchemaFunc m) (\<lambda>f. f schema)"

definition mock_EnsureSchemaLoaded :: "'s ProjectAuthzCacheMock \<Rightarrow> FGASchema option \<Rightarrow> 's \<Rightarrow> unit \<times> 's" where
  "mock_EnsureSchemaLoaded m schema s = ((), s)"

definition mock_UpdateCacheWithAddedRelations :: "'s ProjectAuthzCacheMock \<Rightarrow> FGARelation list \<Rightarrow> 's \<Rightarrow>
    (goerror + unit) \<times> 's" where
  "mock_UpdateCacheWithAddedRelations m relations = must_call (UpdateCacheWithAddedRelationsFunc m) (\<lambda>f. f relations)"

definition mock_UpdateCacheWithDeletedRelations :: "'s ProjectAuthzCacheMock \<Rightarrow> FGARelation list \<Rightarrow> 's \<Rightarrow>
    (goerror + unit) \<times> 's" where
  "mock_UpdateCacheWithDeletedRelations m relations =
     must_call (UpdateCacheWithDeletedRelationsFunc m) (\<lambda>f. f relations)"

definition mock_UpdateCacheWithChecks :: "'s ProjectAuthzCacheMock \<Rightarrow> FGACheck list \<Rightarrow> 's \<Rightarrow> (goerror + unit) \<times> 's" where
  "mock_UpdateCacheWithChecks m sdkChecks = must_call (UpdateCacheWithChecksFunc m) (\<lambda>f. f sdkChecks)"

definition mock_StartRemoteChangesPolling :: "'s ProjectAuthzCacheMock \<Rightarrow> 's \<Rightarrow> (goerror + unit) \<times> 's" where
  "mock_StartRemoteChangesPolling m = must_call (StartRemoteChangesPollingFunc m) (\<lambda>f. f)"

definition mock_GetWhoCanAccessCached :: "'s ProjectAuthzCacheMock \<Rightarrow> string \<Rightarrow> string \<Rightarrow> string \<Rightarrow> 's \<Rightarrow>
    (string list \<times> bool) \<times> 's" where
  "mock_GetWhoCanAccessCached m r d n = may_call (GetWhoCanAccessCachedFunc m) ([], False) (\<lambda>f. f r d n)"

definition mock_SetWhoCanAccessCached :: "'s ProjectAuthzCacheMock \<Rightarrow> string \<Rightarrow> string \<Rightarrow> string \<Rightarrow>
    string list \<Rightarrow> 's \<Rightarrow> unit \<times> 's" where
  "mock_SetWhoCanAccessCached m r d n targets = may_call (SetWhoCanAccessCachedFunc m) () (\<lambda>f. f r d n targets)"

definition mock_GetWhatCanTargetAccessCached :: "'s ProjectAuthzCacheMock \<Rightarrow> string \<Rightarrow> 's \<Rightarrow>
    (AuthzRelation list \<times> bool) \<times> 's" where
  "mock_GetWhatCanTargetAccessCached m t = may_call (GetWhatCanTargetAccessCachedFunc m) ([], False) (\<lambda>f. f t)"

definition mock_SetWhatCanTargetAccessCached :: "'s ProjectAuthzCacheMock \<Rightarrow> string \<Rightarrow> AuthzRelation list \<Rightarrow>
    's \<Rightarrow> unit \<times> 's" where
  "mock_SetWhatCanTargetAccessCached m t relations =
     may_call (SetWhatCanTargetAccessCachedFunc m) () (\<lambda>f. f t relations)"

definition mock_InvalidateLookupCache :: "'s ProjectAuthzCacheMock \<Rightarrow> 's \<Rightarrow> unit \<times> 's" where
  "mock_InvalidateLookupCache m = may_call (InvalidateLookupCacheFunc m) () (\<lambda>f. f)"

section \<open>The service\<close>

record 's AuthzCacheMock =
  MockGetSchemaFunc :: "('s \<Rightarrow> FGASchema option \<times> 's) option"
  CheckFunc :: "(FGARelation list \<Rightarrow> reqcontext \<Rightarrow> 's \<Rightarrow> (goerror + FGACheck list) \<times> 's) option"
  CreateFGARelationsFunc :: "(FGARelation list \<Rightarrow> 's \<Rightarrow> (goerror + unit) \<times> 's) option"
  CreateFGASchemaFunc :: "(string \<Rightarrow> 's \<Rightarrow> (goerror + unit) \<times> 's) option"
  DeleteFGARelationsFunc :: "(FGARelation list \<Rightarrow> 's \<Rightarrow> (goerror + unit) \<times> 's) option"
  WhoCanAccessFunc :: "(string \<Rightarrow> string \<Rightarrow> string \<Rightarrow> reqcontext \<Rightarrow> 's \<Rightarrow> (goerror + string list) \<times> 's) option"
  WhatCanTargetAccessFunc :: "(string \<Rightarrow> reqcontext \<Rightarrow> 's \<Rightarrow> (goerror + AuthzRelation list) \<times> 's) option"

definition mock_Check :: "'s AuthzCacheMock \<Rightarrow> FGARelation list \<Rightarrow> reqcontext \<Rightarrow> 's \<Rightarrow>
    (goerror + FGACheck list) \<times> 's" where
  "mock_Check a relations extraContext = may_call (CheckFunc a) (Inl nil_func) (\<lambda>f. f relations extraContext)"

definition mock_CreateFGARelations :: "'s AuthzCacheMock \<Rightarrow> FGARelation list \<Rightarrow> 's \<Rightarrow> (goerror + unit) \<times> 's" where
  "mock_CreateFGARelations a relations = may_call (CreateFGARelationsFunc a) (Inl nil_func) (\<lambda>f. f relations)"

definition mock_CreateFGASchema :: "'s AuthzCacheMock \<Rightarrow> string \<Rightarrow> 's \<Rightarrow> (goerror + unit) \<times> 's" where
  "mock_CreateFGASchema a dsl = may_call (CreateFGASchemaFunc a) (Inl nil_func) (\<lambda>f. f dsl)"

definition mock_DeleteFGARelations :: "'s AuthzCacheMock \<Rightarrow> FGARelation list \<Rightarrow> 's \<Rightarrow> (goerror + unit) \<times> 's" where
  "mock_DeleteFGARelations a relations = may_call (DeleteFGARelationsFunc a) (Inl nil_func) (\<lambda>f. f relations)"

definition mock_WhoCanAccess :: "'s AuthzCacheMock \<Rightarrow> string \<Rightarrow> string \<Rightarrow> string \<Rightarrow> reqcontext \<Rightarrow> 's \<Rightarrow>
    (goerror + string list) \<times> 's" where
  "mock_WhoCanAccess a r d n extraContext = may_call (WhoCanAccessFunc a) (Inr []) (\<lambda>f. f r d n extraContext)"

definition mock_WhatCanTargetAccess :: "'s AuthzCacheMock \<Rightarrow> string \<Rightarrow> reqcontext \<Rightarrow> 's \<Rightarrow>
    (goerror + AuthzRelation list) \<times> 's" where
  "mock_WhatCanTargetAccess a t extraContext = may_call (WhatCanTargetAccessFunc a) (Inr []) (\<lambda>f. f t extraContext)"

section \<open>The doubles keep the interfaces\<close>

text \<open>With a \<open>CheckRelationFunc\<close> that changes nothing, the default splits a request as the cache does: the
  handlers proved from \<open>check_partition\<close> are right over it too.\<close>

definition mock_answer :: "('s \<Rightarrow> FGARelation \<Rightarrow> bool \<times> bool \<times> bool) \<Rightarrow> 's \<Rightarrow> FGARelation \<Rightarrow> FGACheck option" where
  "mock_answer f s r =
    (case f s r of (isAllowed, direct, ok) \<Rightarrow> if ok then Some (mock_check isAllowed direct r) else None)"

lemma default_checks_spec:
  "default_checks (\<lambda>r s. (f s r, s)) i rs cs us idx s =
    ((cs @ List.map_filter (mock_answer f s) rs, us @ filter (\<lambda>r. mock_answer f s r = None) rs,
      (\<lambda>j. if i \<le> j \<and> j < i + length rs
           then (case mock_answer f s (rs ! (j - i)) of Some c \<Rightarrow> Some c | None \<Rightarrow> idx j) else idx j)), s)"
proof (induction rs arbitrary: i cs us idx)
  case Nil
  then show ?case by (auto simp: List.map_filter_simps fun_eq_iff)
next
  case (Cons r rs)
  obtain isAllowed direct ok where f: "f s r = (isAllowed, direct, ok)" by (metis prod_cases3)
  have nth: "(r # rs) ! (j - i) = (if j = i then r else rs ! (j - Suc i))" if "i \<le> j" for j
    using that by (cases "j = i") (auto simp: Suc_diff_Suc nth_Cons')
  show ?case
    by (auto simp: Cons.IH f mock_answer_def Let_def List.map_filter_simps fun_eq_iff nth split: option.splits)
qed

lemma default_checks_all:
  "default_checks (\<lambda>r s. (f s r, s)) 0 rs [] [] Map.empty s =
    ((List.map_filter (mock_answer f s) rs, filter (\<lambda>r. mock_answer f s r = None) rs,
      (\<lambda>i. if i < length rs then mock_answer f s (rs ! i) else None)), s)"
  unfolding default_checks_spec by (simp add: fun_eq_iff split: option.splits)

interpretation mocked: check_partition "\<lambda>s rs ctx. default_checks (\<lambda>r s. (f s r, s)) 0 rs [] [] Map.empty s"
    "\<lambda>s ctx. mock_answer f s" "\<lambda>_. True" for f
  by unfold_locales (auto simp: default_checks_all)

lemma mock_CheckRelations_partition:
  assumes "CheckRelationsFunc m = None" "CheckRelationFunc m = Some (\<lambda>r s. (f s r, s))"
    "mock_CheckRelations m rs ctx s = (res, s')"
  shows "s' = s \<and> res = Inr (List.map_filter (mock_answer f s) rs, filter (\<lambda>r. mock_answer f s r = None) rs,
    (\<lambda>i. if i < length rs then mock_answer f s (rs ! i) else None))"
  using assms by (cases "rs = []")
    (auto simp: mock_CheckRelations_def must_call_def default_checks_all List.map_filter_simps)

text \<open>A double of the service, as its callers see it, and the double made of a service's operations on a
  project, which is that service.\<close>

definition answer_mock :: "('x \<Rightarrow> api_answer) \<Rightarrow> (goerror + 'x) \<times> 's \<Rightarrow> (goerror + api_answer) \<times> 's" where
  "answer_mock f r = (map_sum id f (fst r), snd r)"

fun call_mock :: "'s AuthzCacheMock \<Rightarrow> api_call \<Rightarrow> 's \<Rightarrow> (goerror + api_answer) \<times> 's" where
  "call_mock m (CallCreateFGASchema dsl) s = answer_mock (\<lambda>_. Written) (mock_CreateFGASchema m dsl s)"
| "call_mock m (CallCreateFGARelations rels) s = answer_mock (\<lambda>_. Written) (mock_CreateFGARelations m rels s)"
| "call_mock m (CallDeleteFGARelations rels) s = answer_mock (\<lambda>_. Written) (mock_DeleteFGARelations m rels s)"
| "call_mock m (CallCheck rels ctx) s = answer_mock Checked (mock_Check m rels ctx s)"
| "call_mock m (CallWhoCanAccess r d n ctx) s = answer_mock Targets (mock_WhoCanAccess m r d n ctx s)"
| "call_mock m (CallWhatCanTargetAccess t ctx) s = answer_mock Relations (mock_WhatCanTargetAccess m t ctx s)"

definition mock_of_service :: "('rc, 'lc, 'p, 'w) service_env \<Rightarrow> string \<Rightarrow>
    (('rc, 'lc, 'p) authzCache \<times> 'w) AuthzCacheMock" where
  "mock_of_service se pid = \<lparr>MockGetSchemaFunc = None,
     CheckFunc = Some (\<lambda>rels ctx (a, w). Check se pid rels ctx a w),
     CreateFGARelationsFunc = Some (\<lambda>rels (a, w). CreateFGARelations se pid rels a w),
     CreateFGASchemaFunc = Some (\<lambda>dsl (a, w). CreateFGASchema se pid dsl a w),
     DeleteFGARelationsFunc = Some (\<lambda>rels (a, w). DeleteFGARelations se pid rels a w),
     WhoCanAccessFunc = Some (\<lambda>r d n ctx (a, w). WhoCanAccess se pid r d n ctx a w),
     WhatCanTargetAccessFunc = Some (\<lambda>t ctx (a, w). WhatCanTargetAccess se pid t ctx a w)\<rparr>"

lemma mock_is_service: "call_mock (mock_of_service se pid) c (a, w) = call_service se pid c a w"
  by (cases c) (simp_all add: mock_of_service_def may_call_def answer_mock_def answer_as_def mock_Check_def
      mock_CreateFGARelations_def mock_CreateFGASchema_def mock_DeleteFGARelations_def mock_WhoCanAccess_def
      mock_WhatCanTargetAccess_def)

end
