(* ===== verification/Spec2Isabelle.thy ===== *)
theory Spec2Isabelle
  imports CacheProperties EdgeProperties RaceProperties HttpProperties ServiceProperties Mocks
begin

text \<open>
  Verification of Descope's authorization cache (\<open>authzcache\<close>): a process in a customer's cluster
  that answers relation checks from memory, asks the Descope backend (through its Go SDK) for the
  rest, and polls the backend for changes. Paths below are under \<open>src/\<close>.

  \<^bold>\<open>The program and its model.\<close>

  \<^item> One cache per project, \<open>internal/services/caches/projectauthzcache.go\<close>. Its struct is the
    record \<open>projectAuthzCache\<close> (\<open>CacheState\<close>), with the same fields. Theories: \<open>LruCache\<close> (the
    contract of the LRU package), \<open>DirectIndex\<close> (the two indexes of the direct cache, one locale
    interpreted twice), \<open>RelationCache\<close> (\<open>CheckRelations\<close>), \<open>DirectCache\<close> (adding and removing direct
    relations), \<open>LookupCache\<close>, \<open>CacheUpdates\<close> (schemas, purges, written relations, fetched checks),
    \<open>RemotePolling\<close> (one tick and the purge cooldown), \<open>ProjectCacheNew\<close> (constructor and ticker).
    Each operation holds the mutex for its whole body, so each is one function on the record.
  \<^item> The service, \<open>internal/services/authz.go\<close>: \<open>Service\<close>. The state is the map of projects and the
    metrics collector; the SDK and the clock are a threaded world \<open>'w\<close>. A nil error is \<open>Inr\<close>, an
    error \<open>Inl\<close>, a run-time panic \<open>Inl (GoPanic _)\<close>. \<open>ServiceRace\<close> is
    \<open>getOrCreateProjectCache\<close> under concurrent requests: the caches they create, the one that is
    stored, and how far each request has come. \<open>ServiceCalls\<close> puts the six operations behind one type
    of request (\<open>api_call\<close>) and runs sequences of requests of several projects.
  \<^item> Conditions, \<open>internal/services/cel/cel.go\<close>: \<open>CelEval\<close>. Metrics,
    \<open>internal/services/metrics/\<close>: \<open>Metrics\<close>, \<open>MetricsReport\<close> and \<open>ReporterLoop\<close>. Settings,
    \<open>internal/config/config.go\<close>: \<open>Config\<close>. Handlers, \<open>internal/controllers/controller.go\<close>:
    \<open>Controller\<close>. Errors, \<open>pkg/authzcache/errors/errortypes.go\<close>: \<open>Errors\<close>. The gateway's hooks,
    the middleware, the SDK client and the client package: \<open>Gateway\<close>. The reverse proxy,
    \<open>pkg/authzcache/proto/v1/authzcache.pb.gw.go\<close>, and the gRPC server \<open>serve\<close> registers: \<open>HttpGateway\<close>.
    The client stubs, handlers and service description it talks through, \<open>authzcache_grpc.pb.go\<close> and
    the table of methods of \<open>authzcache.pb.validate.go\<close>: \<open>GrpcStubs\<close>. What \<open>serve\<close> of
    \<open>cmd/authzcache/main.go\<close> hands to the server package: \<open>Process\<close>. The hand-written test doubles,
    \<open>internal/services/authz_mock.go\<close> and \<open>caches/projectauthzcache_mock.go\<close>: \<open>Mocks\<close>.
  \<^item> \<open>Prelude\<close>, \<open>GoStrings\<close> and \<open>FgaTypes\<close> hold Go's integers (64-bit words, compared as signed
    numbers), the functions of \<open>strings\<close> the program calls, and the SDK's structs.

  \<^bold>\<open>What is outside the repository\<close> is a parameter with a contract that states documented
  behaviour: the LRU caches (\<open>lru_contract\<close>: a map that may evict any keys but the one just added,
  and reports each eviction), the order of a range over a map (it visits each key), the CEL library
  and its coercions (\<open>cel_ops\<close>), the SDK (\<open>sdk_ops\<close>, \<open>sdk_ok\<close>), the configuration source, the error
  builder, \<open>grpc.SetHeader\<close>, HTTP and JSON. The gRPC connection (\<open>routes_to\<close>) is taken to deliver each call and
  its header to the server and back, with no interceptor. \<open>cache_contract\<close> joins those of a cache; \<open>reference_env\<close> interprets it
  with a list-based LRU cache, and \<open>Examples\<close> holds the concrete data of the witnesses.

  \<^bold>\<open>The specification.\<close> \<open>Coherence\<close> describes a backend: the relations in use, the truth of each
  under a request's context, which are reported as direct, and the values of conditions. A cache is
  \<open>coherent\<close> up to a list of modifications when every grant it holds is true, but for what these
  modifications can have changed. \<open>CacheSystem\<close> makes cache, backend, clock, answers in flight and
  timers a step relation, in which every operation, poll, timer event and backend change is one step
  and steps interleave freely (a poll may report more than has changed, never less); coherence up to the modifications the cache may have missed (\<open>untold\<close>)
  is its invariant. Those are the modifications not yet polled for and, when an answer was stored after
  a poll had overtaken it, which the program does not notice, those since that answer was computed
  (\<open>sy_floor\<close>, which only the model knows). C31 shows that such an answer can stay wrong for ever;
  \<open>Staleness\<close> looks at runs without one, in which an answer is at most one answered poll old (C12).
  \<open>ServiceRefines\<close> gives a sequence of requests a specification without caches, \<open>spec_run\<close>, over the
  backend alone.
  \<open>modifies\<close> is the backend's promise: a modification names the resources and targets of the direct
  answers it changes, and any modification may change indirect answers. \<open>keys_identify\<close> says that
  relations in use with equal keys share resource, target and truth; \<open>key_identifies_colon_free\<close> gives a
  sufficient condition, and C30 shows what happens otherwise.

  \<^bold>\<open>What the lemmas show.\<close> \<open>CacheInvariants\<close> and \<open>CacheSteps\<close>: every operation keeps \<open>cache_inv\<close>
  (well-formed LRU caches, complete indexes, an injective lookup heap, compiled conditions of the
  schema held, usable certificates). \<open>Coherence\<close>, \<open>CacheSystem\<close>: every step keeps coherence.
  \<open>Cooldown\<close>: the timers' invariant, and that the runtime alone carries out a pending purge
  (\<open>runtime_step\<close>). \<open>ServiceCorrect\<close>,
  \<open>ServiceLookups\<close>: the handlers, proved from the interface \<open>check_partition\<close> that the cache
  provides. \<open>ServiceRace\<close>: each cache of a project takes the steps of \<open>CacheSystem\<close>, whatever the
  requests that run at the same time do. \<open>ServiceCalls\<close>: a project sees nothing of the others.
  \<open>ServiceRefines\<close>: a sequence of requests refines \<open>spec_run\<close>. \<open>ServiceBounds\<close>: how often a request
  calls the SDK and, over a log of calls, which ones a check makes. \<open>ServiceRepeat\<close>: what a stored check makes the cache serve. \<open>LookupGrowth\<close>: what
  created relations add to a lookup entry. \<open>GrpcStubs\<close>: the generated client over a connection to
  the server is the server (\<open>client_is_server\<close>). \<open>Process\<close>: a route changes only the cache of the
  project of its request. \<open>ReporterLoop\<close>: the reports are the windows between ticks. \<open>Mocks\<close>: the double
  of the cache keeps the interface \<open>check_partition\<close> too. The properties C1, C2, C6 to C9, C13 and C14,
  which span components, follow; C3, C10, C12, C17, C18, C22, C27 and C28 are in \<open>ServiceProperties\<close>,
  C5, C15 and C16 in \<open>RaceProperties\<close>, C4, C11, C39 and C40 in \<open>HttpProperties\<close>, C34 to C38 in
  \<open>EdgeProperties\<close> and the others, C19 to C33, in \<open>CacheProperties\<close>, with further theorems on single
  operations.

  \<^bold>\<open>Bounds.\<close> All functions are total; every loop of the program runs over a list and is structural
  (\<open>trim_spaces\<close> by the length of its string), so no fuel is used. \<open>time.Time\<close> is an unbounded
  integer, \<open>time.Duration\<close> a 64-bit word whose products wrap (C33). Slices are taken to be
  shorter than \<open>2^63\<close>.

  \<^bold>\<open>Not modelled.\<close> Logging; the server package that runs what \<open>serve\<close> registers, the runtime of the
  gateway (matching of paths, marshalling) and the gRPC connection, all outside the repository; the
  descriptors of the messages in \<open>pkg/authzcache/proto\<close>; the double of the client package; scripts.
  \<open>Service\<close> runs a request on its own; requests that interleave are steps of \<open>ServiceRace\<close>, for one
  project, since projects share nothing but the metrics collector, which has a mutex. Data races inside
  the LRU library are its own matter.
\<close>

section \<open>The caches and the backend\<close>

text \<open>C1. What a project's cache answers is the truth. In every state the system reaches from a new
  cache, by any interleaving of requests, polls, timers and changes of the backend, each cached answer
  of a \<open>CheckRelations\<close> is the backend's present answer under the request's context, for every
  relation that none of the modifications the cache may have missed can have affected: those it has
  yet to poll for, and those since the oldest answer that was stored after a poll had overtaken it.\<close>

theorem cache_reads_true:
  assumes "cache_contract env wfr wfl"
    "NewProjectAuthzCache new src now projectID = Inr pc0" "constructors_ok env wfr wfl new"
    "(system_step env IsError)\<^sup>*\<^sup>* (first_system now b0 pc0) s" "keys_identify (sy_backend s)"
    "CheckRelations env (sy_cache s) rs ctx = ((checks, us, idx), pc)"
    "i < length rs" "idx i = Some c" "rs ! i \<in> universe (sy_backend s)"
    "unaffected env (untold s) (sy_cache s) (rs ! i)"
  shows "Allowed c = truth (sy_backend s) (rs ! i) ctx \<and> CheckRelation c = rs ! i"
  by (rule cache_contract.system_read_true[OF assms(1)
        cache_contract.reachable_system_inv[OF assms(1,4) first_system_inv(1)[OF assms(2,3)]] assms(5-10)])

theorem cache_reads_true_witness:
  "\<exists>checks us idx pc c. CheckRelations example_env (sy_cache example_late) [doc_alice] Map.empty = ((checks, us, idx), pc) \<and>
     idx 0 = Some c \<and> Allowed c = truth (sy_backend example_late) doc_alice Map.empty"
proof -
  obtain checks us idx pc where run:
    "CheckRelations example_env (sy_cache example_late) [doc_alice] Map.empty = ((checks, us, idx), pc)"
    by (cases "CheckRelations example_env (sy_cache example_late) [doc_alice] Map.empty") (metis prod_cases3)
  have f: "sy_cache example_late = warm_cache" "sy_backend example_late = example_backend"
    by (simp_all add: example_late_def example_warm_def example_first_def first_system_def)
  have s: "served example_env warm_cache Map.empty doc_alice =
      Some (unconditional_check \<lparr>allowed = True, cond = None\<rparr> True doc_alice)"
    by (simp add: served_def cached_grant_def warm_cache_grants key_def doc_alice_def)
  have idx: "idx 0 = Some (unconditional_check \<lparr>allowed = True, cond = None\<rparr> True doc_alice)"
    using cache_contract.CheckRelations_spec(3)[OF example_contract cache_invD(1)[OF warm_cache_inv(1)]
        run[unfolded f(1)]] s by simp
  have u: "unaffected example_env (untold example_late) (sy_cache example_late) ([doc_alice] ! 0)"
    by (simp add: unaffected_def example_late_untold f schema_unchanged_def pic_modified_def touched_def
        components_of_def warm_cache_grants key_def doc_alice_def)
  have r: "(system_step example_env no_code)\<^sup>*\<^sup>* (first_system 0 example_backend example_cache) example_late"
    using example_late_reachable by (simp add: example_first_def)
  have k: "keys_identify (sy_backend example_late)" "[doc_alice] ! 0 \<in> universe (sy_backend example_late)"
    using example_keys by (simp_all add: f example_backend_def)
  from cache_reads_true[OF example_contract example_new_cache example_constructors r k(1) run _ idx k(2) u]
  show ?thesis using run idx by auto
qed



text \<open>C6. A successful write (relations created or deleted, a schema saved) leaves the cache of every
  project well-formed and coherent with the backend as the write left it. A write fails only when the
  SDK's operation does or the project's cache cannot be created, and then it leaves every cache as it
  was.\<close>

theorem writes_keep_coherence:
  assumes "cache_contract (cenv se) wfr wfl" "constructors_ok (cenv se) wfr wfl (lrus se)"
    "service_ok se wfr wfl bk a w" "sdk_ok se bk"
    "CreateFGARelations se pid rels a w = (res, a', w') \<or> DeleteFGARelations se pid rels a w = (res, a', w') \<or>
     CreateFGASchema se pid dsl a w = (res, a', w')"
  shows "case res of
      Inr _ \<Rightarrow> service_ok se wfr wfl bk a' w'
    | Inl err \<Rightarrow> (\<forall>q pc. projects a q = Some pc \<longrightarrow> projects a' q = Some pc) \<and>
        (fst (getOrCreateProjectCache se pid a w) = Inl err \<or>
         (\<exists>w1. fst (CreateRelations (sdk se) pid rels w1) = Some err) \<or>
         (\<exists>w1. fst (DeleteRelations (sdk se) pid rels w1) = Some err) \<or>
         (\<exists>s w1. fst (SaveSchema (sdk se) pid s w1) = Some err))"
proof (cases res)
  case (Inl err)
  show ?thesis using writes_fail[OF assms(5)[unfolded Inl]] by (simp add: Inl)
next
  case (Inr u)
  show ?thesis
    using cache_contract.writes_ok[OF assms(1,3,4) refl assms(2)] assms(5) by (auto simp: Inr)
qed

theorem writes_keep_coherence_witness:
  "\<exists>a'. DeleteFGARelations example_service ''P'' [doc_alice] example_running 5 = (Inr (), a', 5) \<and>
     service_ok example_service lru_list_wf lru_list_wf (\<lambda>w pid. example_backend) a' 5"
proof -
  obtain a' where run: "DeleteFGARelations example_service ''P'' [doc_alice] example_running 5 = (Inr (), a', 5)"
    by (simp add: DeleteFGARelations_def getOrCreateProjectCache_def example_running_def
        example_service_def example_sdk_def)
  have c: "cache_contract (cenv example_service) lru_list_wf lru_list_wf"
    "constructors_ok (cenv example_service) lru_list_wf lru_list_wf (lrus example_service)"
    using example_contract example_constructors by simp_all
  show ?thesis
    using writes_keep_coherence[OF c example_service_ok(2) example_sdk_ok disjI2[OF disjI1[OF run]]] run by auto
qed

text \<open>C7. \<open>WhoCanAccess\<close> never reports access that is gone: its targets are the SDK's, or those
  candidates of a cached result, however old, to which the backend grants the relation now. It fails
  only when an operation of the SDK does or the project's cache cannot be created.\<close>

theorem who_can_access_true:
  assumes "cache_contract (cenv se) wfr wfl" "constructors_ok (cenv se) wfr wfl (lrus se)"
    "service_ok se wfr wfl bk a w" "sdk_ok se bk" "keys_identify (bk w pid)"
    "\<forall>pc e. projects a pid = Some pc \<and> lookup_entries (cenv se) pc (whoCanAccessKey r d n) = Some e \<longrightarrow>
       who_relation r d n ` set (Results e) \<subseteq> universe (bk w pid)"
    "WhoCanAccess se pid r d n ctx a w = (res, a', w')"
  shows "service_ok se wfr wfl bk a' w' \<and> bk w' = bk w \<and> (\<forall>targets. res = Inr targets \<longrightarrow>
    (\<exists>w1. fst (SDK_WhoCanAccess (sdk se) pid r d n w1) = Inr targets) \<and>
      (\<forall>pc e. projects a pid = Some pc \<and> lookup_entries (cenv se) pc (whoCanAccessKey r d n) = Some e \<longrightarrow>
         lookup_disabled pc \<or> ExpiresAt e < Now (sdk se) w \<or> Results e = []) \<or>
    (\<exists>pc e. projects a pid = Some pc \<and> lookup_entries (cenv se) pc (whoCanAccessKey r d n) = Some e \<and>
       targets = filter (\<lambda>t. truth (bk w pid) (who_relation r d n t) ctx) (Results e))) \<and>
    (\<forall>err. res = Inl err \<longrightarrow> fst (getOrCreateProjectCache se pid a w) = Inl err \<or>
      (\<exists>w1. fst (SDK_WhoCanAccess (sdk se) pid r d n w1) = Inl err) \<or>
      (\<exists>us w1. fst (CheckWithContext (sdk se) pid us ctx w1) = Inl err))"
  by (rule cache_contract.WhoCanAccess_true[OF assms(1,3,4) refl assms(2,5,6,7)])

theorem who_can_access_true_witness:
  "fst (WhoCanAccess example_service ''P'' ''doc'' ''viewer'' ''file'' at_home example_looked 5) = Inr []"
proof -
  obtain res a' w' where run:
    "WhoCanAccess example_service ''P'' ''doc'' ''viewer'' ''file'' at_home example_looked 5 = (res, a', w')"
    by (metis prod_cases3)
  have use: "\<forall>pc e. projects example_looked ''P'' = Some pc \<and>
      lookup_entries (cenv example_service) pc (whoCanAccessKey ''doc'' ''viewer'' ''file'') = Some e \<longrightarrow>
      who_relation ''doc'' ''viewer'' ''file'' ` set (Results e) \<subseteq> universe example_backend"
    by (simp add: example_looked_ok(2) looked_cache_entries bob_entry_def example_bob(1) example_universe)
  note p = who_can_access_true[OF example_setup example_looked_ok(1) example_sdk_ok example_keys use run]
  show ?thesis
    using p example_sdk_answers[of example_looked] by (cases res)
      (auto simp: run example_looked_ok(2) looked_cache_entries bob_entry_def example_bob example_now)
qed

text \<open>C8. \<open>WhatCanTargetAccess\<close> likewise: its relations are the SDK's, or those decoded from a cached
  result that the backend grants to the target now.\<close>

theorem what_can_target_access_true:
  assumes "cache_contract (cenv se) wfr wfl" "constructors_ok (cenv se) wfr wfl (lrus se)"
    "service_ok se wfr wfl bk a w" "sdk_ok se bk" "keys_identify (bk w pid)"
    "\<forall>pc e. projects a pid = Some pc \<and> lookup_entries (cenv se) pc (whatCanTargetAccessKey t) = Some e \<longrightarrow>
       what_relation t ` set (decode_relations t (Results e)) \<subseteq> universe (bk w pid)"
    "WhatCanTargetAccess se pid t ctx a w = (res, a', w')"
  shows "service_ok se wfr wfl bk a' w' \<and> bk w' = bk w \<and> (\<forall>relations. res = Inr relations \<longrightarrow>
    (\<exists>w1. fst (SDK_WhatCanTargetAccess (sdk se) pid t w1) = Inr relations) \<and>
      (\<forall>pc e. projects a pid = Some pc \<and> lookup_entries (cenv se) pc (whatCanTargetAccessKey t) = Some e \<longrightarrow>
         lookup_disabled pc \<or> ExpiresAt e < Now (sdk se) w \<or> decode_relations t (Results e) = []) \<or>
    (\<exists>pc e. projects a pid = Some pc \<and> lookup_entries (cenv se) pc (whatCanTargetAccessKey t) = Some e \<and>
       relations = filter (\<lambda>r. truth (bk w pid) (what_relation t r) ctx) (decode_relations t (Results e)))) \<and>
    (\<forall>err. res = Inl err \<longrightarrow> fst (getOrCreateProjectCache se pid a w) = Inl err \<or>
      (\<exists>w1. fst (SDK_WhatCanTargetAccess (sdk se) pid t w1) = Inl err) \<or>
      (\<exists>us w1. fst (CheckWithContext (sdk se) pid us ctx w1) = Inl err))"
  by (rule cache_contract.WhatCanTargetAccess_true[OF assms(1,3,4) refl assms(2,5,6,7)])

theorem what_can_target_access_true_witness:
  "fst (WhatCanTargetAccess example_service ''P'' ''bob'' at_home example_looked 5) = Inr []"
proof -
  obtain res a' w' where run:
    "WhatCanTargetAccess example_service ''P'' ''bob'' at_home example_looked 5 = (res, a', w')"
    by (metis prod_cases3)
  have use: "\<forall>pc e. projects example_looked ''P'' = Some pc \<and>
      lookup_entries (cenv example_service) pc (whatCanTargetAccessKey ''bob'') = Some e \<longrightarrow>
      what_relation ''bob'' ` set (decode_relations ''bob'' (Results e)) \<subseteq> universe example_backend"
    by (simp add: example_looked_ok(2) looked_cache_entries example_bob(2,3) example_universe)
  note p = what_can_target_access_true[OF example_setup example_looked_ok(1) example_sdk_ok example_keys use run]
  show ?thesis
    using p example_sdk_answers[of example_looked] by (cases res)
      (auto simp: run example_looked_ok(2) looked_cache_entries example_bob example_now)
qed

text \<open>C9. After a write, no relation that shares its resource or its target with a written one is
  answered from the cache, so a client reads its own writes.\<close>

theorem writes_invalidate:
  assumes "cache_contract env wfr wfl" "cache_inv env wfr wfl pc" "keys_identify b" "coherent env b ms pc"
    "r \<in> universe b" "r' \<in> set rels" "Resource r = Resource r' \<or> Target r = Target r'"
  shows "served env (UpdateCacheWithDeletedRelations env rels pc) ctx r = None
    \<and> served env (UpdateCacheWithAddedRelations env now rels pc) ctx r = None"
proof -
  have "rels \<noteq> []" using assms(6) by auto
  then show ?thesis
    using cache_contract.swept_not_served[OF assms(1,3,4) _ assms(5-7)]
      cache_contract.UpdateCacheWithDeletedRelations_sweeps[OF assms(1,2)]
      cache_contract.UpdateCacheWithAddedRelations_sweeps[OF assms(1,2)] by blast
qed

theorem writes_invalidate_witness:
  "served example_env (UpdateCacheWithDeletedRelations example_env [doc_bob] warm_cache) Map.empty doc_alice = None"
  using writes_invalidate[OF example_contract warm_cache_inv(1) example_keys warm_cache_inv(2),
      of doc_alice doc_bob "[doc_bob]"]
  by (simp add: example_backend_def doc_alice_def doc_bob_def)

text \<open>C13. Every reachable state keeps the invariants of the cache (its LRU caches well-formed, every
  direct grant listed in both indexes, the lookup heap injective, the compiled conditions those of the
  schema held, every conditional grant certified) and of its timers (no timer both armed and fired,
  a pending purge armed no later than one window from now or already fired).\<close>

theorem reachable_invariant:
  assumes "cache_contract env wfr wfl"
    "NewProjectAuthzCache new src now projectID = Inr pc0" "constructors_ok env wfr wfl new"
    "(system_step env IsError)\<^sup>*\<^sup>* (first_system now b0 pc0) s"
  shows "cache_inv env wfr wfl (sy_cache s) \<and> timer_inv (sy_clock s) (sy_cache s)"
  using cache_contract.system_inv_cache_inv[OF assms(1) cache_contract.reachable_system_inv[OF assms(1,4) first_system_inv(1)[OF assms(2,3)]]]
    cache_contract.reachable_timer_inv[OF assms(1,4) first_system_inv[OF assms(2,3)]] by simp

theorem reachable_invariant_witness:
  "cache_inv example_env lru_list_wf lru_list_wf (sy_cache example_late) \<and>
   timer_inv (sy_clock example_late) (sy_cache example_late)"
proof -
  have "(system_step example_env no_code)\<^sup>*\<^sup>* (first_system 0 example_backend example_cache) example_late"
    using example_late_reachable by (simp add: example_first_def)
  from reachable_invariant[OF example_contract example_new_cache example_constructors this] show ?thesis .
qed

text \<open>C14. A pending purge happens. From every reachable state in which a purge is pending, the runtime
  alone (time, the timers, their callbacks: no request, no poll, no change of the backend) can empty the
  caches and leave no purge pending, no later than one cooldown window from now; and it has done so in
  every state it reaches, with that window over, in which no timer is due and no started callback is left.\<close>

theorem pending_purge_can_happen:
  assumes "cache_contract env wfr wfl"
    "NewProjectAuthzCache new src now projectID = Inr pc0" "constructors_ok env wfr wfl new"
    "(system_step env IsError)\<^sup>*\<^sup>* (first_system now b0 pc0) s"
    "purgeCooldownTimer (remoteChanges (sy_cache s)) = Some i"
    "window = sint (purgeCooldownWindow (remoteChanges (sy_cache s)))"
  shows "(\<exists>s'. (runtime_step env)\<^sup>*\<^sup>* s s' \<and> purged env (sy_cache s') \<and> sy_clock s' \<le> sy_clock s + max 0 window) \<and>
    (\<forall>s'. (runtime_step env)\<^sup>*\<^sup>* s s' \<and> sy_clock s + window \<le> sy_clock s' \<and> at_rest env s' \<longrightarrow>
      purged env (sy_cache s'))"
proof -
  note first = first_system_inv[OF assms(2,3)]
  note inv = cache_contract.system_inv_cache_inv[OF assms(1)
      cache_contract.reachable_system_inv[OF assms(1,4) first(1)]]
  note due = cache_contract.timer_inv_due[OF assms(1)
      cache_contract.reachable_timer_inv[OF assms(1,4) first] assms(5), folded assms(6)]
  obtain s' where "(runtime_step env)\<^sup>*\<^sup>* s s'" "purged env (sy_cache s')"
    "sy_clock s' \<le> max (sy_clock s) (sy_clock s + window)"
    using cache_contract.due_can_purge[OF assms(1) inv due] by blast
  moreover from this(3) have "sy_clock s' \<le> sy_clock s + max 0 window" by linarith
  ultimately show ?thesis using cache_contract.rest_purged[OF assms(1) _ inv due] by blast
qed

theorem pending_purge_can_happen_witness:
  "\<exists>s'. (runtime_step example_env)\<^sup>*\<^sup>* example_failing s' \<and> purged example_env (sy_cache s')"
proof -
  have r: "(system_step example_env no_code)\<^sup>*\<^sup>* (first_system 0 example_backend example_cache) example_failing"
    using example_failing_reachable by (simp add: example_first_def)
  show ?thesis
    using pending_purge_can_happen[OF example_contract example_new_cache example_constructors r
        example_failing_timer refl] by blast
qed

end
